(* ===== verification/Go_Prelude.thy ===== *)
theory Go_Prelude
  imports Main "HOL-Library.Word" "HOL-Library.State_Monad" "HOL-Library.Char_ord"
    "HOL-Library.List_Lexorder" "HOL-Library.Signed_Division" "HOL-Library.Log_Nat"
begin

text \<open>
  Shared vocabulary of the development: Go's machine integers and slices, decimal printing, the
  effect monad in which every stateful method of the controller is written, the trace logic used
  to reason about it, and generic facts on lists and sums.

  A computation of type \<open>('e, 'x, 'a) io\<close> reads and writes a \<open>world\<close>: the trace of the
  effects the program has performed so far (type \<open>'e\<close>) and the state \<open>'x\<close> of everything that is
  not this program (API server, network, clock).  Nothing is known of \<open>'x\<close>: each outside call may
  change it arbitrarily, so a theorem about a computation holds for every behaviour of the
  environment and every interleaving with it.
\<close>

section \<open>Hint collections\<close>

named_theorems run_simps \<open>results of running a primitive computation\<close>
named_theorems sat_intros \<open>trace contracts of the computations of the model\<close>
named_theorems silent_intros \<open>computations that perform no effect of a given kind\<close>

section \<open>Machine integers, floating point and printing\<close>

type_synonym gint = "64 word"
type_synonym time = int
type_synonym duration = int

text \<open>
  A \<open>time\<close> is the number of nanoseconds since Go's zero time (1 January of year 1, UTC), so the
  zero value of the type is \<open>0\<close>; locations and monotonic readings are not represented.
\<close>

abbreviation (input) IsZero :: "time \<Rightarrow> bool" where
  "IsZero t \<equiv> t = 0"

definition unix_epoch :: time where
  "unix_epoch = 62135596800 * 10 ^ 9"

definition Unix :: "time \<Rightarrow> int" where
  "Unix t = (t - unix_epoch) div 10 ^ 9"

text \<open>
  Conversion of an integer to \<open>float64\<close>: round to nearest, ties to even, with a significand of 53
  bits.  The result is again an integer, so \<open>int\<close> is enough to hold it.
\<close>

definition round_even :: "nat \<Rightarrow> nat \<Rightarrow> nat" where
  "round_even n d = (let q = n div d; r = n mod d in
     if 2 * r < d \<or> (2 * r = d \<and> even q) then q else q + 1)"

definition float64_of_nat :: "nat \<Rightarrow> nat" where
  "float64_of_nat n = (let s = 2 ^ (floorlog 2 n - 53) in round_even n s * s)"

definition float64_of_int :: "int \<Rightarrow> int" where
  "float64_of_int i = sgn i * int (float64_of_nat (nat \<bar>i\<bar>))"

fun digits10 :: "nat \<Rightarrow> string" where
  "digits10 n = (if n < 10 then [char_of (48 + n)] else digits10 (n div 10) @ [char_of (48 + n mod 10)])"

declare digits10.simps [simp del]

definition Itoa :: "int \<Rightarrow> string" where
  "Itoa i = (if i < 0 then CHR ''-'' # digits10 (nat (- i)) else digits10 (nat i))"

fun join_with :: "string \<Rightarrow> string list \<Rightarrow> string" where
  "join_with sep [] = []"
| "join_with sep [s] = s"
| "join_with sep (s # ss) = s @ sep @ join_with sep ss"

lemma round_even_1 [simp]: "round_even n (Suc 0) = n"
  by (simp add: round_even_def Let_def)

lemma float64_of_int_exact:
  assumes "\<bar>i\<bar> < 2 ^ 53"
  shows "float64_of_int i = i"
proof -
  have n: "nat \<bar>i\<bar> < 2 ^ 53" using assms by simp
  have "floorlog 2 (nat \<bar>i\<bar>) \<le> 53"
    by (rule floorlog_leI) (use n in simp_all)
  then show ?thesis
    by (simp add: float64_of_int_def float64_of_nat_def sgn_mult_abs)
qed

lemma Itoa_nonneg: "0 \<le> i \<Longrightarrow> Itoa i = digits10 (nat i)"
  by (simp add: Itoa_def)

section \<open>Slices\<close>

text \<open>
  A Go slice may be \<open>nil\<close> or empty.  Ranging over it, taking its length and appending to it do not
  see the difference, but \<open>reflect.DeepEqual\<close> does, and the reconcilers decide whether to write a
  status by \<open>reflect.DeepEqual\<close>.  The status fields therefore keep it.
\<close>

datatype 'a slice = NilSlice | Slice "'a list"

primrec elems :: "'a slice \<Rightarrow> 'a list" where
  "elems NilSlice = []"
| "elems (Slice xs) = xs"

definition append_slice :: "'a slice \<Rightarrow> 'a list \<Rightarrow> 'a slice" where
  "append_slice s ys = (if ys = [] then s else Slice (elems s @ ys))"

lemma elems_append_slice [simp]: "elems (append_slice s ys) = elems s @ ys"
  by (cases s) (simp_all add: append_slice_def)

definition IndexFunc :: "('a \<Rightarrow> bool) \<Rightarrow> 'a list \<Rightarrow> int" where
  "IndexFunc P xs = (if \<exists>x \<in> set xs. P x then int (length (takeWhile (\<lambda>x. \<not> P x) xs)) else -1)"

lemma IndexFunc_found: "0 \<le> IndexFunc P xs \<longleftrightarrow> (\<exists>x \<in> set xs. P x)"
  by (auto simp: IndexFunc_def)

lemma IndexFunc_nth:
  assumes "\<exists>x \<in> set xs. P x"
  shows "IndexFunc P xs = int (length (takeWhile (\<lambda>x. \<not> P x) xs))"
    and "P (xs ! nat (IndexFunc P xs))" and "xs ! nat (IndexFunc P xs) \<in> set xs"
proof -
  let ?n = "length (takeWhile (\<lambda>x. \<not> P x) xs)"
  have lt: "?n < length xs"
    using assms by (metis length_takeWhile_le le_neq_implies_less takeWhile_eq_all_conv
        takeWhile_eq_take take_all order_refl)
  show eq: "IndexFunc P xs = int ?n" using assms by (simp add: IndexFunc_def)
  from nth_length_takeWhile [OF lt] show "P (xs ! nat (IndexFunc P xs))" by (simp add: eq)
  from lt show "xs ! nat (IndexFunc P xs) \<in> set xs" by (simp add: eq)
qed

section \<open>Signed arithmetic without overflow\<close>

lemma gint_minus:
  fixes a b :: gint
  assumes "- (2 ^ 63) \<le> sint a - sint b" and "sint a - sint b < 2 ^ 63"
  shows "sint (a - b) = sint a - sint b"
  using assms by (simp add: sint_word_ariths(2) signed_take_bit_int_eq_self)

lemma gint_of_nat: "n < 2 ^ 63 \<Longrightarrow> sint (word_of_nat n :: gint) = int n"
proof -
  assume n: "n < 2 ^ 63"
  have "(word_of_nat n :: gint) = word_of_int (int n)" by simp
  also have "sint (word_of_int (int n) :: gint) = signed_take_bit 63 (int n)"
    by (simp only: sint_sbintrunc') simp
  also have "\<dots> = int n" using n by (simp add: signed_take_bit_int_eq_self)
  finally show ?thesis .
qed

lemma gint_range: "- (2 ^ 63) \<le> sint (a :: gint)" "sint (a :: gint) < 2 ^ 63"
  using sint_ge [of a] sint_lt [of a] by simp_all

text \<open>The outcome of a fallible step, when it has one.\<close>

definition on_success :: "('a \<Rightarrow> bool) \<Rightarrow> 'e + 'a \<Rightarrow> bool" where
  "on_success P r = (case r of Inl _ \<Rightarrow> True | Inr x \<Rightarrow> P x)"

lemma on_success_simps [simp]: "on_success P (Inl e) = True" "on_success P (Inr x) = P x"
  by (simp_all add: on_success_def)

section \<open>The effect monad\<close>

record ('e, 'x) world =
  trace :: "'e list"
  ext :: 'x

type_synonym ('e, 'x, 'a) io = "(('e, 'x) world, 'a) state"

abbreviation ret :: "'a \<Rightarrow> ('e, 'x, 'a) io" where
  "ret \<equiv> State_Monad.return"

text \<open>\<open>ask f\<close> consults the environment; \<open>emit e\<close> records an effect of the program.\<close>

definition ask :: "('x \<Rightarrow> 'a \<times> 'x) \<Rightarrow> ('e, 'x, 'a) io" where
  "ask f = State (\<lambda>w. case f (ext w) of (a, x) \<Rightarrow> (a, w\<lparr>ext := x\<rparr>))"

definition emit :: "'e \<Rightarrow> ('e, 'x, unit) io" where
  "emit e = State (\<lambda>w. ((), w\<lparr>trace := trace w @ [e]\<rparr>))"

fun emits :: "'e list \<Rightarrow> ('e, 'x, unit) io" where
  "emits [] = ret ()"
| "emits (e # es) = do { emit e; emits es }"

lemma run_ask [simp, run_simps]:
  "run_state (ask f) w = (case f (ext w) of (a, x) \<Rightarrow> (a, w\<lparr>ext := x\<rparr>))"
  by (simp add: ask_def)

lemma run_emit [simp, run_simps]: "run_state (emit e) w = ((), w\<lparr>trace := trace w @ [e]\<rparr>)"
  by (simp add: emit_def)

lemma run_emits [simp, run_simps]: "run_state (emits es) w = ((), w\<lparr>trace := trace w @ es\<rparr>)"
  by (induction es arbitrary: w) simp_all

lemma emits_code [code]: "emits es = State (\<lambda>w. ((), w\<lparr>trace := trace w @ es\<rparr>))"
  by (rule state_ext) simp

section \<open>Trace contracts\<close>

text \<open>
  \<open>sat m R\<close>: whatever the environment does, \<open>m\<close> only appends to the trace, and its result \<open>a\<close> and
  the effects \<open>es\<close> it performs satisfy \<open>R a es\<close>.  The rules below decompose a method along its
  \<open>do\<close> block, so that the contract of a method follows from those of the methods it calls.
\<close>

definition sat :: "('e, 'x, 'a) io \<Rightarrow> ('a \<Rightarrow> 'e list \<Rightarrow> bool) \<Rightarrow> bool" where
  "sat m R \<longleftrightarrow> (\<forall>w. case run_state m w of (a, w') \<Rightarrow> \<exists>es. trace w' = trace w @ es \<and> R a es)"

lemma satI:
  assumes "\<And>w a w'. run_state m w = (a, w') \<Longrightarrow> \<exists>es. trace w' = trace w @ es \<and> R a es"
  shows "sat m R"
  using assms by (auto simp: sat_def split: prod.splits)

lemma satD:
  assumes "sat m R" and "run_state m w = (a, w')"
  obtains es where "trace w' = trace w @ es" and "R a es"
proof -
  from assms(1) [unfolded sat_def, rule_format, of w] assms(2)
  show thesis using that by auto
qed

lemma satD_trace:
  assumes "sat m R" and "run_state m w = (a, w')" and "trace w' = trace w @ es"
  shows "R a es"
  by (rule satD [OF assms(1,2)]) (use assms(3) in simp)

text \<open>A contract, read off one run from an empty trace.\<close>

lemma sat_run:
  assumes "sat m R" and "trace w = []"
  shows "R (fst (run_state m w)) (trace (snd (run_state m w)))"
proof -
  obtain a w' where run: "run_state m w = (a, w')" by fastforce
  with assms(1) obtain es where "trace w' = trace w @ es" "R a es" by (rule satD)
  with run assms(2) show ?thesis by simp
qed

lemma sat_ret [sat_intros]: "R a [] \<Longrightarrow> sat (ret a) R"
  by (simp add: sat_def)

lemma sat_ask [sat_intros]: "(\<And>a. R a []) \<Longrightarrow> sat (ask f) R"
  by (simp add: sat_def split: prod.splits)

lemma sat_emit [sat_intros]: "R () [e] \<Longrightarrow> sat (emit e) R"
  by (simp add: sat_def)

lemma sat_emits [sat_intros]: "R () es \<Longrightarrow> sat (emits es) R"
  by (simp add: sat_def)

lemma sat_bind:
  assumes "sat m Q" and "\<And>a es. Q a es \<Longrightarrow> sat (f a) (\<lambda>b es'. R b (es @ es'))"
  shows "sat (State_Monad.bind m f) R"
proof (rule satI)
  fix w b w2
  assume run: "run_state (State_Monad.bind m f) w = (b, w2)"
  obtain a w1 where m: "run_state m w = (a, w1)" by fastforce
  from assms(1) m obtain es where es: "trace w1 = trace w @ es" "Q a es" by (rule satD)
  from run m have f: "run_state (f a) w1 = (b, w2)" by simp
  from assms(2) [OF es(2)] f obtain es' where "trace w2 = trace w1 @ es'" "R b (es @ es')"
    by (rule satD)
  with es(1) show "\<exists>es. trace w2 = trace w @ es \<and> R b es" by simp
qed

lemma sat_ask_bind [sat_intros]:
  "(\<And>a. sat (f a) R) \<Longrightarrow> sat (State_Monad.bind (ask g) f) R"
  by (rule sat_bind [where Q = "\<lambda>_ es. es = []"]) (simp_all add: sat_ask)

lemma sat_emit_bind [sat_intros]:
  "sat (f ()) (\<lambda>b es. R b (e # es)) \<Longrightarrow> sat (State_Monad.bind (emit e) f) R"
  by (rule sat_bind [where Q = "\<lambda>_ es. es = [e]"]) (simp_all add: sat_emit)

lemma sat_emits_bind [sat_intros]:
  "sat (f ()) (\<lambda>b es'. R b (es @ es')) \<Longrightarrow> sat (State_Monad.bind (emits es) f) R"
  by (rule sat_bind [where Q = "\<lambda>_ es'. es' = es"]) (simp_all add: sat_emits)

lemma sat_weaken: "sat m R \<Longrightarrow> (\<And>a es. R a es \<Longrightarrow> R' a es) \<Longrightarrow> sat m R'"
  by (rule satI) (metis satD)

lemma sat_conj: "sat m R \<Longrightarrow> sat m R' \<Longrightarrow> sat m (\<lambda>a es. R a es \<and> R' a es)"
  by (rule satI) (metis satD satD_trace)

lemma sat_sum [sat_intros]:
  "(\<And>e. r = Inl e \<Longrightarrow> sat (f e) R) \<Longrightarrow> (\<And>a. r = Inr a \<Longrightarrow> sat (g a) R) \<Longrightarrow>
   sat (case r of Inl e \<Rightarrow> f e | Inr a \<Rightarrow> g a) R"
  by (cases r) simp_all

lemma sat_option [sat_intros]:
  "(r = None \<Longrightarrow> sat f R) \<Longrightarrow> (\<And>a. r = Some a \<Longrightarrow> sat (g a) R) \<Longrightarrow>
   sat (case r of None \<Rightarrow> f | Some a \<Rightarrow> g a) R"
  by (cases r) simp_all

lemma sat_prod [sat_intros]:
  "(\<And>a b. p = (a, b) \<Longrightarrow> sat (f a b) R) \<Longrightarrow> sat (case p of (a, b) \<Rightarrow> f a b) R"
  by (cases p) simp

lemma sat_if [sat_intros]:
  "(b \<Longrightarrow> sat m R) \<Longrightarrow> (\<not> b \<Longrightarrow> sat n R) \<Longrightarrow> sat (if b then m else n) R"
  by simp

lemma sat_let [sat_intros]: "(\<And>x. x = t \<Longrightarrow> sat (f x) R) \<Longrightarrow> sat (let x = t in f x) R"
  by (simp add: Let_def)

text \<open>What every answer of the environment satisfies, a question to it returns.\<close>

lemma sat_ask_within:
  assumes "\<And>x. Q (fst (f x))"
  shows "sat (ask f) (\<lambda>r es. es = [] \<and> Q r)"
proof (rule satI)
  fix w a w'
  assume "run_state (ask f) w = (a, w')"
  then have "a = fst (f (ext w))" and "trace w' = trace w" by (auto split: prod.splits)
  then show "\<exists>es. trace w' = trace w @ es \<and> es = [] \<and> Q a" using assms by simp
qed

text \<open>\<open>only P m\<close>: every effect of \<open>m\<close> satisfies \<open>P\<close>.\<close>

definition only :: "('e \<Rightarrow> bool) \<Rightarrow> ('e, 'x, 'a) io \<Rightarrow> bool" where
  "only P m \<longleftrightarrow> sat m (\<lambda>_. list_all P)"

lemma only_ret [silent_intros]: "only P (ret a)"
  by (simp add: only_def sat_ret)

lemma only_ask [silent_intros]: "only P (ask f)"
  by (simp add: only_def sat_ask)

lemma only_emit [silent_intros]: "P e \<Longrightarrow> only P (emit e)"
  by (simp add: only_def sat_emit)

lemma only_emits [silent_intros]: "list_all P es \<Longrightarrow> only P (emits es)"
  by (simp add: only_def sat_emits)

lemma only_bind [silent_intros]:
  "only P m \<Longrightarrow> (\<And>a. only P (f a)) \<Longrightarrow> only P (State_Monad.bind m f)"
  unfolding only_def by (erule sat_bind) (rule sat_weaken, blast, simp)

lemma only_sum [silent_intros]:
  "(\<And>e. r = Inl e \<Longrightarrow> only P (f e)) \<Longrightarrow> (\<And>a. r = Inr a \<Longrightarrow> only P (g a)) \<Longrightarrow>
   only P (case r of Inl e \<Rightarrow> f e | Inr a \<Rightarrow> g a)"
  by (cases r) simp_all

lemma only_option [silent_intros]:
  "(r = None \<Longrightarrow> only P f) \<Longrightarrow> (\<And>a. r = Some a \<Longrightarrow> only P (g a)) \<Longrightarrow>
   only P (case r of None \<Rightarrow> f | Some a \<Rightarrow> g a)"
  by (cases r) simp_all

lemma only_prod [silent_intros]:
  "(\<And>a b. p = (a, b) \<Longrightarrow> only P (f a b)) \<Longrightarrow> only P (case p of (a, b) \<Rightarrow> f a b)"
  by (cases p) simp

lemma only_if [silent_intros]:
  "(b \<Longrightarrow> only P m) \<Longrightarrow> (\<not> b \<Longrightarrow> only P n) \<Longrightarrow> only P (if b then m else n)"
  by simp

lemma only_let [silent_intros]: "(\<And>x. x = t \<Longrightarrow> only P (f x)) \<Longrightarrow> only P (let x = t in f x)"
  by (simp add: Let_def)

lemma only_mono: "only P m \<Longrightarrow> (\<And>e. P e \<Longrightarrow> Q e) \<Longrightarrow> only Q m"
  unfolding only_def by (erule sat_weaken) (auto elim: list.pred_mono_strong)

lemma only_trace:
  assumes "only P m" and "run_state m w = (a, w')"
  shows "\<exists>es. trace w' = trace w @ es \<and> list_all P es"
  using assms unfolding only_def by (auto elim: satD)

lemma sat_silent:
  assumes "only (\<lambda>_. False) m" and "sat m (\<lambda>a _. Q a)"
  shows "sat m (\<lambda>a es. es = [] \<and> Q a)"
  using sat_conj [OF assms(1) [unfolded only_def] assms(2)]
  by (rule sat_weaken) (simp add: list_all_iff)

lemma sat_silent_bind:
  assumes "only (\<lambda>_. False) m" and "sat m (\<lambda>a _. Q a)" and "\<And>a. Q a \<Longrightarrow> sat (f a) R"
  shows "sat (State_Monad.bind m f) R"
  by (rule sat_bind [OF sat_silent [OF assms(1,2)]]) (use assms(3) in simp)

lemma sat_trivial: "only P m \<Longrightarrow> sat m (\<lambda>_ _. True)"
  unfolding only_def by (rule sat_weaken) simp_all

section \<open>Computations over a world that stands still\<close>

text \<open>
  \<open>still x m a\<close>: started where the outside world is in state \<open>x\<close>, \<open>m\<close> returns \<open>a\<close>, performs no
  effect and leaves the outside world in state \<open>x\<close>.
\<close>

named_theorems still_intros \<open>results of computations over a world that stands still\<close>

definition still :: "'x \<Rightarrow> ('e, 'x, 'a) io \<Rightarrow> 'a \<Rightarrow> bool" where
  "still x m a \<longleftrightarrow> (\<forall>w. ext w = x \<longrightarrow> run_state m w = (a, w))"

lemma still_ret [still_intros]: "still x (ret a) a"
  by (simp add: still_def)

lemma still_ask: "f x = (a, x) \<Longrightarrow> still x (ask f) a"
  by (simp add: still_def)

lemma still_bind: "still x m a \<Longrightarrow> still x (f a) b \<Longrightarrow> still x (State_Monad.bind m f) b"
  by (simp add: still_def)

lemma still_run: "still (ext w) m a \<Longrightarrow> run_state m w = (a, w)"
  by (simp add: still_def)

lemma still_unique: "still x m a \<Longrightarrow> still x m b \<Longrightarrow> a = b"
  using still_run [of "\<lparr>trace = [], ext = x\<rparr>" m a] still_run [of "\<lparr>trace = [], ext = x\<rparr>" m b] by simp

text \<open>
  \<open>steady x m\<close>: over a world that stands still in \<open>x\<close>, \<open>m\<close> has a result, which does not depend on
  the effects performed before; it is the result of a run from an empty trace.
\<close>

named_theorems steady_intros \<open>computations whose result over a standing world is determined\<close>

definition steady :: "'x \<Rightarrow> ('e, 'x, 'a) io \<Rightarrow> bool" where
  "steady x m \<longleftrightarrow> (\<exists>a. still x m a)"

lemma steady_still: "steady x m \<Longrightarrow> still x m (fst (run_state m \<lparr>trace = [], ext = x\<rparr>))"
  unfolding steady_def by (auto simp: still_def)

lemma still_steady: "still x m a \<Longrightarrow> steady x m"
  unfolding steady_def by blast

lemma steady_ret [steady_intros]: "steady x (ret a)"
  by (rule still_steady [OF still_ret])

lemma steady_ask: "snd (f x) = x \<Longrightarrow> steady x (ask f)"
  by (rule still_steady [OF still_ask, where a = "fst (f x)"]) (simp add: prod_eq_iff)

lemma steady_bind [steady_intros]:
  "steady x m \<Longrightarrow> (\<And>a. steady x (f a)) \<Longrightarrow> steady x (State_Monad.bind m f)"
  unfolding steady_def by (blast intro: still_bind)

lemma steady_cases [steady_intros]:
  "(\<And>e. r = Inl e \<Longrightarrow> steady x (f e)) \<Longrightarrow> (\<And>a. r = Inr a \<Longrightarrow> steady x (g a)) \<Longrightarrow>
   steady x (case r of Inl e \<Rightarrow> f e | Inr a \<Rightarrow> g a)"
  "(o' = None \<Longrightarrow> steady x k) \<Longrightarrow> (\<And>c. o' = Some c \<Longrightarrow> steady x (h c)) \<Longrightarrow>
   steady x (case o' of None \<Rightarrow> k | Some c \<Rightarrow> h c)"
  "(\<And>c d. p = (c, d) \<Longrightarrow> steady x (q c d)) \<Longrightarrow> steady x (case p of (c, d) \<Rightarrow> q c d)"
  "(b \<Longrightarrow> steady x m) \<Longrightarrow> (\<not> b \<Longrightarrow> steady x n) \<Longrightarrow> steady x (if b then m else n)"
  by (simp_all split: sum.split option.split prod.split)

lemma steady_let [steady_intros]: "(\<And>v. v = t \<Longrightarrow> steady x (f v)) \<Longrightarrow> steady x (let v = t in f v)"
  by simp

lemma still_sat: "(\<And>x. still x m a) \<Longrightarrow> sat m (\<lambda>r es. es = [] \<and> r = a)"
  by (auto simp: still_def sat_def)

end
