(* ===== verification/Api_Types.thy ===== *)
theory Api_Types
  imports Go_Prelude
begin

text \<open>
  The API objects of \<open>api/v1alpha1\<close>: \<open>NodeDisruption\<close>, \<open>ApplicationDisruptionBudget\<close> and
  \<open>NodeDisruptionBudget\<close> with their specs and statuses, and the fields of the Kubernetes objects
  that the controllers read (nodes, pods, volume claims, volumes, selectors).  Field names carry
  the prefix of their structure where two structures share a name.  Pointers that may be \<open>nil\<close> are
  options, integers of type \<open>int\<close> are 64-bit words, and Go maps are HOL maps.
\<close>

section \<open>Kubernetes data\<close>

type_synonym labels = "string \<rightharpoonup> string"

record LabelSelector =
  matchLabels :: "(string \<times> string) list"
  matchExpressions :: "(string \<times> string \<times> string list) list"

text \<open>The metadata of an object, with the \<open>Kind\<close> of its \<open>TypeMeta\<close>.\<close>

record ObjectMeta =
  om_Kind :: string
  om_Name :: string
  om_Namespace :: string
  om_UID :: string
  om_Labels :: "labels option"
  om_Finalizers :: "string list"
  om_DeletionTimestamp :: "time option"
  om_CreationTimestamp :: time
  om_ResourceVersion :: string

record NodeSelectorRequirement =
  nsr_Key :: string
  nsr_Operator :: string
  nsr_Values :: "string list"

record NodeSelectorTerm =
  MatchExpressions :: "NodeSelectorRequirement list"
  MatchFields :: "NodeSelectorRequirement list"

type_synonym NodeSelector = "NodeSelectorTerm list"

record Node =
  node_meta :: ObjectMeta

record Pod =
  pod_meta :: ObjectMeta
  pod_NodeName :: string

record PersistentVolumeClaim =
  pvc_meta :: ObjectMeta
  pvc_Phase :: string
  pvc_VolumeName :: string

text \<open>\<open>Spec.NodeAffinity\<close> and its field \<open>Required\<close> are both pointers.\<close>

record PersistentVolume =
  pv_meta :: ObjectMeta
  pv_NodeAffinity :: "NodeSelector option option"

section \<open>Node disruptions\<close>

record NamespacedName =
  ref_Namespace :: string
  ref_Name :: string
  ref_Kind :: string

text \<open>
  The state is a string type whose values the CRD restricts to \<open>pending\<close>, \<open>granted\<close> and
  \<open>rejected\<close>; the empty string is a disruption that no controller has looked at.
\<close>

datatype NodeDisruptionState = Unknown | Pending | Granted | Rejected

fun state_string :: "NodeDisruptionState \<Rightarrow> string" where
  "state_string Unknown = ''''"
| "state_string Pending = ''pending''"
| "state_string Granted = ''granted''"
| "state_string Rejected = ''rejected''"

record RetrySpec =
  Enabled :: bool
  Deadline :: time

record NodeDisruptionSpec =
  nd_NodeSelector :: LabelSelector
  StartDate :: time
  DoNotGrantBefore :: time
  Duration :: duration
  Retry :: RetrySpec
  nd_Type :: string

record DisruptedBudgetStatus =
  Reference :: NamespacedName
  Reason :: string
  Preparing :: bool
  Ok :: bool

record NodeDisruptionStatus =
  nd_State :: NodeDisruptionState
  DisruptedDisruptionBudgets :: "DisruptedBudgetStatus slice"
  DisruptedNodes :: "string slice"
  NextRetryDate :: time

record NodeDisruption =
  nd_meta :: ObjectMeta
  nd_Spec :: NodeDisruptionSpec
  nd_Status :: NodeDisruptionStatus

text \<open>The zero value \<open>DisruptedBudgetStatus{}\<close>.\<close>

definition zero_status :: DisruptedBudgetStatus where
  "zero_status = \<lparr>Reference = \<lparr>ref_Namespace = '''', ref_Name = '''', ref_Kind = ''''\<rparr>,
     Reason = '''', Preparing = False, Ok = False\<rparr>"

text \<open>\<open>IsAfterDeadline\<close>, with the result of its \<open>time.Now()\<close> as the first argument.\<close>

definition IsAfterDeadline :: "time \<Rightarrow> RetrySpec \<Rightarrow> bool" where
  "IsAfterDeadline now r =
     (if \<not> Enabled r then False
      else if IsZero (Deadline r) then False
      else Deadline r < now)"

section \<open>Budgets\<close>

record HookSpec =
  CaBundle :: string
  URL :: string

record ApplicationDisruptionBudgetSpec =
  MaxDisruptions :: gint
  PodSelector :: LabelSelector
  PVCSelector :: LabelSelector
  HealthHook :: HookSpec
  HookV2BasePath :: HookSpec
  adb_SupportedNodeDisruptionTypes :: "string list"

record Disruption =
  d_Name :: string
  d_State :: string

record DisruptionBudgetStatus =
  WatchedNodes :: "string slice"
  DisruptionsAllowed :: gint
  CurrentDisruptions :: gint
  Disruptions :: "Disruption slice"

record ApplicationDisruptionBudget =
  adb_meta :: ObjectMeta
  adb_Spec :: ApplicationDisruptionBudgetSpec
  adb_Status :: DisruptionBudgetStatus

record NodeDisruptionBudgetSpec =
  MaxDisruptedNodes :: gint
  MinUndisruptedNodes :: gint
  ndb_NodeSelector :: LabelSelector
  ndb_SupportedNodeDisruptionTypes :: "string list"

record NodeDisruptionBudget =
  ndb_meta :: ObjectMeta
  ndb_Spec :: NodeDisruptionBudgetSpec
  ndb_Status :: DisruptionBudgetStatus

section \<open>Errors\<close>

text \<open>
  The typed responses of the generated application-manager client, by operation and status code;
  \<open>...Default\<close> carries the code and the payload.
\<close>

datatype client_response =
    PrepareApplicationOK
  | PrepareApplicationFailedDependency
  | PrepareApplicationStatus425 gint
  | PrepareApplicationDefault int string
  | CheckReadinessOK
  | CheckReadinessStatus425 gint
  | CheckReadinessDefault int string
  | TerminateDisruptionOK
  | TerminateDisruptionDefault int string

text \<open>
  The \<open>error\<close> values the program passes around: errors of the libraries (a missing API object is
  told apart by \<open>errors.IsNotFound\<close>), the texts it builds itself, \<open>runtime.APIError\<close> with its
  operation name, response and code, the responses above that are returned as errors, and, so that
  no partial operation is hidden, run-time panics.
\<close>

datatype error =
    NotFound string
  | ErrLib string
  | ErrText string
  | APIError string client_response int
  | ErrResponse client_response
  | Panic string

primrec IsNotFound :: "error \<Rightarrow> bool" where
  "IsNotFound (NotFound _) = True"
| "IsNotFound (ErrLib _) = False"
| "IsNotFound (ErrText _) = False"
| "IsNotFound (APIError _ _ _) = False"
| "IsNotFound (ErrResponse _) = False"
| "IsNotFound (Panic _) = False"

section \<open>The life cycle order on states\<close>

text \<open>
  \<open>Unknown\<close> is below everything and \<open>Pending\<close> is below the two final states, which are not
  comparable: the order in which a disruption can move.
\<close>

instantiation NodeDisruptionState :: order
begin

definition less_eq_NodeDisruptionState :: "NodeDisruptionState \<Rightarrow> NodeDisruptionState \<Rightarrow> bool" where
  "less_eq_NodeDisruptionState s t \<longleftrightarrow> s = t \<or> s = Unknown \<or> (s = Pending \<and> t \<in> {Granted, Rejected})"

definition less_NodeDisruptionState :: "NodeDisruptionState \<Rightarrow> NodeDisruptionState \<Rightarrow> bool" where
  "less_NodeDisruptionState s t \<longleftrightarrow> s \<noteq> t \<and> (s = Unknown \<or> (s = Pending \<and> t \<in> {Granted, Rejected}))"

instance
  by standard (auto simp: less_eq_NodeDisruptionState_def less_NodeDisruptionState_def)

end

lemmas state_order_defs = less_eq_NodeDisruptionState_def less_NodeDisruptionState_def

lemma final_states_maximal:
  "Granted \<le> t \<longleftrightarrow> t = Granted" "Rejected \<le> t \<longleftrightarrow> t = Rejected"
  by (auto simp: state_order_defs)

lemma Unknown_least [simp]: "Unknown \<le> t"
  by (simp add: state_order_defs)

lemma inj_state_string: "inj state_string"
  by (rule injI) (rename_tac s t, case_tac s; case_tac t; simp)

lemma IsAfterDeadline_mono: "now \<le> now' \<Longrightarrow> IsAfterDeadline now r \<Longrightarrow> IsAfterDeadline now' r"
  by (auto simp: IsAfterDeadline_def split: if_splits)

end
