(* ===== verification/Metrics.thy ===== *)
theory Metrics
  imports Api_Types
begin

text \<open>
  The Prometheus metrics of the controllers: the metric vectors of \<open>internal/controller/metrics.go\<close>
  with their names and label names, and the functions of the three controllers that update and prune
  them.  Prometheus itself is not modelled: a command of the program to it is a value, and a metric
  function is the list of the commands that it issues, in order.
\<close>

section \<open>Metric vectors\<close>

datatype metric_vec =
    NodeDisruptionGrantedTotal
  | NodeDisruptionRejectedTotal
  | NodeDisruptionStateAsValue
  | NodeDisruptionStateAsLabel
  | NodeDisruptionCreated
  | NodeDisruptionDeadline
  | NodeDisruptionImpactedNodes
  | NodeDisruptionType
  | DisruptionBudgetCheckHealthHookStatusCodeTotal
  | DisruptionBudgetCheckPrepareHookStatusCodeTotal
  | DisruptionBudgetCheckReadyHookStatusCodeTotal
  | DisruptionBudgetCheckTerminateHookStatusCodeTotal
  | DisruptionBudgetCheckHealthHookErrorTotal
  | DisruptionBudgetRejectedTotal
  | DisruptionBudgetGrantedTotal
  | DisruptionBudgetMaxDisruptions
  | DisruptionBudgetCurrentDisruptions
  | DisruptionBudgetDisruptionsAllowed
  | DisruptionBudgetMaxDisruptedNodes
  | DisruptionBudgetMinUndisruptedNodes
  | DisruptionBudgetWatchedNodes
  | DisruptionBudgetDisruptions

definition METIC_PREFIX :: string where
  "METIC_PREFIX = ''node_disruption_controller_''"

text \<open>What each vector is registered as: a counter or a gauge, its name and its label names.\<close>

datatype metric_opts =
    CounterVec string "string list"
  | GaugeVec string "string list"

definition budget_labels :: "string list" where
  "budget_labels = [''disruption_budget_namespace'', ''disruption_budget_name'', ''disruption_budget_kind'']"

fun metric_registration :: "metric_vec \<Rightarrow> metric_opts" where
  "metric_registration NodeDisruptionGrantedTotal =
     CounterVec (METIC_PREFIX @ ''node_disruption_granted_total'') [''type'']"
| "metric_registration NodeDisruptionRejectedTotal =
     CounterVec (METIC_PREFIX @ ''node_disruption_rejected_total'') [''type'']"
| "metric_registration NodeDisruptionStateAsValue =
     GaugeVec (METIC_PREFIX @ ''node_disruption_state_value'') [''node_disruption_name'', ''type'']"
| "metric_registration NodeDisruptionStateAsLabel =
     GaugeVec (METIC_PREFIX @ ''node_disruption_state_label'') [''node_disruption_name'', ''state'', ''type'']"
| "metric_registration NodeDisruptionCreated =
     GaugeVec (METIC_PREFIX @ ''node_disruption_created'') [''node_disruption_name'', ''type'']"
| "metric_registration NodeDisruptionDeadline =
     GaugeVec (METIC_PREFIX @ ''node_disruption_deadline'') [''node_disruption_name'', ''type'']"
| "metric_registration NodeDisruptionImpactedNodes =
     GaugeVec (METIC_PREFIX @ ''node_disruption_impacted_node'') [''node_disruption_name'', ''node_name'', ''type'']"
| "metric_registration NodeDisruptionType =
     GaugeVec (METIC_PREFIX @ ''node_disruption_type'') [''node_disruption_name'', ''type'']"
| "metric_registration DisruptionBudgetCheckHealthHookStatusCodeTotal =
     CounterVec (METIC_PREFIX @ ''disruption_budget_health_hook_status_code_total'') (budget_labels @ [''status_code''])"
| "metric_registration DisruptionBudgetCheckPrepareHookStatusCodeTotal =
     CounterVec (METIC_PREFIX @ ''disruption_budget_prepare_hook_status_code_total'') (budget_labels @ [''status_code''])"
| "metric_registration DisruptionBudgetCheckReadyHookStatusCodeTotal =
     CounterVec (METIC_PREFIX @ ''disruption_budget_ready_hook_status_code_total'') (budget_labels @ [''status_code''])"
| "metric_registration DisruptionBudgetCheckTerminateHookStatusCodeTotal =
     CounterVec (METIC_PREFIX @ ''disruption_budget_terminate_hook_status_code_total'') (budget_labels @ [''status_code''])"
| "metric_registration DisruptionBudgetCheckHealthHookErrorTotal =
     CounterVec (METIC_PREFIX @ ''disruption_budget_health_hook_error_total'') budget_labels"
| "metric_registration DisruptionBudgetRejectedTotal =
     CounterVec (METIC_PREFIX @ ''disruption_budget_rejected_total'') (budget_labels @ [''type''])"
| "metric_registration DisruptionBudgetGrantedTotal =
     CounterVec (METIC_PREFIX @ ''disruption_budget_granted_total'') (budget_labels @ [''type''])"
| "metric_registration DisruptionBudgetMaxDisruptions =
     GaugeVec (METIC_PREFIX @ ''disruption_budget_max_disruptions'') budget_labels"
| "metric_registration DisruptionBudgetCurrentDisruptions =
     GaugeVec (METIC_PREFIX @ ''disruption_budget_current_disruptions'') budget_labels"
| "metric_registration DisruptionBudgetDisruptionsAllowed =
     GaugeVec (METIC_PREFIX @ ''disruption_budget_disruptions_allowed'') budget_labels"
| "metric_registration DisruptionBudgetMaxDisruptedNodes =
     GaugeVec (METIC_PREFIX @ ''disruption_budget_max_disrupted_nodes'') budget_labels"
| "metric_registration DisruptionBudgetMinUndisruptedNodes =
     GaugeVec (METIC_PREFIX @ ''disruption_budget_min_undisrupted_nodes'') budget_labels"
| "metric_registration DisruptionBudgetWatchedNodes =
     GaugeVec (METIC_PREFIX @ ''node_disruption_watched_nodes'') (budget_labels @ [''node_name''])"
| "metric_registration DisruptionBudgetDisruptions =
     GaugeVec (METIC_PREFIX @ ''budget_disruption_disruptions'') (budget_labels @ [''node_disruption_name''])"

primrec opts_labels :: "metric_opts \<Rightarrow> string list" where
  "opts_labels (CounterVec _ ls) = ls"
| "opts_labels (GaugeVec _ ls) = ls"

primrec is_counter :: "metric_opts \<Rightarrow> bool" where
  "is_counter (CounterVec _ _) = True"
| "is_counter (GaugeVec _ _) = False"

abbreviation vec_labels :: "metric_vec \<Rightarrow> string list" where
  "vec_labels v \<equiv> opts_labels (metric_registration v)"

section \<open>Commands\<close>

text \<open>
  \<open>Inc v ls\<close> is \<open>v.WithLabelValues(ls...).Inc()\<close>, \<open>SetTo v ls x\<close> is \<open>v.WithLabelValues(ls...).Set(x)\<close>
  and \<open>DeletePartialMatch v sel\<close> is the method of that name.
\<close>

datatype metric_cmd =
    Inc metric_vec "string list"
  | SetTo metric_vec "string list" int
  | DeletePartialMatch metric_vec "(string \<times> string) list"

text \<open>
  \<open>WithLabelValues\<close> panics unless it gets one value per label of the vector; \<open>Inc\<close> is used on
  counters and \<open>Set\<close> on gauges.
\<close>

fun metric_ok :: "metric_cmd \<Rightarrow> bool" where
  "metric_ok (Inc v ls) \<longleftrightarrow> is_counter (metric_registration v) \<and> length ls = length (vec_labels v)"
| "metric_ok (SetTo v ls x) \<longleftrightarrow> \<not> is_counter (metric_registration v) \<and> length ls = length (vec_labels v)"
| "metric_ok (DeletePartialMatch v sel) \<longleftrightarrow> True"

text \<open>
  The series of \<open>v\<close> with label values \<open>ls\<close> is deleted by \<open>DeletePartialMatch v sel\<close> when its labels
  contain every pair of \<open>sel\<close>, as the library documents.
\<close>

definition series_matches :: "metric_vec \<Rightarrow> string list \<Rightarrow> (string \<times> string) list \<Rightarrow> bool" where
  "series_matches v ls sel \<longleftrightarrow> list_all (\<lambda>(n, x). map_of (zip (vec_labels v) ls) n = Some x) sel"

fun deletes_series :: "metric_vec \<Rightarrow> string list \<Rightarrow> metric_cmd \<Rightarrow> bool" where
  "deletes_series v ls (DeletePartialMatch v' sel) \<longleftrightarrow> v' = v \<and> series_matches v ls sel"
| "deletes_series v ls (Inc _ _) \<longleftrightarrow> False"
| "deletes_series v ls (SetTo _ _ _) \<longleftrightarrow> False"

section \<open>Node disruption metrics\<close>

definition PruneNodeDisruptionMetrics :: "string \<Rightarrow> metric_cmd list" where
  "PruneNodeDisruptionMetrics nd_name =
     [DeletePartialMatch NodeDisruptionStateAsValue [(''node_disruption_name'', nd_name)],
      DeletePartialMatch NodeDisruptionStateAsLabel [(''node_disruption_name'', nd_name)],
      DeletePartialMatch NodeDisruptionCreated [(''node_disruption_name'', nd_name)],
      DeletePartialMatch NodeDisruptionDeadline [(''node_disruption_name'', nd_name)],
      DeletePartialMatch NodeDisruptionImpactedNodes [(''node_disruption_name'', nd_name)],
      DeletePartialMatch NodeDisruptionType [(''node_disruption_name'', nd_name)]]"

definition state_label_cmds :: "NodeDisruption \<Rightarrow> metric_cmd list" where
  "state_label_cmds nd =
     (let set_state = (\<lambda>s x. SetTo NodeDisruptionStateAsLabel
            [om_Name (nd_meta nd), state_string s, nd_Type (nd_Spec nd)] x)
      in case nd_State (nd_Status nd) of
        Pending \<Rightarrow> [set_state Pending 1, set_state Granted 0, set_state Rejected 0]
      | Rejected \<Rightarrow> [set_state Pending 0, set_state Rejected 1, set_state Granted 0]
      | Granted \<Rightarrow> [set_state Pending 0, set_state Rejected 0, set_state Granted 1]
      | Unknown \<Rightarrow> [])"

fun state_value :: "NodeDisruptionState \<Rightarrow> int" where
  "state_value Pending = 0"
| "state_value Rejected = -1"
| "state_value Granted = 1"
| "state_value Unknown = 0"

definition UpdateNodeDisruptionMetrics :: "NodeDisruption \<Rightarrow> metric_cmd list" where
  "UpdateNodeDisruptionMetrics nd =
     (let name = om_Name (nd_meta nd);
          type = nd_Type (nd_Spec nd);
          dl = Deadline (Retry (nd_Spec nd));
          deadline = (if IsZero dl then 0 else Unix dl)
      in state_label_cmds nd
         @ [SetTo NodeDisruptionStateAsValue [name, type] (state_value (nd_State (nd_Status nd))),
            SetTo NodeDisruptionCreated [name, type]
              (float64_of_int (Unix (om_CreationTimestamp (nd_meta nd)))),
            SetTo NodeDisruptionDeadline [name, type] (float64_of_int deadline)]
         @ map (\<lambda>node_name. SetTo NodeDisruptionImpactedNodes [name, node_name, type] 1)
             (elems (DisruptedNodes (nd_Status nd))))"

section \<open>Budget metrics\<close>

abbreviation ref_values :: "NamespacedName \<Rightarrow> string list" where
  "ref_values ref \<equiv> [ref_Namespace ref, ref_Name ref, ref_Kind ref]"

abbreviation ref_labels :: "NamespacedName \<Rightarrow> (string \<times> string) list" where
  "ref_labels ref \<equiv> [(''disruption_budget_namespace'', ref_Namespace ref),
     (''disruption_budget_name'', ref_Name ref), (''disruption_budget_kind'', ref_Kind ref)]"

definition PruneBudgetStatusMetrics :: "NamespacedName \<Rightarrow> metric_cmd list" where
  "PruneBudgetStatusMetrics ref =
     [DeletePartialMatch DisruptionBudgetDisruptions (ref_labels ref),
      DeletePartialMatch DisruptionBudgetWatchedNodes (ref_labels ref),
      DeletePartialMatch DisruptionBudgetDisruptionsAllowed (ref_labels ref),
      DeletePartialMatch DisruptionBudgetCurrentDisruptions (ref_labels ref),
      DeletePartialMatch DisruptionBudgetRejectedTotal (ref_labels ref),
      DeletePartialMatch DisruptionBudgetGrantedTotal (ref_labels ref),
      DeletePartialMatch DisruptionBudgetCheckHealthHookStatusCodeTotal (ref_labels ref),
      DeletePartialMatch DisruptionBudgetCheckHealthHookErrorTotal (ref_labels ref)]"

definition disruption_state_value :: "string \<Rightarrow> int" where
  "disruption_state_value state =
     (if state = state_string Pending then 0
      else if state = state_string Rejected then -1
      else if state = state_string Granted then 1
      else 0)"

definition UpdateBudgetStatusMetrics :: "NamespacedName \<Rightarrow> DisruptionBudgetStatus \<Rightarrow> metric_cmd list" where
  "UpdateBudgetStatusMetrics ref status =
     [DeletePartialMatch DisruptionBudgetWatchedNodes (ref_labels ref)]
     @ map (\<lambda>node_name. SetTo DisruptionBudgetWatchedNodes (ref_values ref @ [node_name]) 1)
         (elems (WatchedNodes status))
     @ [DeletePartialMatch DisruptionBudgetDisruptions (ref_labels ref)]
     @ map (\<lambda>d. SetTo DisruptionBudgetDisruptions (ref_values ref @ [d_Name d])
           (disruption_state_value (d_State d)))
         (elems (Disruptions status))
     @ [SetTo DisruptionBudgetDisruptionsAllowed (ref_values ref)
          (float64_of_int (sint (DisruptionsAllowed status))),
        SetTo DisruptionBudgetCurrentDisruptions (ref_values ref)
          (float64_of_int (sint (CurrentDisruptions status)))]"

text \<open>The label names of the next two functions are those the code writes.\<close>

abbreviation prune_labels :: "NamespacedName \<Rightarrow> (string \<times> string) list" where
  "prune_labels ref \<equiv> [(''budget_disruption_namespace'', ref_Namespace ref),
     (''budget_disruption_name'', ref_Name ref), (''budget_disruption_kind'', ref_Kind ref)]"

definition PruneADBMetrics :: "NamespacedName \<Rightarrow> metric_cmd list" where
  "PruneADBMetrics ref =
     DeletePartialMatch DisruptionBudgetMaxDisruptions (prune_labels ref)
     # PruneBudgetStatusMetrics ref"

definition UpdateADBMetrics :: "NamespacedName \<Rightarrow> ApplicationDisruptionBudget \<Rightarrow> metric_cmd list" where
  "UpdateADBMetrics ref adb =
     SetTo DisruptionBudgetMaxDisruptions (ref_values ref)
       (float64_of_int (sint (MaxDisruptions (adb_Spec adb))))
     # UpdateBudgetStatusMetrics ref (adb_Status adb)"

definition PruneNDBMetrics :: "NamespacedName \<Rightarrow> metric_cmd list" where
  "PruneNDBMetrics ref =
     DeletePartialMatch DisruptionBudgetMaxDisruptedNodes (prune_labels ref)
     # DeletePartialMatch DisruptionBudgetMinUndisruptedNodes (prune_labels ref)
     # PruneBudgetStatusMetrics ref"

definition UpdateNDBMetrics :: "NamespacedName \<Rightarrow> NodeDisruptionBudget \<Rightarrow> metric_cmd list" where
  "UpdateNDBMetrics ref ndb =
     SetTo DisruptionBudgetMaxDisruptedNodes (ref_values ref)
       (float64_of_int (sint (MaxDisruptedNodes (ndb_Spec ndb))))
     # SetTo DisruptionBudgetMinUndisruptedNodes (ref_values ref)
       (float64_of_int (sint (MinUndisruptedNodes (ndb_Spec ndb))))
     # UpdateBudgetStatusMetrics ref (ndb_Status ndb)"


section \<open>The commands are well formed and prune what they should\<close>

lemma disruption_metrics_ok:
  "list_all metric_ok (UpdateNodeDisruptionMetrics nd)" "list_all metric_ok (PruneNodeDisruptionMetrics name)"
  by (cases "nd_State (nd_Status nd)")
    (simp_all add: UpdateNodeDisruptionMetrics_def PruneNodeDisruptionMetrics_def state_label_cmds_def
      Let_def list.pred_map comp_def list.pred_True)

lemma budget_metrics_ok:
  "list_all metric_ok (UpdateADBMetrics ref adb)" "list_all metric_ok (UpdateNDBMetrics ref ndb)"
  "list_all metric_ok (PruneADBMetrics ref)" "list_all metric_ok (PruneNDBMetrics ref)"
  by (simp_all add: UpdateADBMetrics_def UpdateNDBMetrics_def PruneADBMetrics_def PruneNDBMetrics_def
      UpdateBudgetStatusMetrics_def PruneBudgetStatusMetrics_def budget_labels_def list.pred_map comp_def list.pred_True)

text \<open>
  No metric call of the controllers panics: every command that updates or prunes the metrics of
  a disruption or of a budget fits its vector, in kind and in number of labels.
\<close>

theorem metric_commands_fit:
  "list_all metric_ok (UpdateNodeDisruptionMetrics nd @ PruneNodeDisruptionMetrics name
     @ UpdateADBMetrics ref adb @ UpdateNDBMetrics ref ndb @ PruneADBMetrics ref @ PruneNDBMetrics ref)"
  by (simp add: disruption_metrics_ok budget_metrics_ok)

fun touched_series :: "metric_cmd \<Rightarrow> (metric_vec \<times> string list) option" where
  "touched_series (Inc v ls) = Some (v, ls)"
| "touched_series (SetTo v ls _) = Some (v, ls)"
| "touched_series (DeletePartialMatch _ _) = None"

definition pruned :: "metric_cmd list \<Rightarrow> metric_vec \<times> string list \<Rightarrow> bool" where
  "pruned cmds s \<longleftrightarrow> list_ex (deletes_series (fst s) (snd s)) cmds"


text \<open>
  Nothing of a deleted disruption is left behind: every series that updating the metrics of a
  disruption creates is deleted when the metrics of that disruption are pruned.
\<close>

theorem disruption_metrics_pruned:
  "list_all (\<lambda>c. case touched_series c of None \<Rightarrow> True
     | Some s \<Rightarrow> pruned (PruneNodeDisruptionMetrics (om_Name (nd_meta nd))) s) (UpdateNodeDisruptionMetrics nd)"
  by (cases "nd_State (nd_Status nd)")
    (simp_all add: UpdateNodeDisruptionMetrics_def PruneNodeDisruptionMetrics_def state_label_cmds_def
      pruned_def series_matches_def Let_def list.pred_map comp_def list.pred_True)


end
