(* ===== verification/Environment.thy ===== *)
theory Environment
  imports Metrics
begin

text \<open>
  Everything the program calls and does not define: the Kubernetes API client, the HTTP stack, the
  clock and the library functions on selectors, URLs, JSON and finalizers.  They are the fields of
  the record \<open>env\<close>, a parameter of every definition that uses them; the calls that leave the
  process also take and return the state \<open>'x\<close> of the outside world, about which nothing is assumed.
  The effects that the program itself performs (hook calls, API writes, metric commands) are values
  of type \<open>effect\<close>, recorded in the trace together with the answer they got.
\<close>

section \<open>Interface values of the libraries\<close>

text \<open>A \<open>labels.Selector\<close> and a \<open>fields.Selector\<close>, by the methods the program calls on them.\<close>

record lselector =
  ls_Empty :: bool
  ls_Matches :: "labels \<Rightarrow> bool"

record fselector =
  fs_Empty :: bool
  fs_String :: string

datatype selection_op = In | NotIn | Exists | DoesNotExist

record requirement =
  rq_Key :: string
  rq_Op :: selection_op
  rq_Values :: "string list"

record parsed_url =
  url_Scheme :: string
  url_Host :: string
  url_Path :: string

section \<open>The application-manager client's messages\<close>

text \<open>\<open>appmgr.Disruption\<close>, the body of the hooks of version 2.\<close>

record AppDisruption =
  CreatedBy :: string
  CreationDate :: time
  DeadlineDate :: time
  ad_Duration :: int
  ad_Name :: string
  Nodes :: "string list"
  ad_StartDate :: time
  ad_Type :: string
  ad_UID :: string

text \<open>\<open>httptransport.New(host, basePath, schemes)\<close>.\<close>

record transport =
  Host :: string
  BasePath :: string
  Schemes :: "string list"

text \<open>
  The parameters of the three operations, which have the same fields; \<open>HTTPClient\<close> is a pointer to
  an \<open>http.Client\<close>, of which the program sets the timeout only.
\<close>

record HookParams =
  Body :: "AppDisruption option"
  hp_timeout :: duration
  HTTPClient :: "duration option"

record ClientOperation =
  op_ID :: string
  op_Method :: string
  op_PathPattern :: string
  op_Produces :: "string list"
  op_Consumes :: "string list"
  op_Schemes :: "string list"
  op_Params :: HookParams

text \<open>What the body consumer makes of a response body: a payload, the end of file, or an error.\<close>

datatype consumed = Consumed string | ConsumedEOF | ConsumeError error

record http_response =
  rsp_Code :: int
  rsp_Header :: "string \<Rightarrow> string"
  rsp_Body :: consumed

record health_response =
  StatusCode :: int
  hr_Body :: string

text \<open>\<open>ctrl.Result\<close>, of which the program sets \<open>RequeueAfter\<close> only.\<close>

record Result =
  RequeueAfter :: duration

definition empty_Result :: Result where
  "empty_Result = \<lparr>RequeueAfter = 0\<rparr>"

section \<open>The environment\<close>

record lib =
  LabelSelectorAsSelector :: "LabelSelector \<Rightarrow> error + lselector"
  NewRequirement :: "string \<Rightarrow> selection_op \<Rightarrow> string list \<Rightarrow> error + requirement"
  requirement_String :: "requirement \<Rightarrow> string"
  NewSelectorAdd :: "requirement list \<Rightarrow> lselector"
  labels_Nothing :: lselector
  labels_Everything :: lselector
  fields_Nothing :: fselector
  fields_Everything :: fselector
  ParseSelector :: "string \<Rightarrow> error + fselector"
  url_Parse :: "string \<Rightarrow> error + parsed_url"
  NewRequest :: "string \<Rightarrow> error option"
  json_Marshal :: "NodeDisruption \<Rightarrow> error + string"
  json_quote :: "string \<Rightarrow> string"
  ConvertInt64 :: "string \<Rightarrow> error + gint"
  Seconds_int64 :: "duration \<Rightarrow> int"
  time_String :: "time \<Rightarrow> string"
  quote :: "string \<Rightarrow> string"
  APIError_Error :: "string \<Rightarrow> client_response \<Rightarrow> int \<Rightarrow> string"
  InvalidType :: "string \<Rightarrow> error"
  ContainsFinalizer :: "string list \<Rightarrow> string \<Rightarrow> bool"
  AddFinalizer :: "string list \<Rightarrow> string \<Rightarrow> string list"
  RemoveFinalizer :: "string list \<Rightarrow> string \<Rightarrow> string list \<times> bool"
  DefaultTimeout :: duration
  float_out_of_range :: "int \<Rightarrow> gint"

text \<open>
  The API client: \<open>Get\<close>, \<open>List\<close>, \<open>Update\<close> and \<open>Status().Update\<close> per kind of object.  A namespace
  given to a list restricts it; \<open>Update\<close> writes the server's answer back into its argument, so it
  returns the object.
\<close>

record 'x kube =
  get_nd :: "string \<times> string \<Rightarrow> 'x \<Rightarrow> (error + NodeDisruption) \<times> 'x"
  get_adb :: "string \<times> string \<Rightarrow> 'x \<Rightarrow> (error + ApplicationDisruptionBudget) \<times> 'x"
  get_ndb :: "string \<times> string \<Rightarrow> 'x \<Rightarrow> (error + NodeDisruptionBudget) \<times> 'x"
  get_pv :: "string \<times> string \<Rightarrow> 'x \<Rightarrow> (error + PersistentVolume) \<times> 'x"
  list_nd :: "'x \<Rightarrow> (error + NodeDisruption list) \<times> 'x"
  list_adb :: "string option \<Rightarrow> 'x \<Rightarrow> (error + ApplicationDisruptionBudget list) \<times> 'x"
  list_ndb :: "string option \<Rightarrow> 'x \<Rightarrow> (error + NodeDisruptionBudget list) \<times> 'x"
  list_nodes :: "lselector option \<Rightarrow> fselector option \<Rightarrow> 'x \<Rightarrow> (error + Node list) \<times> 'x"
  list_pods :: "string \<Rightarrow> lselector \<Rightarrow> 'x \<Rightarrow> (error + Pod list) \<times> 'x"
  list_pvcs :: "string \<Rightarrow> lselector \<Rightarrow> 'x \<Rightarrow> (error + PersistentVolumeClaim list) \<times> 'x"
  update_nd :: "NodeDisruption \<Rightarrow> 'x \<Rightarrow> (error + NodeDisruption) \<times> 'x"
  update_adb :: "ApplicationDisruptionBudget \<Rightarrow> 'x \<Rightarrow> (error + ApplicationDisruptionBudget) \<times> 'x"
  update_ndb :: "NodeDisruptionBudget \<Rightarrow> 'x \<Rightarrow> (error + NodeDisruptionBudget) \<times> 'x"
  status_nd :: "NodeDisruption \<Rightarrow> 'x \<Rightarrow> error option \<times> 'x"
  status_adb :: "ApplicationDisruptionBudget \<Rightarrow> 'x \<Rightarrow> error option \<times> 'x"
  status_ndb :: "NodeDisruptionBudget \<Rightarrow> 'x \<Rightarrow> error option \<times> 'x"

record 'x net =
  net_roundtrip :: "transport \<Rightarrow> ClientOperation \<Rightarrow> 'x \<Rightarrow> (error + http_response) \<times> 'x"
  http_Do :: "string \<Rightarrow> string \<Rightarrow> (string \<times> string list) list \<Rightarrow> duration \<Rightarrow> 'x \<Rightarrow> (error + health_response) \<times> 'x"
  io_ReadAll :: "health_response \<Rightarrow> 'x \<Rightarrow> (error + string) \<times> 'x"

record 'x env =
  lib :: lib
  kube :: "'x kube"
  net :: "'x net"
  clock :: "'x \<Rightarrow> time \<times> 'x"

section \<open>Effects\<close>

datatype effect =
    Metric metric_cmd
  | HookCall transport ClientOperation "error + int"
  | HealthCall string string "error + int"
  | UpdateND NodeDisruption "error option"
  | UpdateADB ApplicationDisruptionBudget "error option"
  | UpdateNDB NodeDisruptionBudget "error option"
  | StatusND NodeDisruption "error option"
  | StatusADB ApplicationDisruptionBudget "error option"
  | StatusNDB NodeDisruptionBudget "error option"

type_synonym ('x, 'a) act = "(effect, 'x, 'a) io"

definition err_of :: "error + 'a \<Rightarrow> error option" where
  "err_of r = (case r of Inl e \<Rightarrow> Some e | Inr _ \<Rightarrow> None)"

definition Now :: "'x env \<Rightarrow> ('x, time) act" where
  "Now env = ask (clock env)"

definition metrics :: "metric_cmd list \<Rightarrow> ('x, unit) act" where
  "metrics cmds = emits (map Metric cmds)"

definition Update_nd :: "'x env \<Rightarrow> NodeDisruption \<Rightarrow> ('x, error + NodeDisruption) act" where
  "Update_nd env nd = do {
     r \<leftarrow> ask (update_nd (kube env) nd);
     emit (UpdateND nd (err_of r));
     ret r }"

definition Update_adb ::
    "'x env \<Rightarrow> ApplicationDisruptionBudget \<Rightarrow> ('x, error + ApplicationDisruptionBudget) act" where
  "Update_adb env adb = do {
     r \<leftarrow> ask (update_adb (kube env) adb);
     emit (UpdateADB adb (err_of r));
     ret r }"

definition Update_ndb :: "'x env \<Rightarrow> NodeDisruptionBudget \<Rightarrow> ('x, error + NodeDisruptionBudget) act" where
  "Update_ndb env ndb = do {
     r \<leftarrow> ask (update_ndb (kube env) ndb);
     emit (UpdateNDB ndb (err_of r));
     ret r }"

definition StatusUpdate_nd :: "'x env \<Rightarrow> NodeDisruption \<Rightarrow> ('x, error option) act" where
  "StatusUpdate_nd env nd = do {
     r \<leftarrow> ask (status_nd (kube env) nd);
     emit (StatusND nd r);
     ret r }"

definition StatusUpdate_adb :: "'x env \<Rightarrow> ApplicationDisruptionBudget \<Rightarrow> ('x, error option) act" where
  "StatusUpdate_adb env adb = do {
     r \<leftarrow> ask (status_adb (kube env) adb);
     emit (StatusADB adb r);
     ret r }"

definition StatusUpdate_ndb :: "'x env \<Rightarrow> NodeDisruptionBudget \<Rightarrow> ('x, error option) act" where
  "StatusUpdate_ndb env ndb = do {
     r \<leftarrow> ask (status_ndb (kube env) ndb);
     emit (StatusNDB ndb r);
     ret r }"

text \<open>The world before the program has done anything.\<close>

definition start :: "'x \<Rightarrow> (effect, 'x) world" where
  "start x = \<lparr>trace = [], ext = x\<rparr>"

section \<open>Kinds of effects\<close>

fun is_hook :: "effect \<Rightarrow> bool" where
  "is_hook (HookCall _ _ _) = True"
| "is_hook (HealthCall _ _ _) = True"
| "is_hook _ = False"

fun is_write :: "effect \<Rightarrow> bool" where
  "is_write (Metric _) = False"
| "is_write (HookCall _ _ _) = False"
| "is_write (HealthCall _ _ _) = False"
| "is_write _ = True"

fun is_metric :: "effect \<Rightarrow> bool" where
  "is_metric (Metric _) = True"
| "is_metric _ = False"

text \<open>Metric commands in the trace are well formed: no call panics.\<close>

fun effect_ok :: "effect \<Rightarrow> bool" where
  "effect_ok (Metric c) = metric_ok c"
| "effect_ok _ = True"

lemma only_Now [silent_intros]: "only P (Now env)"
  by (simp add: Now_def only_ask)

lemma only_metrics [silent_intros]: "list_all (\<lambda>c. P (Metric c)) cs \<Longrightarrow> only P (metrics cs)"
  by (simp add: metrics_def only_emits list_all_iff)

lemma only_writes [silent_intros]:
  "(\<And>r. P (UpdateND nd r)) \<Longrightarrow> only P (Update_nd env nd)"
  "(\<And>r. P (UpdateADB adb r)) \<Longrightarrow> only P (Update_adb env adb)"
  "(\<And>r. P (UpdateNDB ndb r)) \<Longrightarrow> only P (Update_ndb env ndb)"
  "(\<And>r. P (StatusND nd r)) \<Longrightarrow> only P (StatusUpdate_nd env nd)"
  "(\<And>r. P (StatusADB adb r)) \<Longrightarrow> only P (StatusUpdate_adb env adb)"
  "(\<And>r. P (StatusNDB ndb r)) \<Longrightarrow> only P (StatusUpdate_ndb env ndb)"
  unfolding Update_nd_def Update_adb_def Update_ndb_def StatusUpdate_nd_def StatusUpdate_adb_def
    StatusUpdate_ndb_def
  by (intro silent_intros; simp)+

lemma run_Now [simp, run_simps]:
  "run_state (Now env) w = (case clock env (ext w) of (t, x) \<Rightarrow> (t, w\<lparr>ext := x\<rparr>))"
  by (simp add: Now_def)

lemma run_metrics [simp, run_simps]:
  "run_state (metrics cs) w = ((), w\<lparr>trace := trace w @ map Metric cs\<rparr>)"
  by (simp add: metrics_def)

lemma sat_Now_bind [sat_intros]: "(\<And>t. sat (f t) R) \<Longrightarrow> sat (State_Monad.bind (Now env) f) R"
  by (simp add: Now_def sat_ask_bind)

lemma sat_metrics [sat_intros]: "R () (map Metric cs) \<Longrightarrow> sat (metrics cs) R"
  by (simp add: metrics_def sat_emits)

lemma sat_metrics_bind [sat_intros]:
  "sat (f ()) (\<lambda>b es. R b (map Metric cs @ es)) \<Longrightarrow> sat (State_Monad.bind (metrics cs) f) R"
  by (simp add: metrics_def sat_emits_bind)

end
