(* ===== verification/Node_Set.thy ===== *)
theory Node_Set
  imports Environment
begin

text \<open>
  Node sets (\<open>NodeSet\<close> of \<open>pkg/resolver/resolver.go\<close>): sets of node names.  The Go type wraps a hash
  set, whose meaning is a finite set of strings; the only operation that can see the order in which
  the hash set is traversed is \<open>NodeSetToStringList\<close>, which sorts.  The interface the budgets rely on
  is the locale \<open>node_sets\<close>, interpreted on the operations of the model.
\<close>

section \<open>Operations\<close>

record NodeSet =
  ns_Nodes :: "string set"

definition Intersection :: "NodeSet \<Rightarrow> NodeSet \<Rightarrow> NodeSet" where
  "Intersection ns other = \<lparr>ns_Nodes = ns_Nodes ns \<inter> ns_Nodes other\<rparr>"

definition Len :: "NodeSet \<Rightarrow> nat" where
  "Len ns = card (ns_Nodes ns)"

definition Union :: "NodeSet \<Rightarrow> NodeSet \<Rightarrow> NodeSet" where
  "Union ns other = \<lparr>ns_Nodes = ns_Nodes ns \<union> ns_Nodes other\<rparr>"

definition NewNodeSetFromStringList :: "string list \<Rightarrow> NodeSet" where
  "NewNodeSetFromStringList nodes = \<lparr>ns_Nodes = fold insert nodes {}\<rparr>"

text \<open>
  The loop of \<open>NodeSetToStringList\<close> for a given traversal order of the set, and the function itself
  for one such order; \<open>node_list_any_order\<close> below shows that every order gives the same list.
\<close>

definition node_list_in_order :: "string list \<Rightarrow> string list" where
  "node_list_in_order order = sort (foldl (\<lambda>nodes item. nodes @ [item]) [] order)"

definition NodeSetToStringList :: "NodeSet \<Rightarrow> string list" where
  "NodeSetToStringList ns = node_list_in_order (sorted_list_of_set (ns_Nodes ns))"

lemma ns_Nodes_of_list [simp]: "ns_Nodes (NewNodeSetFromStringList xs) = set xs"
  by (simp add: NewNodeSetFromStringList_def union_set_fold [symmetric])

lemma ns_Nodes_Intersection [simp]: "ns_Nodes (Intersection a b) = ns_Nodes a \<inter> ns_Nodes b"
  by (simp add: Intersection_def)

lemma ns_Nodes_Union [simp]: "ns_Nodes (Union a b) = ns_Nodes a \<union> ns_Nodes b"
  by (simp add: Union_def)

lemma append_loop [simp]: "foldl (\<lambda>nodes item. nodes @ [item]) acc xs = acc @ xs"
  by (induction xs arbitrary: acc) simp_all

lemma node_list_eq: "NodeSetToStringList ns = sorted_list_of_set (ns_Nodes ns)"
  by (simp add: NodeSetToStringList_def node_list_in_order_def sorted_sort_id)

section \<open>The interface of node sets\<close>

locale node_sets =
  fixes elements :: "'s \<Rightarrow> string set"
    and inter :: "'s \<Rightarrow> 's \<Rightarrow> 's"
    and union :: "'s \<Rightarrow> 's \<Rightarrow> 's"
    and len :: "'s \<Rightarrow> nat"
    and of_list :: "string list \<Rightarrow> 's"
    and to_list :: "'s \<Rightarrow> string list"
  assumes elements_inter: "elements (inter s t) = elements s \<inter> elements t"
    and elements_union: "elements (union s t) = elements s \<union> elements t"
    and elements_of_list: "elements (of_list xs) = set xs"
    and len_card: "len s = card (elements s)"
    and elements_inject: "elements s = elements t \<Longrightarrow> s = t"
    and to_list_sorted: "sorted (to_list s)"
    and to_list_distinct: "distinct (to_list s)"
    and set_to_list: "finite (elements s) \<Longrightarrow> set (to_list s) = elements s"
begin

lemma of_list_to_list: "finite (elements s) \<Longrightarrow> of_list (to_list s) = s"
  by (rule elements_inject) (simp add: elements_of_list set_to_list)

lemma to_list_of_list: "to_list (of_list xs) = sorted_list_of_set (set xs)"
proof -
  have "set (to_list (of_list xs)) = set xs"
    by (simp add: set_to_list elements_of_list)
  then show ?thesis
    by (metis sorted_list_of_set.idem_if_sorted_distinct to_list_sorted to_list_distinct)
qed

lemma meets_iff: "finite (elements s) \<Longrightarrow> 0 < len (inter s t) \<longleftrightarrow> elements s \<inter> elements t \<noteq> {}"
  by (simp add: len_card elements_inter card_gt_0_iff)

lemma meets_of_list: "0 < len (inter (of_list xs) t) \<longleftrightarrow> (\<exists>x \<in> set xs. x \<in> elements t)"
  by (auto simp: meets_iff elements_of_list)

lemma len_inter_mono:
  "finite (elements s) \<Longrightarrow> elements t \<subseteq> elements u \<Longrightarrow> len (inter s t) \<le> len (inter s u)"
  by (auto simp: len_card elements_inter intro!: card_mono)

lemma len_inter_commute: "len (inter s t) = len (inter t s)"
  by (simp add: len_card elements_inter Int_commute)

lemma len_of_list_le: "len (of_list xs) \<le> length xs"
  by (simp add: len_card elements_of_list card_length)

end

interpretation ns: node_sets ns_Nodes Intersection Union Len NewNodeSetFromStringList NodeSetToStringList
  by unfold_locales (simp_all add: Len_def node_list_eq)

lemma node_list_any_order:
  assumes "distinct order" and "set order = ns_Nodes ns"
  shows "node_list_in_order order = NodeSetToStringList ns"
proof -
  have "sort order = sorted_list_of_set (set order)"
    using assms(1) by (simp add: sorted_list_of_set_sort_remdups distinct_remdups_id)
  then show ?thesis using assms(2) by (simp add: node_list_in_order_def node_list_eq)
qed

end
