(* ===== verification/Resolver.thy ===== *)
theory Resolver
  imports Node_Set
begin

text \<open>
  The resolver (\<open>pkg/resolver/resolver.go\<close>): from label selectors to the nodes they concern, through
  the nodes themselves, the pods running on them, or the volume claims whose volumes are tied to
  them.  Every function only reads the API.
\<close>

section \<open>Nodes by label selector\<close>

definition node_names :: "Node list \<Rightarrow> string list" where
  "node_names nodes = map (\<lambda>n. om_Name (node_meta n)) nodes"

definition insert_all :: "string list \<Rightarrow> NodeSet \<Rightarrow> NodeSet" where
  "insert_all names ns = ns\<lparr>ns_Nodes := fold insert names (ns_Nodes ns)\<rparr>"

definition empty_NodeSet :: NodeSet where
  "empty_NodeSet = \<lparr>ns_Nodes = {}\<rparr>"

definition GetNodeFromNodeSelector :: "'x env \<Rightarrow> LabelSelector \<Rightarrow> ('x, error + NodeSet) act" where
  "GetNodeFromNodeSelector env nodeSelector =
     (case LabelSelectorAsSelector (lib env) nodeSelector of
        Inl err \<Rightarrow> ret (Inl err)
      | Inr selector \<Rightarrow>
          if ls_Empty selector then ret (Inr empty_NodeSet)
          else do {
            r \<leftarrow> ask (list_nodes (kube env) (Some selector) None);
            ret (case r of Inl err \<Rightarrow> Inl err
                 | Inr nodes \<Rightarrow> Inr (insert_all (node_names nodes) empty_NodeSet)) })"

section \<open>Nodes by pod selector\<close>

fun pod_nodes :: "Pod list \<Rightarrow> NodeSet \<Rightarrow> NodeSet" where
  "pod_nodes [] ns = ns"
| "pod_nodes (pod # pods) ns =
     pod_nodes pods (if pod_NodeName pod \<noteq> '''' then insert_all [pod_NodeName pod] ns else ns)"

definition GetNodesFromNamespacedPodSelector ::
    "'x env \<Rightarrow> LabelSelector \<Rightarrow> string \<Rightarrow> ('x, error + NodeSet) act" where
  "GetNodesFromNamespacedPodSelector env podSelector namespace =
     (case LabelSelectorAsSelector (lib env) podSelector of
        Inl err \<Rightarrow> ret (Inl err)
      | Inr selector \<Rightarrow>
          if ls_Empty selector then ret (Inr empty_NodeSet)
          else do {
            r \<leftarrow> ask (list_pods (kube env) namespace selector);
            ret (case r of Inl err \<Rightarrow> Inl err | Inr pods \<Rightarrow> Inr (pod_nodes pods empty_NodeSet)) })"

section \<open>Selectors of volume affinities\<close>

definition NodeLabelSelectorAsRequirement :: "lib \<Rightarrow> NodeSelectorRequirement \<Rightarrow> error + requirement" where
  "NodeLabelSelectorAsRequirement l expr =
     (let as_requirement = (\<lambda>op. NewRequirement l (nsr_Key expr) op (nsr_Values expr)) in
      if nsr_Operator expr = ''In'' then as_requirement In
      else if nsr_Operator expr = ''NotIn'' then as_requirement NotIn
      else if nsr_Operator expr = ''Exists'' then as_requirement Exists
      else if nsr_Operator expr = ''DoesNotExist'' then as_requirement DoesNotExist
      else Inl (ErrText (quote l (nsr_Operator expr) @ '' is not a valid label selector operator'')))"

fun requirements_loop ::
    "lib \<Rightarrow> NodeSelectorRequirement list \<Rightarrow> requirement list \<Rightarrow> error + requirement list" where
  "requirements_loop l [] acc = Inr acc"
| "requirements_loop l (expr # exprs) acc =
     (case NodeLabelSelectorAsRequirement l expr of
        Inl err \<Rightarrow> Inl err
      | Inr r \<Rightarrow> requirements_loop l exprs (acc @ [r]))"

fun terms_loop ::
    "lib \<Rightarrow> NodeSelectorTerm list \<Rightarrow> requirement list \<Rightarrow> string list \<Rightarrow> error + (requirement list \<times> string list)" where
  "terms_loop l [] labelsRequirements fieldsRequirements = Inr (labelsRequirements, fieldsRequirements)"
| "terms_loop l (t # ts) labelsRequirements fieldsRequirements =
     (case requirements_loop l (MatchExpressions t) labelsRequirements of
        Inl err \<Rightarrow> Inl err
      | Inr lrs \<Rightarrow>
          (case requirements_loop l (MatchFields t) [] of
             Inl err \<Rightarrow> Inl err
           | Inr frs \<Rightarrow> terms_loop l ts lrs (fieldsRequirements @ map (requirement_String l) frs)))"

definition NodeSelectorAsSelector :: "lib \<Rightarrow> NodeSelector option \<Rightarrow> error + (lselector \<times> fselector)" where
  "NodeSelectorAsSelector l nodeSelector =
     (case nodeSelector of
        None \<Rightarrow> Inr (labels_Nothing l, fields_Nothing l)
      | Some terms \<Rightarrow>
          if terms = [] then Inr (labels_Everything l, fields_Everything l)
          else (case terms_loop l terms [] [] of
             Inl err \<Rightarrow> Inl err
           | Inr (labelsRequirements, fieldsRequirements) \<Rightarrow>
               (let labelSelector = NewSelectorAdd l labelsRequirements in
                case ParseSelector l (join_with '','' fieldsRequirements) of
                  Inl err \<Rightarrow> Inl err
                | Inr fieldSelector \<Rightarrow> Inr (labelSelector, fieldSelector))))"

section \<open>Nodes by volume claim selector\<close>

definition ClaimBound :: string where "ClaimBound = ''Bound''"
definition ClaimLost :: string where "ClaimLost = ''Lost''"
definition ClaimPending :: string where "ClaimPending = ''Pending''"

lemmas phase_defs = ClaimBound_def ClaimLost_def ClaimPending_def

fun pvs_to_fetch :: "PersistentVolumeClaim list \<Rightarrow> string list \<Rightarrow> error + string list" where
  "pvs_to_fetch [] PVsToFetch = Inr PVsToFetch"
| "pvs_to_fetch (pvc # pvcs) PVsToFetch =
     (if pvc_Phase pvc = ClaimBound then pvs_to_fetch pvcs (PVsToFetch @ [pvc_VolumeName pvc])
      else if pvc_Phase pvc = ClaimLost then
        Inl (ErrText (''PVC '' @ om_Name (pvc_meta pvc)
          @ '' is marked lost. It is unsafe to grant disruption in this state''))
      else if pvc_Phase pvc = ClaimPending then pvs_to_fetch pvcs PVsToFetch
      else Inl (ErrText (''PVC '' @ om_Name (pvc_meta pvc) @ '' is unexpected phase ('' @ pvc_Phase pvc
          @ ''). It is unsafe to grant disruption in this state'')))"

fun pv_loop :: "'x env \<Rightarrow> string list \<Rightarrow> NodeSet \<Rightarrow> ('x, error + NodeSet) act" where
  "pv_loop env [] ns = ret (Inr ns)"
| "pv_loop env (PVName # PVNames) ns = do {
     r \<leftarrow> ask (get_pv (kube env) ('''', PVName));
     (case r of
        Inl err \<Rightarrow> ret (Inl err)
      | Inr pv \<Rightarrow>
          (case pv_NodeAffinity pv of
             None \<Rightarrow> pv_loop env PVNames ns
           | Some Required \<Rightarrow>
               (case Required of
                  None \<Rightarrow> pv_loop env PVNames ns
                | Some nodeSelector \<Rightarrow>
                    (case NodeSelectorAsSelector (lib env) (Some nodeSelector) of
                       Inl err \<Rightarrow> ret (Inl err)
                     | Inr (labelSelector, fieldSelector) \<Rightarrow>
                         if ls_Empty labelSelector \<and> fs_Empty fieldSelector
                         then pv_loop env PVNames ns
                         else do {
                           r \<leftarrow> ask (list_nodes (kube env)
                                 (if \<not> ls_Empty labelSelector then Some labelSelector else None)
                                 (if \<not> fs_Empty fieldSelector then Some fieldSelector else None));
                           (case r of
                              Inl err \<Rightarrow> ret (Inl err)
                            | Inr nodes \<Rightarrow> pv_loop env PVNames (insert_all (node_names nodes) ns)) })))) }"

definition GetNodesFromNamespacedPVCSelector ::
    "'x env \<Rightarrow> LabelSelector \<Rightarrow> string \<Rightarrow> ('x, error + NodeSet) act" where
  "GetNodesFromNamespacedPVCSelector env pvcSelector namespace =
     (case LabelSelectorAsSelector (lib env) pvcSelector of
        Inl err \<Rightarrow> ret (Inl err)
      | Inr selector \<Rightarrow>
          if ls_Empty selector then ret (Inr empty_NodeSet)
          else do {
            r \<leftarrow> ask (list_pvcs (kube env) namespace selector);
            (case r of
               Inl err \<Rightarrow> ret (Inl err)
             | Inr pvcs \<Rightarrow>
                 (case pvs_to_fetch pvcs [] of
                    Inl err \<Rightarrow> ret (Inl err)
                  | Inr PVsToFetch \<Rightarrow> pv_loop env PVsToFetch empty_NodeSet)) })"

section \<open>The resolver only reads\<close>

lemma pv_loop_silent: "only P (pv_loop env PVNames ns)"
  by (induction PVNames arbitrary: ns) (auto intro!: silent_intros)

lemma resolver_silent [silent_intros]:
  "only P (GetNodeFromNodeSelector env sel)"
  "only P (GetNodesFromNamespacedPodSelector env sel namespace)"
  "only P (GetNodesFromNamespacedPVCSelector env sel namespace)"
  unfolding GetNodeFromNodeSelector_def GetNodesFromNamespacedPodSelector_def
    GetNodesFromNamespacedPVCSelector_def
  by (auto intro!: silent_intros pv_loop_silent)

section \<open>What the selectors select\<close>

lemma ns_Nodes_insert_all [simp]: "ns_Nodes (insert_all xs ns) = ns_Nodes ns \<union> set xs"
  by (simp add: insert_all_def union_set_fold [symmetric] Un_commute)

lemma ns_Nodes_empty [simp]: "ns_Nodes empty_NodeSet = {}"
  by (simp add: empty_NodeSet_def)

lemma ns_Nodes_pod_nodes:
  "ns_Nodes (pod_nodes pods ns) = ns_Nodes ns \<union> (pod_NodeName ` set pods - {''''})"
  by (induction pods ns rule: pod_nodes.induct) auto

text \<open>Every node set the resolver returns is finite.\<close>

lemma pv_loop_finite: "finite (ns_Nodes ns) \<Longrightarrow>
    sat (pv_loop env PVNames ns) (\<lambda>r _. \<forall>s. r = Inr s \<longrightarrow> finite (ns_Nodes s))"
  by (induction PVNames arbitrary: ns) (auto intro!: sat_intros)

lemma resolver_finite:
  "sat (GetNodeFromNodeSelector env sel) (\<lambda>r _. \<forall>s. r = Inr s \<longrightarrow> finite (ns_Nodes s))"
  "sat (GetNodesFromNamespacedPodSelector env sel namespace)
     (\<lambda>r _. \<forall>s. r = Inr s \<longrightarrow> finite (ns_Nodes s))"
  "sat (GetNodesFromNamespacedPVCSelector env sel namespace)
     (\<lambda>r _. \<forall>s. r = Inr s \<longrightarrow> finite (ns_Nodes s))"
  unfolding GetNodeFromNodeSelector_def GetNodesFromNamespacedPodSelector_def
    GetNodesFromNamespacedPVCSelector_def
  by (auto intro!: sat_intros pv_loop_finite simp: ns_Nodes_pod_nodes split: sum.splits)

text \<open>
  A node selector that selects nothing in particular (\<open>selector.Empty()\<close>) yields the empty node
  set without asking the API, never all nodes; any other selector yields exactly the names of the
  nodes that the API lists for it, and a failure of either step is returned as the error.
\<close>

theorem node_selector_nodes:
  "run_state (GetNodeFromNodeSelector env sel) w =
     (case LabelSelectorAsSelector (lib env) sel of
        Inl e \<Rightarrow> (Inl e, w)
      | Inr s \<Rightarrow> if ls_Empty s then (Inr (NewNodeSetFromStringList []), w)
          else (case list_nodes (kube env) (Some s) None (ext w) of
             (Inl e, x) \<Rightarrow> (Inl e, w\<lparr>ext := x\<rparr>)
           | (Inr nodes, x) \<Rightarrow> (Inr (NewNodeSetFromStringList (node_names nodes)), w\<lparr>ext := x\<rparr>)))"
proof -
  have "insert_all xs empty_NodeSet = NewNodeSetFromStringList xs" for xs
    by (rule ns.elements_inject) simp
  moreover have "empty_NodeSet = NewNodeSetFromStringList []"
    by (rule ns.elements_inject) simp
  ultimately show ?thesis
    by (simp add: GetNodeFromNodeSelector_def split: sum.splits prod.splits)
qed

lemma pvs_to_fetch_eq:
  "pvs_to_fetch pvcs acc = Inr pvs \<longleftrightarrow>
     list_all (\<lambda>p. pvc_Phase p \<in> {ClaimBound, ClaimPending}) pvcs \<and>
     pvs = acc @ map pvc_VolumeName (filter (\<lambda>p. pvc_Phase p = ClaimBound) pvcs)"
  by (induction pvcs acc rule: pvs_to_fetch.induct) (auto simp: phase_defs)

text \<open>
  The volume claim loop is fail-safe: it succeeds exactly when every claim is bound or pending,
  and then yields the volumes of the bound claims in order; one lost claim, or one in a phase the
  code does not know, makes it fail.
\<close>

theorem pvs_to_fetch_fail_safe:
  "pvs_to_fetch pvcs [] = Inr pvs \<longleftrightarrow>
     list_all (\<lambda>p. pvc_Phase p \<in> {ClaimBound, ClaimPending}) pvcs \<and>
     pvs = map pvc_VolumeName (filter (\<lambda>p. pvc_Phase p = ClaimBound) pvcs)"
  by (simp add: pvs_to_fetch_eq)

section \<open>Volume affinities: one conjunction over all terms\<close>

lemma requirements_loop_eq:
  "requirements_loop l exprs acc = Inr rs \<longleftrightarrow>
     (\<exists>rs'. rs = acc @ rs' \<and> list_all2 (\<lambda>e r. NodeLabelSelectorAsRequirement l e = Inr r) exprs rs')"
proof (induction l exprs acc arbitrary: rs rule: requirements_loop.induct)
  case (2 l expr exprs acc)
  show ?case
  proof (cases "NodeLabelSelectorAsRequirement l expr")
    case (Inr r)
    then show ?thesis by (auto simp: 2 list_all2_Cons1)
  qed (auto simp: list_all2_Cons1)
qed auto

lemma terms_loop_labels:
  "terms_loop l ts lrs frs = Inr (lrs', frs') \<Longrightarrow>
     \<exists>rs. lrs' = lrs @ rs \<and>
       list_all2 (\<lambda>e r. NodeLabelSelectorAsRequirement l e = Inr r) (concat (map MatchExpressions ts)) rs"
proof (induction l ts lrs frs arbitrary: lrs' frs' rule: terms_loop.induct)
  case (2 l t ts lrs frs)
  from "2.prems" obtain rs fs where
      rs: "requirements_loop l (MatchExpressions t) lrs = Inr rs" and
      fs: "requirements_loop l (MatchFields t) [] = Inr fs" and
      rest: "terms_loop l ts rs (frs @ map (requirement_String l) fs) = Inr (lrs', frs')"
    by (auto split: sum.splits)
  from rs obtain qs where qs: "rs = lrs @ qs"
      "list_all2 (\<lambda>e r. NodeLabelSelectorAsRequirement l e = Inr r) (MatchExpressions t) qs"
    by (auto simp: requirements_loop_eq)
  from "2.IH" [OF rs fs rest] qs show ?case by (auto intro!: list_all2_appendI)
qed auto

text \<open>
  C29: The terms of a volume's required affinity are joined into one conjunction.  Where a label
  requirement's meaning is \<open>holds\<close> and the library's selector matches the labels that satisfy all of
  its requirements, the selector the code builds matches exactly the labels that satisfy every
  expression of every term.
\<close>

theorem affinity_terms_conjoined:
  assumes selectors: "\<And>rs. ls_Matches (NewSelectorAdd l rs) lbls \<longleftrightarrow> list_all (holds lbls) rs"
    and terms: "terms \<noteq> []"
    and ok: "NodeSelectorAsSelector l (Some terms) = Inr (ls, fs)"
  shows "ls_Matches ls lbls \<longleftrightarrow>
     list_all (\<lambda>t. list_all (\<lambda>e. \<exists>r. NodeLabelSelectorAsRequirement l e = Inr r \<and> holds lbls r)
       (MatchExpressions t)) terms"
proof -
  from ok terms obtain rs where rs: "ls = NewSelectorAdd l rs"
      "list_all2 (\<lambda>e r. NodeLabelSelectorAsRequirement l e = Inr r) (concat (map MatchExpressions terms)) rs"
    by (auto simp: NodeSelectorAsSelector_def Let_def split: sum.splits dest!: terms_loop_labels)
  have "list_all (holds lbls) rs \<longleftrightarrow>
      list_all (\<lambda>e. \<exists>r. NodeLabelSelectorAsRequirement l e = Inr r \<and> holds lbls r) es"
    if "list_all2 (\<lambda>e r. NodeLabelSelectorAsRequirement l e = Inr r) es rs" for es rs
    using that by (induction rule: list_all2_induct) auto
  from this [OF rs(2)] show ?thesis
    by (simp add: rs(1) selectors) (auto simp: list_all_iff)
qed

section \<open>Resolving in a cluster that stands still\<close>

text \<open>
  The nodes that a selector designates in state \<open>x\<close> of the cluster, and the assumption that listing
  the nodes does not itself change that state.
\<close>

definition nodes_for :: "'x env \<Rightarrow> 'x \<Rightarrow> LabelSelector \<Rightarrow> error + NodeSet" where
  "nodes_for env x sel = fst (run_state (GetNodeFromNodeSelector env sel) (start x))"

definition nodes_stable :: "'x env \<Rightarrow> 'x \<Rightarrow> bool" where
  "nodes_stable env x \<longleftrightarrow> (\<forall>ls fs. snd (list_nodes (kube env) ls fs x) = x)"

lemma still_nodes [still_intros]:
  assumes "nodes_stable env x"
  shows "still x (GetNodeFromNodeSelector env sel) (nodes_for env x sel)"
  unfolding still_def
proof (intro allI impI)
  fix w :: "(effect, 'a) world"
  assume "ext w = x"
  moreover have "snd (list_nodes (kube env) ls fs x) = x" for ls fs
    using assms by (simp add: nodes_stable_def)
  ultimately show "run_state (GetNodeFromNodeSelector env sel) w = (nodes_for env x sel, w)"
    by (simp add: nodes_for_def start_def GetNodeFromNodeSelector_def case_prod_unfold split: sum.splits)
qed

text \<open>The same for every read that resolving a budget's selectors makes.\<close>

definition reads_stable :: "'x env \<Rightarrow> 'x \<Rightarrow> bool" where
  "reads_stable env x \<longleftrightarrow> nodes_stable env x \<and>
     (\<forall>ns s. snd (list_pods (kube env) ns s x) = x) \<and> (\<forall>ns s. snd (list_pvcs (kube env) ns s x) = x) \<and>
     (\<forall>key. snd (get_pv (kube env) key x) = x)"

lemma steady_reads [steady_intros]:
  assumes "reads_stable env x"
  shows "steady x (ask (list_nodes (kube env) ls fs))" "steady x (ask (list_pods (kube env) ns s))"
    "steady x (ask (list_pvcs (kube env) ns s))" "steady x (ask (get_pv (kube env) key))"
  using assms unfolding reads_stable_def nodes_stable_def by (blast intro: steady_ask)+

lemma steady_pv_loop:
  "reads_stable env x \<Longrightarrow> steady x (pv_loop env PVNames ns)"
  by (induction PVNames arbitrary: ns) (auto intro!: steady_intros simp del: if_split)

lemma steady_resolver [steady_intros]:
  assumes "reads_stable env x"
  shows "steady x (GetNodeFromNodeSelector env sel)"
    "steady x (GetNodesFromNamespacedPodSelector env sel namespace)"
    "steady x (GetNodesFromNamespacedPVCSelector env sel namespace)"
  unfolding GetNodeFromNodeSelector_def GetNodesFromNamespacedPodSelector_def
    GetNodesFromNamespacedPVCSelector_def
  by (auto intro!: steady_intros steady_pv_loop assms)

end
