(* ===== verification/Sample_Env.thy ===== *)
theory Sample_Env
  imports Environment
begin

text \<open>
  A concrete environment, used by the witnesses of the properties only: library functions that do
  what the documentation of the real ones says on the inputs the witnesses use, and an API server
  that is a record of lists of objects.  No property is stated about it.
\<close>

section \<open>Libraries\<close>

fun sample_holds :: "labels \<Rightarrow> requirement \<Rightarrow> bool" where
  "sample_holds lbls r = (case rq_Op r of
      In \<Rightarrow> (case lbls (rq_Key r) of Some v \<Rightarrow> v \<in> set (rq_Values r) | None \<Rightarrow> False)
    | NotIn \<Rightarrow> (case lbls (rq_Key r) of Some v \<Rightarrow> v \<notin> set (rq_Values r) | None \<Rightarrow> True)
    | Exists \<Rightarrow> lbls (rq_Key r) \<noteq> None
    | DoesNotExist \<Rightarrow> lbls (rq_Key r) = None)"

definition sample_selector :: "LabelSelector \<Rightarrow> error + lselector" where
  "sample_selector sel =
     (if matchExpressions sel = [] then
        Inr \<lparr>ls_Empty = (matchLabels sel = []),
             ls_Matches = (\<lambda>lbls. list_all (\<lambda>(k, v). lbls k = Some v) (matchLabels sel))\<rparr>
      else Inl (ErrLib ''invalid operator''))"

definition sample_lib :: lib where
  "sample_lib = \<lparr>
     LabelSelectorAsSelector = sample_selector,
     NewRequirement = (\<lambda>k op vs. Inr \<lparr>rq_Key = k, rq_Op = op, rq_Values = vs\<rparr>),
     requirement_String = (\<lambda>r. rq_Key r @ ''='' @ join_with '','' (rq_Values r)),
     NewSelectorAdd = (\<lambda>rs. \<lparr>ls_Empty = (rs = []), ls_Matches = (\<lambda>lbls. list_all (sample_holds lbls) rs)\<rparr>),
     labels_Nothing = \<lparr>ls_Empty = False, ls_Matches = (\<lambda>_. False)\<rparr>,
     labels_Everything = \<lparr>ls_Empty = True, ls_Matches = (\<lambda>_. True)\<rparr>,
     fields_Nothing = \<lparr>fs_Empty = False, fs_String = ''nothing''\<rparr>,
     fields_Everything = \<lparr>fs_Empty = True, fs_String = ''''\<rparr>,
     ParseSelector = (\<lambda>s. Inr \<lparr>fs_Empty = (s = ''''), fs_String = s\<rparr>),
     url_Parse = (\<lambda>s. if s = ''bad'' then Inl (ErrLib ''bad url'')
                      else Inr \<lparr>url_Scheme = ''http'', url_Host = s, url_Path = ''/''\<rparr>),
     NewRequest = (\<lambda>s. if s = ''bad'' then Some (ErrLib ''bad url'') else None),
     json_Marshal = (\<lambda>nd. Inr (om_Name (nd_meta nd))),
     json_quote = (\<lambda>s. s),
     ConvertInt64 = (\<lambda>s. if s = ''5'' then Inr 5 else Inl (ErrLib ''not a number'')),
     Seconds_int64 = (\<lambda>d. d sdiv 10 ^ 9),
     time_String = Itoa,
     quote = (\<lambda>s. s),
     APIError_Error = (\<lambda>s _ c. s @ Itoa c),
     InvalidType = (\<lambda>s. ErrLib s),
     ContainsFinalizer = (\<lambda>fs f. f \<in> set fs),
     AddFinalizer = (\<lambda>fs f. if f \<in> set fs then fs else fs @ [f]),
     RemoveFinalizer = (\<lambda>fs f. (removeAll f fs, f \<in> set fs)),
     DefaultTimeout = 30 * 10 ^ 9,
     float_out_of_range = (\<lambda>_. - (2 ^ 63)) \<rparr>"

section \<open>API server, network and clock\<close>

record cluster =
  c_now :: time
  c_nodes :: "Node list"
  c_pods :: "Pod list"
  c_pvcs :: "PersistentVolumeClaim list"
  c_pvs :: "PersistentVolume list"
  c_nds :: "NodeDisruption list"
  c_adbs :: "ApplicationDisruptionBudget list"
  c_ndbs :: "NodeDisruptionBudget list"
  c_code :: "string \<Rightarrow> int"

definition om_key :: "ObjectMeta \<Rightarrow> string \<times> string" where
  "om_key m = (om_Namespace m, om_Name m)"

definition meta_labels :: "ObjectMeta \<Rightarrow> labels" where
  "meta_labels m = (case om_Labels m of None \<Rightarrow> Map.empty | Some ls \<Rightarrow> ls)"

definition sample_get :: "('o \<Rightarrow> ObjectMeta) \<Rightarrow> 'o list \<Rightarrow> string \<times> string \<Rightarrow> error + 'o" where
  "sample_get meta xs key =
     (case filter (\<lambda>x. om_key (meta x) = key) xs of [] \<Rightarrow> Inl (NotFound ''not found'') | x # _ \<Rightarrow> Inr x)"

definition sample_put :: "('o \<Rightarrow> ObjectMeta) \<Rightarrow> 'o \<Rightarrow> 'o list \<Rightarrow> 'o list" where
  "sample_put meta x xs = map (\<lambda>y. if om_key (meta y) = om_key (meta x) then x else y) xs"

definition sample_ns :: "('o \<Rightarrow> ObjectMeta) \<Rightarrow> string option \<Rightarrow> 'o list \<Rightarrow> 'o list" where
  "sample_ns meta ns xs =
     (case ns of None \<Rightarrow> xs | Some n \<Rightarrow> if n = '''' then xs else filter (\<lambda>x. om_Namespace (meta x) = n) xs)"

definition sample_list :: "('o \<Rightarrow> ObjectMeta) \<Rightarrow> lselector \<Rightarrow> 'o list \<Rightarrow> 'o list" where
  "sample_list meta sel xs = filter (\<lambda>x. ls_Matches sel (meta_labels (meta x))) xs"

definition sample_kube :: "cluster kube" where
  "sample_kube = \<lparr>
     get_nd = (\<lambda>key c. (sample_get nd_meta (c_nds c) key, c)),
     get_adb = (\<lambda>key c. (sample_get adb_meta (c_adbs c) key, c)),
     get_ndb = (\<lambda>key c. (sample_get ndb_meta (c_ndbs c) key, c)),
     get_pv = (\<lambda>key c. (sample_get pv_meta (c_pvs c) key, c)),
     list_nd = (\<lambda>c. (Inr (c_nds c), c)),
     list_adb = (\<lambda>ns c. (Inr (sample_ns adb_meta ns (c_adbs c)), c)),
     list_ndb = (\<lambda>ns c. (Inr (sample_ns ndb_meta ns (c_ndbs c)), c)),
     list_nodes = (\<lambda>ls fs c. (Inr (case ls of None \<Rightarrow> c_nodes c | Some s \<Rightarrow> sample_list node_meta s (c_nodes c)), c)),
     list_pods = (\<lambda>ns s c. (Inr (sample_list pod_meta s (sample_ns pod_meta (Some ns) (c_pods c))), c)),
     list_pvcs = (\<lambda>ns s c. (Inr (sample_list pvc_meta s (sample_ns pvc_meta (Some ns) (c_pvcs c))), c)),
     update_nd = (\<lambda>nd c. (Inr nd, c\<lparr>c_nds := sample_put nd_meta nd (c_nds c)\<rparr>)),
     update_adb = (\<lambda>adb c. (Inr adb, c\<lparr>c_adbs := sample_put adb_meta adb (c_adbs c)\<rparr>)),
     update_ndb = (\<lambda>ndb c. (Inr ndb, c\<lparr>c_ndbs := sample_put ndb_meta ndb (c_ndbs c)\<rparr>)),
     status_nd = (\<lambda>nd c. (None, c\<lparr>c_nds := sample_put nd_meta nd (c_nds c)\<rparr>)),
     status_adb = (\<lambda>adb c. (None, c\<lparr>c_adbs := sample_put adb_meta adb (c_adbs c)\<rparr>)),
     status_ndb = (\<lambda>ndb c. (None, c\<lparr>c_ndbs := sample_put ndb_meta ndb (c_ndbs c)\<rparr>)) \<rparr>"

definition sample_net :: "cluster net" where
  "sample_net = \<lparr>
     net_roundtrip = (\<lambda>tr oper c. (Inr \<lparr>rsp_Code = c_code c (op_PathPattern oper),
        rsp_Header = (\<lambda>_. ''5''), rsp_Body = ConsumedEOF\<rparr>, c)),
     http_Do = (\<lambda>url data hdrs t c. (Inr \<lparr>StatusCode = c_code c url, hr_Body = ''body''\<rparr>, c)),
     io_ReadAll = (\<lambda>r c. (Inr (hr_Body r), c)) \<rparr>"

definition sample_env :: "cluster env" where
  "sample_env = \<lparr>lib = sample_lib, kube = sample_kube, net = sample_net, clock = (\<lambda>c. (c_now c, c))\<rparr>"

text \<open>
  The same cluster seen as an environment that always gives the same answers: the state of the
  outside world has one value only, so reads are constant and writes are accepted and forgotten.
\<close>

definition frozen_kube :: "cluster \<Rightarrow> unit kube" where
  "frozen_kube c = \<lparr>
     get_nd = (\<lambda>key x. (fst (get_nd sample_kube key c), x)),
     get_adb = (\<lambda>key x. (fst (get_adb sample_kube key c), x)),
     get_ndb = (\<lambda>key x. (fst (get_ndb sample_kube key c), x)),
     get_pv = (\<lambda>key x. (fst (get_pv sample_kube key c), x)),
     list_nd = (\<lambda>x. (fst (list_nd sample_kube c), x)),
     list_adb = (\<lambda>ns x. (fst (list_adb sample_kube ns c), x)),
     list_ndb = (\<lambda>ns x. (fst (list_ndb sample_kube ns c), x)),
     list_nodes = (\<lambda>ls fs x. (fst (list_nodes sample_kube ls fs c), x)),
     list_pods = (\<lambda>ns s x. (fst (list_pods sample_kube ns s c), x)),
     list_pvcs = (\<lambda>ns s x. (fst (list_pvcs sample_kube ns s c), x)),
     update_nd = (\<lambda>nd x. (Inr nd, x)),
     update_adb = (\<lambda>adb x. (Inr adb, x)),
     update_ndb = (\<lambda>ndb x. (Inr ndb, x)),
     status_nd = (\<lambda>nd x. (None, x)),
     status_adb = (\<lambda>adb x. (None, x)),
     status_ndb = (\<lambda>ndb x. (None, x)) \<rparr>"

definition frozen_net :: "cluster \<Rightarrow> unit net" where
  "frozen_net c = \<lparr>
     net_roundtrip = (\<lambda>tr oper x. (fst (net_roundtrip sample_net tr oper c), x)),
     http_Do = (\<lambda>url data hdrs t x. (fst (http_Do sample_net url data hdrs t c), x)),
     io_ReadAll = (\<lambda>r x. (fst (io_ReadAll sample_net r c), x)) \<rparr>"

definition frozen_env :: "cluster \<Rightarrow> unit env" where
  "frozen_env c = \<lparr>lib = sample_lib, kube = frozen_kube c, net = frozen_net c, clock = (\<lambda>x. (c_now c, x))\<rparr>"

definition empty_cluster :: cluster where
  "empty_cluster = \<lparr>c_now = 10 ^ 9, c_nodes = [], c_pods = [], c_pvcs = [], c_pvs = [], c_nds = [],
     c_adbs = [], c_ndbs = [], c_code = (\<lambda>_. 200)\<rparr>"

text \<open>Objects of the witnesses, by name.\<close>

definition named :: "string \<Rightarrow> ObjectMeta" where
  "named n = \<lparr>om_Kind = '''', om_Name = n, om_Namespace = '''', om_UID = '''', om_Labels = None,
     om_Finalizers = [], om_DeletionTimestamp = None, om_CreationTimestamp = 0, om_ResourceVersion = ''1''\<rparr>"

definition any_of :: "string \<Rightarrow> string \<Rightarrow> LabelSelector" where
  "any_of k v = \<lparr>matchLabels = [(k, v)], matchExpressions = []\<rparr>"

definition no_selector :: LabelSelector where
  "no_selector = \<lparr>matchLabels = [], matchExpressions = []\<rparr>"

definition labelled :: "string \<Rightarrow> string \<Rightarrow> string \<Rightarrow> ObjectMeta" where
  "labelled n k v = (named n)\<lparr>om_Labels := Some [k \<mapsto> v]\<rparr>"

definition sample_nd :: "string \<Rightarrow> LabelSelector \<Rightarrow> NodeDisruptionState \<Rightarrow> NodeDisruption" where
  "sample_nd n sel st = \<lparr>nd_meta = (named n)\<lparr>om_Kind := ''NodeDisruption''\<rparr>,
     nd_Spec = \<lparr>nd_NodeSelector = sel, StartDate = 0, DoNotGrantBefore = 0, Duration = 0,
       Retry = \<lparr>Enabled = False, Deadline = 0\<rparr>, nd_Type = ''maintenance''\<rparr>,
     nd_Status = \<lparr>nd_State = st, DisruptedDisruptionBudgets = NilSlice, DisruptedNodes = NilSlice,
       NextRetryDate = 0\<rparr>\<rparr>"

definition empty_budget_status :: DisruptionBudgetStatus where
  "empty_budget_status = \<lparr>WatchedNodes = NilSlice, DisruptionsAllowed = 0, CurrentDisruptions = 0,
     Disruptions = NilSlice\<rparr>"

definition sample_adb :: "string \<Rightarrow> gint \<Rightarrow> LabelSelector \<Rightarrow> ApplicationDisruptionBudget" where
  "sample_adb n limit sel = \<lparr>
     adb_meta = (named n)\<lparr>om_Kind := ''ApplicationDisruptionBudget'', om_Namespace := ''app''\<rparr>,
     adb_Spec = \<lparr>MaxDisruptions = limit, PodSelector = sel, PVCSelector = no_selector,
       HealthHook = \<lparr>CaBundle = '''', URL = ''''\<rparr>, HookV2BasePath = \<lparr>CaBundle = '''', URL = ''''\<rparr>,
       adb_SupportedNodeDisruptionTypes = [''maintenance'']\<rparr>,
     adb_Status = empty_budget_status\<rparr>"

definition sample_ndb :: "string \<Rightarrow> gint \<Rightarrow> gint \<Rightarrow> LabelSelector \<Rightarrow> NodeDisruptionBudget" where
  "sample_ndb n most least sel = \<lparr>
     ndb_meta = (named n)\<lparr>om_Kind := ''NodeDisruptionBudget''\<rparr>,
     ndb_Spec = \<lparr>MaxDisruptedNodes = most, MinUndisruptedNodes = least, ndb_NodeSelector = sel,
       ndb_SupportedNodeDisruptionTypes = [''maintenance'']\<rparr>,
     ndb_Status = empty_budget_status\<rparr>"

lemmas sample_env_defs = frozen_env_def frozen_kube_def frozen_net_def sample_env_def sample_kube_def sample_net_def sample_lib_def
  sample_selector_def sample_get_def sample_put_def sample_ns_def sample_list_def om_key_def
  meta_labels_def start_def

lemmas sample_object_defs = empty_cluster_def named_def any_of_def no_selector_def labelled_def
  sample_nd_def empty_budget_status_def sample_adb_def sample_ndb_def


definition sample_node :: "string \<Rightarrow> (string \<times> string) list \<Rightarrow> Node" where
  "sample_node n lbls = \<lparr>node_meta = (named n)\<lparr>om_Labels := Some (map_of lbls)\<rparr>\<rparr>"

definition sample_pod :: "string \<Rightarrow> (string \<times> string) list \<Rightarrow> string \<Rightarrow> Pod" where
  "sample_pod p lbls n = \<lparr>pod_meta = (named p)\<lparr>om_Namespace := ''app'', om_Labels := Some (map_of lbls)\<rparr>,
     pod_NodeName = n\<rparr>"

text \<open>
  The witnesses' cluster: the pods of an application run on \<open>n1\<close> and \<open>n2\<close>; every node is in one
  pool, and \<open>n1\<close>, \<open>n2\<close> are in rack \<open>a\<close>, \<open>n3\<close> in rack \<open>b\<close>.
\<close>

definition three_nodes :: cluster where
  "three_nodes = empty_cluster\<lparr>
     c_nodes := [sample_node ''n1'' [(''rack'', ''a''), (''pool'', ''p'')],
                 sample_node ''n2'' [(''rack'', ''a''), (''pool'', ''p'')],
                 sample_node ''n3'' [(''rack'', ''b''), (''pool'', ''p'')]],
     c_pods := [sample_pod ''p1'' [(''app'', ''x'')] ''n1'', sample_pod ''p2'' [(''app'', ''x'')] ''n2'']\<rparr>"

definition with_nodes :: "string list \<Rightarrow> NodeDisruption \<Rightarrow> NodeDisruption" where
  "with_nodes ns nd = nd\<lparr>nd_Status := (nd_Status nd)\<lparr>DisruptedNodes := Slice ns\<rparr>\<rparr>"

definition with_hooks :: "string \<Rightarrow> ApplicationDisruptionBudget \<Rightarrow> ApplicationDisruptionBudget" where
  "with_hooks base adb = adb\<lparr>adb_Spec := (adb_Spec adb)\<lparr>HookV2BasePath := \<lparr>CaBundle = '''', URL = base\<rparr>\<rparr>\<rparr>"

end
