(* ===== verification/Appmgr_Client.thy ===== *)
theory Appmgr_Client
  imports Sample_Env
begin

text \<open>
  The generated client of the application managers (\<open>internal/appmgrcli\<close>): the error texts and
  status codes of its typed responses, the three response readers, and the three operations that
  submit a \<open>Disruption\<close> to the \<open>/prepare\<close>, \<open>/ready\<close> and \<open>/terminate\<close> endpoints.  What the readers
  share is the locale \<open>response_reader\<close>; the operations' outcome is proved from it once.
\<close>

section \<open>Typed responses\<close>

fun Code :: "client_response \<Rightarrow> int" where
  "Code PrepareApplicationOK = 200"
| "Code PrepareApplicationFailedDependency = 424"
| "Code (PrepareApplicationStatus425 _) = 425"
| "Code (PrepareApplicationDefault statusCode _) = statusCode"
| "Code CheckReadinessOK = 200"
| "Code (CheckReadinessStatus425 _) = 425"
| "Code (CheckReadinessDefault statusCode _) = statusCode"
| "Code TerminateDisruptionOK = 200"
| "Code (TerminateDisruptionDefault statusCode _) = statusCode"

fun response_Error :: "lib \<Rightarrow> client_response \<Rightarrow> string" where
  "response_Error l PrepareApplicationOK = ''[POST /prepare][200] prepareApplicationOK''"
| "response_Error l PrepareApplicationFailedDependency =
     ''[POST /prepare][424] prepareApplicationFailedDependency''"
| "response_Error l (PrepareApplicationStatus425 _) = ''[POST /prepare][425] prepareApplicationStatus425''"
| "response_Error l (PrepareApplicationDefault statusCode payload) =
     ''[POST /prepare]['' @ Itoa statusCode @ ''] prepareApplication default '' @ json_quote l payload"
| "response_Error l CheckReadinessOK = ''[POST /ready][200] checkReadinessOK''"
| "response_Error l (CheckReadinessStatus425 _) = ''[POST /ready][425] checkReadinessStatus425''"
| "response_Error l (CheckReadinessDefault statusCode payload) =
     ''[POST /ready]['' @ Itoa statusCode @ ''] checkReadiness default '' @ json_quote l payload"
| "response_Error l TerminateDisruptionOK = ''[POST /terminate][200] terminateDisruptionOK''"
| "response_Error l (TerminateDisruptionDefault statusCode payload) =
     ''[POST /terminate]['' @ Itoa statusCode @ ''] terminateDisruption default '' @ json_quote l payload"

text \<open>The text of any error, as \<open>%s\<close> prints it.\<close>

fun error_string :: "lib \<Rightarrow> error \<Rightarrow> string" where
  "error_string l (NotFound s) = s"
| "error_string l (ErrLib s) = s"
| "error_string l (ErrText s) = s"
| "error_string l (APIError name response code) = APIError_Error l name response code"
| "error_string l (ErrResponse response) = response_Error l response"
| "error_string l (Panic s) = s"

section \<open>Readers\<close>

text \<open>A payload is consumed unless the body is empty; any other failure is returned.\<close>

fun read_payload :: "consumed \<Rightarrow> error + string" where
  "read_payload (Consumed payload) = Inr payload"
| "read_payload ConsumedEOF = Inr ''''"
| "read_payload (ConsumeError err) = Inl err"

definition read_RetryAfter :: "lib \<Rightarrow> http_response \<Rightarrow> error + gint" where
  "read_RetryAfter l response =
     (let hdrRetryAfter = rsp_Header response ''Retry-After'' in
      if hdrRetryAfter \<noteq> '''' then
        (case ConvertInt64 l hdrRetryAfter of
           Inl err \<Rightarrow> Inl (InvalidType l hdrRetryAfter)
         | Inr valretryAfter \<Rightarrow> Inr valretryAfter)
      else Inr 0)"

definition PrepareApplicationReader_ReadResponse :: "lib \<Rightarrow> http_response \<Rightarrow> error + client_response" where
  "PrepareApplicationReader_ReadResponse l response =
     (if rsp_Code response = 200 then Inr PrepareApplicationOK
      else if rsp_Code response = 424 then Inl (ErrResponse PrepareApplicationFailedDependency)
      else if rsp_Code response = 425 then
        (case read_RetryAfter l response of
           Inl err \<Rightarrow> Inl err
         | Inr retry \<Rightarrow> Inl (ErrResponse (PrepareApplicationStatus425 retry)))
      else
        (case read_payload (rsp_Body response) of
           Inl err \<Rightarrow> Inl err
         | Inr payload \<Rightarrow>
             let result = PrepareApplicationDefault (rsp_Code response) payload in
             if rsp_Code response sdiv 100 = 2 then Inr result else Inl (ErrResponse result)))"

definition CheckReadinessReader_ReadResponse :: "lib \<Rightarrow> http_response \<Rightarrow> error + client_response" where
  "CheckReadinessReader_ReadResponse l response =
     (if rsp_Code response = 200 then Inr CheckReadinessOK
      else if rsp_Code response = 425 then
        (case read_RetryAfter l response of
           Inl err \<Rightarrow> Inl err
         | Inr retry \<Rightarrow> Inl (ErrResponse (CheckReadinessStatus425 retry)))
      else
        (case read_payload (rsp_Body response) of
           Inl err \<Rightarrow> Inl err
         | Inr payload \<Rightarrow>
             let result = CheckReadinessDefault (rsp_Code response) payload in
             if rsp_Code response sdiv 100 = 2 then Inr result else Inl (ErrResponse result)))"

definition TerminateDisruptionReader_ReadResponse :: "lib \<Rightarrow> http_response \<Rightarrow> error + client_response" where
  "TerminateDisruptionReader_ReadResponse l response =
     (if rsp_Code response = 200 then Inr TerminateDisruptionOK
      else
        (case read_payload (rsp_Body response) of
           Inl err \<Rightarrow> Inl err
         | Inr payload \<Rightarrow>
             let result = TerminateDisruptionDefault (rsp_Code response) payload in
             if rsp_Code response sdiv 100 = 2 then Inr result else Inl (ErrResponse result)))"

section \<open>Operations\<close>

text \<open>
  \<open>transport.Submit(op)\<close> sends the request and hands the response to the operation's reader; the
  trace records the request and the status code it got.
\<close>

definition Submit :: "'x env \<Rightarrow> transport \<Rightarrow> ClientOperation \<Rightarrow>
    (http_response \<Rightarrow> error + client_response) \<Rightarrow> ('x, error + client_response) act" where
  "Submit env tr oper reader = do {
     r \<leftarrow> ask (net_roundtrip (net env) tr oper);
     emit (HookCall tr oper (case r of Inl e \<Rightarrow> Inl e | Inr response \<Rightarrow> Inr (rsp_Code response)));
     ret (case r of Inl e \<Rightarrow> Inl e | Inr response \<Rightarrow> reader response) }"

definition NewParams :: "lib \<Rightarrow> HookParams" where
  "NewParams l = \<lparr>Body = None, hp_timeout = DefaultTimeout l, HTTPClient = None\<rparr>"

definition hook_operation :: "string \<Rightarrow> string \<Rightarrow> HookParams \<Rightarrow> ClientOperation" where
  "hook_operation operID path params = \<lparr>op_ID = operID, op_Method = ''POST'', op_PathPattern = path,
     op_Produces = [''application/json''], op_Consumes = [''application/json''],
     op_Schemes = [''https''], op_Params = params\<rparr>"

text \<open>
  After \<open>Submit\<close>: the typed success is returned, an unexpected success becomes an \<open>APIError\<close>, and
  the type assertion on anything else panics.
\<close>

definition typed_result :: "client_response \<Rightarrow> (client_response \<Rightarrow> int option) \<Rightarrow>
    error + client_response \<Rightarrow> error + client_response" where
  "typed_result success default_code r =
     (case r of
        Inl err \<Rightarrow> Inl err
      | Inr result \<Rightarrow>
          if result = success then Inr result
          else (case default_code result of
             Some code \<Rightarrow> Inl (APIError
               ''unexpected success response: content available as default response in error'' result code)
           | None \<Rightarrow> Inl (Panic ''interface conversion'')))"

fun prepare_default_code :: "client_response \<Rightarrow> int option" where
  "prepare_default_code (PrepareApplicationDefault code _) = Some code"
| "prepare_default_code _ = None"

fun ready_default_code :: "client_response \<Rightarrow> int option" where
  "ready_default_code (CheckReadinessDefault code _) = Some code"
| "ready_default_code _ = None"

fun terminate_default_code :: "client_response \<Rightarrow> int option" where
  "terminate_default_code (TerminateDisruptionDefault code _) = Some code"
| "terminate_default_code _ = None"

definition apply_options :: "(ClientOperation \<Rightarrow> ClientOperation) list \<Rightarrow> ClientOperation \<Rightarrow> ClientOperation" where
  "apply_options opts oper = foldl (\<lambda>oper opt. opt oper) oper opts"

definition CheckReadiness :: "'x env \<Rightarrow> transport \<Rightarrow> HookParams option \<Rightarrow>
    (ClientOperation \<Rightarrow> ClientOperation) list \<Rightarrow> ('x, error + client_response) act" where
  "CheckReadiness env tr params opts = do {
     let params = (case params of None \<Rightarrow> NewParams (lib env) | Some p \<Rightarrow> p);
     let oper = apply_options opts (hook_operation ''checkReadiness'' ''/ready'' params);
     r \<leftarrow> Submit env tr oper (CheckReadinessReader_ReadResponse (lib env));
     ret (typed_result CheckReadinessOK ready_default_code r) }"

definition PrepareApplication :: "'x env \<Rightarrow> transport \<Rightarrow> HookParams option \<Rightarrow>
    (ClientOperation \<Rightarrow> ClientOperation) list \<Rightarrow> ('x, error + client_response) act" where
  "PrepareApplication env tr params opts = do {
     let params = (case params of None \<Rightarrow> NewParams (lib env) | Some p \<Rightarrow> p);
     let oper = apply_options opts (hook_operation ''prepareApplication'' ''/prepare'' params);
     r \<leftarrow> Submit env tr oper (PrepareApplicationReader_ReadResponse (lib env));
     ret (typed_result PrepareApplicationOK prepare_default_code r) }"

definition TerminateDisruption :: "'x env \<Rightarrow> transport \<Rightarrow> HookParams option \<Rightarrow>
    (ClientOperation \<Rightarrow> ClientOperation) list \<Rightarrow> ('x, error + client_response) act" where
  "TerminateDisruption env tr params opts = do {
     let params = (case params of None \<Rightarrow> NewParams (lib env) | Some p \<Rightarrow> p);
     let oper = apply_options opts (hook_operation ''terminateDisruption'' ''/terminate'' params);
     r \<leftarrow> Submit env tr oper (TerminateDisruptionReader_ReadResponse (lib env));
     ret (typed_result TerminateDisruptionOK terminate_default_code r) }"

section \<open>The contract of the readers\<close>

locale response_reader =
  fixes read :: "lib \<Rightarrow> http_response \<Rightarrow> error + client_response"
    and success :: client_response
    and default_code :: "client_response \<Rightarrow> int option"
  assumes read_200: "rsp_Code r = 200 \<Longrightarrow> read l r = Inr success"
    and read_other: "rsp_Code r \<noteq> 200 \<Longrightarrow> read l r = Inr x \<Longrightarrow>
      default_code x = Some (rsp_Code r) \<and> rsp_Code r sdiv 100 = 2"
    and success_not_default: "default_code success = None"
    and reads_no_api_error: "read l r = Inl (APIError n x c) \<Longrightarrow>
      (\<exists>e. rsp_Body r = ConsumeError e) \<or> (\<exists>h. InvalidType l h = APIError n x c)"
begin

lemma result_success_iff:
  "typed_result success default_code (read l r) = Inr y \<longleftrightarrow> y = success \<and> rsp_Code r = 200"
proof (cases "rsp_Code r = 200")
  case True
  then show ?thesis by (auto simp: read_200 typed_result_def)
next
  case False
  have "\<nexists>y. typed_result success default_code (read l r) = Inr y"
  proof (cases "read l r")
    case (Inr x)
    with False have "default_code x = Some (rsp_Code r)" using read_other by blast
    then show ?thesis using Inr success_not_default by (auto simp: typed_result_def)
  qed (simp add: typed_result_def)
  with False show ?thesis by auto
qed

lemma result_unexpected_success:
  assumes "rsp_Code r \<noteq> 200" and "read l r = Inr x"
  shows "typed_result success default_code (read l r) = Inl (APIError
     ''unexpected success response: content available as default response in error'' x (rsp_Code r))"
proof -
  from read_other [OF assms] have "default_code x = Some (rsp_Code r)" by simp
  then show ?thesis using assms(2) success_not_default by (auto simp: typed_result_def)
qed

lemma result_error: "read l r = Inl e \<Longrightarrow> typed_result success default_code (read l r) = Inl e"
  by (simp add: typed_result_def)

lemma submit_outcome:
  "sat (do { r \<leftarrow> Submit env tr oper (read l); ret (typed_result success default_code r) })
     (\<lambda>r es. \<exists>out. es = [HookCall tr oper out] \<and> ((\<exists>y. r = Inr y) \<longleftrightarrow> out = Inr 200))"
  unfolding Submit_def
  by (auto simp: result_success_iff intro!: sat_intros split: sum.splits)
    (simp_all add: typed_result_def)

text \<open>The type assertion of the operation never fails.\<close>

lemma result_no_new_panic:
  assumes "typed_result success default_code (read l r) = Inl (Panic s)"
  shows "read l r = Inl (Panic s)"
proof (cases "read l r")
  case (Inr x)
  then show ?thesis
    using assms read_200 [of r l] result_unexpected_success [of r l x]
    by (cases "rsp_Code r = 200") (auto simp: typed_result_def)
qed (use assms in \<open>simp add: typed_result_def\<close>)

end

interpretation prepare: response_reader PrepareApplicationReader_ReadResponse
    PrepareApplicationOK prepare_default_code
  by unfold_locales
    (auto simp: PrepareApplicationReader_ReadResponse_def read_RetryAfter_def Let_def
      split: if_splits sum.splits elim: read_payload.elims)

interpretation ready: response_reader CheckReadinessReader_ReadResponse
    CheckReadinessOK ready_default_code
  by unfold_locales
    (auto simp: CheckReadinessReader_ReadResponse_def read_RetryAfter_def Let_def
      split: if_splits sum.splits elim: read_payload.elims)

interpretation terminate: response_reader TerminateDisruptionReader_ReadResponse
    TerminateDisruptionOK terminate_default_code
  by unfold_locales
    (auto simp: TerminateDisruptionReader_ReadResponse_def read_RetryAfter_def Let_def
      split: if_splits sum.splits elim: read_payload.elims)

section \<open>The outcome of the operations\<close>

text \<open>
  Each of the three operations performs exactly one request, on its own endpoint, and succeeds
  exactly when the application manager answers with status code 200: every other code, the other
  2xx included, and every transport failure is an error.
\<close>

theorem operations_succeed_on_200:
  "sat (PrepareApplication env tr params opts) (\<lambda>r es. \<exists>p out.
     es = [HookCall tr (apply_options opts (hook_operation ''prepareApplication'' ''/prepare'' p)) out] \<and>
     ((\<exists>y. r = Inr y) \<longleftrightarrow> out = Inr 200))
   \<and> sat (CheckReadiness env tr params opts) (\<lambda>r es. \<exists>p out.
     es = [HookCall tr (apply_options opts (hook_operation ''checkReadiness'' ''/ready'' p)) out] \<and>
     ((\<exists>y. r = Inr y) \<longleftrightarrow> out = Inr 200))
   \<and> sat (TerminateDisruption env tr params opts) (\<lambda>r es. \<exists>p out.
     es = [HookCall tr (apply_options opts (hook_operation ''terminateDisruption'' ''/terminate'' p)) out] \<and>
     ((\<exists>y. r = Inr y) \<longleftrightarrow> out = Inr 200))"
  unfolding PrepareApplication_def CheckReadiness_def TerminateDisruption_def Let_def
  by (intro conjI; rule sat_weaken [OF prepare.submit_outcome] sat_weaken [OF ready.submit_outcome]
        sat_weaken [OF terminate.submit_outcome]; blast)

lemma operation_params:
  "sat (PrepareApplication env tr (Some p) []) (\<lambda>r es. \<exists>out.
     es = [HookCall tr (hook_operation ''prepareApplication'' ''/prepare'' p) out] \<and>
     ((\<exists>y. r = Inr y) \<longleftrightarrow> out = Inr 200))"
  "sat (CheckReadiness env tr (Some p) []) (\<lambda>r es. \<exists>out.
     es = [HookCall tr (hook_operation ''checkReadiness'' ''/ready'' p) out] \<and>
     ((\<exists>y. r = Inr y) \<longleftrightarrow> out = Inr 200))"
  "sat (TerminateDisruption env tr (Some p) []) (\<lambda>r es. \<exists>out.
     es = [HookCall tr (hook_operation ''terminateDisruption'' ''/terminate'' p) out] \<and>
     ((\<exists>y. r = Inr y) \<longleftrightarrow> out = Inr 200))"
  unfolding PrepareApplication_def CheckReadiness_def TerminateDisruption_def Let_def apply_options_def
  using prepare.submit_outcome ready.submit_outcome terminate.submit_outcome by simp_all

text \<open>
  The type assertions of the operations on an unexpected success never panic: an operation
  panics exactly where the reader of the response already reported a panic of the library.
\<close>

theorem operations_never_panic:
  "(typed_result PrepareApplicationOK prepare_default_code (PrepareApplicationReader_ReadResponse l r)
      = Inl (Panic s)) = (PrepareApplicationReader_ReadResponse l r = Inl (Panic s))
   \<and> (typed_result CheckReadinessOK ready_default_code (CheckReadinessReader_ReadResponse l r)
      = Inl (Panic s)) = (CheckReadinessReader_ReadResponse l r = Inl (Panic s))
   \<and> (typed_result TerminateDisruptionOK terminate_default_code (TerminateDisruptionReader_ReadResponse l r)
      = Inl (Panic s)) = (TerminateDisruptionReader_ReadResponse l r = Inl (Panic s))"
  using prepare.result_no_new_panic prepare.result_error ready.result_no_new_panic ready.result_error
    terminate.result_no_new_panic terminate.result_error
  by blast

end
