(* ===== verification/Application_Budget.thy ===== *)
theory Application_Budget
  imports Resolver Appmgr_Client
begin

text \<open>
  The resolver of an \<open>ApplicationDisruptionBudget\<close>
  (\<open>ApplicationDisruptionBudgetResolver\<close> of \<open>applicationdisruptionbudget_controller.go\<close>): the nodes
  it watches, the disruptions it counts, the decision whether it tolerates one more, and its hooks.
\<close>

record ADBResolver =
  adbr_ADB :: ApplicationDisruptionBudget
  hookCli :: "transport option"

abbreviation adbr_Spec :: "ADBResolver \<Rightarrow> ApplicationDisruptionBudgetSpec" where
  "adbr_Spec r \<equiv> adb_Spec (adbr_ADB r)"

abbreviation adbr_Status :: "ADBResolver \<Rightarrow> DisruptionBudgetStatus" where
  "adbr_Status r \<equiv> adb_Status (adbr_ADB r)"

section \<open>Watched nodes and disruptions\<close>

definition adb_GetSelectedNodes :: "'x env \<Rightarrow> ADBResolver \<Rightarrow> ('x, error + NodeSet) act" where
  "adb_GetSelectedNodes env r = do {
     pods \<leftarrow> GetNodesFromNamespacedPodSelector env (PodSelector (adbr_Spec r)) (om_Namespace (adb_meta (adbr_ADB r)));
     (case pods of
        Inl err \<Rightarrow> ret (Inl err)
      | Inr nodesFromPods \<Rightarrow> do {
          pvcs \<leftarrow> GetNodesFromNamespacedPVCSelector env (PVCSelector (adbr_Spec r)) (om_Namespace (adb_meta (adbr_ADB r)));
          (case pvcs of
             Inl err \<Rightarrow> ret (Inl err)
           | Inr nodesFromPVCs \<Rightarrow> ret (Inr (Union nodesFromPods nodesFromPVCs))) }) }"

text \<open>
  The loop over all node disruptions, which is the same text in the resolvers of the two kinds of
  budget: those not yet reconciled are skipped, the impacting ones are listed, and the granted ones
  among them are counted.
\<close>

fun disruption_loop :: "'x env \<Rightarrow> NodeSet \<Rightarrow> NodeDisruption list \<Rightarrow> gint \<Rightarrow> Disruption list \<Rightarrow>
    ('x, error + (gint \<times> Disruption list)) act" where
  "disruption_loop env selectedNodes [] disruptionCount disruptions = ret (Inr (disruptionCount, disruptions))"
| "disruption_loop env selectedNodes (nd # nds) disruptionCount disruptions =
     (if nd_State (nd_Status nd) = Unknown
      then disruption_loop env selectedNodes nds disruptionCount disruptions
      else do {
        r \<leftarrow> GetNodeFromNodeSelector env (nd_NodeSelector (nd_Spec nd));
        (case r of
           Inl err \<Rightarrow> ret (Inl err)
         | Inr impactedNodes \<Rightarrow>
             if Len (Intersection selectedNodes impactedNodes) > 0
             then disruption_loop env selectedNodes nds
               (if nd_State (nd_Status nd) = Granted then disruptionCount + 1 else disruptionCount)
               (disruptions @ [\<lparr>d_Name = om_Name (nd_meta nd), d_State = state_string (nd_State (nd_Status nd))\<rparr>])
             else disruption_loop env selectedNodes nds disruptionCount disruptions) })"

definition adb_ResolveDisruption :: "'x env \<Rightarrow> ADBResolver \<Rightarrow> ('x, error + (gint \<times> Disruption list)) act" where
  "adb_ResolveDisruption env r = do {
     selected \<leftarrow> adb_GetSelectedNodes env r;
     (case selected of
        Inl err \<Rightarrow> ret (Inl err)
      | Inr selectedNodes \<Rightarrow> do {
          nodeDisruptions \<leftarrow> ask (list_nd (kube env));
          (case nodeDisruptions of
             Inl err \<Rightarrow> ret (Inl err)
           | Inr items \<Rightarrow> disruption_loop env selectedNodes items 0 []) }) }"

definition adb_Sync :: "'x env \<Rightarrow> ADBResolver \<Rightarrow> ('x, error + ADBResolver) act" where
  "adb_Sync env r = do {
     selected \<leftarrow> adb_GetSelectedNodes env r;
     (case selected of
        Inl err \<Rightarrow> ret (Inl err)
      | Inr nodeNames \<Rightarrow> do {
          let nodes = NodeSetToStringList nodeNames;
          resolved \<leftarrow> adb_ResolveDisruption env r;
          (case resolved of
             Inl err \<Rightarrow> ret (Inl err)
           | Inr (disruptionCount, disruptions) \<Rightarrow>
               ret (Inr (r\<lparr>adbr_ADB := (adbr_ADB r)\<lparr>adb_Status := (adbr_Status r)\<lparr>
                 WatchedNodes := Slice nodes,
                 CurrentDisruptions := disruptionCount,
                 DisruptionsAllowed := MaxDisruptions (adbr_Spec r) - disruptionCount,
                 Disruptions := Slice disruptions\<rparr>\<rparr>\<rparr>))) }) }"

definition adb_IsImpacted :: "ADBResolver \<Rightarrow> NodeSet \<Rightarrow> bool" where
  "adb_IsImpacted r disruptedNodes =
     (let watchedNodes = NewNodeSetFromStringList (elems (WatchedNodes (adbr_Status r)))
      in Len (Intersection watchedNodes disruptedNodes) > 0)"

definition adb_TolerateDisruption :: "ADBResolver \<Rightarrow> NodeSet \<Rightarrow> bool" where
  "adb_TolerateDisruption r disruptedNodes = (0 \<le> sint (DisruptionsAllowed (adbr_Status r) - 1))"

definition adb_UpdateStatus :: "'x env \<Rightarrow> ADBResolver \<Rightarrow> ('x, error option) act" where
  "adb_UpdateStatus env r = StatusUpdate_adb env (adbr_ADB r)"

definition adb_GetNamespacedName :: "ADBResolver \<Rightarrow> NamespacedName" where
  "adb_GetNamespacedName r = \<lparr>ref_Namespace = om_Namespace (adb_meta (adbr_ADB r)),
     ref_Name = om_Name (adb_meta (adbr_ADB r)), ref_Kind = om_Kind (adb_meta (adbr_ADB r))\<rparr>"

definition adb_GetSupportedDisruptionTypes :: "ADBResolver \<Rightarrow> string list" where
  "adb_GetSupportedDisruptionTypes r = adb_SupportedNodeDisruptionTypes (adbr_Spec r)"

section \<open>Hooks of version 2\<close>

definition adb_V2HooksReady :: "ADBResolver \<Rightarrow> bool" where
  "adb_V2HooksReady r = (URL (HookV2BasePath (adbr_Spec r)) \<noteq> '''')"

text \<open>The client is built from the base path the first time, and kept in the resolver.\<close>

definition hookClient :: "lib \<Rightarrow> ADBResolver \<Rightarrow> error + (transport \<times> ADBResolver)" where
  "hookClient l r =
     (case hookCli r of
        Some cli \<Rightarrow> Inr (cli, r)
      | None \<Rightarrow>
          (case url_Parse l (URL (HookV2BasePath (adbr_Spec r))) of
             Inl err \<Rightarrow> Inl err
           | Inr u \<Rightarrow>
               (let cli = \<lparr>Host = url_Host u, BasePath = url_Path u, Schemes = [url_Scheme u]\<rparr>
                in Inr (cli, r\<lparr>hookCli := Some cli\<rparr>))))"

definition hookBody :: "lib \<Rightarrow> ADBResolver \<Rightarrow> NodeDisruption \<Rightarrow> AppDisruption" where
  "hookBody l r nd =
     (let labels = (case om_Labels (nd_meta nd) of None \<Rightarrow> Map.empty | Some ls \<Rightarrow> ls);
          watchedNodes = NewNodeSetFromStringList (elems (WatchedNodes (adbr_Status r)))
      in \<lparr>CreatedBy = (case labels ''app.kubernetes.io/created-by'' of None \<Rightarrow> '''' | Some v \<Rightarrow> v),
          CreationDate = om_CreationTimestamp (nd_meta nd),
          DeadlineDate = Deadline (Retry (nd_Spec nd)),
          ad_Duration = Seconds_int64 l (Duration (nd_Spec nd)),
          ad_Name = om_Name (nd_meta nd),
          Nodes = NodeSetToStringList (Intersection watchedNodes
            (NewNodeSetFromStringList (elems (DisruptedNodes (nd_Status nd))))),
          ad_StartDate = StartDate (nd_Spec nd),
          ad_Type = nd_Type (nd_Spec nd),
          ad_UID = om_UID (nd_meta nd)\<rparr>)"

definition hook_params :: "lib \<Rightarrow> ADBResolver \<Rightarrow> NodeDisruption \<Rightarrow> duration \<Rightarrow> HookParams" where
  "hook_params l r nd timeout =
     \<lparr>Body = Some (hookBody l r nd), hp_timeout = 0, HTTPClient = Some timeout\<rparr>"

text \<open>The status code that the deferred metric call of a hook reports.\<close>

definition hook_statusCode :: "error + 'a \<Rightarrow> int" where
  "hook_statusCode res = (case res of Inl (APIError name response code) \<Rightarrow> code | _ \<Rightarrow> 200)"

definition hook_metric :: "metric_vec \<Rightarrow> ADBResolver \<Rightarrow> int \<Rightarrow> metric_cmd" where
  "hook_metric vec r statusCode =
     Inc vec (ref_values (adb_GetNamespacedName r) @ [Itoa statusCode])"

definition adb_CallPrepareHook :: "'x env \<Rightarrow> ADBResolver \<Rightarrow> NodeDisruption \<Rightarrow> duration \<Rightarrow>
    ('x, error option \<times> ADBResolver) act" where
  "adb_CallPrepareHook env r nd timeout =
     (case hookClient (lib env) r of
        Inl err \<Rightarrow> ret (Some err, r)
      | Inr (svc, r) \<Rightarrow> do {
          res \<leftarrow> PrepareApplication env svc (Some (hook_params (lib env) r nd timeout)) [];
          metrics [hook_metric DisruptionBudgetCheckPrepareHookStatusCodeTotal r (hook_statusCode res)];
          ret (case res of
                 Inr _ \<Rightarrow> None
               | Inl (ErrResponse (PrepareApplicationStatus425 RetryAfter)) \<Rightarrow>
                   Some (ErrText (''retry later, in '' @ Itoa (sint RetryAfter) @ '' seconds''))
               | Inl err \<Rightarrow> Some err, r) })"

definition adb_CallReadyHook :: "'x env \<Rightarrow> ADBResolver \<Rightarrow> NodeDisruption \<Rightarrow> duration \<Rightarrow>
    ('x, error option \<times> ADBResolver) act" where
  "adb_CallReadyHook env r nd timeout =
     (case hookClient (lib env) r of
        Inl err \<Rightarrow> ret (Some err, r)
      | Inr (svc, r) \<Rightarrow> do {
          res \<leftarrow> CheckReadiness env svc (Some (hook_params (lib env) r nd timeout)) [];
          metrics [hook_metric DisruptionBudgetCheckReadyHookStatusCodeTotal r (hook_statusCode res)];
          ret (case res of
                 Inr _ \<Rightarrow> None
               | Inl (ErrResponse (CheckReadinessStatus425 RetryAfter)) \<Rightarrow>
                   Some (ErrText (''retry later, in '' @ Itoa (sint RetryAfter) @ '' seconds''))
               | Inl err \<Rightarrow> Some err, r) })"

definition adb_CallTerminateHook :: "'x env \<Rightarrow> ADBResolver \<Rightarrow> NodeDisruption \<Rightarrow> duration \<Rightarrow>
    ('x, error option \<times> ADBResolver) act" where
  "adb_CallTerminateHook env r nd timeout =
     (case hookClient (lib env) r of
        Inl err \<Rightarrow> ret (Some err, r)
      | Inr (svc, r) \<Rightarrow> do {
          res \<leftarrow> TerminateDisruption env svc (Some (hook_params (lib env) r nd timeout)) [];
          metrics [hook_metric DisruptionBudgetCheckTerminateHookStatusCodeTotal r (hook_statusCode res)];
          ret (err_of res, r) })"

section \<open>The legacy health hook\<close>

definition adb_CallHealthHook :: "'x env \<Rightarrow> ADBResolver \<Rightarrow> NodeDisruption \<Rightarrow> duration \<Rightarrow>
    ('x, error option) act" where
  "adb_CallHealthHook env r nd timeout =
     (let url = URL (HealthHook (adbr_Spec r));
          namespacedName = adb_GetNamespacedName r;
          count_error = metrics [Inc DisruptionBudgetCheckHealthHookErrorTotal (ref_values namespacedName)]
      in if url = '''' then ret None
      else (case json_Marshal (lib env) nd of
        Inl err \<Rightarrow> ret (Some err)
      | Inr data \<Rightarrow>
          (case NewRequest (lib env) url of
             Some err \<Rightarrow> do { count_error; ret (Some err) }
           | None \<Rightarrow> do {
               resp \<leftarrow> ask (http_Do (net env) url data [(''Content-Type'', [''application/json''])] timeout);
               emit (HealthCall url data (case resp of Inl e \<Rightarrow> Inl e | Inr rsp \<Rightarrow> Inr (StatusCode rsp)));
               (case resp of
                  Inl err \<Rightarrow> do { count_error; ret (Some err) }
                | Inr rsp \<Rightarrow> do {
                    body \<leftarrow> ask (io_ReadAll (net env) rsp);
                    (case body of
                       Inl err \<Rightarrow> do { count_error; ret (Some err) }
                     | Inr text \<Rightarrow> do {
                         metrics [Inc DisruptionBudgetCheckHealthHookStatusCodeTotal
                           (ref_values namespacedName @ [Itoa (StatusCode rsp)])];
                         ret (if StatusCode rsp \<ge> 200 \<and> StatusCode rsp < 300 then None
                              else Some (ErrText (''http server responded with non 2XX status code: '' @ text))) }) }) })))"

section \<open>Counting disruptions\<close>

definition granted_count :: "Disruption list \<Rightarrow> nat" where
  "granted_count ds = length (filter (\<lambda>d. d_State d = state_string Granted) ds)"

lemma granted_count_simps [simp]:
  "granted_count [] = 0"
  "granted_count (ds @ [d]) = granted_count ds + (if d_State d = state_string Granted then 1 else 0)"
  by (simp_all add: granted_count_def)

lemma state_string_granted [simp]: "state_string s = ''granted'' \<longleftrightarrow> s = Granted"
  by (cases s) simp_all

lemma disruption_loop_silent [silent_intros]:
  "only P (disruption_loop env selectedNodes nds n ds)"
  by (induction nds arbitrary: n ds) (auto intro!: silent_intros)

lemma adb_selected_silent [silent_intros]: "only P (adb_GetSelectedNodes env r)"
  unfolding adb_GetSelectedNodes_def by (auto intro!: silent_intros)

lemma adb_resolve_silent [silent_intros]: "only P (adb_ResolveDisruption env r)"
  unfolding adb_ResolveDisruption_def by (auto intro!: silent_intros)

lemma adb_Sync_silent [silent_intros]: "only P (adb_Sync env r)"
  unfolding adb_Sync_def by (auto intro!: silent_intros)

text \<open>The counter of the loop is the number of granted disruptions it lists.\<close>

lemma sat_resolver_bind:
  assumes "\<And>r. sat (f r) R"
  shows "sat (State_Monad.bind (GetNodeFromNodeSelector env sel) f) R"
proof (rule sat_bind)
  show "sat (GetNodeFromNodeSelector env sel) (\<lambda>_ es. es = [])"
    using resolver_silent(1) [of "\<lambda>_. False" env sel] unfolding only_def
    by (rule sat_weaken) (simp add: list_all_iff)
qed (use assms in simp)

lemma disruption_loop_count:
  "n = word_of_nat (granted_count ds) \<Longrightarrow>
   sat (disruption_loop env selectedNodes nds n ds)
     (\<lambda>res _. on_success (\<lambda>(n', ds'). n' = word_of_nat (granted_count ds')) res)"
proof (induction nds arbitrary: n ds)
  case Nil
  then show ?case by (simp add: sat_ret)
next
  case (Cons nd nds)
  then show ?case
    by (auto intro!: sat_intros sat_resolver_bind Cons.IH simp: add.commute)
qed

section \<open>Synchronisation\<close>

text \<open>The part of a synchronised status that both kinds of budget share.\<close>

definition status_consistent :: "DisruptionBudgetStatus \<Rightarrow> bool" where
  "status_consistent st \<longleftrightarrow> (\<exists>nodes ds.
     WatchedNodes st = Slice nodes \<and> sorted nodes \<and> distinct nodes \<and>
     Disruptions st = Slice ds \<and> CurrentDisruptions st = word_of_nat (granted_count ds))"

lemma adb_ResolveDisruption_count:
  "sat (adb_ResolveDisruption env r)
     (\<lambda>res _. on_success (\<lambda>(n, ds). n = word_of_nat (granted_count ds)) res)"
  unfolding adb_ResolveDisruption_def
  by (auto intro!: sat_intros silent_intros disruption_loop_count
      sat_silent_bind [where Q = "\<lambda>_. True"] sat_trivial [where P = "\<lambda>_. False"])

text \<open>
  Whatever the API answers, a successful \<open>Sync\<close> of an application budget leaves a consistent status;
  nothing else of the budget changes and nothing is written to the API.
\<close>

lemma adb_Sync_keeps:
  "sat (adb_Sync env r) (\<lambda>res es. es = [] \<and>
     on_success (\<lambda>r'. status_consistent (adbr_Status r') \<and>
       DisruptionsAllowed (adbr_Status r') = MaxDisruptions (adbr_Spec r) - CurrentDisruptions (adbr_Status r') \<and>
       adbr_Spec r' = adbr_Spec r \<and> adb_meta (adbr_ADB r') = adb_meta (adbr_ADB r) \<and>
       hookCli r' = hookCli r) res)"
proof (rule sat_silent)
  show "only (\<lambda>_. False) (adb_Sync env r)" by (rule adb_Sync_silent)
  show "sat (adb_Sync env r) (\<lambda>res _. on_success (\<lambda>r'. status_consistent (adbr_Status r') \<and>
       DisruptionsAllowed (adbr_Status r') = MaxDisruptions (adbr_Spec r) - CurrentDisruptions (adbr_Status r') \<and>
       adbr_Spec r' = adbr_Spec r \<and> adb_meta (adbr_ADB r') = adb_meta (adbr_ADB r) \<and>
       hookCli r' = hookCli r) res)"
    unfolding adb_Sync_def Let_def
    by (intro sat_intros sat_silent_bind [OF adb_selected_silent, where Q = "\<lambda>_. True"]
        sat_silent_bind [OF adb_resolve_silent adb_ResolveDisruption_count] sat_trivial [OF adb_selected_silent])
      (auto intro!: sat_intros simp: status_consistent_def ns.to_list_sorted ns.to_list_distinct split: sum.splits)
qed

text \<open>
  The pure reading of the loop: the disruptions that count for a set of watched nodes, for a
  function giving the nodes of each disruption.
\<close>

definition impacting :: "(NodeDisruption \<Rightarrow> NodeSet) \<Rightarrow> NodeSet \<Rightarrow> NodeDisruption \<Rightarrow> bool" where
  "impacting nodes_of selected nd \<longleftrightarrow>
     nd_State (nd_Status nd) \<noteq> Unknown \<and> Len (Intersection selected (nodes_of nd)) > 0"

definition disruption_entry :: "NodeDisruption \<Rightarrow> Disruption" where
  "disruption_entry nd =
     \<lparr>d_Name = om_Name (nd_meta nd), d_State = state_string (nd_State (nd_Status nd))\<rparr>"

definition granted_on :: "(NodeDisruption \<Rightarrow> NodeSet) \<Rightarrow> NodeSet \<Rightarrow> NodeDisruption list \<Rightarrow> NodeDisruption list" where
  "granted_on nodes_of selected nds =
     filter (\<lambda>nd. impacting nodes_of selected nd \<and> nd_State (nd_Status nd) = Granted) nds"

lemma disruption_loop_still:
  assumes stable: "nodes_stable env x"
    and nodes: "\<And>nd. nd \<in> set nds \<Longrightarrow> nodes_for env x (nd_NodeSelector (nd_Spec nd)) = Inr (nodes_of nd)"
  shows "still x (disruption_loop env selected nds n ds)
     (Inr (n + word_of_nat (length (granted_on nodes_of selected nds)),
           ds @ map disruption_entry (filter (impacting nodes_of selected) nds)))"
  using nodes
proof (induction nds arbitrary: n ds)
  case Nil
  then show ?case by (simp add: still_ret granted_on_def)
next
  case (Cons nd nds)
  have IH: "still x (disruption_loop env selected nds n ds)
     (Inr (n + word_of_nat (length (granted_on nodes_of selected nds)),
           ds @ map disruption_entry (filter (impacting nodes_of selected) nds)))" for n ds
    using Cons by simp
  have nd: "nodes_for env x (nd_NodeSelector (nd_Spec nd)) = Inr (nodes_of nd)"
    using Cons.prems by simp
  show ?case
  proof (cases "nd_State (nd_Status nd) = Unknown")
    case True
    then show ?thesis using IH by (simp add: granted_on_def impacting_def [of nodes_of selected nd])
  next
    case False
    then show ?thesis
      using IH [of "n + 1" "ds @ [disruption_entry nd]"] IH [of n "ds @ [disruption_entry nd]"] IH [of n ds] nd
      by (auto simp: granted_on_def impacting_def [of nodes_of selected nd] disruption_entry_def [of nd]
          add.assoc intro!: still_bind [OF still_nodes [OF stable]])
  qed
qed


lemma steady_adb_selected [steady_intros]:
  "reads_stable env x \<Longrightarrow> steady x (adb_GetSelectedNodes env r)"
  unfolding adb_GetSelectedNodes_def by (auto intro!: steady_intros)

text \<open>The nodes an application budget selects in state \<open>x\<close> of the cluster.\<close>

definition adb_nodes_for :: "'x env \<Rightarrow> 'x \<Rightarrow> ADBResolver \<Rightarrow> error + NodeSet" where
  "adb_nodes_for env x r = fst (run_state (adb_GetSelectedNodes env r) (start x))"

lemma still_adb_selected:
  "reads_stable env x \<Longrightarrow> still x (adb_GetSelectedNodes env r) (adb_nodes_for env x r)"
  unfolding adb_nodes_for_def start_def by (rule steady_still) (rule steady_intros)

text \<open>The status that \<open>Sync\<close> computes in a cluster that does not change during the call.\<close>

lemma adb_Sync_still:
  assumes stable: "nodes_stable env x"
    and selected: "still x (adb_GetSelectedNodes env r) (Inr selected)"
    and listed: "list_nd (kube env) x = (Inr nds, x)"
    and nodes: "\<And>nd. nd \<in> set nds \<Longrightarrow> nodes_for env x (nd_NodeSelector (nd_Spec nd)) = Inr (nodes_of nd)"
  shows "still x (adb_Sync env r) (Inr (r\<lparr>adbr_ADB := (adbr_ADB r)\<lparr>adb_Status := \<lparr>
     WatchedNodes = Slice (NodeSetToStringList selected),
     DisruptionsAllowed = MaxDisruptions (adbr_Spec r) - word_of_nat (length (granted_on nodes_of selected nds)),
     CurrentDisruptions = word_of_nat (length (granted_on nodes_of selected nds)),
     Disruptions = Slice (map disruption_entry (filter (impacting nodes_of selected) nds))\<rparr>\<rparr>\<rparr>))"
proof -
  have resolve: "still x (adb_ResolveDisruption env r) (Inr (word_of_nat (length (granted_on nodes_of selected nds)),
      map disruption_entry (filter (impacting nodes_of selected) nds)))"
    using disruption_loop_still [OF stable nodes, where n = 0 and ds = "[]"]
    unfolding adb_ResolveDisruption_def
    by (auto intro!: still_bind [OF selected] still_bind [OF still_ask [where f = "list_nd (kube env)", OF listed]])
  have fields: "st\<lparr>WatchedNodes := a, CurrentDisruptions := b, DisruptionsAllowed := c, Disruptions := d\<rparr> =
      \<lparr>WatchedNodes = a, DisruptionsAllowed = c, CurrentDisruptions = b, Disruptions = d\<rparr>"
    for st :: DisruptionBudgetStatus and a b c d by (cases st) simp
  show ?thesis
    unfolding adb_Sync_def Let_def
    apply (rule still_bind [OF selected])
    apply (simp only: sum.case)
    apply (rule still_bind [OF resolve])
    apply (simp only: sum.case prod.case fields)
    apply (rule still_ret)
    done
qed

text \<open>
  C19: In a cluster that does not change during the call, \<open>Sync\<close> is exact: it succeeds, watches
  exactly the selected nodes in order, lists every disruption already reconciled whose nodes meet
  them, and counts the granted ones among those.
\<close>

theorem adb_Sync_exact:
  assumes stable: "nodes_stable env x"
    and selected: "still x (adb_GetSelectedNodes env r) (Inr selected)"
    and listed: "list_nd (kube env) x = (Inr nds, x)"
    and nodes: "\<And>nd. nd \<in> set nds \<Longrightarrow> nodes_for env x (nd_NodeSelector (nd_Spec nd)) = Inr (nodes_of nd)"
  shows "still x (adb_Sync env r) (Inr (r\<lparr>adbr_ADB := (adbr_ADB r)\<lparr>adb_Status := \<lparr>
     WatchedNodes = Slice (NodeSetToStringList selected),
     DisruptionsAllowed = MaxDisruptions (adbr_Spec r) - word_of_nat (length (granted_on nodes_of selected nds)),
     CurrentDisruptions = word_of_nat (length (granted_on nodes_of selected nds)),
     Disruptions = Slice (map disruption_entry (filter (impacting nodes_of selected) nds))\<rparr>\<rparr>\<rparr>))"
  by (rule adb_Sync_still) (use assms in blast)+

section \<open>The decision\<close>

lemma adb_IsImpacted_iff:
  "adb_IsImpacted r ns \<longleftrightarrow> (\<exists>n \<in> set (elems (WatchedNodes (adbr_Status r))). n \<in> ns_Nodes ns)"
  by (simp add: adb_IsImpacted_def Let_def ns.meets_of_list)

lemma adb_Tolerate_sint:
  assumes "- (2 ^ 63) < sint (DisruptionsAllowed (adbr_Status r))"
  shows "adb_TolerateDisruption r ns \<longleftrightarrow> 1 \<le> sint (DisruptionsAllowed (adbr_Status r))"
proof -
  have "sint (DisruptionsAllowed (adbr_Status r) - 1) = sint (DisruptionsAllowed (adbr_Status r)) - 1"
    using gint_minus [of "DisruptionsAllowed (adbr_Status r)" 1] assms
      gint_range [of "DisruptionsAllowed (adbr_Status r)"] by simp
  then show ?thesis unfolding adb_TolerateDisruption_def by linarith
qed

lemma adb_decision:
  assumes status: "CurrentDisruptions (adbr_Status r) = word_of_nat n"
      "DisruptionsAllowed (adbr_Status r) = MaxDisruptions (adbr_Spec r) - CurrentDisruptions (adbr_Status r)"
    and bounds: "n < 2 ^ 62" "- (2 ^ 62) \<le> sint (MaxDisruptions (adbr_Spec r))"
  shows "adb_TolerateDisruption r ns \<longleftrightarrow> int (n + 1) \<le> sint (MaxDisruptions (adbr_Spec r))"
proof -
  have "sint (word_of_nat n :: gint) = int n" by (rule gint_of_nat) (use bounds in simp)
  then have "sint (DisruptionsAllowed (adbr_Status r)) = sint (MaxDisruptions (adbr_Spec r)) - int n"
    using gint_minus [of "MaxDisruptions (adbr_Spec r)" "word_of_nat n"] bounds
      gint_range [of "MaxDisruptions (adbr_Spec r)"] by (simp add: status)
  moreover from this have "adb_TolerateDisruption r ns \<longleftrightarrow> 1 \<le> sint (DisruptionsAllowed (adbr_Status r))"
    by (intro adb_Tolerate_sint) (use bounds in simp)
  ultimately show ?thesis by auto
qed

text \<open>
  C20: With a maximum that no realistic budget exceeds (here: within 62 bits), a synchronised
  application budget tolerates a disruption exactly when fewer than the maximum are granted on its
  nodes, so that one more grant stays within the maximum.
\<close>

theorem adb_tolerates_iff:
  assumes status: "CurrentDisruptions (adbr_Status r) = word_of_nat n"
      "DisruptionsAllowed (adbr_Status r) = MaxDisruptions (adbr_Spec r) - CurrentDisruptions (adbr_Status r)"
    and bounds: "n < 2 ^ 62" "- (2 ^ 62) \<le> sint (MaxDisruptions (adbr_Spec r))"
  shows "adb_TolerateDisruption r ns \<longleftrightarrow> int (n + 1) \<le> sint (MaxDisruptions (adbr_Spec r))"
  using assms by (rule adb_decision)

section \<open>What the hooks do\<close>

lemma hookClient_keeps: "hookClient l r = Inr (cli, r') \<Longrightarrow> adbr_ADB r' = adbr_ADB r"
  by (auto simp: hookClient_def Let_def split: option.splits sum.splits)

text \<open>
  The contract of a hook of version 2: without a client nothing is sent; otherwise one request goes
  to the application manager, followed by one metric, and the hook succeeds exactly on code 200.
\<close>

definition hook_contract :: "lib \<Rightarrow> string \<Rightarrow> string \<Rightarrow> metric_vec \<Rightarrow> ADBResolver \<Rightarrow> NodeDisruption \<Rightarrow> duration \<Rightarrow>
    error option \<times> ADBResolver \<Rightarrow> effect list \<Rightarrow> bool" where
  "hook_contract l name path vec r nd timeout res es \<longleftrightarrow>
     adbr_ADB (snd res) = adbr_ADB r \<and>
     (case hookClient l r of
        Inl err \<Rightarrow> res = (Some err, r) \<and> es = []
      | Inr (cli, r1) \<Rightarrow> \<exists>out code.
          es = [HookCall cli (hook_operation name path (hook_params l r1 nd timeout)) out,
                Metric (hook_metric vec r1 code)] \<and>
          (fst res = None \<longleftrightarrow> out = Inr 200))"


lemma hook_contractI:
  assumes "\<And>cli r1. hookClient l r = Inr (cli, r1) \<Longrightarrow> sat (f cli r1) (\<lambda>res es. snd res = r1 \<and> (\<exists>out code.
      es = [HookCall cli (hook_operation name path (hook_params l r1 nd timeout)) out,
            Metric (hook_metric vec r1 code)] \<and> (fst res = None \<longleftrightarrow> out = Inr 200)))"
  shows "sat (case hookClient l r of Inl err \<Rightarrow> ret (Some err, r) | Inr (svc, r) \<Rightarrow> f svc r)
     (hook_contract l name path vec r nd timeout)"
proof (cases "hookClient l r")
  case (Inl err)
  then show ?thesis by (simp add: sat_ret hook_contract_def)
next
  case (Inr p)
  obtain cli r1 where p: "p = (cli, r1)" by (cases p)
  show ?thesis
    unfolding Inr p sum.case prod.case
    by (rule sat_weaken [OF assms [OF Inr [unfolded p]]])
      (simp add: hook_contract_def Inr p hookClient_keeps [OF Inr [unfolded p]])
qed

lemma hook_contracts:
  "sat (adb_CallPrepareHook env r nd timeout) (hook_contract (lib env) ''prepareApplication'' ''/prepare''
     DisruptionBudgetCheckPrepareHookStatusCodeTotal r nd timeout)"
  "sat (adb_CallReadyHook env r nd timeout) (hook_contract (lib env) ''checkReadiness'' ''/ready''
     DisruptionBudgetCheckReadyHookStatusCodeTotal r nd timeout)"
  "sat (adb_CallTerminateHook env r nd timeout) (hook_contract (lib env) ''terminateDisruption'' ''/terminate''
     DisruptionBudgetCheckTerminateHookStatusCodeTotal r nd timeout)"
proof -
  show "sat (adb_CallPrepareHook env r nd timeout) (hook_contract (lib env) ''prepareApplication'' ''/prepare''
     DisruptionBudgetCheckPrepareHookStatusCodeTotal r nd timeout)"
    unfolding adb_CallPrepareHook_def
    by (rule hook_contractI, rule sat_bind, rule operation_params)
      (auto intro!: sat_intros split: sum.split error.split client_response.split)
  show "sat (adb_CallReadyHook env r nd timeout) (hook_contract (lib env) ''checkReadiness'' ''/ready''
     DisruptionBudgetCheckReadyHookStatusCodeTotal r nd timeout)"
    unfolding adb_CallReadyHook_def
    by (rule hook_contractI, rule sat_bind, rule operation_params)
      (auto intro!: sat_intros split: sum.split error.split client_response.split)
  show "sat (adb_CallTerminateHook env r nd timeout) (hook_contract (lib env) ''terminateDisruption'' ''/terminate''
     DisruptionBudgetCheckTerminateHookStatusCodeTotal r nd timeout)"
    unfolding adb_CallTerminateHook_def
    by (rule hook_contractI, rule sat_bind, rule operation_params)
      (auto intro!: sat_intros simp: err_of_def split: sum.split)
qed





end
