(* ===== verification/Node_Budget.thy ===== *)
theory Node_Budget
  imports Application_Budget
begin

text \<open>
  The resolver of a \<open>NodeDisruptionBudget\<close> (\<open>NodeDisruptionBudgetResolver\<close> of
  \<open>nodedisruptionbudget_controller.go\<close>): a budget on nodes chosen by a node selector, with a maximum
  of disrupted nodes and a minimum of undisrupted ones.  Its hooks do nothing.
\<close>

record NDBResolver =
  ndbr_NDB :: NodeDisruptionBudget

abbreviation ndbr_Spec :: "NDBResolver \<Rightarrow> NodeDisruptionBudgetSpec" where
  "ndbr_Spec r \<equiv> ndb_Spec (ndbr_NDB r)"

abbreviation ndbr_Status :: "NDBResolver \<Rightarrow> DisruptionBudgetStatus" where
  "ndbr_Status r \<equiv> ndb_Status (ndbr_NDB r)"

section \<open>Disruptions allowed\<close>

text \<open>
  \<open>int(math.Min(float64(a), float64(b)))\<close>: both differences wrap around at 64 bits, are rounded to
  \<open>float64\<close>, and the smaller is converted back.  A float outside the range of \<open>int\<close> (which rounding
  up can reach) has no defined conversion: what the platform makes of it is a parameter.
\<close>

definition int_of_float64 :: "(int \<Rightarrow> gint) \<Rightarrow> int \<Rightarrow> gint" where
  "int_of_float64 out_of_range f =
     (if - (2 ^ 63) \<le> f \<and> f < 2 ^ 63 then word_of_int f else out_of_range f)"

definition computeNodeDisruptionBudgetDisruptionsAllowed ::
    "(int \<Rightarrow> gint) \<Rightarrow> gint \<Rightarrow> gint \<Rightarrow> gint \<Rightarrow> gint \<Rightarrow> gint" where
  "computeNodeDisruptionBudgetDisruptionsAllowed out_of_range maxDisruptedNodes minUndisruptedNodes
     watchedNodes currentDisruptions =
     (let disruptionsForMax = maxDisruptedNodes - currentDisruptions;
          disruptionsForMin = (watchedNodes - currentDisruptions) - minUndisruptedNodes
      in int_of_float64 out_of_range
           (min (float64_of_int (sint disruptionsForMax)) (float64_of_int (sint disruptionsForMin))))"

section \<open>The resolver\<close>

definition ndb_GetSelectedNodes :: "'x env \<Rightarrow> NDBResolver \<Rightarrow> ('x, error + NodeSet) act" where
  "ndb_GetSelectedNodes env r = do {
     nodes \<leftarrow> GetNodeFromNodeSelector env (ndb_NodeSelector (ndbr_Spec r));
     (case nodes of
        Inl err \<Rightarrow> ret (Inl err)
      | Inr nodesFromPods \<Rightarrow> ret (Inr nodesFromPods)) }"

definition ndb_ResolveDisruption :: "'x env \<Rightarrow> NDBResolver \<Rightarrow> ('x, error + (gint \<times> Disruption list)) act" where
  "ndb_ResolveDisruption env r = do {
     selected \<leftarrow> ndb_GetSelectedNodes env r;
     (case selected of
        Inl err \<Rightarrow> ret (Inl err)
      | Inr selectedNodes \<Rightarrow> do {
          nodeDisruptions \<leftarrow> ask (list_nd (kube env));
          (case nodeDisruptions of
             Inl err \<Rightarrow> ret (Inl err)
           | Inr items \<Rightarrow> disruption_loop env selectedNodes items 0 []) }) }"

definition ndb_Sync :: "'x env \<Rightarrow> NDBResolver \<Rightarrow> ('x, error + NDBResolver) act" where
  "ndb_Sync env r = do {
     selected \<leftarrow> ndb_GetSelectedNodes env r;
     (case selected of
        Inl err \<Rightarrow> ret (Inl err)
      | Inr nodeNames \<Rightarrow> do {
          let nodes = NodeSetToStringList nodeNames;
          resolved \<leftarrow> ndb_ResolveDisruption env r;
          (case resolved of
             Inl err \<Rightarrow> ret (Inl err)
           | Inr (disruptionCount, disruptions) \<Rightarrow>
               ret (Inr (r\<lparr>ndbr_NDB := (ndbr_NDB r)\<lparr>ndb_Status := (ndbr_Status r)\<lparr>
                 WatchedNodes := Slice nodes,
                 CurrentDisruptions := disruptionCount,
                 DisruptionsAllowed := computeNodeDisruptionBudgetDisruptionsAllowed
                   (float_out_of_range (lib env))
                   (MaxDisruptedNodes (ndbr_Spec r)) (MinUndisruptedNodes (ndbr_Spec r))
                   (word_of_nat (length nodes)) disruptionCount,
                 Disruptions := Slice disruptions\<rparr>\<rparr>\<rparr>))) }) }"

definition ndb_IsImpacted :: "NDBResolver \<Rightarrow> NodeSet \<Rightarrow> bool" where
  "ndb_IsImpacted r disruptedNodes =
     (let watchedNodes = NewNodeSetFromStringList (elems (WatchedNodes (ndbr_Status r)))
      in Len (Intersection watchedNodes disruptedNodes) > 0)"

definition ndb_TolerateDisruption :: "NDBResolver \<Rightarrow> NodeSet \<Rightarrow> bool" where
  "ndb_TolerateDisruption r disruptedNodes =
     (let watchedNodes = NewNodeSetFromStringList (elems (WatchedNodes (ndbr_Status r)));
          disruptedNodesCount = Len (Intersection watchedNodes disruptedNodes)
      in 0 \<le> sint (DisruptionsAllowed (ndbr_Status r) - word_of_nat disruptedNodesCount))"

definition ndb_V2HooksReady :: "NDBResolver \<Rightarrow> bool" where
  "ndb_V2HooksReady r = False"

definition ndb_CallPrepareHook :: "'x env \<Rightarrow> NDBResolver \<Rightarrow> NodeDisruption \<Rightarrow> duration \<Rightarrow>
    ('x, error option \<times> NDBResolver) act" where
  "ndb_CallPrepareHook env r nd timeout = ret (None, r)"

definition ndb_CallReadyHook :: "'x env \<Rightarrow> NDBResolver \<Rightarrow> NodeDisruption \<Rightarrow> duration \<Rightarrow>
    ('x, error option \<times> NDBResolver) act" where
  "ndb_CallReadyHook env r nd timeout = ret (None, r)"

definition ndb_CallTerminateHook :: "'x env \<Rightarrow> NDBResolver \<Rightarrow> NodeDisruption \<Rightarrow> duration \<Rightarrow>
    ('x, error option \<times> NDBResolver) act" where
  "ndb_CallTerminateHook env r nd timeout = ret (None, r)"

definition ndb_CallHealthHook :: "'x env \<Rightarrow> NDBResolver \<Rightarrow> NodeDisruption \<Rightarrow> duration \<Rightarrow>
    ('x, error option) act" where
  "ndb_CallHealthHook env r nd timeout = ret None"

definition ndb_UpdateStatus :: "'x env \<Rightarrow> NDBResolver \<Rightarrow> ('x, error option) act" where
  "ndb_UpdateStatus env r = StatusUpdate_ndb env (ndbr_NDB r)"

definition ndb_GetNamespacedName :: "NDBResolver \<Rightarrow> NamespacedName" where
  "ndb_GetNamespacedName r = \<lparr>ref_Namespace = om_Namespace (ndb_meta (ndbr_NDB r)),
     ref_Name = om_Name (ndb_meta (ndbr_NDB r)), ref_Kind = om_Kind (ndb_meta (ndbr_NDB r))\<rparr>"

definition ndb_GetSupportedDisruptionTypes :: "NDBResolver \<Rightarrow> string list" where
  "ndb_GetSupportedDisruptionTypes r = ndb_SupportedNodeDisruptionTypes (ndbr_Spec r)"


lemma ndb_silent [silent_intros]:
  "only P (ndb_GetSelectedNodes env r)"
  "only P (ndb_ResolveDisruption env r)"
  "only P (ndb_Sync env r)"
  unfolding ndb_Sync_def ndb_ResolveDisruption_def ndb_GetSelectedNodes_def
  by (auto intro!: silent_intros)

section \<open>Exactness of the number allowed\<close>

text \<open>
  C21: For figures below \<open>2 ^ 50\<close> the rounding to \<open>float64\<close> is exact and nothing wraps around: the number of
  disruptions allowed is the smaller of what the maximum and what the minimum leave.
\<close>

theorem disruptions_allowed_exact:
  assumes "\<bar>sint maximum\<bar> < 2 ^ 50" "\<bar>sint minimum\<bar> < 2 ^ 50" "watched < 2 ^ 50" "current < 2 ^ 50"
  shows "sint (computeNodeDisruptionBudgetDisruptionsAllowed oor maximum minimum (word_of_nat watched)
       (word_of_nat current))
     = min (sint maximum - int current) (int watched - int current - sint minimum)"
proof -
  let ?m = "sint maximum - int current" and ?n = "int watched - int current - sint minimum"
  have cur: "sint (word_of_nat current :: gint) = int current"
    and wat: "sint (word_of_nat watched :: gint) = int watched"
    by (rule gint_of_nat; use assms in simp)+
  have m: "sint (maximum - word_of_nat current) = ?m"
    by (subst gint_minus) (use assms cur in auto)
  have wc: "sint (word_of_nat watched - word_of_nat current :: gint) = int watched - int current"
    by (subst gint_minus) (use assms cur wat in auto)
  have n: "sint (word_of_nat watched - word_of_nat current - minimum) = ?n"
    by (subst gint_minus) (use assms wc in auto)
  have "float64_of_int ?m = ?m" "float64_of_int ?n = ?n"
    by (rule float64_of_int_exact; use assms in auto)+
  moreover have "- (2 ^ 53) < min ?m ?n" "min ?m ?n < 2 ^ 53" using assms by auto
  moreover from this have "sint (word_of_int (min ?m ?n) :: gint) = min ?m ?n"
    by (simp add: sint_sbintrunc' signed_take_bit_int_eq_self)
  ultimately show ?thesis
    unfolding computeNodeDisruptionBudgetDisruptionsAllowed_def Let_def int_of_float64_def m n
    by simp
qed

lemma ndb_IsImpacted_iff:
  "ndb_IsImpacted r ns \<longleftrightarrow> (\<exists>n \<in> set (elems (WatchedNodes (ndbr_Status r))). n \<in> ns_Nodes ns)"
  by (simp add: ndb_IsImpacted_def Let_def ns.meets_of_list)

text \<open>The nodes of a disruption that a budget watches, as \<open>TolerateDisruption\<close> counts them.\<close>

definition ndb_hits :: "NDBResolver \<Rightarrow> NodeSet \<Rightarrow> nat" where
  "ndb_hits r ns = Len (Intersection (NewNodeSetFromStringList (elems (WatchedNodes (ndbr_Status r)))) ns)"

lemma ndb_hits_le: "ndb_hits r ns \<le> length (elems (WatchedNodes (ndbr_Status r)))"
proof -
  let ?ws = "elems (WatchedNodes (ndbr_Status r))"
  have "card (set ?ws \<inter> ns_Nodes ns) \<le> card (set ?ws)" by (rule card_mono) auto
  also have "\<dots> \<le> length ?ws" by (rule card_length)
  finally show ?thesis by (simp add: ndb_hits_def ns.len_card)
qed


section \<open>Synchronisation\<close>

lemma ndb_ResolveDisruption_count:
  "sat (ndb_ResolveDisruption env r)
     (\<lambda>res _. on_success (\<lambda>(n, ds). n = word_of_nat (granted_count ds)) res)"
  unfolding ndb_ResolveDisruption_def
  by (auto intro!: sat_intros silent_intros disruption_loop_count
      sat_silent_bind [where Q = "\<lambda>_. True"] sat_trivial [where P = "\<lambda>_. False"])

text \<open>The same of a node budget.\<close>

lemma ndb_Sync_keeps:
  "sat (ndb_Sync env r) (\<lambda>res es. es = [] \<and>
     on_success (\<lambda>r'. status_consistent (ndbr_Status r') \<and>
       DisruptionsAllowed (ndbr_Status r') = computeNodeDisruptionBudgetDisruptionsAllowed
         (float_out_of_range (lib env)) (MaxDisruptedNodes (ndbr_Spec r)) (MinUndisruptedNodes (ndbr_Spec r))
         (word_of_nat (length (elems (WatchedNodes (ndbr_Status r'))))) (CurrentDisruptions (ndbr_Status r')) \<and>
       ndbr_Spec r' = ndbr_Spec r \<and> ndb_meta (ndbr_NDB r') = ndb_meta (ndbr_NDB r)) res)"
  by (rule sat_silent, rule ndb_silent, unfold ndb_Sync_def Let_def)
    (auto intro!: sat_intros sat_silent_bind [OF ndb_silent(1), where Q = "\<lambda>_. True"]
        sat_silent_bind [OF ndb_silent(2) ndb_ResolveDisruption_count] sat_trivial [OF ndb_silent(1)]
      simp: status_consistent_def ns.to_list_sorted ns.to_list_distinct split: sum.splits)

text \<open>The status that \<open>Sync\<close> computes in a cluster that does not change during the call.\<close>

lemma ndb_Sync_still:
  assumes stable: "nodes_stable env x"
    and selected: "nodes_for env x (ndb_NodeSelector (ndbr_Spec r)) = Inr selected"
    and listed: "list_nd (kube env) x = (Inr nds, x)"
    and nodes: "\<And>nd. nd \<in> set nds \<Longrightarrow> nodes_for env x (nd_NodeSelector (nd_Spec nd)) = Inr (nodes_of nd)"
  shows "still x (ndb_Sync env r) (Inr (r\<lparr>ndbr_NDB := (ndbr_NDB r)\<lparr>ndb_Status := \<lparr>
     WatchedNodes = Slice (NodeSetToStringList selected),
     DisruptionsAllowed = computeNodeDisruptionBudgetDisruptionsAllowed (float_out_of_range (lib env))
       (MaxDisruptedNodes (ndbr_Spec r)) (MinUndisruptedNodes (ndbr_Spec r))
       (word_of_nat (length (NodeSetToStringList selected)))
       (word_of_nat (length (granted_on nodes_of selected nds))),
     CurrentDisruptions = word_of_nat (length (granted_on nodes_of selected nds)),
     Disruptions = Slice (map disruption_entry (filter (impacting nodes_of selected) nds))\<rparr>\<rparr>\<rparr>))"
proof -
  have sel: "still x (ndb_GetSelectedNodes env r) (Inr selected)"
    unfolding ndb_GetSelectedNodes_def
    by (rule still_bind [OF still_nodes [OF stable]]) (simp add: selected still_ret)
  have resolve: "still x (ndb_ResolveDisruption env r) (Inr (word_of_nat (length (granted_on nodes_of selected nds)),
      map disruption_entry (filter (impacting nodes_of selected) nds)))"
    using disruption_loop_still [OF stable nodes, where n = 0 and ds = "[]"]
    unfolding ndb_ResolveDisruption_def
    by (auto intro!: still_bind [OF sel] still_bind [OF still_ask [where f = "list_nd (kube env)", OF listed]])
  have fields: "st\<lparr>WatchedNodes := a, CurrentDisruptions := b, DisruptionsAllowed := c, Disruptions := d\<rparr> =
      \<lparr>WatchedNodes = a, DisruptionsAllowed = c, CurrentDisruptions = b, Disruptions = d\<rparr>"
    for st :: DisruptionBudgetStatus and a b c d by (cases st) simp
  show ?thesis
    unfolding ndb_Sync_def Let_def
    apply (rule still_bind [OF sel])
    apply (simp only: sum.case)
    apply (rule still_bind [OF resolve])
    apply (simp only: sum.case prod.case fields)
    apply (rule still_ret)
    done
qed

text \<open>
  C22: In a cluster that does not change during the call, \<open>Sync\<close> of a node budget is exact: it
  watches exactly the nodes of its selector and counts the granted disruptions that meet them.
\<close>

theorem ndb_Sync_exact:
  assumes stable: "nodes_stable env x"
    and selected: "nodes_for env x (ndb_NodeSelector (ndbr_Spec r)) = Inr selected"
    and listed: "list_nd (kube env) x = (Inr nds, x)"
    and nodes: "\<And>nd. nd \<in> set nds \<Longrightarrow> nodes_for env x (nd_NodeSelector (nd_Spec nd)) = Inr (nodes_of nd)"
  shows "still x (ndb_Sync env r) (Inr (r\<lparr>ndbr_NDB := (ndbr_NDB r)\<lparr>ndb_Status := \<lparr>
     WatchedNodes = Slice (NodeSetToStringList selected),
     DisruptionsAllowed = computeNodeDisruptionBudgetDisruptionsAllowed (float_out_of_range (lib env))
       (MaxDisruptedNodes (ndbr_Spec r)) (MinUndisruptedNodes (ndbr_Spec r))
       (word_of_nat (length (NodeSetToStringList selected)))
       (word_of_nat (length (granted_on nodes_of selected nds))),
     CurrentDisruptions = word_of_nat (length (granted_on nodes_of selected nds)),
     Disruptions = Slice (map disruption_entry (filter (impacting nodes_of selected) nds))\<rparr>\<rparr>\<rparr>))"
  by (rule ndb_Sync_still) (use assms in blast)+

section \<open>The decision\<close>

lemma ndb_decision:
  assumes status: "DisruptionsAllowed (ndbr_Status r) = computeNodeDisruptionBudgetDisruptionsAllowed oor
      (MaxDisruptedNodes (ndbr_Spec r)) (MinUndisruptedNodes (ndbr_Spec r))
      (word_of_nat watched) (word_of_nat current)"
    and watched: "length (elems (WatchedNodes (ndbr_Status r))) = watched"
    and bounds: "\<bar>sint (MaxDisruptedNodes (ndbr_Spec r))\<bar> < 2 ^ 50"
      "\<bar>sint (MinUndisruptedNodes (ndbr_Spec r))\<bar> < 2 ^ 50" "watched < 2 ^ 50" "current < 2 ^ 50"
  shows "ndb_TolerateDisruption r ns \<longleftrightarrow>
     int (current + ndb_hits r ns) \<le> sint (MaxDisruptedNodes (ndbr_Spec r)) \<and>
     sint (MinUndisruptedNodes (ndbr_Spec r)) \<le> int watched - int (current + ndb_hits r ns)"
proof -
  let ?allowed = "min (sint (MaxDisruptedNodes (ndbr_Spec r)) - int current)
    (int watched - int current - sint (MinUndisruptedNodes (ndbr_Spec r)))"
  have allowed: "sint (DisruptionsAllowed (ndbr_Status r)) = ?allowed"
    unfolding status by (rule disruptions_allowed_exact; use bounds in simp)
  have hits: "ndb_hits r ns < 2 ^ 50" using ndb_hits_le [of r ns] watched bounds by simp
  then have k: "sint (word_of_nat (ndb_hits r ns) :: gint) = int (ndb_hits r ns)"
    by (intro gint_of_nat) simp
  have "sint (DisruptionsAllowed (ndbr_Status r) - word_of_nat (ndb_hits r ns)) = ?allowed - int (ndb_hits r ns)"
    using bounds hits k allowed by (subst gint_minus) auto
  then have "ndb_TolerateDisruption r ns \<longleftrightarrow> 0 \<le> ?allowed - int (ndb_hits r ns)"
    by (simp add: ndb_TolerateDisruption_def Let_def ndb_hits_def [symmetric])
  also have "\<dots> \<longleftrightarrow> int (current + ndb_hits r ns) \<le> sint (MaxDisruptedNodes (ndbr_Spec r)) \<and>
     sint (MinUndisruptedNodes (ndbr_Spec r)) \<le> int watched - int (current + ndb_hits r ns)"
    by (simp add: min_def) linarith
  finally show ?thesis .
qed

text \<open>
  C23: A synchronised node budget within 50 bits tolerates a disruption exactly when its granted
  disruptions, counted as disruptions, plus the nodes the new one would take from it stay within
  the maximum and leave the minimum of its nodes.
\<close>

theorem ndb_tolerates_iff:
  assumes status: "DisruptionsAllowed (ndbr_Status r) = computeNodeDisruptionBudgetDisruptionsAllowed oor
      (MaxDisruptedNodes (ndbr_Spec r)) (MinUndisruptedNodes (ndbr_Spec r))
      (word_of_nat watched) (word_of_nat current)"
    and watched: "length (elems (WatchedNodes (ndbr_Status r))) = watched"
    and bounds: "\<bar>sint (MaxDisruptedNodes (ndbr_Spec r))\<bar> < 2 ^ 50"
      "\<bar>sint (MinUndisruptedNodes (ndbr_Spec r))\<bar> < 2 ^ 50" "watched < 2 ^ 50" "current < 2 ^ 50"
  shows "ndb_TolerateDisruption r ns \<longleftrightarrow>
     int (current + ndb_hits r ns) \<le> sint (MaxDisruptedNodes (ndbr_Spec r)) \<and>
     sint (MinUndisruptedNodes (ndbr_Spec r)) \<le> int watched - int (current + ndb_hits r ns)"
  using assms by (rule ndb_decision)

lemma ndb_hits_mono: "ns_Nodes s \<subseteq> ns_Nodes t \<Longrightarrow> ndb_hits r s \<le> ndb_hits r t"
  unfolding ndb_hits_def by (rule ns.len_inter_mono) auto

end
