(* ===== verification/Budget.thy ===== *)
theory Budget
  imports Node_Budget
begin

text \<open>
  The interface \<open>Budget\<close> of \<open>internal/controller/budget.go\<close>.  A value of the interface is one of the
  two resolvers, so the interface is a datatype with one constructor per implementation and each
  method dispatches on it.  What the methods promise is the locale \<open>budget_contract\<close>, interpreted on both
  resolvers and on the interface type; \<open>GetAllBudgetsInSync\<close> lists and synchronises all budgets.
\<close>

datatype Budget =
    ApplicationBudget ADBResolver
  | NodeBudget NDBResolver

section \<open>Method dispatch\<close>

definition Sync_budget :: "'x env \<Rightarrow> Budget \<Rightarrow> ('x, error + Budget) act" where
  "Sync_budget env b =
     (case b of
        ApplicationBudget r \<Rightarrow> do { res \<leftarrow> adb_Sync env r; ret (map_sum id ApplicationBudget res) }
      | NodeBudget r \<Rightarrow> do { res \<leftarrow> ndb_Sync env r; ret (map_sum id NodeBudget res) })"

primrec IsImpacted :: "Budget \<Rightarrow> NodeSet \<Rightarrow> bool" where
  "IsImpacted (ApplicationBudget r) ns = adb_IsImpacted r ns"
| "IsImpacted (NodeBudget r) ns = ndb_IsImpacted r ns"

primrec TolerateDisruption :: "Budget \<Rightarrow> NodeSet \<Rightarrow> bool" where
  "TolerateDisruption (ApplicationBudget r) ns = adb_TolerateDisruption r ns"
| "TolerateDisruption (NodeBudget r) ns = ndb_TolerateDisruption r ns"

primrec V2HooksReady :: "Budget \<Rightarrow> bool" where
  "V2HooksReady (ApplicationBudget r) = adb_V2HooksReady r"
| "V2HooksReady (NodeBudget r) = ndb_V2HooksReady r"

definition CallPrepareHook :: "'x env \<Rightarrow> Budget \<Rightarrow> NodeDisruption \<Rightarrow> duration \<Rightarrow> ('x, error option \<times> Budget) act" where
  "CallPrepareHook env b nd timeout =
     (case b of
        ApplicationBudget r \<Rightarrow> do {
          (err, r) \<leftarrow> adb_CallPrepareHook env r nd timeout; ret (err, ApplicationBudget r) }
      | NodeBudget r \<Rightarrow> do { (err, r) \<leftarrow> ndb_CallPrepareHook env r nd timeout; ret (err, NodeBudget r) })"

definition CallReadyHook :: "'x env \<Rightarrow> Budget \<Rightarrow> NodeDisruption \<Rightarrow> duration \<Rightarrow> ('x, error option \<times> Budget) act" where
  "CallReadyHook env b nd timeout =
     (case b of
        ApplicationBudget r \<Rightarrow> do {
          (err, r) \<leftarrow> adb_CallReadyHook env r nd timeout; ret (err, ApplicationBudget r) }
      | NodeBudget r \<Rightarrow> do { (err, r) \<leftarrow> ndb_CallReadyHook env r nd timeout; ret (err, NodeBudget r) })"

definition CallTerminateHook :: "'x env \<Rightarrow> Budget \<Rightarrow> NodeDisruption \<Rightarrow> duration \<Rightarrow> ('x, error option \<times> Budget) act" where
  "CallTerminateHook env b nd timeout =
     (case b of
        ApplicationBudget r \<Rightarrow> do {
          (err, r) \<leftarrow> adb_CallTerminateHook env r nd timeout; ret (err, ApplicationBudget r) }
      | NodeBudget r \<Rightarrow> do { (err, r) \<leftarrow> ndb_CallTerminateHook env r nd timeout; ret (err, NodeBudget r) })"

primrec CallHealthHook :: "'x env \<Rightarrow> Budget \<Rightarrow> NodeDisruption \<Rightarrow> duration \<Rightarrow> ('x, error option) act" where
  "CallHealthHook env (ApplicationBudget r) nd timeout = adb_CallHealthHook env r nd timeout"
| "CallHealthHook env (NodeBudget r) nd timeout = ndb_CallHealthHook env r nd timeout"

primrec UpdateStatus_budget :: "'x env \<Rightarrow> Budget \<Rightarrow> ('x, error option) act" where
  "UpdateStatus_budget env (ApplicationBudget r) = adb_UpdateStatus env r"
| "UpdateStatus_budget env (NodeBudget r) = ndb_UpdateStatus env r"

primrec GetNamespacedName :: "Budget \<Rightarrow> NamespacedName" where
  "GetNamespacedName (ApplicationBudget r) = adb_GetNamespacedName r"
| "GetNamespacedName (NodeBudget r) = ndb_GetNamespacedName r"

primrec GetSupportedDisruptionTypes :: "Budget \<Rightarrow> string list" where
  "GetSupportedDisruptionTypes (ApplicationBudget r) = adb_GetSupportedDisruptionTypes r"
| "GetSupportedDisruptionTypes (NodeBudget r) = ndb_GetSupportedDisruptionTypes r"

section \<open>All budgets, in sync\<close>

text \<open>The loop calls \<open>Sync\<close> on every budget and stops at the first error.\<close>

fun sync_loop :: "('b \<Rightarrow> ('x, error + 'b) act) \<Rightarrow> 'b list \<Rightarrow> ('x, error + 'b list) act" where
  "sync_loop sync [] = ret (Inr [])"
| "sync_loop sync (b # bs) = do {
     r \<leftarrow> sync b;
     (case r of
        Inl err \<Rightarrow> ret (Inl err)
      | Inr b' \<Rightarrow> do {
          rest \<leftarrow> sync_loop sync bs;
          ret (case rest of Inl err \<Rightarrow> Inl err | Inr bs' \<Rightarrow> Inr (b' # bs')) }) }"

definition GetAllBudgetsInSync :: "'x env \<Rightarrow> ('x, error + Budget list) act" where
  "GetAllBudgetsInSync env = do {
     applicationDisruptionBudgets \<leftarrow> ask (list_adb (kube env) None);
     (case applicationDisruptionBudgets of
        Inl err \<Rightarrow> ret (Inl err)
      | Inr adbs \<Rightarrow> do {
          nodeDisruptionBudgets \<leftarrow> ask (list_ndb (kube env) None);
          (case nodeDisruptionBudgets of
             Inl err \<Rightarrow> ret (Inl err)
           | Inr ndbs \<Rightarrow> sync_loop (Sync_budget env)
               (map (\<lambda>adb. ApplicationBudget \<lparr>adbr_ADB = adb, hookCli = None\<rparr>) adbs
                @ map (\<lambda>ndb. NodeBudget \<lparr>ndbr_NDB = ndb\<rparr>) ndbs)) }) }"

section \<open>The contract of a budget\<close>

text \<open>
  What a hook may do besides answering: at most one request, no write to the API, and only well
  formed metric commands.  The consents that a budget's owner can give are told apart by endpoint.
\<close>

definition polite :: "effect list \<Rightarrow> bool" where
  "polite es \<longleftrightarrow> length (filter is_hook es) \<le> 1 \<and> list_all (\<lambda>e. \<not> is_write e \<and> effect_ok e) es"

datatype consent = Prepared | Readied | Terminated | Healthy

locale budget_contract =
  fixes watched :: "'b \<Rightarrow> string set"
    and sync :: "'b \<Rightarrow> ('x, error + 'b) act"
    and impacted :: "'b \<Rightarrow> NodeSet \<Rightarrow> bool"
    and tolerates :: "'b \<Rightarrow> NodeSet \<Rightarrow> bool"
    and prepare :: "'b \<Rightarrow> NodeDisruption \<Rightarrow> duration \<Rightarrow> ('x, error option \<times> 'b) act"
    and ready :: "'b \<Rightarrow> NodeDisruption \<Rightarrow> duration \<Rightarrow> ('x, error option \<times> 'b) act"
    and terminate :: "'b \<Rightarrow> NodeDisruption \<Rightarrow> duration \<Rightarrow> ('x, error option \<times> 'b) act"
    and health :: "'b \<Rightarrow> NodeDisruption \<Rightarrow> duration \<Rightarrow> ('x, error option) act"
    and identity :: "'b \<Rightarrow> 'i"
    and consents :: "'b \<Rightarrow> consent \<Rightarrow> NodeDisruption \<Rightarrow> duration \<Rightarrow> effect list \<Rightarrow> bool"
  assumes impacted_iff: "impacted b ns \<longleftrightarrow> watched b \<inter> ns_Nodes ns \<noteq> {}"
    and tolerates_local:
      "watched b \<inter> ns_Nodes ns = watched b \<inter> ns_Nodes ns' \<Longrightarrow> tolerates b ns \<longleftrightarrow> tolerates b ns'"
    and sync_silent: "only (\<lambda>_. False) (sync b)"
    and sync_keeps: "sat (sync b) (\<lambda>r _. on_success (\<lambda>b'. identity b' = identity b) r)"
    and prepare_law: "sat (prepare b nd t) (\<lambda>(err, b') es. polite es \<and> identity b' = identity b \<and>
      (err = None \<longrightarrow> consents b Prepared nd t es))"
    and ready_law: "sat (ready b nd t) (\<lambda>(err, b') es. polite es \<and> identity b' = identity b \<and>
      (err = None \<longrightarrow> consents b Readied nd t es))"
    and terminate_law: "sat (terminate b nd t) (\<lambda>(err, b') es. polite es \<and> identity b' = identity b \<and>
      (err = None \<longrightarrow> consents b Terminated nd t es))"
    and health_law: "sat (health b nd t) (\<lambda>err es. polite es \<and> (err = None \<longrightarrow> consents b Healthy nd t es))"
    and consents_mono: "consents b k nd t es \<Longrightarrow> set es \<subseteq> set es' \<Longrightarrow> consents b k nd t es'"
begin

lemma impacted_local:
  "watched b \<inter> ns_Nodes s = watched b \<inter> ns_Nodes t \<Longrightarrow> impacted b s \<longleftrightarrow> impacted b t"
  by (simp add: impacted_iff)

lemma sync_loop_silent: "only (\<lambda>_. False) (sync_loop sync bs)"
  by (induction bs) (auto intro!: silent_intros sync_silent)

lemma sync_loop_keeps:
  "sat (sync_loop sync bs) (\<lambda>r es. es = [] \<and> on_success (\<lambda>bs'. map identity bs' = map identity bs) r)"
proof (rule sat_silent [OF sync_loop_silent], induction bs)
  case (Cons b bs)
  have "sat (State_Monad.bind (sync_loop sync bs)
      (\<lambda>rest. ret (case rest of Inl err \<Rightarrow> Inl err | Inr bs' \<Rightarrow> Inr (b' # bs'))))
      (\<lambda>r _. on_success (\<lambda>bs'. map identity bs' = map identity (b # bs)) r)"
    if "identity b' = identity b" for b'
    by (rule sat_silent_bind [OF sync_loop_silent Cons.IH]) (auto intro!: sat_intros simp: that split: sum.split)
  then show ?case
    by (auto intro!: sat_silent_bind [OF sync_silent sync_keeps] sat_intros)
qed (simp add: sat_ret)

end


section \<open>Application budgets fulfil it\<close>

fun consent_operation :: "consent \<Rightarrow> string \<times> string" where
  "consent_operation Prepared = (''prepareApplication'', ''/prepare'')"
| "consent_operation Readied = (''checkReadiness'', ''/ready'')"
| "consent_operation Terminated = (''terminateDisruption'', ''/terminate'')"
| "consent_operation Healthy = ('''', '''')"

definition adb_watched :: "ADBResolver \<Rightarrow> string set" where
  "adb_watched r = set (elems (WatchedNodes (adbr_Status r)))"

definition adb_identity :: "ADBResolver \<Rightarrow> ObjectMeta \<times> ApplicationDisruptionBudgetSpec" where
  "adb_identity r = (adb_meta (adbr_ADB r), adbr_Spec r)"

text \<open>
  The application manager of \<open>r\<close> consents in the effects \<open>es\<close>: it answered 200 on the endpoint, for
  this very disruption; the health hook consents when there is none or when it answered 2xx.
\<close>

definition adb_consents :: "lib \<Rightarrow> ADBResolver \<Rightarrow> consent \<Rightarrow> NodeDisruption \<Rightarrow> duration \<Rightarrow> effect list \<Rightarrow> bool" where
  "adb_consents l r k nd t es \<longleftrightarrow>
     (if k = Healthy then
        URL (HealthHook (adbr_Spec r)) = '''' \<or>
        (\<exists>data code. HealthCall (URL (HealthHook (adbr_Spec r))) data (Inr code) \<in> set es \<and>
           200 \<le> code \<and> code < 300)
      else \<exists>cli r1. hookClient l r = Inr (cli, r1) \<and>
        HookCall cli (hook_operation (fst (consent_operation k)) (snd (consent_operation k))
          (hook_params l r1 nd t)) (Inr 200) \<in> set es)"

lemma hook_contract_law:
  assumes "hook_contract l (fst (consent_operation k)) (snd (consent_operation k)) vec r nd t res es"
    and "k \<noteq> Healthy" and "\<And>r c. metric_ok (hook_metric vec r c)"
  shows "polite es \<and> adb_identity (snd res) = adb_identity r \<and>
    (fst res = None \<longrightarrow> adb_consents l r k nd t es)"
  using assms
  by (auto simp: hook_contract_def polite_def adb_identity_def adb_consents_def split: sum.splits)

lemma hook_metric_ok:
  "metric_ok (hook_metric DisruptionBudgetCheckPrepareHookStatusCodeTotal r c)"
  "metric_ok (hook_metric DisruptionBudgetCheckReadyHookStatusCodeTotal r c)"
  "metric_ok (hook_metric DisruptionBudgetCheckTerminateHookStatusCodeTotal r c)"
  by (simp_all add: hook_metric_def budget_labels_def)

lemma adb_health_law:
  "sat (adb_CallHealthHook env r nd t) (\<lambda>err es. polite es \<and>
     (err = None \<longrightarrow> adb_consents (lib env) r Healthy nd t es))"
  unfolding adb_CallHealthHook_def Let_def
  by (auto intro!: sat_intros simp: polite_def adb_consents_def budget_labels_def split: sum.split if_splits)

interpretation adb: budget_contract adb_watched "adb_Sync env" adb_IsImpacted adb_TolerateDisruption
    "adb_CallPrepareHook env" "adb_CallReadyHook env" "adb_CallTerminateHook env"
    "adb_CallHealthHook env" adb_identity "adb_consents (lib env)"
  for env :: "'x env"
proof unfold_locales
  fix r r' :: ADBResolver and nd :: NodeDisruption and t :: duration and ns ns' :: NodeSet
    and k :: consent and es es' :: "effect list"
  show "adb_IsImpacted r ns \<longleftrightarrow> adb_watched r \<inter> ns_Nodes ns \<noteq> {}"
    by (auto simp: adb_IsImpacted_iff adb_watched_def)
  show "adb_TolerateDisruption r ns = adb_TolerateDisruption r ns'"
    by (simp add: adb_TolerateDisruption_def)
  show "only (\<lambda>_. False) (adb_Sync env r)" by (rule adb_Sync_silent)
  show "sat (adb_Sync env r) (\<lambda>res _. on_success (\<lambda>b'. adb_identity b' = adb_identity r) res)"
    by (rule sat_weaken [OF adb_Sync_keeps]) (auto simp: on_success_def adb_identity_def split: sum.splits)
  show "sat (adb_CallPrepareHook env r nd t) (\<lambda>(err, b') es. polite es \<and> adb_identity b' = adb_identity r \<and>
      (err = None \<longrightarrow> adb_consents (lib env) r Prepared nd t es))"
    by (rule sat_weaken [OF hook_contracts(1)], drule hook_contract_law [where k = Prepared, simplified])
      (simp_all add: hook_metric_ok case_prod_unfold)
  show "sat (adb_CallReadyHook env r nd t) (\<lambda>(err, b') es. polite es \<and> adb_identity b' = adb_identity r \<and>
      (err = None \<longrightarrow> adb_consents (lib env) r Readied nd t es))"
    by (rule sat_weaken [OF hook_contracts(2)], drule hook_contract_law [where k = Readied, simplified])
      (simp_all add: hook_metric_ok case_prod_unfold)
  show "sat (adb_CallTerminateHook env r nd t) (\<lambda>(err, b') es. polite es \<and> adb_identity b' = adb_identity r \<and>
      (err = None \<longrightarrow> adb_consents (lib env) r Terminated nd t es))"
    by (rule sat_weaken [OF hook_contracts(3)], drule hook_contract_law [where k = Terminated, simplified])
      (simp_all add: hook_metric_ok case_prod_unfold)
  show "sat (adb_CallHealthHook env r nd t) (\<lambda>err es. polite es \<and>
      (err = None \<longrightarrow> adb_consents (lib env) r Healthy nd t es))" by (rule adb_health_law)
  show "adb_consents (lib env) r k nd t es'" if "adb_consents (lib env) r k nd t es" "set es \<subseteq> set es'"
    using that by (auto simp: adb_consents_def split: if_splits)
qed


section \<open>Node budgets fulfil it\<close>

definition ndb_watched :: "NDBResolver \<Rightarrow> string set" where
  "ndb_watched r = set (elems (WatchedNodes (ndbr_Status r)))"

definition ndb_identity :: "NDBResolver \<Rightarrow> ObjectMeta \<times> NodeDisruptionBudgetSpec" where
  "ndb_identity r = (ndb_meta (ndbr_NDB r), ndbr_Spec r)"

lemma ndb_Tolerate_local:
  assumes "ndb_watched r \<inter> ns_Nodes ns = ndb_watched r \<inter> ns_Nodes ns'"
  shows "ndb_TolerateDisruption r ns = ndb_TolerateDisruption r ns'"
  using assms by (simp add: ndb_TolerateDisruption_def Let_def ns.len_card ndb_watched_def)

lemma polite_Nil [simp]: "polite []"
  by (simp add: polite_def)

interpretation ndb: budget_contract ndb_watched "ndb_Sync env" ndb_IsImpacted ndb_TolerateDisruption
    "ndb_CallPrepareHook env" "ndb_CallReadyHook env" "ndb_CallTerminateHook env"
    "ndb_CallHealthHook env" ndb_identity "\<lambda>_ _ _ _ _. True"
  for env :: "'x env"
proof unfold_locales
  fix r :: NDBResolver and ns ns' :: NodeSet
  show "ndb_IsImpacted r ns \<longleftrightarrow> ndb_watched r \<inter> ns_Nodes ns \<noteq> {}"
    by (auto simp: ndb_IsImpacted_iff ndb_watched_def)
  show "ndb_TolerateDisruption r ns = ndb_TolerateDisruption r ns'"
    if "ndb_watched r \<inter> ns_Nodes ns = ndb_watched r \<inter> ns_Nodes ns'"
    using that by (rule ndb_Tolerate_local)
  show "only (\<lambda>_. False) (ndb_Sync env r)" by (rule ndb_silent)
  show "sat (ndb_Sync env r) (\<lambda>res _. on_success (\<lambda>b'. ndb_identity b' = ndb_identity r) res)"
    by (rule sat_weaken [OF ndb_Sync_keeps]) (auto simp: on_success_def ndb_identity_def split: sum.splits)
qed (simp_all add: sat_ret ndb_CallPrepareHook_def ndb_CallReadyHook_def ndb_CallTerminateHook_def
    ndb_CallHealthHook_def)

section \<open>Every budget fulfils it\<close>

primrec budget_watched :: "Budget \<Rightarrow> string set" where
  "budget_watched (ApplicationBudget r) = adb_watched r"
| "budget_watched (NodeBudget r) = ndb_watched r"

text \<open>A budget without its status: its metadata and its spec.\<close>

type_synonym budget_key =
  "(ObjectMeta \<times> ApplicationDisruptionBudgetSpec) + (ObjectMeta \<times> NodeDisruptionBudgetSpec)"

primrec budget_identity :: "Budget \<Rightarrow> budget_key" where
  "budget_identity (ApplicationBudget r) = Inl (adb_identity r)"
| "budget_identity (NodeBudget r) = Inr (ndb_identity r)"

primrec budget_consents :: "lib \<Rightarrow> Budget \<Rightarrow> consent \<Rightarrow> NodeDisruption \<Rightarrow> duration \<Rightarrow> effect list \<Rightarrow> bool" where
  "budget_consents l (ApplicationBudget r) k nd t es = adb_consents l r k nd t es"
| "budget_consents l (NodeBudget r) k nd t es = True"

lemma consents_mono:
  "budget_consents l b k nd t es \<Longrightarrow> set es \<subseteq> set es' \<Longrightarrow> budget_consents l b k nd t es'"
  by (cases b) (auto simp: adb_consents_def split: if_splits)

lemma sat_map_bind:
  "sat m R' \<Longrightarrow> (\<And>a es. R' a es \<Longrightarrow> R (f a) es) \<Longrightarrow> sat (State_Monad.bind m (\<lambda>a. ret (f a))) R"
  by (erule sat_bind) (simp add: sat_ret)

lemma on_success_map [simp]: "on_success P (map_sum id f r) = on_success (\<lambda>x. P (f x)) r"
  by (cases r) simp_all

lemma sat_dispatch:
  assumes "sat m (\<lambda>(err, r') es. R (err, f r') es)"
  shows "sat (State_Monad.bind m (\<lambda>p. case p of (err, r') \<Rightarrow> ret (err, f r'))) R"
  by (rule sat_bind [OF assms]) (auto intro!: sat_ret)

interpretation bud: budget_contract budget_watched "Sync_budget env" IsImpacted TolerateDisruption
    "CallPrepareHook env" "CallReadyHook env" "CallTerminateHook env" "CallHealthHook env"
    budget_identity "budget_consents (lib env)"
  for env :: "'x env"
proof unfold_locales
  fix b :: Budget and nd :: NodeDisruption and t :: duration and ns ns' :: NodeSet
    and k :: consent and es es' :: "effect list"
  show "IsImpacted b ns \<longleftrightarrow> budget_watched b \<inter> ns_Nodes ns \<noteq> {}"
    by (cases b) (simp_all add: adb.impacted_iff ndb.impacted_iff)
  show "TolerateDisruption b ns = TolerateDisruption b ns'"
    if "budget_watched b \<inter> ns_Nodes ns = budget_watched b \<inter> ns_Nodes ns'"
    using that by (cases b) (auto dest: adb.tolerates_local ndb.tolerates_local)
  show "only (\<lambda>_. False) (Sync_budget env b)"
    unfolding Sync_budget_def
    by (cases b) (auto intro!: silent_intros adb.sync_silent ndb.sync_silent)
  show "sat (Sync_budget env b) (\<lambda>res _. on_success (\<lambda>b'. budget_identity b' = budget_identity b) res)"
    unfolding Sync_budget_def
    by (cases b) (auto intro!: sat_map_bind [OF adb.sync_keeps] sat_map_bind [OF ndb.sync_keeps])
  show "sat (CallPrepareHook env b nd t) (\<lambda>(err, b') es. polite es \<and> budget_identity b' = budget_identity b \<and>
      (err = None \<longrightarrow> budget_consents (lib env) b Prepared nd t es))"
    unfolding CallPrepareHook_def
    by (cases b) (auto intro!: sat_dispatch sat_weaken [OF adb.prepare_law] sat_weaken [OF ndb.prepare_law])
  show "sat (CallReadyHook env b nd t) (\<lambda>(err, b') es. polite es \<and> budget_identity b' = budget_identity b \<and>
      (err = None \<longrightarrow> budget_consents (lib env) b Readied nd t es))"
    unfolding CallReadyHook_def
    by (cases b) (auto intro!: sat_dispatch sat_weaken [OF adb.ready_law] sat_weaken [OF ndb.ready_law])
  show "sat (CallTerminateHook env b nd t) (\<lambda>(err, b') es. polite es \<and> budget_identity b' = budget_identity b \<and>
      (err = None \<longrightarrow> budget_consents (lib env) b Terminated nd t es))"
    unfolding CallTerminateHook_def
    by (cases b) (auto intro!: sat_dispatch sat_weaken [OF adb.terminate_law] sat_weaken [OF ndb.terminate_law])
  show "sat (CallHealthHook env b nd t) (\<lambda>err es. polite es \<and>
      (err = None \<longrightarrow> budget_consents (lib env) b Healthy nd t es))"
    by (cases b) (auto intro!: sat_weaken [OF adb.health_law] sat_weaken [OF ndb.health_law])
  show "budget_consents (lib env) b k nd t es'" if "budget_consents (lib env) b k nd t es" "set es \<subseteq> set es'"
    using that by (rule consents_mono)
qed


section \<open>All budgets are listed and in sync\<close>

text \<open>The figures of a budget's status agree with one another, as \<open>Sync\<close> leaves them.\<close>

primrec budget_in_sync :: "lib \<Rightarrow> Budget \<Rightarrow> bool" where
  "budget_in_sync l (ApplicationBudget r) \<longleftrightarrow> status_consistent (adbr_Status r) \<and>
     DisruptionsAllowed (adbr_Status r) = MaxDisruptions (adbr_Spec r) - CurrentDisruptions (adbr_Status r)"
| "budget_in_sync l (NodeBudget r) \<longleftrightarrow> status_consistent (ndbr_Status r) \<and>
     DisruptionsAllowed (ndbr_Status r) = computeNodeDisruptionBudgetDisruptionsAllowed
       (float_out_of_range l) (MaxDisruptedNodes (ndbr_Spec r)) (MinUndisruptedNodes (ndbr_Spec r))
       (word_of_nat (length (elems (WatchedNodes (ndbr_Status r))))) (CurrentDisruptions (ndbr_Status r))"

lemma Sync_budget_in_sync:
  "sat (Sync_budget env b) (\<lambda>res es. es = [] \<and> on_success (budget_in_sync (lib env)) res)"
proof (cases b)
  case (ApplicationBudget r)
  then show ?thesis
    unfolding Sync_budget_def
    by (auto intro!: sat_map_bind [OF adb_Sync_keeps] simp: on_success_def split: sum.splits)
next
  case (NodeBudget r)
  then show ?thesis
    unfolding Sync_budget_def
    by (auto intro!: sat_map_bind [OF ndb_Sync_keeps] simp: on_success_def split: sum.splits)
qed

lemma sync_loop_all:
  assumes "\<And>b. sat (sync b) (\<lambda>r es. es = [] \<and> on_success P r)"
  shows "sat (sync_loop sync bs) (\<lambda>r es. es = [] \<and> on_success (list_all P) r)"
proof (induction bs)
  case (Cons b bs)
  have "sat (State_Monad.bind (sync_loop sync bs)
      (\<lambda>rest. ret (case rest of Inl err \<Rightarrow> Inl err | Inr bs' \<Rightarrow> Inr (b' # bs'))))
      (\<lambda>r es. es = [] \<and> on_success (list_all P) r)" if "P b'" for b'
    by (rule sat_bind [OF Cons.IH]) (auto intro!: sat_intros simp: that split: sum.split)
  then show ?case
    by (auto intro!: sat_bind [OF assms] sat_intros)
qed (simp add: sat_ret)

lemma GetAllBudgets_keeps:
  "sat (GetAllBudgetsInSync env) (\<lambda>r es. es = [] \<and> on_success (list_all (budget_in_sync (lib env))) r)"
  unfolding GetAllBudgetsInSync_def
  by (auto intro!: sat_intros sync_loop_all Sync_budget_in_sync)

lemma GetAllBudgets_silent [silent_intros]: "only P (GetAllBudgetsInSync env)"
  unfolding only_def by (rule sat_weaken [OF GetAllBudgets_keeps]) simp

text \<open>Over a cluster that stands still, the budgets returned are the ones \<open>Sync\<close> computes.\<close>

lemma sync_loop_still:
  "list_all2 (\<lambda>b b'. still x (sync b) (Inr b')) bs bs' \<Longrightarrow> still x (sync_loop sync bs) (Inr bs')"
proof (induction rule: list_all2_induct)
  case Nil
  then show ?case by (simp add: still_ret)
next
  case (Cons b bs b' bs')
  show ?case
    by (auto intro!: still_bind [OF Cons.hyps(1)] still_bind [OF Cons.IH] still_ret)
qed

lemma Sync_budget_still:
  "still x (adb_Sync env r) (Inr r') \<Longrightarrow> still x (Sync_budget env (ApplicationBudget r)) (Inr (ApplicationBudget r'))"
  "still x (ndb_Sync env s) (Inr s') \<Longrightarrow> still x (Sync_budget env (NodeBudget s)) (Inr (NodeBudget s'))"
  unfolding Sync_budget_def by (auto elim!: still_bind intro: still_ret)

lemma GetAllBudgets_still:
  assumes "list_adb (kube env) None x = (Inr adbs, x)" and "list_ndb (kube env) None x = (Inr ndbs, x)"
    and "list_all2 (\<lambda>adb r. still x (adb_Sync env \<lparr>adbr_ADB = adb, hookCli = None\<rparr>) (Inr r)) adbs rs"
    and "list_all2 (\<lambda>ndb r. still x (ndb_Sync env \<lparr>ndbr_NDB = ndb\<rparr>) (Inr r)) ndbs ss"
  shows "still x (GetAllBudgetsInSync env) (Inr (map ApplicationBudget rs @ map NodeBudget ss))"
proof -
  have "list_all2 (\<lambda>b b'. still x (Sync_budget env b) (Inr b'))
     (map (\<lambda>adb. ApplicationBudget \<lparr>adbr_ADB = adb, hookCli = None\<rparr>) adbs @ map (\<lambda>ndb. NodeBudget \<lparr>ndbr_NDB = ndb\<rparr>) ndbs)
     (map ApplicationBudget rs @ map NodeBudget ss)"
    by (intro list_all2_appendI; simp add: list.rel_map)
      (use assms(3,4) in \<open>auto elim!: list_all2_mono intro: Sync_budget_still\<close>)
  from sync_loop_still [OF this] show ?thesis
    unfolding GetAllBudgetsInSync_def
    by (auto intro!: still_bind [OF still_ask [where f = "list_adb (kube env) None", OF assms(1)]]
        still_bind [OF still_ask [where f = "list_ndb (kube env) None", OF assms(2)]])
qed

text \<open>
  C24: No budget is forgotten: on success the budgets returned are those the API listed, first the
  application budgets and then the node budgets, each with its own metadata and spec.
\<close>

theorem all_budgets_listed:
  assumes adbs: "list_adb (kube env) None (ext w) = (Inr adbs, x1)"
    and ndbs: "list_ndb (kube env) None x1 = (Inr ndbs, x2)"
    and run: "run_state (GetAllBudgetsInSync env) w = (Inr bs, w')"
  shows "map budget_identity bs =
     map (\<lambda>adb. Inl (adb_meta adb, adb_Spec adb)) adbs @ map (\<lambda>ndb. Inr (ndb_meta ndb, ndb_Spec ndb)) ndbs"
proof -
  let ?bs = "map (\<lambda>adb. ApplicationBudget \<lparr>adbr_ADB = adb, hookCli = None\<rparr>) adbs
    @ map (\<lambda>ndb. NodeBudget \<lparr>ndbr_NDB = ndb\<rparr>) ndbs"
  have "run_state (sync_loop (Sync_budget env) ?bs) (w\<lparr>ext := x2\<rparr>) = (Inr bs, w')"
    using run by (simp add: GetAllBudgetsInSync_def adbs ndbs)
  with bud.sync_loop_keeps [of env ?bs] have "on_success (\<lambda>bs'. map budget_identity bs' = map budget_identity ?bs) (Inr bs :: error + Budget list)"
    by (elim satD) auto
  then show ?thesis by (simp add: comp_def adb_identity_def ndb_identity_def)
qed

end
