(* ===== verification/Node_Disruption.thy ===== *)
theory Node_Disruption
  imports Budget
begin

text \<open>
  The reconciliation of one node disruption (\<open>SingleNodeDisruptionReconciler\<close> of
  \<open>nodedisruption_controller.go\<close>): the state machine from unknown through pending to granted or
  rejected, the internal constraints, the constraints of the budgets and their hooks, and the
  notification of the application managers when the disruption ends.
\<close>

section \<open>State\<close>

record NodeDisruptionReconcilerConfig =
  RejectEmptyNodeDisruption :: bool
  RetryInterval :: duration
  RejectOverlappingDisruption :: bool
  HealthHookTimeout :: duration
  NodeDisruptionTypes :: "string list"

record SNDR =
  ndr_ND :: NodeDisruption
  ndr_Config :: NodeDisruptionReconcilerConfig

abbreviation ndr_Spec :: "SNDR \<Rightarrow> NodeDisruptionSpec" where
  "ndr_Spec ndr \<equiv> nd_Spec (ndr_ND ndr)"

abbreviation ndr_Status :: "SNDR \<Rightarrow> NodeDisruptionStatus" where
  "ndr_Status ndr \<equiv> nd_Status (ndr_ND ndr)"

definition set_status :: "NodeDisruptionStatus \<Rightarrow> SNDR \<Rightarrow> SNDR" where
  "set_status st ndr = ndr\<lparr>ndr_ND := (ndr_ND ndr)\<lparr>nd_Status := st\<rparr>\<rparr>"

lemma set_status_simps [simp]:
  "ndr_Status (set_status st ndr) = st" "ndr_Spec (set_status st ndr) = ndr_Spec ndr"
  "nd_meta (ndr_ND (set_status st ndr)) = nd_meta (ndr_ND ndr)"
  "ndr_Config (set_status st ndr) = ndr_Config ndr"
  by (simp_all add: set_status_def)

section \<open>Dates\<close>

text \<open>\<open>IsAfterDeadline\<close> reads the clock only when there is a deadline to compare with.\<close>

definition AfterDeadline :: "'x env \<Rightarrow> RetrySpec \<Rightarrow> ('x, bool) act" where
  "AfterDeadline env r =
     (if \<not> Enabled r \<or> IsZero (Deadline r) then ret (IsAfterDeadline 0 r)
      else do { now \<leftarrow> Now env; ret (IsAfterDeadline now r) })"

definition getRetryDate :: "'x env \<Rightarrow> SNDR \<Rightarrow> ('x, time) act" where
  "getRetryDate env ndr =
     (if Enabled (Retry (ndr_Spec ndr)) then do {
        after \<leftarrow> AfterDeadline env (Retry (ndr_Spec ndr));
        if \<not> after then do { now \<leftarrow> Now env; ret (now + RetryInterval (ndr_Config ndr)) } else ret 0 }
      else ret 0)"

definition getDoNotGrantBeforeDate :: "SNDR \<Rightarrow> time" where
  "getDoNotGrantBeforeDate ndr = DoNotGrantBefore (ndr_Spec ndr)"

section \<open>Synchronisation\<close>

definition Sync :: "'x env \<Rightarrow> SNDR \<Rightarrow> ('x, error + SNDR) act" where
  "Sync env ndr = do {
     r \<leftarrow> GetNodeFromNodeSelector env (nd_NodeSelector (ndr_Spec ndr));
     ret (case r of
        Inl err \<Rightarrow> Inl err
      | Inr disruptedNodes \<Rightarrow> Inr (set_status
          ((ndr_Status ndr)\<lparr>DisruptedNodes := Slice (NodeSetToStringList disruptedNodes)\<rparr>) ndr)) }"

definition UpdateStatus :: "'x env \<Rightarrow> SNDR \<Rightarrow> ('x, error option) act" where
  "UpdateStatus env ndr = StatusUpdate_nd env (ndr_ND ndr)"

section \<open>Internal constraints\<close>

definition getNodeDisruptionReference :: "SNDR \<Rightarrow> NamespacedName" where
  "getNodeDisruptionReference ndr = \<lparr>ref_Namespace = om_Namespace (nd_meta (ndr_ND ndr)),
     ref_Name = om_Name (nd_meta (ndr_ND ndr)), ref_Kind = om_Kind (nd_meta (ndr_ND ndr))\<rparr>"

text \<open>A failed status with the given reason, as the validations build it.\<close>

definition failed_status :: "NamespacedName \<Rightarrow> string \<Rightarrow> DisruptedBudgetStatus" where
  "failed_status ref reason = \<lparr>Reference = ref, Reason = reason, Preparing = False, Ok = False\<rparr>"

text \<open>The three bytes of the right double quotation mark that the source has in this text.\<close>

definition overlap_reason :: "string \<Rightarrow> string" where
  "overlap_reason other = ''Selected node(s) overlap with another disruption: ''
     @ [CHR 0xE2, CHR 0x80, CHR 0x9D] @ other @ [CHR 0x22]"

fun overlap_loop :: "SNDR \<Rightarrow> NodeSet \<Rightarrow> NodeDisruption list \<Rightarrow> bool \<times> DisruptedBudgetStatus" where
  "overlap_loop ndr disruptedNodes [] = (False, zero_status)"
| "overlap_loop ndr disruptedNodes (other # others) =
     (if om_Name (nd_meta other) = om_Name (nd_meta (ndr_ND ndr)) then overlap_loop ndr disruptedNodes others
      else if nd_State (nd_Status other) = Pending \<or> nd_State (nd_Status other) = Granted then
        (let otherDisruptedNodes = NewNodeSetFromStringList (elems (DisruptedNodes (nd_Status other))) in
         if Len (Intersection otherDisruptedNodes disruptedNodes) > 0
         then (True, failed_status (getNodeDisruptionReference ndr) (overlap_reason (om_Name (nd_meta other))))
         else overlap_loop ndr disruptedNodes others)
      else overlap_loop ndr disruptedNodes others)"

definition ValidateOverlappingDisruption ::
    "'x env \<Rightarrow> SNDR \<Rightarrow> NodeSet \<Rightarrow> ('x, error + (bool \<times> DisruptedBudgetStatus)) act" where
  "ValidateOverlappingDisruption env ndr disruptedNodes = do {
     allDisruptions \<leftarrow> ask (list_nd (kube env));
     ret (case allDisruptions of
        Inl err \<Rightarrow> Inl err
      | Inr items \<Rightarrow> Inr (overlap_loop ndr disruptedNodes items)) }"

definition ValidateWithInternalConstraints ::
    "'x env \<Rightarrow> SNDR \<Rightarrow> ('x, error + (bool \<times> DisruptedBudgetStatus slice)) act" where
  "ValidateWithInternalConstraints env ndr = do {
     let disruptedNodes = NewNodeSetFromStringList (elems (DisruptedNodes (ndr_Status ndr)));
     after \<leftarrow> AfterDeadline env (Retry (ndr_Spec ndr));
     if after then
       ret (Inr (True, append_slice (DisruptedDisruptionBudgets (ndr_Status ndr))
         [failed_status (getNodeDisruptionReference ndr)
           (''Failed to grant maintenance before deadline (deadline: ''
             @ time_String (lib env) (Deadline (Retry (ndr_Spec ndr))) @ '')'')]))
     else if RejectEmptyNodeDisruption (ndr_Config ndr) \<and> Len disruptedNodes = 0 then
       ret (Inr (True, Slice [failed_status (getNodeDisruptionReference ndr) ''No node matching label selector'']))
     else if RejectOverlappingDisruption (ndr_Config ndr) then do {
       r \<leftarrow> ValidateOverlappingDisruption env ndr disruptedNodes;
       ret (case r of Inl err \<Rightarrow> Inl err | Inr (anyFailed, status) \<Rightarrow> Inr (anyFailed, Slice [status])) }
     else if NodeDisruptionTypes (ndr_Config ndr) \<noteq> [] \<and>
         nd_Type (ndr_Spec ndr) \<notin> set (NodeDisruptionTypes (ndr_Config ndr)) then
       ret (Inr (True, Slice [failed_status (getNodeDisruptionReference ndr)
         (''Type of node disruption provided is not allowed (supported: [''
           @ join_with '' '' (NodeDisruptionTypes (ndr_Config ndr))
           @ '']) (see --node-disruption-types on the controller)'')]))
     else ret (Inr (False, NilSlice)) }"

section \<open>Hook checks\<close>

text \<open>
  The budget that a hook call returns differs from the one it was called on at most in its cached
  client, which nothing uses afterwards, so the checks drop it.
\<close>

definition v2HookCheck ::
    "'x env \<Rightarrow> SNDR \<Rightarrow> Budget \<Rightarrow> DisruptedBudgetStatus \<Rightarrow> ('x, DisruptedBudgetStatus) act" where
  "v2HookCheck env ndr budget currentStatus = do {
     let ref = GetNamespacedName budget;
     let type = nd_Type (ndr_Spec ndr);
     let granted = do {
       metrics [Inc DisruptionBudgetGrantedTotal (ref_values ref @ [type])];
       ret \<lparr>Reference = ref, Reason = '''', Preparing = True, Ok = True\<rparr> };
     if \<not> Ok currentStatus \<and> \<not> Preparing currentStatus then do {
       (err, _) \<leftarrow> CallPrepareHook env budget (ndr_ND ndr) (HealthHookTimeout (ndr_Config ndr));
       (case err of
          Some e \<Rightarrow> do {
            metrics [Inc DisruptionBudgetRejectedTotal (ref_values ref @ [type])];
            ret \<lparr>Reference = ref, Reason = ''cannot prepare disruption: '' @ error_string (lib env) e,
              Preparing = False, Ok = False\<rparr> }
        | None \<Rightarrow> ret \<lparr>Reference = ref, Reason = '''', Preparing = True, Ok = False\<rparr>) }
     else if Preparing currentStatus then do {
       (err, _) \<leftarrow> CallReadyHook env budget (ndr_ND ndr) (HealthHookTimeout (ndr_Config ndr));
       (case err of
          Some e \<Rightarrow> ret \<lparr>Reference = ref, Reason = ''not ready for disruption: '' @ error_string (lib env) e,
              Preparing = True, Ok = False\<rparr>
        | None \<Rightarrow> granted) }
     else granted }"

definition legacyHookCheck :: "'x env \<Rightarrow> SNDR \<Rightarrow> Budget \<Rightarrow> ('x, DisruptedBudgetStatus) act" where
  "legacyHookCheck env ndr budget = do {
     err \<leftarrow> CallHealthHook env budget (ndr_ND ndr) (HealthHookTimeout (ndr_Config ndr));
     let ref = GetNamespacedName budget;
     let type = nd_Type (ndr_Spec ndr);
     (case err of
        Some e \<Rightarrow> do {
          metrics [Inc DisruptionBudgetRejectedTotal (ref_values ref @ [type])];
          ret (failed_status ref (''Unhealthy: '' @ error_string (lib env) e)) }
      | None \<Rightarrow> do {
          metrics [Inc DisruptionBudgetGrantedTotal (ref_values ref @ [type])];
          ret \<lparr>Reference = ref, Reason = '''', Preparing = False, Ok = True\<rparr> }) }"

section \<open>Budget constraints\<close>

definition budgetSupportsDisruptionType :: "SNDR \<Rightarrow> Budget \<Rightarrow> bool" where
  "budgetSupportsDisruptionType ndr budget =
     (nd_Type (ndr_Spec ndr) \<in> set (GetSupportedDisruptionTypes budget))"

text \<open>
  The first loop: the impacted budgets up to the first that does not tolerate the disruption, whether
  there was one, and its status.
\<close>

fun select_loop :: "SNDR \<Rightarrow> NodeSet \<Rightarrow> Budget list \<Rightarrow> Budget list \<Rightarrow>
    ('x, bool \<times> DisruptedBudgetStatus slice \<times> Budget list) act" where
  "select_loop ndr disruptedNodes [] impactedBudgets = ret (False, NilSlice, impactedBudgets)"
| "select_loop ndr disruptedNodes (budget # budgets) impactedBudgets =
     (if \<not> budgetSupportsDisruptionType ndr budget then
        select_loop ndr disruptedNodes budgets impactedBudgets
      else if \<not> IsImpacted budget disruptedNodes then
        select_loop ndr disruptedNodes budgets impactedBudgets
      else if \<not> TolerateDisruption budget disruptedNodes then do {
        let ref = GetNamespacedName budget;
        metrics [Inc DisruptionBudgetRejectedTotal (ref_values ref @ [nd_Type (ndr_Spec ndr)])];
        ret (True, append_slice NilSlice [failed_status ref ''No more disruption allowed''], impactedBudgets) }
      else select_loop ndr disruptedNodes budgets (impactedBudgets @ [budget]))"

definition status_for :: "Budget \<Rightarrow> DisruptedBudgetStatus slice \<Rightarrow> DisruptedBudgetStatus" where
  "status_for budget currentStatuses =
     (let idx = IndexFunc (\<lambda>s. Reference s = GetNamespacedName budget) (elems currentStatuses)
      in if idx > -1 then elems currentStatuses ! nat idx else zero_status)"

definition check_budget ::
    "'x env \<Rightarrow> SNDR \<Rightarrow> DisruptedBudgetStatus slice \<Rightarrow> Budget \<Rightarrow> ('x, DisruptedBudgetStatus) act" where
  "check_budget env ndr currentStatuses budget =
     (if V2HooksReady budget then v2HookCheck env ndr budget (status_for budget currentStatuses)
      else legacyHookCheck env ndr budget)"

fun hook_loop :: "'x env \<Rightarrow> SNDR \<Rightarrow> DisruptedBudgetStatus slice \<Rightarrow> Budget list \<Rightarrow> bool \<Rightarrow>
    DisruptedBudgetStatus slice \<Rightarrow> ('x, bool \<times> DisruptedBudgetStatus slice) act" where
  "hook_loop env ndr currentStatuses [] anyFailed statuses = ret (anyFailed, statuses)"
| "hook_loop env ndr currentStatuses (budget # budgets) anyFailed statuses = do {
     status \<leftarrow> check_budget env ndr currentStatuses budget;
     hook_loop env ndr currentStatuses budgets (if \<not> Ok status then True else anyFailed)
       (append_slice statuses [status]) }"

definition ValidateWithBudgetConstraints :: "'x env \<Rightarrow> SNDR \<Rightarrow> Budget list \<Rightarrow>
    DisruptedBudgetStatus slice \<Rightarrow> ('x, bool \<times> DisruptedBudgetStatus slice) act" where
  "ValidateWithBudgetConstraints env ndr budgets currentStatuses = do {
     let disruptedNodes = NewNodeSetFromStringList (elems (DisruptedNodes (ndr_Status ndr)));
     (anyFailed, statuses, impactedBudgets) \<leftarrow> select_loop ndr disruptedNodes budgets [];
     if anyFailed then ret (anyFailed, statuses)
     else hook_loop env ndr currentStatuses impactedBudgets anyFailed statuses }"

section \<open>State transitions\<close>

text \<open>
  The date comparison and the choice of the next state, once the validations have answered.
\<close>

definition decide :: "'x env \<Rightarrow> SNDR \<Rightarrow> time \<Rightarrow> time \<Rightarrow> bool \<Rightarrow> DisruptedBudgetStatus slice \<Rightarrow>
    ('x, NodeDisruptionState \<times> time) act" where
  "decide env ndr doNotGrantBefore nextRetryDate anyFailed statuses =
     (if \<not> anyFailed then
        (if \<not> IsZero doNotGrantBefore then do {
           now \<leftarrow> Now env;
           if now < doNotGrantBefore then ret (Pending, doNotGrantBefore)
           else ret (Granted, nextRetryDate) }
         else ret (Granted, nextRetryDate))
      else if \<not> IsZero nextRetryDate then ret (Pending, nextRetryDate)
      else (let anyPreparing = IndexFunc Preparing (elems statuses) in
        if anyPreparing \<ge> 0 then do {
          after \<leftarrow> AfterDeadline env (Retry (ndr_Spec ndr));
          if \<not> after then ret (Pending, nextRetryDate) else ret (Rejected, nextRetryDate) }
        else ret (Rejected, nextRetryDate)))"

definition tryTransitionToGranted :: "'x env \<Rightarrow> SNDR \<Rightarrow> ('x, error + SNDR) act" where
  "tryTransitionToGranted env ndr = do {
     let doNotGrantBefore = getDoNotGrantBeforeDate ndr;
     nextRetryDate \<leftarrow> getRetryDate env ndr;
     r \<leftarrow> GetAllBudgetsInSync env;
     (case r of
        Inl err \<Rightarrow> ret (Inl err)
      | Inr budgets \<Rightarrow> do {
          r \<leftarrow> ValidateWithInternalConstraints env ndr;
          (case r of
             Inl err \<Rightarrow> ret (Inl err)
           | Inr (anyFailed, statuses) \<Rightarrow> do {
               (anyFailed, statuses) \<leftarrow>
                 (if \<not> anyFailed
                  then ValidateWithBudgetConstraints env ndr budgets (DisruptedDisruptionBudgets (ndr_Status ndr))
                  else ret (anyFailed, statuses));
               (state, nextRetryDate) \<leftarrow> decide env ndr doNotGrantBefore nextRetryDate anyFailed statuses;
               ret (Inr (set_status ((ndr_Status ndr)\<lparr>DisruptedDisruptionBudgets := statuses,
                 nd_State := state, NextRetryDate := nextRetryDate\<rparr>) ndr)) }) }) }"

definition TryTransitionState :: "'x env \<Rightarrow> SNDR \<Rightarrow> ('x, error + SNDR) act" where
  "TryTransitionState env ndr =
     (if nd_State (ndr_Status ndr) = Unknown
      then ret (Inr (set_status ((ndr_Status ndr)\<lparr>nd_State := Pending\<rparr>) ndr))
      else if nd_State (ndr_Status ndr) = Pending then do {
        r \<leftarrow> tryTransitionToGranted env ndr;
        (case r of
           Inl err \<Rightarrow> ret (Inl err)
         | Inr ndr \<Rightarrow> do {
             metrics (case nd_State (ndr_Status ndr) of
                 Granted \<Rightarrow> [Inc NodeDisruptionGrantedTotal [nd_Type (ndr_Spec ndr)]]
               | Rejected \<Rightarrow> [Inc NodeDisruptionRejectedTotal [nd_Type (ndr_Spec ndr)]]
               | _ \<Rightarrow> []);
             ret (Inr ndr) }) }
      else ret (Inr ndr))"

definition Reconcile_single :: "'x env \<Rightarrow> SNDR \<Rightarrow> ('x, error + SNDR) act" where
  "Reconcile_single env ndr = do {
     r \<leftarrow> Sync env ndr;
     (case r of Inl err \<Rightarrow> ret (Inl err) | Inr ndr \<Rightarrow> TryTransitionState env ndr) }"

section \<open>Termination of the impacted budgets\<close>

fun terminate_loop :: "'x env \<Rightarrow> SNDR \<Rightarrow> DisruptedBudgetStatus list \<Rightarrow> bool \<Rightarrow> ('x, bool) act" where
  "terminate_loop env ndr [] anyFailed = ret anyFailed"
| "terminate_loop env ndr (budgetStatus # statuses) anyFailed =
     (if \<not> Preparing budgetStatus then terminate_loop env ndr statuses anyFailed
      else if ref_Kind (Reference budgetStatus) \<noteq> ''ApplicationDisruptionBudget'' then
        terminate_loop env ndr statuses anyFailed
      else do {
        r \<leftarrow> ask (get_adb (kube env) (ref_Namespace (Reference budgetStatus), ref_Name (Reference budgetStatus)));
        (case r of
           Inl err \<Rightarrow> terminate_loop env ndr statuses (if IsNotFound err then anyFailed else True)
         | Inr adb \<Rightarrow>
             (let budgetResolver = \<lparr>adbr_ADB = adb, hookCli = None\<rparr> in
              if \<not> adb_V2HooksReady budgetResolver then terminate_loop env ndr statuses anyFailed
              else do {
                (err, _) \<leftarrow> adb_CallTerminateHook env budgetResolver (ndr_ND ndr) (10 * 10 ^ 9);
                terminate_loop env ndr statuses (if err \<noteq> None then True else anyFailed) })) })"

definition terminateAllImpactedBudgets :: "'x env \<Rightarrow> SNDR \<Rightarrow> ('x, error option) act" where
  "terminateAllImpactedBudgets env ndr = do {
     anyFailed \<leftarrow> terminate_loop env ndr (elems (DisruptedDisruptionBudgets (ndr_Status ndr))) False;
     ret (if anyFailed then Some (ErrText ''failed to terminate all budgets'') else None) }"


section \<open>The first loop: who refuses\<close>

text \<open>A budget is concerned when it supports the type and watches one of the nodes.\<close>

definition concerned :: "SNDR \<Rightarrow> NodeSet \<Rightarrow> Budget \<Rightarrow> bool" where
  "concerned ndr ns b \<longleftrightarrow> budgetSupportsDisruptionType ndr b \<and> IsImpacted b ns"

definition refuses :: "SNDR \<Rightarrow> NodeSet \<Rightarrow> Budget \<Rightarrow> bool" where
  "refuses ndr ns b \<longleftrightarrow> concerned ndr ns b \<and> \<not> TolerateDisruption b ns"

lemma select_loop_eq:
  "select_loop ndr ns bs acc =
     (case find (refuses ndr ns) bs of
        None \<Rightarrow> ret (False, NilSlice, acc @ filter (concerned ndr ns) bs)
      | Some b \<Rightarrow> do {
          metrics [Inc DisruptionBudgetRejectedTotal (ref_values (GetNamespacedName b) @ [nd_Type (ndr_Spec ndr)])];
          ret (True, Slice [failed_status (GetNamespacedName b) ''No more disruption allowed''],
            acc @ filter (concerned ndr ns) (takeWhile (\<lambda>b. \<not> refuses ndr ns b) bs)) })"
  by (induction bs arbitrary: acc)
    (auto simp: refuses_def concerned_def append_slice_def Let_def split: option.splits)

section \<open>One budget's answer\<close>

text \<open>What an effect of the validations is: no write to the API, no malformed metric command.\<close>

definition mild :: "effect \<Rightarrow> bool" where
  "mild e \<longleftrightarrow> \<not> is_write e \<and> effect_ok e"

lemma mild_metric [simp]: "mild (Metric c) \<longleftrightarrow> metric_ok c"
  by (simp add: mild_def)

lemma polite_mild: "polite es \<Longrightarrow> list_all mild es"
  by (simp add: polite_def mild_def list_all_iff)

text \<open>
  What an approving status of a budget rests on: for a budget with hooks of version 2, the answer of
  the ready hook when it was preparing, and otherwise a status already approved earlier; for any
  other budget, the answer of the health hook.
\<close>

definition approved :: "lib \<Rightarrow> SNDR \<Rightarrow> DisruptedBudgetStatus slice \<Rightarrow> Budget \<Rightarrow> effect list \<Rightarrow> bool" where
  "approved l ndr cur b es \<longleftrightarrow>
     (let timeout = HealthHookTimeout (ndr_Config ndr) in
      if V2HooksReady b then
        (if Preparing (status_for b cur) then budget_consents l b Readied (ndr_ND ndr) timeout es
         else Ok (status_for b cur))
      else budget_consents l b Healthy (ndr_ND ndr) timeout es)"

lemma approved_mono: "approved l ndr cur b es \<Longrightarrow> set es \<subseteq> set es' \<Longrightarrow> approved l ndr cur b es'"
  by (auto simp: approved_def Let_def intro: consents_mono split: if_splits)

definition one_check :: "effect list \<Rightarrow> bool" where
  "one_check es \<longleftrightarrow> length (filter is_hook es) \<le> 1 \<and> list_all mild es"

lemma polite_one_check [simp]: "polite es \<Longrightarrow> one_check es"
  by (simp add: polite_def one_check_def mild_def list_all_iff)

lemma one_check_metric [simp]: "one_check (es @ [Metric c]) \<longleftrightarrow> one_check es \<and> metric_ok c"
  "one_check [Metric c] \<longleftrightarrow> metric_ok c" "one_check []"
  by (auto simp: one_check_def)

lemma type_metric_ok [simp]:
  "metric_ok (Inc DisruptionBudgetGrantedTotal [a, b, c, d])"
  "metric_ok (Inc DisruptionBudgetRejectedTotal [a, b, c, d])"
  by (simp_all add: budget_labels_def)

lemma consents_append: "budget_consents l b k nd t es \<Longrightarrow> budget_consents l b k nd t (es @ es')"
  by (rule consents_mono) auto

lemma v2_law:
  "sat (v2HookCheck env ndr b cur) (\<lambda>st es. one_check es \<and> Reference st = GetNamespacedName b \<and>
     (if Preparing cur then Preparing st \<and>
        (Ok st \<longrightarrow> budget_consents (lib env) b Readied (ndr_ND ndr) (HealthHookTimeout (ndr_Config ndr)) es)
      else if Ok cur then Preparing st \<and> Ok st \<and> list_all (\<lambda>e. \<not> is_hook e) es
      else \<not> Ok st \<and>
        (Preparing st \<longrightarrow> budget_consents (lib env) b Prepared (ndr_ND ndr) (HealthHookTimeout (ndr_Config ndr)) es)))"
  unfolding v2HookCheck_def Let_def
  by (auto intro!: sat_intros sat_bind [OF bud.prepare_law] sat_bind [OF bud.ready_law]
      simp del: metric_ok.simps intro: consents_append)

lemma legacy_law:
  "sat (legacyHookCheck env ndr b) (\<lambda>st es. one_check es \<and> Reference st = GetNamespacedName b \<and>
     \<not> Preparing st \<and>
     (Ok st \<longrightarrow> budget_consents (lib env) b Healthy (ndr_ND ndr) (HealthHookTimeout (ndr_Config ndr)) es))"
  unfolding legacyHookCheck_def Let_def
  by (auto intro!: sat_intros sat_bind [OF bud.health_law]
      simp: failed_status_def simp del: metric_ok.simps intro: consents_append)

lemma check_law:
  "sat (check_budget env ndr cur b) (\<lambda>st es. one_check es \<and> Reference st = GetNamespacedName b \<and>
     (Ok st \<longrightarrow> approved (lib env) ndr cur b es))"
  unfolding check_budget_def
  by (auto intro!: sat_intros sat_weaken [OF v2_law] sat_weaken [OF legacy_law]
      simp: approved_def Let_def split: if_splits)


section \<open>All budgets' answers\<close>

lemma approved_append: "approved l ndr cur b es \<Longrightarrow> approved l ndr cur b (xs @ es @ ys)"
  by (rule approved_mono) auto

text \<open>The statuses of the second loop: one per budget, each approval with its evidence.\<close>

definition answers :: "lib \<Rightarrow> SNDR \<Rightarrow> DisruptedBudgetStatus slice \<Rightarrow> Budget list \<Rightarrow>
    DisruptedBudgetStatus list \<Rightarrow> effect list \<Rightarrow> bool" where
  "answers l ndr cur bs sts es \<longleftrightarrow>
     list_all2 (\<lambda>b st. Reference st = GetNamespacedName b \<and> (Ok st \<longrightarrow> approved l ndr cur b es)) bs sts"

lemma answers_mono: "answers l ndr cur bs sts es \<Longrightarrow> set es \<subseteq> set es' \<Longrightarrow> answers l ndr cur bs sts es'"
  unfolding answers_def by (erule list.rel_mono_strong) (auto intro: approved_mono)

lemma answers_references: "answers l ndr cur bs sts es \<Longrightarrow> map Reference sts = map GetNamespacedName bs"
  unfolding answers_def by (induction rule: list_all2_induct) auto

definition loop_result :: "lib \<Rightarrow> SNDR \<Rightarrow> DisruptedBudgetStatus slice \<Rightarrow> Budget list \<Rightarrow> bool \<Rightarrow>
    DisruptedBudgetStatus slice \<Rightarrow> bool \<times> DisruptedBudgetStatus slice \<Rightarrow> effect list \<Rightarrow> bool" where
  "loop_result l ndr cur bs failed statuses res es \<longleftrightarrow> (\<exists>sts.
     elems (snd res) = elems statuses @ sts \<and> answers l ndr cur bs sts es \<and>
     (fst res \<longleftrightarrow> failed \<or> (\<exists>st \<in> set sts. \<not> Ok st)) \<and>
     length (filter is_hook es) \<le> length bs \<and> list_all mild es)"

lemma loop_result_Cons:
  assumes st: "one_check es \<and> Reference st = GetNamespacedName b \<and> (Ok st \<longrightarrow> approved l ndr cur b es)"
    and rest: "loop_result l ndr cur bs (if \<not> Ok st then True else failed) (append_slice statuses [st]) res es'"
  shows "loop_result l ndr cur (b # bs) failed statuses res (es @ es')"
proof -
  from rest obtain sts where IH: "elems (snd res) = elems statuses @ st # sts" "answers l ndr cur bs sts es'"
      "fst res \<longleftrightarrow> (if \<not> Ok st then True else failed) \<or> (\<exists>st \<in> set sts. \<not> Ok st)"
      "length (filter is_hook es') \<le> length bs" "list_all mild es'"
    by (auto simp: loop_result_def)
  have "answers l ndr cur (b # bs) (st # sts) (es @ es')"
    using st answers_mono [OF IH(2), of "es @ es'"] approved_append [of l ndr cur b es "[]" es']
    by (auto simp: answers_def)
  with st IH show ?thesis
    unfolding loop_result_def by (intro exI [of _ "st # sts"]) (auto simp: one_check_def)
qed

lemma hook_loop_law:
  "sat (hook_loop env ndr cur bs failed statuses) (loop_result (lib env) ndr cur bs failed statuses)"
proof (induction bs arbitrary: failed statuses)
  case Nil
  then show ?case by (simp add: sat_ret answers_def loop_result_def)
next
  case (Cons b bs)
  show ?case
    unfolding hook_loop.simps
    by (rule sat_bind [OF check_law], rule sat_weaken [OF Cons.IH], rule loop_result_Cons)
qed

abbreviation nodes_of_status :: "SNDR \<Rightarrow> NodeSet" where
  "nodes_of_status ndr \<equiv> NewNodeSetFromStringList (elems (DisruptedNodes (ndr_Status ndr)))"

lemma budget_constraints_law:
  "sat (ValidateWithBudgetConstraints env ndr bs cur) (\<lambda>(failed, statuses) es.
     list_all mild es \<and>
     (case find (refuses ndr (nodes_of_status ndr)) bs of
        Some b \<Rightarrow> failed \<and> elems statuses = [failed_status (GetNamespacedName b) ''No more disruption allowed'']
          \<and> list_all (\<lambda>e. \<not> is_hook e) es
      | None \<Rightarrow> answers (lib env) ndr cur (filter (concerned ndr (nodes_of_status ndr)) bs) (elems statuses) es
          \<and> (failed \<longleftrightarrow> \<not> list_all Ok (elems statuses))
          \<and> length (filter is_hook es) \<le> length (filter (concerned ndr (nodes_of_status ndr)) bs)))"
proof (cases "find (refuses ndr (nodes_of_status ndr)) bs")
  case None
  then show ?thesis
    unfolding ValidateWithBudgetConstraints_def Let_def select_loop_eq
    by (auto intro!: sat_weaken [OF hook_loop_law] simp: list_all_iff loop_result_def)
next
  case (Some b)
  then show ?thesis
    unfolding ValidateWithBudgetConstraints_def Let_def select_loop_eq
    by (auto intro!: sat_intros simp: budget_labels_def)
qed



section \<open>Clock and constraints\<close>

text \<open>
  The laws below are relative to what the environment can answer: \<open>P\<close> holds of every reading of the
  clock, \<open>L\<close> of every list of node disruptions, and \<open>B\<close> of every list of synchronised budgets.
\<close>

definition clock_within :: "'x env \<Rightarrow> (time \<Rightarrow> bool) \<Rightarrow> bool" where
  "clock_within env P \<longleftrightarrow> (\<forall>x. P (fst (clock env x)))"

definition lists_within :: "'x env \<Rightarrow> (NodeDisruption list \<Rightarrow> bool) \<Rightarrow> bool" where
  "lists_within env L \<longleftrightarrow> (\<forall>x. on_success L (fst (list_nd (kube env) x)))"

definition budgets_within :: "'x env \<Rightarrow> (Budget list \<Rightarrow> bool) \<Rightarrow> bool" where
  "budgets_within env B \<longleftrightarrow> sat (GetAllBudgetsInSync env) (\<lambda>r es. es = [] \<and> on_success B r)"

lemma clock_within_True [simp]: "clock_within env (\<lambda>_. True)"
  by (simp add: clock_within_def)

lemma lists_within_True [simp]: "lists_within env (\<lambda>_. True)"
  by (simp add: lists_within_def on_success_def split: sum.splits)

lemma budgets_within_sync: "budgets_within env (list_all (budget_in_sync (lib env)))"
  unfolding budgets_within_def by (rule GetAllBudgets_keeps)

lemma sat_Now: "clock_within env P \<Longrightarrow> sat (Now env) (\<lambda>t es. es = [] \<and> P t)"
  unfolding clock_within_def Now_def by (rule sat_ask_within) blast

lemma AfterDeadline_law:
  assumes "clock_within env P"
  shows "sat (AfterDeadline env r) (\<lambda>b es. es = [] \<and> (\<exists>t. P t \<and> b = IsAfterDeadline t r))"
proof -
  obtain t where t: "P t" using assms unfolding clock_within_def by blast
  have never: "IsAfterDeadline s r = IsAfterDeadline s' r" if "\<not> Enabled r \<or> IsZero (Deadline r)" for s s'
    using that by (auto simp: IsAfterDeadline_def)
  show ?thesis
    unfolding AfterDeadline_def
    by (auto intro!: sat_if sat_ret sat_bind [OF sat_Now [OF assms]]) (use t never in blast)+
qed

definition retry_date :: "(time \<Rightarrow> bool) \<Rightarrow> SNDR \<Rightarrow> time \<Rightarrow> bool" where
  "retry_date P ndr d \<longleftrightarrow>
     (\<exists>t s. P t \<and> P s \<and> Enabled (Retry (ndr_Spec ndr)) \<and> \<not> IsAfterDeadline t (Retry (ndr_Spec ndr)) \<and>
        d = s + RetryInterval (ndr_Config ndr)) \<or>
     d = 0 \<and> (\<not> Enabled (Retry (ndr_Spec ndr)) \<or> (\<exists>t. P t \<and> IsAfterDeadline t (Retry (ndr_Spec ndr))))"

lemma getRetryDate_law:
  "clock_within env P \<Longrightarrow> sat (getRetryDate env ndr) (\<lambda>d es. es = [] \<and> retry_date P ndr d)"
  unfolding getRetryDate_def retry_date_def
  by (auto intro!: sat_if sat_ret sat_bind [OF sat_Now] sat_bind [OF AfterDeadline_law])

section \<open>The internal constraints\<close>

text \<open>Another disruption, pending or granted, that shares a node.\<close>

definition overlaps :: "SNDR \<Rightarrow> NodeSet \<Rightarrow> NodeDisruption \<Rightarrow> bool" where
  "overlaps ndr ns other \<longleftrightarrow> om_Name (nd_meta other) \<noteq> om_Name (nd_meta (ndr_ND ndr)) \<and>
     nd_State (nd_Status other) \<in> {Pending, Granted} \<and>
     (\<exists>n \<in> set (elems (DisruptedNodes (nd_Status other))). n \<in> ns_Nodes ns)"

lemma overlap_loop_eq:
  "overlap_loop ndr ns others = (case find (overlaps ndr ns) others of
     None \<Rightarrow> (False, zero_status)
   | Some other \<Rightarrow> (True, failed_status (getNodeDisruptionReference ndr) (overlap_reason (om_Name (nd_meta other)))))"
  by (induction others) (auto simp: overlaps_def Let_def ns.meets_of_list)

definition type_disallowed :: "SNDR \<Rightarrow> bool" where
  "type_disallowed ndr \<longleftrightarrow> NodeDisruptionTypes (ndr_Config ndr) \<noteq> [] \<and>
     nd_Type (ndr_Spec ndr) \<notin> set (NodeDisruptionTypes (ndr_Config ndr))"

definition own_failure :: "SNDR \<Rightarrow> DisruptedBudgetStatus \<Rightarrow> bool" where
  "own_failure ndr st \<longleftrightarrow> (\<exists>reason. st = failed_status (getNodeDisruptionReference ndr) reason)"

lemma own_failure [simp]: "own_failure ndr (failed_status (getNodeDisruptionReference ndr) reason)"
  by (auto simp: own_failure_def)

lemma own_failureD: "own_failure ndr st \<Longrightarrow> \<not> Preparing st \<and> \<not> Ok st"
  by (auto simp: own_failure_def failed_status_def)

text \<open>The statuses \<open>old\<close>, and one failure of the disruption's own after them.\<close>

definition fails_after :: "SNDR \<Rightarrow> DisruptedBudgetStatus list \<Rightarrow> DisruptedBudgetStatus list \<Rightarrow> bool" where
  "fails_after ndr old sts \<longleftrightarrow> (\<exists>st. own_failure ndr st \<and> sts = old @ [st])"

lemma fails_afterI [simp]: "own_failure ndr st \<Longrightarrow> fails_after ndr old (old @ [st])"
  "own_failure ndr st \<Longrightarrow> fails_after ndr [] [st]"
  unfolding fails_after_def by simp_all

text \<open>The answer of the internal constraints when the deadline was compared with the time \<open>t\<close>.\<close>

definition internal_result :: "(NodeDisruption list \<Rightarrow> bool) \<Rightarrow> SNDR \<Rightarrow> time \<Rightarrow>
    bool \<Rightarrow> DisruptedBudgetStatus slice \<Rightarrow> bool" where
  "internal_result L ndr t failed sts \<longleftrightarrow>
     (if IsAfterDeadline t (Retry (ndr_Spec ndr)) then failed \<and>
        fails_after ndr (elems (DisruptedDisruptionBudgets (ndr_Status ndr))) (elems sts)
      else (failed \<longrightarrow> fails_after ndr [] (elems sts)) \<and>
       (if RejectEmptyNodeDisruption (ndr_Config ndr) \<and> Len (nodes_of_status ndr) = 0 then failed
        else if RejectOverlappingDisruption (ndr_Config ndr) then
          (\<exists>items. L items \<and> failed = (\<exists>other \<in> set items. overlaps ndr (nodes_of_status ndr) other))
        else failed = type_disallowed ndr))"

lemma sat_list_nd_bind:
  assumes "lists_within env L" and "\<And>r. on_success L r \<Longrightarrow> sat (f r) R"
  shows "sat (State_Monad.bind (ask (list_nd (kube env))) f) R"
proof (rule sat_bind [where Q = "\<lambda>r es. es = [] \<and> on_success L r"])
  show "sat (ask (list_nd (kube env))) (\<lambda>r es. es = [] \<and> on_success L r)"
    using assms(1) unfolding lists_within_def by (intro sat_ask_within) blast
qed (use assms(2) in simp)

lemma overlap_loop_result:
  "fst (overlap_loop ndr ns items) \<longleftrightarrow> (\<exists>other \<in> set items. overlaps ndr ns other)"
  "fst (overlap_loop ndr ns items) \<Longrightarrow> own_failure ndr (snd (overlap_loop ndr ns items))"
proof -
  have found: "find (overlaps ndr ns) items \<noteq> None \<longleftrightarrow> (\<exists>other \<in> set items. overlaps ndr ns other)"
    unfolding find_None_iff by blast
  show "fst (overlap_loop ndr ns items) \<longleftrightarrow> (\<exists>other \<in> set items. overlaps ndr ns other)"
    unfolding found [symmetric] overlap_loop_eq by (simp split: option.split)
  show "fst (overlap_loop ndr ns items) \<Longrightarrow> own_failure ndr (snd (overlap_loop ndr ns items))"
    unfolding overlap_loop_eq by (simp split: option.splits)
qed

lemma overlap_law:
  assumes "lists_within env L"
  shows "sat (ValidateOverlappingDisruption env ndr ns) (\<lambda>r es. es = [] \<and> on_success (\<lambda>(failed, st).
    (\<exists>items. L items \<and> failed = (\<exists>other \<in> set items. overlaps ndr ns other)) \<and>
      (failed \<longrightarrow> own_failure ndr st)) r)"
  unfolding ValidateOverlappingDisruption_def
proof (rule sat_list_nd_bind [OF assms], rule sat_ret)
  fix r :: "error + NodeDisruption list"
  assume "on_success L r"
  then show "[] = ([] :: effect list) \<and> on_success (\<lambda>(failed, st).
    (\<exists>items. L items \<and> failed = (\<exists>other \<in> set items. overlaps ndr ns other)) \<and>
      (failed \<longrightarrow> own_failure ndr st))
    (case r of Inl err \<Rightarrow> Inl err | Inr items \<Rightarrow> Inr (overlap_loop ndr ns items))"
    using overlap_loop_result [of ndr ns] by (cases r) (auto simp: case_prod_unfold)
qed

lemma internal_law:
  assumes clk: "clock_within env P" and lst: "lists_within env L"
  shows "sat (ValidateWithInternalConstraints env ndr) (\<lambda>r es. es = [] \<and>
    on_success (\<lambda>(failed, sts). \<exists>t. P t \<and> internal_result L ndr t failed sts) r)"
  unfolding ValidateWithInternalConstraints_def Let_def
proof (rule sat_bind [OF AfterDeadline_law [OF clk]], goal_cases)
  case (1 b es)
  then obtain t where t: "P t" and b: "b = IsAfterDeadline t (Retry (ndr_Spec ndr))" and es: "es = []"
    by blast
  have overlap: "sat (do { r \<leftarrow> ValidateOverlappingDisruption env ndr (nodes_of_status ndr);
       ret (case r of Inl err \<Rightarrow> Inl err | Inr (anyFailed, status) \<Rightarrow> Inr (anyFailed, Slice [status])) })
     (\<lambda>r es. es = [] \<and> on_success (\<lambda>(failed, sts). \<exists>t. P t \<and> internal_result L ndr t failed sts) r)"
    if "\<not> IsAfterDeadline t (Retry (ndr_Spec ndr))" "RejectOverlappingDisruption (ndr_Config ndr)"
      "\<not> (RejectEmptyNodeDisruption (ndr_Config ndr) \<and> Len (nodes_of_status ndr) = 0)"
    by (rule sat_bind [OF overlap_law [OF lst]])
      (use that t in \<open>auto intro!: sat_intros exI [of _ t] simp: internal_result_def split: sum.splits\<close>)
  show ?case
    unfolding b es using t overlap
    by (auto intro!: sat_if sat_ret exI [of _ t] simp: internal_result_def type_disallowed_def)
qed

end
