(* ===== verification/Nd_Transitions.thy ===== *)
theory Nd_Transitions
  imports Node_Disruption
begin

text \<open>
  What the transitions of a node disruption guarantee: the contract of \<open>tryTransitionToGranted\<close> put
  together from those of its steps, and the properties of the state machine that follow from it.
\<close>

section \<open>The contract of one attempt\<close>

definition budget_result :: "lib \<Rightarrow> SNDR \<Rightarrow> Budget list \<Rightarrow> bool \<Rightarrow> DisruptedBudgetStatus slice \<Rightarrow>
    effect list \<Rightarrow> bool" where
  "budget_result l ndr bs failed sts es \<longleftrightarrow> list_all mild es \<and>
     (case find (refuses ndr (nodes_of_status ndr)) bs of
        Some b \<Rightarrow> failed \<and> elems sts = [failed_status (GetNamespacedName b) ''No more disruption allowed'']
          \<and> list_all (\<lambda>e. \<not> is_hook e) es
      | None \<Rightarrow> answers l ndr (DisruptedDisruptionBudgets (ndr_Status ndr))
            (filter (concerned ndr (nodes_of_status ndr)) bs) (elems sts) es
          \<and> (failed \<longleftrightarrow> \<not> list_all Ok (elems sts))
          \<and> length (filter is_hook es) \<le> length (filter (concerned ndr (nodes_of_status ndr)) bs))"

definition decided :: "(time \<Rightarrow> bool) \<Rightarrow> SNDR \<Rightarrow> time \<Rightarrow> bool \<Rightarrow> DisruptedBudgetStatus slice \<Rightarrow>
    NodeDisruptionState \<Rightarrow> time \<Rightarrow> bool" where
  "decided P ndr retry failed sts s d \<longleftrightarrow>
     (if \<not> failed then
        (s = Granted \<and> d = retry \<and> (DoNotGrantBefore (ndr_Spec ndr) = 0 \<or> (\<exists>t. P t \<and> DoNotGrantBefore (ndr_Spec ndr) \<le> t)))
        \<or> (s = Pending \<and> d = DoNotGrantBefore (ndr_Spec ndr) \<and> d \<noteq> 0 \<and> (\<exists>t. P t \<and> t < d))
      else if retry \<noteq> 0 then s = Pending \<and> d = retry
      else d = 0 \<and> (if list_all (\<lambda>st. \<not> Preparing st) (elems sts) then s = Rejected
        else (\<exists>t. P t \<and> s = (if IsAfterDeadline t (Retry (ndr_Spec ndr)) then Rejected else Pending))))"

lemma decide_law:
  assumes clk: "clock_within env P"
  shows "sat (decide env ndr (getDoNotGrantBeforeDate ndr) retry failed sts)
     (\<lambda>(s, d) es. es = [] \<and> decided P ndr retry failed sts s d)"
proof -
  have idx: "0 \<le> IndexFunc Preparing (elems sts) \<longleftrightarrow> \<not> list_all (\<lambda>st. \<not> Preparing st) (elems sts)"
    unfolding IndexFunc_found list_all_iff by blast
  show ?thesis
    unfolding decide_def getDoNotGrantBeforeDate_def decided_def Let_def idx
    by (auto intro!: sat_if sat_ret sat_bind [OF sat_Now [OF clk]] sat_bind [OF AfterDeadline_law [OF clk]]
        simp: not_less)
qed

text \<open>The validations together: what they answer, from which budgets and with which effects.\<close>

definition validated :: "(time \<Rightarrow> bool) \<Rightarrow> (NodeDisruption list \<Rightarrow> bool) \<Rightarrow> lib \<Rightarrow> SNDR \<Rightarrow> Budget list \<Rightarrow>
    bool \<Rightarrow> DisruptedBudgetStatus slice \<Rightarrow> effect list \<Rightarrow> bool" where
  "validated P L l ndr bs failed sts es \<longleftrightarrow> (\<exists>t failed0 sts0. P t \<and> internal_result L ndr t failed0 sts0 \<and>
     (if failed0 then failed \<and> sts = sts0 \<and> es = [] else budget_result l ndr bs failed sts es))"

definition attempt_result :: "(time \<Rightarrow> bool) \<Rightarrow> (NodeDisruption list \<Rightarrow> bool) \<Rightarrow> (Budget list \<Rightarrow> bool) \<Rightarrow> lib \<Rightarrow>
    SNDR \<Rightarrow> SNDR \<Rightarrow> effect list \<Rightarrow> bool" where
  "attempt_result P L B l ndr ndr' es \<longleftrightarrow> (\<exists>bs retry failed sts s d.
     B bs \<and> retry_date P ndr retry \<and> validated P L l ndr bs failed sts es \<and> decided P ndr retry failed sts s d \<and>
     ndr' = set_status ((ndr_Status ndr)\<lparr>DisruptedDisruptionBudgets := sts, nd_State := s, NextRetryDate := d\<rparr>) ndr)"

lemma budget_result_law:
  "sat (ValidateWithBudgetConstraints env ndr bs (DisruptedDisruptionBudgets (ndr_Status ndr)))
     (\<lambda>(failed, sts) es. budget_result (lib env) ndr bs failed sts es)"
  unfolding budget_result_def by (rule budget_constraints_law)

lemma validate_step:
  assumes "P t" and "internal_result L ndr t failed0 sts0"
  shows "sat (if \<not> failed0
       then ValidateWithBudgetConstraints env ndr bs (DisruptedDisruptionBudgets (ndr_Status ndr))
       else ret (failed0, sts0))
     (\<lambda>(failed, sts) es. validated P L (lib env) ndr bs failed sts es \<and> list_all mild es)"
proof (cases failed0)
  case True
  then show ?thesis using assms by (auto intro!: sat_ret simp: validated_def)
next
  case False
  have mild: "budget_result l ndr bs failed sts es \<Longrightarrow> list_all mild es" for l failed sts es
    by (simp add: budget_result_def)
  have "validated P L (lib env) ndr bs failed sts es" if "budget_result (lib env) ndr bs failed sts es"
    for failed sts es
    unfolding validated_def by (rule exI [of _ t], rule exI [of _ failed0]) (use assms False that in auto)
  with False show ?thesis
    by (auto intro!: sat_weaken [OF budget_result_law] dest: mild)
qed

lemma decide_step:
  assumes "clock_within env P" and "B bs" and "retry_date P ndr retry"
    and "validated P L (lib env) ndr bs failed sts es" and "list_all mild es"
  shows "sat (do { (state, nextRetryDate) \<leftarrow> decide env ndr (getDoNotGrantBeforeDate ndr) retry failed sts;
       ret (Inr (set_status ((ndr_Status ndr)\<lparr>DisruptedDisruptionBudgets := sts,
         nd_State := state, NextRetryDate := nextRetryDate\<rparr>) ndr)) })
     (\<lambda>r es'. list_all mild (es @ es') \<and>
       on_success (\<lambda>ndr'. attempt_result P L B (lib env) ndr ndr' (es @ es')) r)"
proof (rule sat_bind [OF decide_law [OF assms(1)]])
  have "attempt_result P L B (lib env) ndr (set_status ((ndr_Status ndr)\<lparr>DisruptedDisruptionBudgets := sts,
      nd_State := s, NextRetryDate := d\<rparr>) ndr) es" if "decided P ndr retry failed sts s d" for s d
    unfolding attempt_result_def using assms that by blast
  then show "sat (case p of (s, d) \<Rightarrow> ret (Inr (set_status ((ndr_Status ndr)
      \<lparr>DisruptedDisruptionBudgets := sts, nd_State := s, NextRetryDate := d\<rparr>) ndr)))
      (\<lambda>r es''. list_all mild (es @ es' @ es'') \<and>
        on_success (\<lambda>ndr'. attempt_result P L B (lib env) ndr ndr' (es @ es' @ es'')) r)"
    if "(case p of (s, d) \<Rightarrow> \<lambda>es'. es' = [] \<and> decided P ndr retry failed sts s d) es'" for p es'
    using that assms(5) by (cases p) (auto intro!: sat_ret)
qed

text \<open>An attempt after its date and the budgets are known.\<close>

definition attempt_with :: "'x env \<Rightarrow> SNDR \<Rightarrow> time \<Rightarrow> Budget list \<Rightarrow> ('x, error + SNDR) act" where
  "attempt_with env ndr retry budgets = do {
     r \<leftarrow> ValidateWithInternalConstraints env ndr;
     (case r of
        Inl err \<Rightarrow> ret (Inl err)
      | Inr (anyFailed, statuses) \<Rightarrow> do {
          (anyFailed, statuses) \<leftarrow>
            (if \<not> anyFailed
             then ValidateWithBudgetConstraints env ndr budgets (DisruptedDisruptionBudgets (ndr_Status ndr))
             else ret (anyFailed, statuses));
          (state, nextRetryDate) \<leftarrow> decide env ndr (getDoNotGrantBeforeDate ndr) retry anyFailed statuses;
          ret (Inr (set_status ((ndr_Status ndr)\<lparr>DisruptedDisruptionBudgets := statuses,
            nd_State := state, NextRetryDate := nextRetryDate\<rparr>) ndr)) }) }"

lemma tryTransition_attempt:
  "tryTransitionToGranted env ndr = do {
     retry \<leftarrow> getRetryDate env ndr;
     r \<leftarrow> GetAllBudgetsInSync env;
     (case r of Inl err \<Rightarrow> ret (Inl err) | Inr budgets \<Rightarrow> attempt_with env ndr retry budgets) }"
  unfolding tryTransitionToGranted_def attempt_with_def Let_def ..

lemma attempt_with_law:
  assumes clk: "clock_within env P" and lst: "lists_within env L" and "retry_date P ndr retry" and "B bs"
  shows "sat (attempt_with env ndr retry bs) (\<lambda>r es.
     list_all mild es \<and> on_success (\<lambda>ndr'. attempt_result P L B (lib env) ndr ndr' es) r)"
proof -
  have validate: "sat (State_Monad.bind (if \<not> failed0
       then ValidateWithBudgetConstraints env ndr bs (DisruptedDisruptionBudgets (ndr_Status ndr))
       else ret (failed0, sts0))
     (\<lambda>(failed, sts). do {
       (state, nextRetryDate) \<leftarrow> decide env ndr (getDoNotGrantBeforeDate ndr) retry failed sts;
       ret (Inr (set_status ((ndr_Status ndr)\<lparr>DisruptedDisruptionBudgets := sts,
         nd_State := state, NextRetryDate := nextRetryDate\<rparr>) ndr)) }))
     (\<lambda>r es. list_all mild es \<and> on_success (\<lambda>ndr'. attempt_result P L B (lib env) ndr ndr' es) r)"
    if "P t" "internal_result L ndr t failed0 sts0" for t failed0 sts0
    by (rule sat_bind, rule validate_step [where P = P and L = L and t = t, OF that])
      (use assms in \<open>auto intro!: sat_weaken [OF decide_step [where B = B and L = L and bs = bs, OF clk]]\<close>)
  show ?thesis
    unfolding attempt_with_def
  proof (rule sat_bind [OF internal_law [OF clk lst]])
    fix r :: "error + bool \<times> DisruptedBudgetStatus slice" and es :: "effect list"
    assume "es = [] \<and> on_success (\<lambda>(failed, sts). \<exists>t. P t \<and> internal_result L ndr t failed sts) r"
    then show "sat (case r of
        Inl err \<Rightarrow> ret (Inl err)
      | Inr (anyFailed, statuses) \<Rightarrow> do {
          (anyFailed, statuses) \<leftarrow>
            (if \<not> anyFailed
             then ValidateWithBudgetConstraints env ndr bs (DisruptedDisruptionBudgets (ndr_Status ndr))
             else ret (anyFailed, statuses));
          (state, nextRetryDate) \<leftarrow> decide env ndr (getDoNotGrantBeforeDate ndr) retry anyFailed statuses;
          ret (Inr (set_status ((ndr_Status ndr)\<lparr>DisruptedDisruptionBudgets := statuses,
            nd_State := state, NextRetryDate := nextRetryDate\<rparr>) ndr)) })
        (\<lambda>r es'. list_all mild (es @ es') \<and> on_success (\<lambda>ndr'. attempt_result P L B (lib env) ndr ndr' (es @ es')) r)"
      by (cases r) (auto intro!: sat_ret validate)
  qed
qed

lemma attempt_law:
  assumes clk: "clock_within env P" and lst: "lists_within env L" and bud: "budgets_within env B"
  shows "sat (tryTransitionToGranted env ndr) (\<lambda>r es.
     list_all mild es \<and> on_success (\<lambda>ndr'. attempt_result P L B (lib env) ndr ndr' es) r)"
  unfolding tryTransition_attempt
  by (rule sat_bind [OF getRetryDate_law [OF clk]], rule sat_bind [OF bud [unfolded budgets_within_def]])
    (auto intro!: sat_sum sat_ret attempt_with_law [OF clk lst])


section \<open>The state machine\<close>

lemma transition_metrics_ok [simp]:
  "list_all mild (map Metric (case s of
       Unknown \<Rightarrow> [] | Pending \<Rightarrow> [] | Granted \<Rightarrow> [Inc NodeDisruptionGrantedTotal [t]]
     | Rejected \<Rightarrow> [Inc NodeDisruptionRejectedTotal [t]]))"
  "list_all (\<lambda>e. \<not> is_hook e) (map Metric cs)"
  by (cases s) (simp_all add: list_all_iff)

text \<open>A transition out of pending: an attempt, then the count of its outcome.\<close>

definition transition_result :: "(time \<Rightarrow> bool) \<Rightarrow> (NodeDisruption list \<Rightarrow> bool) \<Rightarrow> (Budget list \<Rightarrow> bool) \<Rightarrow>
    lib \<Rightarrow> SNDR \<Rightarrow> SNDR \<Rightarrow> effect list \<Rightarrow> bool" where
  "transition_result P L B l ndr ndr' es \<longleftrightarrow> (\<exists>es1 es2.
     attempt_result P L B l ndr ndr' es1 \<and> es = es1 @ es2 \<and> list_all (\<lambda>e. \<not> is_hook e) es2)"

lemma transition_resultI:
  "attempt_result P L B l ndr ndr' es \<Longrightarrow> transition_result P L B l ndr ndr' (es @ map Metric cs)"
  unfolding transition_result_def using transition_metrics_ok(2) by blast

lemma transition_law:
  assumes "nd_State (ndr_Status ndr) = Pending"
    and "clock_within env P" and "lists_within env L" and "budgets_within env B"
  shows "sat (TryTransitionState env ndr) (\<lambda>r es. list_all mild es \<and>
     on_success (\<lambda>ndr'. transition_result P L B (lib env) ndr ndr' es) r)"
proof -
  have "sat (case r of Inl err \<Rightarrow> ret (Inl err) | Inr ndr \<Rightarrow> do {
         metrics (case nd_State (ndr_Status ndr) of
             Granted \<Rightarrow> [Inc NodeDisruptionGrantedTotal [nd_Type (ndr_Spec ndr)]]
           | Rejected \<Rightarrow> [Inc NodeDisruptionRejectedTotal [nd_Type (ndr_Spec ndr)]]
           | _ \<Rightarrow> []);
         ret (Inr ndr) })
     (\<lambda>r es'. list_all mild (es @ es') \<and>
       on_success (\<lambda>ndr'. transition_result P L B (lib env) ndr ndr' (es @ es')) r)"
    if "list_all mild es" "on_success (\<lambda>ndr'. attempt_result P L B (lib env) ndr ndr' es) r"
    for r :: "error + SNDR" and es
  proof (cases r)
    case (Inr ndr')
    with that show ?thesis
      by (auto intro!: sat_metrics_bind sat_ret transition_resultI)
  qed (use that in \<open>simp add: sat_ret\<close>)
  then show ?thesis
    using assms(1) unfolding TryTransitionState_def
    by (auto intro!: sat_bind [OF attempt_law [OF assms(2-4)]])
qed

lemma transition_keeps:
  assumes "transition_result P L B l ndr ndr' es"
  shows "nd_State (ndr_Status ndr') \<in> {Pending, Granted, Rejected}" and "ndr_Spec ndr' = ndr_Spec ndr"
    and "nd_meta (ndr_ND ndr') = nd_meta (ndr_ND ndr)" and "ndr_Config ndr' = ndr_Config ndr"
    and "DisruptedNodes (ndr_Status ndr') = DisruptedNodes (ndr_Status ndr)"
proof -
  from assms obtain retry failed sts s d where
      s: "decided P ndr retry failed sts s d" and
      ndr': "ndr' = set_status ((ndr_Status ndr)\<lparr>DisruptedDisruptionBudgets := sts, nd_State := s,
        NextRetryDate := d\<rparr>) ndr"
    unfolding transition_result_def attempt_result_def by blast
  from s show "nd_State (ndr_Status ndr') \<in> {Pending, Granted, Rejected}"
    unfolding ndr' decided_def by (auto split: if_splits)
  show "ndr_Spec ndr' = ndr_Spec ndr" "nd_meta (ndr_ND ndr') = nd_meta (ndr_ND ndr)"
    "ndr_Config ndr' = ndr_Config ndr" "DisruptedNodes (ndr_Status ndr') = DisruptedNodes (ndr_Status ndr)"
    by (simp_all add: ndr')
qed

lemma transition_up:
  "sat (TryTransitionState env ndr) (\<lambda>r es. list_all mild es \<and>
     on_success (\<lambda>ndr'. nd_State (ndr_Status ndr) \<le> nd_State (ndr_Status ndr') \<and>
       nd_State (ndr_Status ndr') \<noteq> Unknown \<and> ndr_Spec ndr' = ndr_Spec ndr \<and>
       nd_meta (ndr_ND ndr') = nd_meta (ndr_ND ndr) \<and>
       DisruptedNodes (ndr_Status ndr') = DisruptedNodes (ndr_Status ndr)) r)"
proof (cases "nd_State (ndr_Status ndr) = Pending")
  case True
  show ?thesis
    by (rule sat_weaken [OF transition_law [OF True clock_within_True lists_within_True budgets_within_sync]])
      (auto simp: on_success_def state_order_defs True dest: transition_keeps split: sum.splits)
next
  case False
  then show ?thesis
    unfolding TryTransitionState_def by (cases "nd_State (ndr_Status ndr)") (auto intro!: sat_ret)
qed

text \<open>
  The state machine.  A transition moves a disruption only upwards in the life-cycle order
  (unknown, then pending, then granted or rejected) and out of the unknown state; it changes neither
  the spec, nor the metadata, nor the disrupted nodes; and it writes nothing to the API.
\<close>

theorem transitions_go_up:
  "sat (TryTransitionState env ndr) (\<lambda>r es. list_all (\<lambda>e. \<not> is_write e) es \<and>
     on_success (\<lambda>ndr'. nd_State (ndr_Status ndr) \<le> nd_State (ndr_Status ndr') \<and>
       nd_State (ndr_Status ndr') \<noteq> Unknown \<and> ndr_Spec ndr' = ndr_Spec ndr \<and>
       nd_meta (ndr_ND ndr') = nd_meta (ndr_ND ndr) \<and>
       DisruptedNodes (ndr_Status ndr') = DisruptedNodes (ndr_Status ndr)) r)"
  by (rule sat_weaken [OF transition_up]) (auto simp: mild_def list_all_iff)

text \<open>
  C18: A final disruption is frozen: reconciling it calls no hook and counts nothing, and refreshes
  only the list of its nodes.
\<close>

theorem final_states_frozen:
  assumes "nd_State (ndr_Status ndr) \<in> {Granted, Rejected}"
  shows "sat (Reconcile_single env ndr) (\<lambda>r es. es = [] \<and>
     on_success (\<lambda>ndr'. \<exists>nodes. sorted nodes \<and> distinct nodes \<and>
       ndr' = set_status ((ndr_Status ndr)\<lparr>DisruptedNodes := Slice nodes\<rparr>) ndr) r)"
proof -
  have silent: "only (\<lambda>_. False) (Sync env ndr)"
    unfolding Sync_def by (auto intro!: silent_intros)
  have "sat (Sync env ndr) (\<lambda>r _. on_success (\<lambda>ndr'. \<exists>nodes. sorted nodes \<and> distinct nodes \<and>
      ndr' = set_status ((ndr_Status ndr)\<lparr>DisruptedNodes := Slice nodes\<rparr>) ndr) r)"
    unfolding Sync_def
    by (rule sat_resolver_bind) (auto intro!: sat_ret ns.to_list_sorted ns.to_list_distinct split: sum.split)
  from sat_silent [OF silent this] show ?thesis
    unfolding Reconcile_single_def
    by (rule sat_bind) (use assms in \<open>auto intro!: sat_sum sat_ret simp: TryTransitionState_def, blast+\<close>)
qed


section \<open>What a grant rests on\<close>

text \<open>The budgets that the API lists, whatever their statuses, all synchronised.\<close>

definition listed_budgets :: "lib \<Rightarrow> ApplicationDisruptionBudget list \<Rightarrow> NodeDisruptionBudget list \<Rightarrow>
    Budget list \<Rightarrow> bool" where
  "listed_budgets l adbs ndbs bs \<longleftrightarrow> list_all (budget_in_sync l) bs \<and>
     map budget_identity bs =
       map (\<lambda>adb. Inl (adb_meta adb, adb_Spec adb)) adbs @ map (\<lambda>ndb. Inr (ndb_meta ndb, ndb_Spec ndb)) ndbs"

lemma sync_loop_listed:
  "sat (sync_loop (Sync_budget env) bs) (\<lambda>r es. es = [] \<and> on_success (\<lambda>bs'.
     list_all (budget_in_sync (lib env)) bs' \<and> map budget_identity bs' = map budget_identity bs) r)"
  using sat_conj [OF sync_loop_all [where P = "budget_in_sync (lib env)", OF Sync_budget_in_sync] bud.sync_loop_keeps]
  by (rule sat_weaken) (auto simp: on_success_def split: sum.splits)

lemma budgets_within_listed:
  assumes adbs: "\<And>x. fst (list_adb (kube env) None x) = Inr adbs"
    and ndbs: "\<And>x. fst (list_ndb (kube env) None x) = Inr ndbs"
  shows "budgets_within env (listed_budgets (lib env) adbs ndbs)"
proof -
  have fixed: "sat (ask f) (\<lambda>r es. es = [] \<and> r = Inr a)" if "\<And>x. fst (f x) = Inr a"
    for f :: "'a \<Rightarrow> (error + 'c) \<times> 'a" and a
    using sat_ask_within [where Q = "\<lambda>r. r = Inr a"] that by blast
  show ?thesis
    unfolding budgets_within_def GetAllBudgetsInSync_def
    by (rule sat_bind [OF fixed [OF adbs]], clarify, simp only: sum.case append_Nil,
        rule sat_bind [OF fixed [OF ndbs]], clarify, simp only: sum.case append_Nil,
        rule sat_weaken [OF sync_loop_listed])
      (auto simp: listed_budgets_def comp_def adb_identity_def ndb_identity_def on_success_def split: sum.splits)
qed

lemma granted_attempt:
  assumes "transition_result P L B l ndr ndr' es" and "nd_State (ndr_Status ndr') = Granted"
  obtains bs es1 t sts0 where "B bs" and "P t" and "internal_result L ndr t False sts0"
    and "budget_result l ndr bs False (DisruptedDisruptionBudgets (ndr_Status ndr')) es1"
    and "set es1 \<subseteq> set es"
    and "DoNotGrantBefore (ndr_Spec ndr) = 0 \<or> (\<exists>t. P t \<and> DoNotGrantBefore (ndr_Spec ndr) \<le> t)"
proof -
  from assms(1) obtain bs retry failed sts s d es1 es2 where
      B: "B bs" and v: "validated P L l ndr bs failed sts es1" and dec: "decided P ndr retry failed sts s d" and
      es: "es = es1 @ es2" and
      ndr': "ndr' = set_status ((ndr_Status ndr)\<lparr>DisruptedDisruptionBudgets := sts, nd_State := s,
        NextRetryDate := d\<rparr>) ndr"
    unfolding transition_result_def attempt_result_def by blast
  have s: "s = Granted" using assms(2) by (simp add: ndr')
  with dec have failed: "\<not> failed" and date: "DoNotGrantBefore (ndr_Spec ndr) = 0 \<or> (\<exists>t. P t \<and> DoNotGrantBefore (ndr_Spec ndr) \<le> t)"
    by (auto simp: decided_def split: if_splits)
  from v failed obtain t sts0 where "P t" "internal_result L ndr t False sts0" "budget_result l ndr bs False sts es1"
    unfolding validated_def by (auto split: if_splits)
  with B date es show thesis by (intro that [of bs t sts0 es1]) (auto simp: ndr')
qed


lemma granted_answers:
  assumes "budget_result l ndr bs False sts es"
  shows "list_all (\<lambda>b. concerned ndr (nodes_of_status ndr) b \<longrightarrow>
      TolerateDisruption b (nodes_of_status ndr) \<and>
      approved l ndr (DisruptedDisruptionBudgets (ndr_Status ndr)) b es) bs"
    and "map Reference (elems sts) = map GetNamespacedName (filter (concerned ndr (nodes_of_status ndr)) bs)"
    and "list_all Ok (elems sts)"
proof -
  let ?c = "concerned ndr (nodes_of_status ndr)"
  have none: "find (refuses ndr (nodes_of_status ndr)) bs = None"
    using assms by (cases "find (refuses ndr (nodes_of_status ndr)) bs") (auto simp: budget_result_def)
  then have tolerated: "\<And>b. b \<in> set bs \<Longrightarrow> ?c b \<Longrightarrow> TolerateDisruption b (nodes_of_status ndr)"
    unfolding find_None_iff refuses_def by blast
  from assms none have answers: "answers l ndr (DisruptedDisruptionBudgets (ndr_Status ndr)) (filter ?c bs) (elems sts) es"
    and ok: "list_all Ok (elems sts)"
    by (simp_all add: budget_result_def)
  show "map Reference (elems sts) = map GetNamespacedName (filter ?c bs)"
    by (rule answers_references [OF answers])
  show "list_all Ok (elems sts)" by (rule ok)
  have "list_all (\<lambda>b. approved l ndr (DisruptedDisruptionBudgets (ndr_Status ndr)) b es) cs"
    if "list_all2 (\<lambda>b (st :: DisruptedBudgetStatus). Reference st = GetNamespacedName b \<and>
        (Ok st \<longrightarrow> approved l ndr (DisruptedDisruptionBudgets (ndr_Status ndr)) b es)) cs ss" "list_all Ok ss" for cs ss
    using that by (induction rule: list_all2_induct) auto
  from this [OF answers [unfolded answers_def] ok]
  show "list_all (\<lambda>b. ?c b \<longrightarrow> TolerateDisruption b (nodes_of_status ndr) \<and>
      approved l ndr (DisruptedDisruptionBudgets (ndr_Status ndr)) b es) bs"
    using tolerated by (simp add: list_all_iff)
qed

lemma approved_subset:
  "list_all (\<lambda>b. C b \<longrightarrow> T b \<and> approved l ndr cur b es) bs \<Longrightarrow> set es \<subseteq> set es' \<Longrightarrow>
   list_all (\<lambda>b. C b \<longrightarrow> T b \<and> approved l ndr cur b es') bs"
  using approved_mono by (auto simp: list_all_iff)

text \<open>
  A grant with statuses \<open>sts\<close> and effects \<open>es\<close> is backed by the budgets \<open>bs\<close>: each of them that is
  concerned tolerated the disruption and approved, and the statuses are theirs and all Ok.
\<close>

definition backed :: "lib \<Rightarrow> SNDR \<Rightarrow> Budget list \<Rightarrow> DisruptedBudgetStatus list \<Rightarrow> effect list \<Rightarrow> bool" where
  "backed l ndr bs sts es \<longleftrightarrow>
     list_all (\<lambda>b. concerned ndr (nodes_of_status ndr) b \<longrightarrow>
       TolerateDisruption b (nodes_of_status ndr) \<and>
       approved l ndr (DisruptedDisruptionBudgets (ndr_Status ndr)) b es) bs \<and>
     map Reference sts = map GetNamespacedName (filter (concerned ndr (nodes_of_status ndr)) bs) \<and>
     list_all Ok sts"

lemma granted_backed:
  assumes "transition_result P L B l ndr ndr' es" and "nd_State (ndr_Status ndr') = Granted"
  shows "\<exists>bs. B bs \<and> backed l ndr bs (elems (DisruptedDisruptionBudgets (ndr_Status ndr'))) es"
proof -
  from granted_attempt [OF assms] obtain bs es1 where B: "B bs" and
      br: "budget_result l ndr bs False (DisruptedDisruptionBudgets (ndr_Status ndr')) es1" and
      sub: "set es1 \<subseteq> set es" by metis
  have "backed l ndr bs (elems (DisruptedDisruptionBudgets (ndr_Status ndr'))) es"
    unfolding backed_def
    using granted_answers(2,3) [OF br] approved_subset [OF granted_answers(1) [OF br] sub] by blast
  with B show ?thesis by blast
qed

lemma on_success_mono: "on_success P r \<Longrightarrow> (\<And>x. P x \<Longrightarrow> Q x) \<Longrightarrow> on_success Q r"
  by (cases r) simp_all

text \<open>Every consequence of the result of a transition out of pending is a guarantee of the method.\<close>

lemma transition_guarantee:
  assumes "nd_State (ndr_Status ndr) = Pending"
    and "clock_within env P" and "lists_within env L" and "budgets_within env B"
    and "\<And>ndr' es. transition_result P L B (lib env) ndr ndr' es \<Longrightarrow> Q ndr' es"
  shows "sat (TryTransitionState env ndr) (\<lambda>r es. on_success (\<lambda>ndr'. Q ndr' es) r)"
  by (rule sat_weaken [OF transition_law [OF assms(1-4)]]) (auto elim!: on_success_mono intro: assms(5))


text \<open>
  C14: Overlaps.  With the flag that rejects overlapping disruptions, and the API listing \<open>items\<close>, a
  pending disruption is never granted while another one, pending or granted, has one of its nodes.
\<close>

theorem overlapping_never_granted:
  assumes "\<And>x. fst (list_nd (kube env) x) = Inr items"
    and "nd_State (ndr_Status ndr) = Pending"
    and "RejectOverlappingDisruption (ndr_Config ndr)"
    and "other \<in> set items" and "om_Name (nd_meta other) \<noteq> om_Name (nd_meta (ndr_ND ndr))"
    and "nd_State (nd_Status other) \<in> {Pending, Granted}"
    and "set (elems (DisruptedNodes (nd_Status other))) \<inter> set (elems (DisruptedNodes (ndr_Status ndr))) \<noteq> {}"
  shows "sat (TryTransitionState env ndr) (\<lambda>r es.
     on_success (\<lambda>ndr'. nd_State (ndr_Status ndr') \<noteq> Granted) r)"
proof (rule transition_guarantee [OF assms(2) clock_within_True _ budgets_within_sync])
  show lists: "lists_within env (\<lambda>l. l = items)" using assms(1) by (simp add: lists_within_def)
  have ov: "overlaps ndr (nodes_of_status ndr) other" using assms(5-7) by (auto simp: overlaps_def)
  fix ndr' es
  assume tr: "transition_result (\<lambda>_. True) (\<lambda>l. l = items) (list_all (budget_in_sync (lib env))) (lib env) ndr ndr' es"
  show "nd_State (ndr_Status ndr') \<noteq> Granted"
  proof
    assume "nd_State (ndr_Status ndr') = Granted"
    from granted_attempt [OF tr this] obtain t sts0 where
        "internal_result (\<lambda>l. l = items) ndr t False sts0" by metis
    then show False using ov assms(3,4) unfolding internal_result_def by (simp split: if_splits)
  qed
qed

text \<open>
  C15: No grant before the date: while the clock reads before a set \<open>doNotGrantBefore\<close>, a pending
  disruption is not granted.
\<close>

theorem not_granted_before_date:
  assumes "\<And>x. fst (clock env x) < DoNotGrantBefore (ndr_Spec ndr)"
    and "DoNotGrantBefore (ndr_Spec ndr) \<noteq> 0"
    and "nd_State (ndr_Status ndr) = Pending"
  shows "sat (TryTransitionState env ndr) (\<lambda>r es.
     on_success (\<lambda>ndr'. nd_State (ndr_Status ndr') \<noteq> Granted) r)"
proof (rule transition_guarantee [OF assms(3) _ lists_within_True budgets_within_sync])
  show "clock_within env (\<lambda>t. t < DoNotGrantBefore (ndr_Spec ndr))" using assms(1) by (simp add: clock_within_def)
  fix ndr' es
  assume tr: "transition_result (\<lambda>t. t < DoNotGrantBefore (ndr_Spec ndr)) (\<lambda>_. True)
    (list_all (budget_in_sync (lib env))) (lib env) ndr ndr' es"
  show "nd_State (ndr_Status ndr') \<noteq> Granted"
    using granted_attempt [OF tr] assms(2) by (metis not_less)
qed


text \<open>
  C16: Deadline.  Once the clock is past the deadline of a disruption that may be retried, an attempt
  rejects it: no hook is called, whatever was preparing, and the earlier statuses are kept, followed
  by the disruption's own.
\<close>

theorem rejected_after_deadline:
  assumes "\<And>x. Deadline (Retry (ndr_Spec ndr)) < fst (clock env x)"
    and "Enabled (Retry (ndr_Spec ndr))" and "Deadline (Retry (ndr_Spec ndr)) \<noteq> 0"
    and "nd_State (ndr_Status ndr) = Pending"
  shows "sat (TryTransitionState env ndr) (\<lambda>r es. on_success (\<lambda>ndr'.
     nd_State (ndr_Status ndr') = Rejected \<and> list_all (\<lambda>e. \<not> is_hook e) es \<and>
     fails_after ndr (elems (DisruptedDisruptionBudgets (ndr_Status ndr)))
       (elems (DisruptedDisruptionBudgets (ndr_Status ndr')))) r)"
proof (rule transition_guarantee [OF assms(4) _ lists_within_True budgets_within_sync])
  let ?P = "\<lambda>t. Deadline (Retry (ndr_Spec ndr)) < t"
  show "clock_within env ?P" using assms(1) by (simp add: clock_within_def)
  have late: "IsAfterDeadline t (Retry (ndr_Spec ndr))" if "?P t" for t
    using that assms(2,3) by (simp add: IsAfterDeadline_def)
  fix ndr' es
  assume "transition_result ?P (\<lambda>_. True) (list_all (budget_in_sync (lib env))) (lib env) ndr ndr' es"
  then obtain bs retry failed sts s d es1 es2 where
      retry: "retry_date ?P ndr retry" and v: "validated ?P (\<lambda>_. True) (lib env) ndr bs failed sts es1" and
      dec: "decided ?P ndr retry failed sts s d" and
      es: "es = es1 @ es2" "list_all (\<lambda>e. \<not> is_hook e) es2" and
      ndr': "ndr' = set_status ((ndr_Status ndr)\<lparr>DisruptedDisruptionBudgets := sts, nd_State := s,
        NextRetryDate := d\<rparr>) ndr"
    unfolding transition_result_def attempt_result_def by blast
  from v obtain t failed0 sts0 where "?P t" "internal_result (\<lambda>_. True) ndr t failed0 sts0"
      "if failed0 then failed \<and> sts = sts0 \<and> es1 = [] else budget_result (lib env) ndr bs failed sts es1"
    unfolding validated_def by blast
  then have failed: failed "es1 = []" "fails_after ndr (elems (DisruptedDisruptionBudgets (ndr_Status ndr))) (elems sts)"
    using late by (auto simp: internal_result_def)
  have "retry = 0" using retry late by (auto simp: retry_date_def)
  with dec failed late have "s = Rejected" by (auto simp: decided_def split: if_splits)
  with failed es show "nd_State (ndr_Status ndr') = Rejected \<and> list_all (\<lambda>e. \<not> is_hook e) es \<and>
     fails_after ndr (elems (DisruptedDisruptionBudgets (ndr_Status ndr)))
       (elems (DisruptedDisruptionBudgets (ndr_Status ndr')))"
    by (simp add: ndr')
qed

text \<open>
  Retries.  A disruption that stays pending after an attempt has a date for the next one, except
  when a budget is still preparing.
\<close>

theorem pending_has_next_date:
  assumes "nd_State (ndr_Status ndr) = Pending"
  shows "sat (TryTransitionState env ndr) (\<lambda>r es. on_success (\<lambda>ndr'.
     nd_State (ndr_Status ndr') = Pending \<longrightarrow> NextRetryDate (ndr_Status ndr') \<noteq> 0 \<or>
       \<not> list_all (\<lambda>st. \<not> Preparing st) (elems (DisruptedDisruptionBudgets (ndr_Status ndr')))) r)"
proof (rule transition_guarantee [OF assms clock_within_True lists_within_True budgets_within_sync])
  fix ndr' es
  assume "transition_result (\<lambda>_. True) (\<lambda>_. True) (list_all (budget_in_sync (lib env))) (lib env) ndr ndr' es"
  then obtain retry failed sts s d where
      dec: "decided (\<lambda>_. True) ndr retry failed sts s d" and
      ndr': "ndr' = set_status ((ndr_Status ndr)\<lparr>DisruptedDisruptionBudgets := sts, nd_State := s,
        NextRetryDate := d\<rparr>) ndr"
    unfolding transition_result_def attempt_result_def by blast
  from dec show "nd_State (ndr_Status ndr') = Pending \<longrightarrow> NextRetryDate (ndr_Status ndr') \<noteq> 0 \<or>
       \<not> list_all (\<lambda>st. \<not> Preparing st) (elems (DisruptedDisruptionBudgets (ndr_Status ndr')))"
    by (auto simp: ndr' decided_def split: if_splits)
qed

text \<open>
  C17: Preparation first.  While some budget that is concerned and has hooks of version 2 has no status in
  the disruption, no attempt grants it: the owner of that budget is first asked to prepare.
\<close>

theorem no_grant_before_preparation:
  assumes "nd_State (ndr_Status ndr) = Pending"
    and "budgets_within env (list_ex (\<lambda>b. concerned ndr (nodes_of_status ndr) b \<and> V2HooksReady b \<and>
        GetNamespacedName b \<notin> Reference ` set (elems (DisruptedDisruptionBudgets (ndr_Status ndr)))))"
  shows "sat (TryTransitionState env ndr) (\<lambda>r es.
     on_success (\<lambda>ndr'. nd_State (ndr_Status ndr') \<noteq> Granted) r)"
proof (rule transition_guarantee [OF assms(1) clock_within_True lists_within_True assms(2)], rule notI)
  fix ndr' es
  assume "transition_result (\<lambda>_. True) (\<lambda>_. True) (list_ex (\<lambda>b. concerned ndr (nodes_of_status ndr) b \<and> V2HooksReady b \<and>
        GetNamespacedName b \<notin> Reference ` set (elems (DisruptedDisruptionBudgets (ndr_Status ndr))))) (lib env) ndr ndr' es"
    and "nd_State (ndr_Status ndr') = Granted"
  from granted_backed [OF this] obtain bs b where
      bs: "backed (lib env) ndr bs (elems (DisruptedDisruptionBudgets (ndr_Status ndr'))) es" and
      b: "b \<in> set bs" "concerned ndr (nodes_of_status ndr) b" "V2HooksReady b"
        "GetNamespacedName b \<notin> Reference ` set (elems (DisruptedDisruptionBudgets (ndr_Status ndr)))"
    unfolding list_ex_iff by blast
  from bs b have "approved (lib env) ndr (DisruptedDisruptionBudgets (ndr_Status ndr)) b es"
    unfolding backed_def list_all_iff by blast
  moreover have "\<not> (\<exists>s \<in> set (elems (DisruptedDisruptionBudgets (ndr_Status ndr))). Reference s = GetNamespacedName b)"
    using b(4) by (metis imageI)
  then have "status_for b (DisruptedDisruptionBudgets (ndr_Status ndr)) = zero_status"
    unfolding status_for_def Let_def IndexFunc_def by simp
  ultimately show False using b(3) by (simp add: approved_def zero_status_def)
qed

section \<open>Hooks of version 2\<close>


section \<open>Termination\<close>

text \<open>
  A status that calls for a notification, given what the API answers for its budget: the budget is
  an application budget that was preparing.  It is settled when the budget no longer exists or has
  no base path, or when its terminate hook answered 200.
\<close>

definition must_notify :: "DisruptedBudgetStatus \<Rightarrow> bool" where
  "must_notify st \<longleftrightarrow> Preparing st \<and> ref_Kind (Reference st) = ''ApplicationDisruptionBudget''"

definition settled :: "lib \<Rightarrow> (string \<times> string \<Rightarrow> error + ApplicationDisruptionBudget) \<Rightarrow> NodeDisruption \<Rightarrow>
    DisruptedBudgetStatus \<Rightarrow> effect list \<Rightarrow> bool" where
  "settled l adb_at nd st es \<longleftrightarrow>
     (case adb_at (ref_Namespace (Reference st), ref_Name (Reference st)) of
        Inl err \<Rightarrow> IsNotFound err
      | Inr adb \<Rightarrow> URL (HookV2BasePath (adb_Spec adb)) = '''' \<or>
          adb_consents l \<lparr>adbr_ADB = adb, hookCli = None\<rparr> Terminated nd (10 * 10 ^ 9) es)"

definition notified :: "lib \<Rightarrow> (string \<times> string \<Rightarrow> error + ApplicationDisruptionBudget) \<Rightarrow> NodeDisruption \<Rightarrow>
    DisruptedBudgetStatus list \<Rightarrow> bool \<Rightarrow> bool \<Rightarrow> effect list \<Rightarrow> bool" where
  "notified l adb_at nd sts failed failed' es \<longleftrightarrow> list_all mild es \<and>
     length (filter is_hook es) \<le> length (filter must_notify sts) \<and>
     (\<not> failed' \<longrightarrow> \<not> failed \<and> list_all (\<lambda>st. must_notify st \<longrightarrow> settled l adb_at nd st es) sts)"

lemma settled_mono: "settled l adb_at nd st es \<Longrightarrow> set es \<subseteq> set es' \<Longrightarrow> settled l adb_at nd st es'"
  using adb.consents_mono by (auto simp: settled_def adb_consents_def split: sum.splits)

lemma notified_Cons:
  assumes rest: "notified l adb_at nd sts (if ok then failed else True) failed' es'"
    and here: "must_notify st \<Longrightarrow> ok \<Longrightarrow> settled l adb_at nd st es"
    and es: "list_all mild es" "length (filter is_hook es) \<le> (if must_notify st then 1 else 0)"
  shows "notified l adb_at nd (st # sts) failed failed' (es @ es')"
proof -
  have "settled l adb_at nd st' (es @ es')" if "settled l adb_at nd st' es'" for st'
    using that by (rule settled_mono) simp
  moreover have "settled l adb_at nd st (es @ es')" if "settled l adb_at nd st es"
    using that by (rule settled_mono) simp
  ultimately show ?thesis
    using rest here es unfolding notified_def by (auto simp: list_all_iff split: if_splits)
qed

lemma terminate_loop_law:
  assumes "\<And>key x. fst (get_adb (kube env) key x) = adb_at key"
  shows "sat (terminate_loop env ndr sts failed) (notified (lib env) adb_at (ndr_ND ndr) sts failed)"
proof (induction sts arbitrary: failed)
  case Nil
  then show ?case by (simp add: sat_ret notified_def)
next
  case (Cons st sts)
  have skip: "sat (terminate_loop env ndr sts (if ok then failed else True))
      (notified (lib env) adb_at (ndr_ND ndr) (st # sts) failed)"
    if "must_notify st \<Longrightarrow> ok \<Longrightarrow> settled (lib env) adb_at (ndr_ND ndr) st []" for ok
    by (rule sat_weaken [OF Cons.IH], drule notified_Cons [where es = "[]" and ok = ok, OF _ that]) simp_all
  have call: "sat (terminate_loop env ndr sts (if err \<noteq> None then True else failed))
      (\<lambda>r es'. notified (lib env) adb_at (ndr_ND ndr) (st # sts) failed r (es @ es'))"
    if "must_notify st" "polite es" "err = None \<longrightarrow> settled (lib env) adb_at (ndr_ND ndr) st es"
    for err :: "error option" and es
    by (rule sat_weaken [OF Cons.IH], rule notified_Cons [where ok = "err = None"])
      (use that polite_mild [OF that(2)] in \<open>auto simp: polite_def split: if_splits\<close>)
  let ?key = "(ref_Namespace (Reference st), ref_Name (Reference st))"
  have get: "sat (ask (get_adb (kube env) ?key)) (\<lambda>r es. es = [] \<and> r = adb_at ?key)"
    by (rule sat_ask_within) (rule assms)
  show ?case
  proof (cases "must_notify st")
    case False
    then show ?thesis using skip [of True] by (auto simp: must_notify_def)
  next
    case True
    note must = this
    have skip_ok: "sat (terminate_loop env ndr sts failed) (notified (lib env) adb_at (ndr_ND ndr) (st # sts) failed)"
      if "settled (lib env) adb_at (ndr_ND ndr) st []"
      using skip [of True] that by simp
    have body: "sat (case adb_at ?key of
           Inl err \<Rightarrow> terminate_loop env ndr sts (if IsNotFound err then failed else True)
         | Inr adb \<Rightarrow>
             (let budgetResolver = \<lparr>adbr_ADB = adb, hookCli = None\<rparr> in
              if \<not> adb_V2HooksReady budgetResolver then terminate_loop env ndr sts failed
              else do {
                (err, _) \<leftarrow> adb_CallTerminateHook env budgetResolver (ndr_ND ndr) (10 * 10 ^ 9);
                terminate_loop env ndr sts (if err \<noteq> None then True else failed) }))
       (notified (lib env) adb_at (ndr_ND ndr) (st # sts) failed)"
    proof (cases "adb_at ?key")
      case (Inl err)
      then show ?thesis
        using skip [of "IsNotFound err"] by (auto simp: settled_def)
    next
      case (Inr adb)
      have "sat (do {
            (err, _) \<leftarrow> adb_CallTerminateHook env \<lparr>adbr_ADB = adb, hookCli = None\<rparr> (ndr_ND ndr) (10 * 10 ^ 9);
            terminate_loop env ndr sts (if err \<noteq> None then True else failed) })
          (notified (lib env) adb_at (ndr_ND ndr) (st # sts) failed)"
        by (rule sat_bind [OF adb.terminate_law], clarify, rule call [OF must]) (simp_all add: settled_def Inr)
      then show ?thesis
        unfolding Inr Let_def sum.case
        by (intro sat_if skip_ok) (simp_all add: settled_def Inr adb_V2HooksReady_def)
    qed
    from must show ?thesis
      by (simp add: must_notify_def) (rule sat_bind [OF get], use body in simp)
  qed
qed

lemma terminate_law:
  assumes "\<And>key x. fst (get_adb (kube env) key x) = adb_at key"
  shows "sat (terminateAllImpactedBudgets env ndr) (\<lambda>err es.
     length (filter is_hook es) \<le> length (filter must_notify (elems (DisruptedDisruptionBudgets (ndr_Status ndr)))) \<and>
     (err = None \<longrightarrow> list_all (\<lambda>st. must_notify st \<longrightarrow> settled (lib env) adb_at (ndr_ND ndr) st es)
       (elems (DisruptedDisruptionBudgets (ndr_Status ndr)))))"
  unfolding terminateAllImpactedBudgets_def
  by (rule sat_bind [OF terminate_loop_law [OF assms]]) (auto intro!: sat_ret simp: notified_def)


section \<open>Two consequences that the code does not intend\<close>

text \<open>
  With the flag that rejects overlapping disruptions, the internal constraints return before
  they look at the allowed types: their answer does not depend on the list of allowed types.
\<close>

theorem overlap_check_skips_types:
  assumes "RejectOverlappingDisruption (ndr_Config ndr)"
  shows "ValidateWithInternalConstraints env (ndr\<lparr>ndr_Config := (ndr_Config ndr)\<lparr>NodeDisruptionTypes := types\<rparr>\<rparr>)
     = ValidateWithInternalConstraints env ndr"
proof -
  let ?ndr = "ndr\<lparr>ndr_Config := (ndr_Config ndr)\<lparr>NodeDisruptionTypes := types\<rparr>\<rparr>"
  have ref: "getNodeDisruptionReference ?ndr = getNodeDisruptionReference ndr"
    by (simp add: getNodeDisruptionReference_def)
  have "overlap_loop ?ndr ns items = overlap_loop ndr ns items" for ns items
    by (induction items) (simp_all add: ref)
  then have overlap: "ValidateOverlappingDisruption env ?ndr ns = ValidateOverlappingDisruption env ndr ns" for ns
    by (simp add: ValidateOverlappingDisruption_def cong: sum.case_cong)
  show ?thesis
    using assms unfolding ValidateWithInternalConstraints_def ref overlap by (simp add: Let_def cong: if_cong)
qed

text \<open>
  C39: A refusal forgets who is preparing: when a budget refuses, the statuses of the attempt contain
  no preparing budget, whatever the earlier ones said, so that ending the disruption afterwards
  notifies nobody.
\<close>

theorem refusal_forgets_preparing:
  assumes "find (refuses ndr (nodes_of_status ndr)) bs \<noteq> None"
  shows "sat (ValidateWithBudgetConstraints env ndr bs cur) (\<lambda>(failed, sts) es.
     terminateAllImpactedBudgets env (set_status ((ndr_Status ndr)\<lparr>DisruptedDisruptionBudgets := sts\<rparr>) ndr) = ret None)"
  by (rule sat_weaken [OF budget_constraints_law])
    (use assms in \<open>auto simp: terminateAllImpactedBudgets_def failed_status_def\<close>)

end
