(* ===== verification/Progress.thy ===== *)
theory Progress
  imports Nd_Transitions
begin

text \<open>
  Progress: when every budget concerned tolerates a disruption and the application managers cooperate,
  the disruption is granted within two attempts, the first of which prepares the budgets that have
  hooks of version 2.
\<close>

section \<open>Cooperation\<close>

definition cooperative :: "'x env \<Rightarrow> bool" where
  "cooperative env \<longleftrightarrow>
     (\<forall>u d hs t x. \<exists>rsp. fst (http_Do (net env) u d hs t x) = Inr rsp \<and> 200 \<le> StatusCode rsp \<and> StatusCode rsp < 300) \<and>
     (\<forall>rsp x. \<exists>body. fst (io_ReadAll (net env) rsp x) = Inr body) \<and>
     (\<forall>tr oper x. \<exists>rsp. fst (net_roundtrip (net env) tr oper x) = Inr rsp \<and> rsp_Code rsp = 200) \<and>
     (\<forall>nd. \<exists>d. json_Marshal (lib env) nd = Inr d)"

text \<open>The URLs of a budget's hooks, where it has any, are well formed.\<close>

fun callable :: "lib \<Rightarrow> Budget \<Rightarrow> bool" where
  "callable l (ApplicationBudget r) \<longleftrightarrow>
     (URL (HealthHook (adbr_Spec r)) \<noteq> '''' \<longrightarrow> NewRequest l (URL (HealthHook (adbr_Spec r))) = None) \<and>
     (\<exists>u. url_Parse l (URL (HookV2BasePath (adbr_Spec r))) = Inr u)"
| "callable l (NodeBudget r) \<longleftrightarrow> True"

lemma sat_ask_bind_within:
  assumes "\<And>x. Q (fst (f x))" and "\<And>a. Q a \<Longrightarrow> sat (g a) R"
  shows "sat (State_Monad.bind (ask f) g) R"
  by (rule sat_bind [OF sat_ask_within [of Q]]) (use assms in auto)

lemma cooperative_submit:
  assumes "cooperative env"
  shows "sat (Submit env tr oper reader) (\<lambda>r _. \<exists>rsp. r = reader rsp \<and> rsp_Code rsp = 200)"
  unfolding Submit_def
  by (rule sat_ask_bind_within [where Q = "\<lambda>r. \<exists>rsp. r = Inr rsp \<and> rsp_Code rsp = 200"])
    (use assms in \<open>auto simp: cooperative_def intro!: sat_intros\<close>)

lemma cooperative_operations:
  assumes "cooperative env"
  shows "sat (PrepareApplication env tr p opts) (\<lambda>r _. \<exists>y. r = Inr y)"
    "sat (CheckReadiness env tr p opts) (\<lambda>r _. \<exists>y. r = Inr y)"
  unfolding PrepareApplication_def CheckReadiness_def Let_def
  by (auto intro!: sat_bind [OF cooperative_submit [OF assms]] sat_ret
      simp: prepare.read_200 ready.read_200 typed_result_def)

lemma callable_client: "callable l (ApplicationBudget r) \<Longrightarrow> \<exists>cli r'. hookClient l r = Inr (cli, r')"
  by (auto simp: hookClient_def Let_def split: option.split)

lemma cooperative_v2_hooks:
  assumes "cooperative env" and "callable (lib env) b"
  shows "sat (CallPrepareHook env b nd t) (\<lambda>(err, _) _. err = None)"
    "sat (CallReadyHook env b nd t) (\<lambda>(err, _) _. err = None)"
proof -
  have hooks: "sat (adb_CallPrepareHook env r nd t) (\<lambda>(err, _) _. err = None)"
    "sat (adb_CallReadyHook env r nd t) (\<lambda>(err, _) _. err = None)" if callable: "callable (lib env) (ApplicationBudget r)" for r
  proof -
    from callable_client [OF callable] obtain cli r' where "hookClient (lib env) r = Inr (cli, r')" by blast
    then show "sat (adb_CallPrepareHook env r nd t) (\<lambda>(err, _) _. err = None)"
      "sat (adb_CallReadyHook env r nd t) (\<lambda>(err, _) _. err = None)"
      unfolding adb_CallPrepareHook_def adb_CallReadyHook_def
      by (auto intro!: sat_bind [OF cooperative_operations(1) [OF assms(1)]]
          sat_bind [OF cooperative_operations(2) [OF assms(1)]] sat_intros)
  qed
  show "sat (CallPrepareHook env b nd t) (\<lambda>(err, _) _. err = None)"
    unfolding CallPrepareHook_def ndb_CallPrepareHook_def
    by (cases b) (use assms(2) in \<open>auto intro!: sat_bind [OF hooks(1)] sat_intros\<close>)
  show "sat (CallReadyHook env b nd t) (\<lambda>(err, _) _. err = None)"
    unfolding CallReadyHook_def ndb_CallReadyHook_def
    by (cases b) (use assms(2) in \<open>auto intro!: sat_bind [OF hooks(2)] sat_intros\<close>)
qed

lemma cooperative_health_hook:
  assumes "cooperative env" and "callable (lib env) b"
  shows "sat (CallHealthHook env b nd t) (\<lambda>err _. err = None)"
proof (cases b)
  case (ApplicationBudget r)
  from assms(1) obtain d where d: "json_Marshal (lib env) nd = Inr d" unfolding cooperative_def by blast
  have answered: "\<exists>rsp. fst (http_Do (net env) u d hs t x) = Inr rsp \<and> 200 \<le> StatusCode rsp \<and> StatusCode rsp < 300"
    and readable: "\<exists>body. fst (io_ReadAll (net env) rsp x) = Inr body" for u d hs t x rsp
    using assms(1) by (simp_all add: cooperative_def)
  have "sat (adb_CallHealthHook env r nd t) (\<lambda>err _. err = None)"
    if "URL (HealthHook (adbr_Spec r)) \<noteq> ''''"
  proof -
    have "NewRequest (lib env) (URL (HealthHook (adbr_Spec r))) = None"
      using assms(2) that by (simp add: ApplicationBudget)
    then show ?thesis
      unfolding adb_CallHealthHook_def Let_def
      by (simp add: d that)
        (rule sat_ask_bind_within [where Q = "\<lambda>r. \<exists>rsp. r = Inr rsp \<and> 200 \<le> StatusCode rsp \<and> StatusCode rsp < 300",
            OF answered], clarsimp, rule sat_emit_bind,
          rule sat_ask_bind_within [where Q = "\<lambda>r. \<exists>body. r = Inr body", OF readable], clarsimp,
          rule sat_metrics_bind, rule sat_ret, simp)
  qed
  moreover have "sat (adb_CallHealthHook env r nd t) (\<lambda>err _. err = None)" if "URL (HealthHook (adbr_Spec r)) = ''''"
    unfolding adb_CallHealthHook_def Let_def by (simp add: that sat_ret)
  ultimately show ?thesis by (auto simp: ApplicationBudget)
qed (simp add: ndb_CallHealthHook_def sat_ret)

section \<open>One attempt\<close>

text \<open>A budget with hooks of version 2 that has neither prepared nor approved.\<close>

definition unprepared :: "DisruptedBudgetStatus slice \<Rightarrow> Budget \<Rightarrow> bool" where
  "unprepared cur b \<longleftrightarrow> V2HooksReady b \<and> \<not> Preparing (status_for b cur) \<and> \<not> Ok (status_for b cur)"

definition agreeing :: "DisruptedBudgetStatus slice \<Rightarrow> Budget \<Rightarrow> DisruptedBudgetStatus \<Rightarrow> bool" where
  "agreeing cur b st \<longleftrightarrow> Reference st = GetNamespacedName b \<and> (Ok st \<or> Preparing st) \<and> (Ok st \<longleftrightarrow> \<not> unprepared cur b)"

lemma cooperative_check:
  assumes "cooperative env" and "callable (lib env) b"
  shows "sat (check_budget env ndr cur b) (\<lambda>st _. agreeing cur b st)"
  unfolding check_budget_def v2HookCheck_def legacyHookCheck_def Let_def
  by (auto intro!: sat_if sat_bind [OF cooperative_v2_hooks(1) [OF assms]] sat_bind [OF cooperative_v2_hooks(2) [OF assms]]
      sat_bind [OF cooperative_health_hook [OF assms]] sat_intros simp: agreeing_def unprepared_def)

text \<open>What the loop of the hook checks answers: a status per budget, and whether one was unprepared.\<close>

definition loop_agrees :: "DisruptedBudgetStatus slice \<Rightarrow> Budget list \<Rightarrow> bool \<Rightarrow> DisruptedBudgetStatus slice \<Rightarrow>
    bool \<times> DisruptedBudgetStatus slice \<Rightarrow> bool" where
  "loop_agrees cur bs failed sts res \<longleftrightarrow> (\<exists>new. elems (snd res) = elems sts @ new \<and>
     list_all2 (agreeing cur) bs new \<and> (fst res \<longleftrightarrow> failed \<or> list_ex (unprepared cur) bs))"

lemma loop_agrees_Cons:
  assumes "agreeing cur b st" and "loop_agrees cur bs (if \<not> Ok st then True else failed) (append_slice sts [st]) res"
  shows "loop_agrees cur (b # bs) failed sts res"
proof -
  from assms(2) obtain new where "elems (snd res) = elems sts @ st # new" "list_all2 (agreeing cur) bs new"
      "fst res \<longleftrightarrow> (if \<not> Ok st then True else failed) \<or> list_ex (unprepared cur) bs"
    by (auto simp: loop_agrees_def)
  with assms(1) show ?thesis
    unfolding loop_agrees_def by (intro exI [of _ "st # new"]) (auto simp: agreeing_def)
qed

lemma cooperative_hook_loop:
  assumes "cooperative env" and "list_all (callable (lib env)) bs"
  shows "sat (hook_loop env ndr cur bs failed sts) (\<lambda>res _. loop_agrees cur bs failed sts res)"
  using assms(2)
proof (induction bs arbitrary: failed sts)
  case (Cons b bs)
  then show ?case
    unfolding hook_loop.simps
    by (auto intro!: sat_bind [OF cooperative_check [OF assms(1)]] sat_weaken [OF Cons.IH]
        intro: loop_agrees_Cons simp del: if_split)
qed (simp add: sat_ret loop_agrees_def)

section \<open>Attempts in a cooperating cluster\<close>

text \<open>The internal constraints admit a disruption, at any time that the clock shows.\<close>

definition admissible :: "'x env \<Rightarrow> SNDR \<Rightarrow> bool" where
  "admissible env ndr \<longleftrightarrow>
     clock_within env (\<lambda>t. DoNotGrantBefore (ndr_Spec ndr) \<le> t \<and> \<not> IsAfterDeadline t (Retry (ndr_Spec ndr))) \<and>
     (RejectEmptyNodeDisruption (ndr_Config ndr) \<longrightarrow> Len (nodes_of_status ndr) \<noteq> 0) \<and>
     (if RejectOverlappingDisruption (ndr_Config ndr) then
        \<forall>x. \<exists>items. fst (list_nd (kube env) x) = Inr items \<and> (\<forall>other \<in> set items. \<not> overlaps ndr (nodes_of_status ndr) other)
      else \<not> type_disallowed ndr)"

lemma admissible_internal:
  assumes "admissible env ndr"
  shows "sat (ValidateWithInternalConstraints env ndr) (\<lambda>r es. \<exists>sts. r = Inr (False, sts))"
proof -
  have clk: "clock_within env (\<lambda>t. DoNotGrantBefore (ndr_Spec ndr) \<le> t \<and> \<not> IsAfterDeadline t (Retry (ndr_Spec ndr)))"
    using assms by (simp add: admissible_def)
  have overlap: "sat (ValidateOverlappingDisruption env ndr (nodes_of_status ndr)) (\<lambda>r es. \<exists>st. r = Inr (False, st))"
    if "RejectOverlappingDisruption (ndr_Config ndr)"
  proof -
    have "\<exists>items. fst (list_nd (kube env) x) = Inr items \<and> (\<forall>other \<in> set items. \<not> overlaps ndr (nodes_of_status ndr) other)" for x
      using assms that by (simp add: admissible_def)
    then show ?thesis
      unfolding ValidateOverlappingDisruption_def
      by (rule sat_ask_bind_within [where Q = "\<lambda>r. \<exists>items. r = Inr items \<and>
          (\<forall>other \<in> set items. \<not> overlaps ndr (nodes_of_status ndr) other)"])
        (auto intro!: sat_ret simp: prod_eq_iff overlap_loop_result(1))
  qed
  show ?thesis
    unfolding ValidateWithInternalConstraints_def Let_def
    apply (rule sat_bind [OF AfterDeadline_law [OF clk]])
    using assms
    by (auto intro!: sat_if sat_ret sat_bind [OF overlap] simp: admissible_def type_disallowed_def)
qed

text \<open>The result of one attempt in which every budget concerned tolerates the disruption.\<close>

definition attempt_agrees :: "SNDR \<Rightarrow> Budget list \<Rightarrow> SNDR \<Rightarrow> bool" where
  "attempt_agrees ndr bs ndr' \<longleftrightarrow> (\<exists>sts s d.
     ndr' = set_status ((ndr_Status ndr)\<lparr>DisruptedDisruptionBudgets := sts, nd_State := s, NextRetryDate := d\<rparr>) ndr \<and>
     list_all2 (agreeing (DisruptedDisruptionBudgets (ndr_Status ndr)))
       (filter (concerned ndr (nodes_of_status ndr)) bs) (elems sts) \<and>
     s = (if list_ex (unprepared (DisruptedDisruptionBudgets (ndr_Status ndr)))
            (filter (concerned ndr (nodes_of_status ndr)) bs) then Pending else Granted))"

lemma attempt_agreesI:
  "list_all2 (agreeing (DisruptedDisruptionBudgets (ndr_Status ndr)))
     (filter (concerned ndr (nodes_of_status ndr)) bs) (elems sts) \<Longrightarrow>
   s = (if list_ex (unprepared (DisruptedDisruptionBudgets (ndr_Status ndr)))
     (filter (concerned ndr (nodes_of_status ndr)) bs) then Pending else Granted) \<Longrightarrow>
   attempt_agrees ndr bs (set_status ((ndr_Status ndr)\<lparr>DisruptedDisruptionBudgets := sts, nd_State := s,
     NextRetryDate := d\<rparr>) ndr)"
  unfolding attempt_agrees_def by blast

lemma retry_pending:
  assumes clk: "clock_within env (\<lambda>t. DoNotGrantBefore (ndr_Spec ndr) \<le> t \<and> \<not> IsAfterDeadline t (Retry (ndr_Spec ndr)))"
    and "failed \<Longrightarrow> list_ex Preparing (elems sts)"
  shows "sat (decide env ndr (getDoNotGrantBeforeDate ndr) retry failed sts)
     (\<lambda>(s, d) _. s = (if failed then Pending else Granted))"
  by (rule sat_weaken [OF decide_law [OF clk]])
    (use assms(2) in \<open>auto simp: decided_def list_all_iff list_ex_iff split: if_splits\<close>)

lemma attempt_with_agrees:
  assumes coop: "cooperative env" and adm: "admissible env ndr"
    and bs: "list_all (\<lambda>b. concerned ndr (nodes_of_status ndr) b \<longrightarrow>
      TolerateDisruption b (nodes_of_status ndr) \<and> callable (lib env) b) bs"
  shows "sat (attempt_with env ndr retry bs) (\<lambda>r _. \<exists>ndr'. r = Inr ndr' \<and> attempt_agrees ndr bs ndr')"
proof -
  let ?cur = "DisruptedDisruptionBudgets (ndr_Status ndr)"
  let ?bs = "filter (concerned ndr (nodes_of_status ndr)) bs"
  have none: "find (refuses ndr (nodes_of_status ndr)) bs = None"
    using bs by (auto simp: find_None_iff refuses_def list_all_iff)
  have "list_all (callable (lib env)) ?bs" using bs by (auto simp: list_all_iff)
  note hooks = cooperative_hook_loop [OF coop this]
  have validate: "sat (ValidateWithBudgetConstraints env ndr bs ?cur) (\<lambda>res _. loop_agrees ?cur ?bs False NilSlice res)"
    unfolding ValidateWithBudgetConstraints_def Let_def select_loop_eq none
    by (simp add: hooks)
  have clk: "clock_within env (\<lambda>t. DoNotGrantBefore (ndr_Spec ndr) \<le> t \<and> \<not> IsAfterDeadline t (Retry (ndr_Spec ndr)))"
    using adm by (simp add: admissible_def)
  have decide: "sat (decide env ndr (getDoNotGrantBeforeDate ndr) retry failed sts)
      (\<lambda>(s, d) _. s = (if list_ex (unprepared ?cur) ?bs then Pending else Granted) \<and> list_all2 (agreeing ?cur) ?bs (elems sts))"
    if "loop_agrees ?cur ?bs False NilSlice (failed, sts)" for failed sts
  proof -
    from that have new: "list_all2 (agreeing ?cur) ?bs (elems sts)" and failed: "failed \<longleftrightarrow> list_ex (unprepared ?cur) ?bs"
      by (auto simp: loop_agrees_def)
    have "list_ex Preparing sts'" if "list_all2 (agreeing ?cur) bs' sts'" "list_ex (unprepared ?cur) bs'" for bs' sts'
      using that by (induction rule: list_all2_induct) (auto simp: agreeing_def)
    from this [OF new] failed retry_pending [OF clk, of failed sts retry] show ?thesis
      by (auto intro: sat_weaken simp: new)
  qed
  show ?thesis
    unfolding attempt_with_def
    apply (rule sat_bind [OF admissible_internal [OF adm]])
    apply clarsimp
    apply (rule sat_bind [OF validate])
    apply (clarsimp split: prod.split)
    apply (rule sat_bind, erule decide)
    apply (auto intro!: sat_ret attempt_agreesI)
    done
qed

lemma transition_agrees:
  assumes "nd_State (ndr_Status ndr) = Pending" and "cooperative env" and "admissible env ndr"
    and "sat (GetAllBudgetsInSync env) (\<lambda>r _. r = Inr bs)"
    and "list_all (\<lambda>b. concerned ndr (nodes_of_status ndr) b \<longrightarrow>
      TolerateDisruption b (nodes_of_status ndr) \<and> callable (lib env) b) bs"
  shows "sat (TryTransitionState env ndr) (\<lambda>r _. \<exists>ndr'. r = Inr ndr' \<and> attempt_agrees ndr bs ndr')"
proof -
  have "sat (tryTransitionToGranted env ndr) (\<lambda>r _. \<exists>ndr'. r = Inr ndr' \<and> attempt_agrees ndr bs ndr')"
    unfolding tryTransition_attempt
    by (rule sat_bind [OF getRetryDate_law [OF clock_within_True]], rule sat_bind [OF assms(4)])
      (simp add: attempt_with_agrees [OF assms(2,3,5)])
  then show ?thesis
    using assms(1) unfolding TryTransitionState_def
    by (auto intro!: sat_bind sat_metrics_bind sat_ret)
qed

lemma status_for_in:
  assumes "GetNamespacedName b \<in> Reference ` set (elems cur)"
  shows "status_for b cur \<in> set (elems cur)"
proof -
  have "\<exists>s \<in> set (elems cur). Reference s = GetNamespacedName b" using assms by auto
  note found = IndexFunc_nth [OF this]
  from found(1) have "-1 < IndexFunc (\<lambda>s. Reference s = GetNamespacedName b) (elems cur)" by simp
  with found(3) show ?thesis by (simp add: status_for_def Let_def)
qed

text \<open>After an attempt that every budget agreed to, no budget is unprepared.\<close>

lemma agreed_prepared:
  assumes "list_all2 (agreeing cur) bs (elems sts)" and "b \<in> set bs"
  shows "\<not> unprepared sts b"
proof -
  have all: "\<forall>st \<in> set ss. Ok st \<or> Preparing st" "map Reference ss = map GetNamespacedName cs"
    if "list_all2 (agreeing cur) cs ss" for cs ss
    using that by (induction rule: list_all2_induct) (auto simp: agreeing_def)
  have "GetNamespacedName b \<in> Reference ` set (elems sts)"
    using all(2) [OF assms(1)] assms(2) by (metis image_eqI set_map)
  from status_for_in [OF this] all(1) [OF assms(1)] show ?thesis by (auto simp: unprepared_def)
qed

section \<open>Two attempts suffice\<close>

lemma agreed_fields:
  assumes "attempt_agrees ndr bs ndr'"
  shows "ndr_Spec ndr' = ndr_Spec ndr" "nodes_of_status ndr' = nodes_of_status ndr"
    "ndr_Config ndr' = ndr_Config ndr" "nd_meta (ndr_ND ndr') = nd_meta (ndr_ND ndr)"
    "concerned ndr' = concerned ndr" "overlaps ndr' = overlaps ndr" "type_disallowed ndr' = type_disallowed ndr"
proof -
  show spec: "ndr_Spec ndr' = ndr_Spec ndr" and "nodes_of_status ndr' = nodes_of_status ndr"
    and config: "ndr_Config ndr' = ndr_Config ndr" and meta: "nd_meta (ndr_ND ndr') = nd_meta (ndr_ND ndr)"
    using assms by (auto simp: attempt_agrees_def)
  show "concerned ndr' = concerned ndr" "overlaps ndr' = overlaps ndr" "type_disallowed ndr' = type_disallowed ndr"
    by (simp_all add: fun_eq_iff concerned_def budgetSupportsDisruptionType_def overlaps_def type_disallowed_def
        spec config meta)
qed

lemma agreed_state:
  assumes "attempt_agrees ndr bs ndr'"
  shows "nd_State (ndr_Status ndr') \<in> {Pending, Granted}"
    and "list_all (\<lambda>b. concerned ndr (nodes_of_status ndr) b \<longrightarrow>
      \<not> unprepared (DisruptedDisruptionBudgets (ndr_Status ndr')) b) bs"
proof -
  from assms obtain sts s d where ndr': "ndr' = set_status ((ndr_Status ndr)
        \<lparr>DisruptedDisruptionBudgets := sts, nd_State := s, NextRetryDate := d\<rparr>) ndr" and
      all: "list_all2 (agreeing (DisruptedDisruptionBudgets (ndr_Status ndr)))
       (filter (concerned ndr (nodes_of_status ndr)) bs) (elems sts)" and
      s: "s = (if list_ex (unprepared (DisruptedDisruptionBudgets (ndr_Status ndr)))
            (filter (concerned ndr (nodes_of_status ndr)) bs) then Pending else Granted)"
    unfolding attempt_agrees_def by blast
  show "nd_State (ndr_Status ndr') \<in> {Pending, Granted}" by (simp add: ndr' s)
  show "list_all (\<lambda>b. concerned ndr (nodes_of_status ndr) b \<longrightarrow>
      \<not> unprepared (DisruptedDisruptionBudgets (ndr_Status ndr')) b) bs"
    using agreed_prepared [OF all] by (simp add: list_all_iff ndr')
qed

lemma prepared_grants:
  assumes "attempt_agrees ndr bs ndr'"
    and "list_all (\<lambda>b. concerned ndr (nodes_of_status ndr) b \<longrightarrow>
      \<not> unprepared (DisruptedDisruptionBudgets (ndr_Status ndr)) b) bs"
  shows "nd_State (ndr_Status ndr') = Granted"
  using assms by (auto simp: attempt_agrees_def list_all_iff list_ex_iff)

text \<open>
  Progress.  Take a pending disruption that the internal constraints admit, in a cluster whose
  budgets are \<open>bs\<close>, where every budget concerned tolerates it, the URLs of the hooks are well formed,
  and the application managers answer 200.  Then two attempts grant it: the first may only prepare
  the budgets that have hooks of version 2, the second finds them ready.
\<close>

theorem granted_within_two_attempts:
  assumes "nd_State (ndr_Status ndr) = Pending" and "cooperative env" and "admissible env ndr"
    and "sat (GetAllBudgetsInSync env) (\<lambda>r _. r = Inr bs)"
    and "list_all (\<lambda>b. concerned ndr (nodes_of_status ndr) b \<longrightarrow>
      TolerateDisruption b (nodes_of_status ndr) \<and> callable (lib env) b) bs"
  shows "sat (do { r \<leftarrow> TryTransitionState env ndr;
       (case r of Inl err \<Rightarrow> ret (Inl err) | Inr ndr' \<Rightarrow> TryTransitionState env ndr') })
     (\<lambda>r _. \<exists>ndr'. r = Inr ndr' \<and> nd_State (ndr_Status ndr') = Granted)"
proof (rule sat_bind [OF transition_agrees [OF assms]], clarsimp)
  fix ndr' :: SNDR
  assume first: "attempt_agrees ndr bs ndr'"
  note same = agreed_fields [OF first]
  show "sat (TryTransitionState env ndr') (\<lambda>r _. \<exists>ndr'. r = Inr ndr' \<and> nd_State (ndr_Status ndr') = Granted)"
  proof (cases "nd_State (ndr_Status ndr') = Granted")
    case True
    then show ?thesis by (simp add: TryTransitionState_def sat_ret)
  next
    case False
    then have pending: "nd_State (ndr_Status ndr') = Pending" using agreed_state(1) [OF first] by simp
    have adm: "admissible env ndr'" using assms(3) unfolding admissible_def same .
    have "list_all (\<lambda>b. concerned ndr' (nodes_of_status ndr') b \<longrightarrow>
      TolerateDisruption b (nodes_of_status ndr') \<and> callable (lib env) b) bs" using assms(5) unfolding same .
    note second = transition_agrees [OF pending assms(2) adm assms(4) this]
    have "list_all (\<lambda>b. concerned ndr' (nodes_of_status ndr') b \<longrightarrow>
      \<not> unprepared (DisruptedDisruptionBudgets (ndr_Status ndr')) b) bs"
      using agreed_state(2) [OF first] unfolding same .
    then show ?thesis by (auto intro: sat_weaken [OF second] prepared_grants)
  qed
qed

end
