(* ===== verification/Standing_Cluster.thy ===== *)
theory Standing_Cluster
  imports Budget
begin

text \<open>
  Budgets over a cluster that stands still during a call: every read then has a determined answer, so
  the budgets that \<open>GetAllBudgetsInSync\<close> returns are a function of the cluster's state.
\<close>

section \<open>Synchronisation is determined\<close>

definition cluster_stable :: "'x env \<Rightarrow> 'x \<Rightarrow> bool" where
  "cluster_stable env x \<longleftrightarrow> reads_stable env x \<and> snd (list_nd (kube env) x) = x \<and>
     snd (list_adb (kube env) None x) = x \<and> snd (list_ndb (kube env) None x) = x"

lemma cluster_stableD:
  assumes "cluster_stable env x"
  shows "reads_stable env x" "steady x (ask (list_nd (kube env)))"
    "steady x (ask (list_adb (kube env) None))" "steady x (ask (list_ndb (kube env) None))"
  using assms by (auto simp: cluster_stable_def intro: steady_ask)

lemma steady_nodes_loop:
  "nodes_stable env x \<Longrightarrow> steady x (disruption_loop env selected nds n ds)"
  by (induction nds arbitrary: n ds)
    (auto intro!: steady_intros still_steady [OF still_nodes] simp del: if_split)

lemma steady_disruption_loop:
  "reads_stable env x \<Longrightarrow> steady x (disruption_loop env selected nds n ds)"
  by (simp add: steady_nodes_loop reads_stable_def)

lemma steady_Sync [steady_intros]:
  assumes "cluster_stable env x"
  shows "steady x (adb_Sync env r)" "steady x (ndb_Sync env s)" "steady x (Sync_budget env b)"
proof -
  show "steady x (adb_Sync env r)" for r
    unfolding adb_Sync_def adb_ResolveDisruption_def
    by (auto intro!: steady_intros steady_disruption_loop cluster_stableD [OF assms])
  moreover show "steady x (ndb_Sync env s)" for s
    unfolding ndb_Sync_def ndb_ResolveDisruption_def ndb_GetSelectedNodes_def
    by (auto intro!: steady_intros steady_disruption_loop cluster_stableD [OF assms])
  ultimately show "steady x (Sync_budget env b)"
    unfolding Sync_budget_def by (auto intro!: steady_intros split: Budget.split)
qed

lemma steady_sync_loop: "(\<And>b. steady x (sync b)) \<Longrightarrow> steady x (sync_loop sync bs)"
  by (induction bs) (auto intro!: steady_intros)

lemma steady_GetAllBudgets [steady_intros]:
  assumes "cluster_stable env x"
  shows "steady x (GetAllBudgetsInSync env)"
  unfolding GetAllBudgetsInSync_def
  by (auto intro!: steady_intros steady_sync_loop cluster_stableD [OF assms] assms)

text \<open>The budgets of a state of the cluster.\<close>

definition budgets_at :: "'x env \<Rightarrow> 'x \<Rightarrow> error + Budget list" where
  "budgets_at env x = fst (run_state (GetAllBudgetsInSync env) (start x))"

lemma still_budgets: "cluster_stable env x \<Longrightarrow> still x (GetAllBudgetsInSync env) (budgets_at env x)"
  unfolding budgets_at_def start_def by (rule steady_still) (rule steady_intros)

section \<open>What a successful synchronisation found\<close>

lemma still_ret_iff [simp]: "still x (ret a) b \<longleftrightarrow> a = b"
  using still_unique [OF still_ret] still_ret by metis

lemma still_bindD:
  assumes "still x m a" and "still x (State_Monad.bind m f) b"
  shows "still x (f a) b"
  using assms unfolding still_def by simp

text \<open>The nodes of a disruption; none when its selector cannot be resolved.\<close>

definition disruption_nodes :: "'x env \<Rightarrow> 'x \<Rightarrow> NodeDisruption \<Rightarrow> NodeSet" where
  "disruption_nodes env x nd =
     (case nodes_for env x (nd_NodeSelector (nd_Spec nd)) of Inl _ \<Rightarrow> empty_NodeSet | Inr ns \<Rightarrow> ns)"

lemma disruption_loop_value:
  assumes stable: "nodes_stable env x"
    and "still x (disruption_loop env sel nds n ds) (Inr (n', ds'))"
  shows "n' = n + word_of_nat (length (granted_on (disruption_nodes env x) sel nds))"
  using assms(2)
proof (induction nds arbitrary: n ds)
  case Nil
  then show ?case by (simp add: granted_on_def)
next
  case (Cons nd nds)
  show ?case
  proof (cases "nd_State (nd_Status nd) = Unknown")
    case True
    with Cons show ?thesis by (simp add: granted_on_def impacting_def)
  next
    case False
    let ?cont = "\<lambda>r. case r of
         Inl err \<Rightarrow> ret (Inl err)
       | Inr impactedNodes \<Rightarrow>
           if Len (Intersection sel impactedNodes) > 0
           then disruption_loop env sel nds (if nd_State (nd_Status nd) = Granted then n + 1 else n)
             (ds @ [disruption_entry nd])
           else disruption_loop env sel nds n ds"
    have "still x (State_Monad.bind (GetNodeFromNodeSelector env (nd_NodeSelector (nd_Spec nd))) ?cont) (Inr (n', ds'))"
      using Cons.prems False unfolding disruption_entry_def by (simp split del: if_split)
    from still_bindD [OF still_nodes [OF stable] this]
    have run: "still x (?cont (nodes_for env x (nd_NodeSelector (nd_Spec nd)))) (Inr (n', ds'))" .
    from run obtain ns where ns: "nodes_for env x (nd_NodeSelector (nd_Spec nd)) = Inr ns"
      by (cases "nodes_for env x (nd_NodeSelector (nd_Spec nd))") auto
    then have "disruption_nodes env x nd = ns" by (simp add: disruption_nodes_def)
    with run ns False show ?thesis
      by (auto simp: granted_on_def impacting_def [of _ sel nd] algebra_simps dest!: Cons.IH split: if_splits)
  qed
qed

lemma adb_Sync_value:
  assumes stable: "reads_stable env x" and listed: "list_nd (kube env) x = (Inr nds, x)"
    and run: "still x (adb_Sync env r) (Inr r')"
  obtains sel where "adb_nodes_for env x r = Inr sel"
    and "WatchedNodes (adbr_Status r') = Slice (NodeSetToStringList sel)"
    and "CurrentDisruptions (adbr_Status r') = word_of_nat (length (granted_on (disruption_nodes env x) sel nds))"
    and "DisruptionsAllowed (adbr_Status r') = MaxDisruptions (adbr_Spec r) - CurrentDisruptions (adbr_Status r')"
    and "adbr_Spec r' = adbr_Spec r" and "adb_meta (adbr_ADB r') = adb_meta (adbr_ADB r)"
proof -
  note selected = still_adb_selected [OF stable, of r]
  have nodes: "nodes_stable env x" using stable by (simp add: reads_stable_def)
  from still_bindD [OF selected run [unfolded adb_Sync_def]] obtain sel where sel: "adb_nodes_for env x r = Inr sel"
    by (cases "adb_nodes_for env x r") auto
  from still_bindD [OF selected run [unfolded adb_Sync_def]] have sync: "still x (do {
      resolved \<leftarrow> adb_ResolveDisruption env r;
      (case resolved of
         Inl err \<Rightarrow> ret (Inl err)
       | Inr (disruptionCount, disruptions) \<Rightarrow>
           ret (Inr (r\<lparr>adbr_ADB := (adbr_ADB r)\<lparr>adb_Status := (adbr_Status r)\<lparr>
             WatchedNodes := Slice (NodeSetToStringList sel), CurrentDisruptions := disruptionCount,
             DisruptionsAllowed := MaxDisruptions (adbr_Spec r) - disruptionCount,
             Disruptions := Slice disruptions\<rparr>\<rparr>\<rparr>))) }) (Inr r')"
    by (simp add: sel Let_def)
  obtain res where loop: "still x (disruption_loop env sel nds 0 []) res"
    using steady_nodes_loop [OF nodes] unfolding steady_def by blast
  have resolve: "still x (adb_ResolveDisruption env r) res"
    unfolding adb_ResolveDisruption_def
    by (rule still_bind [OF selected], unfold sel sum.case,
        rule still_bind [OF still_ask [where f = "list_nd (kube env)", OF listed]]) (simp add: loop)
  from still_bindD [OF resolve sync] obtain n ds where nds: "res = Inr (n, ds)"
      and r': "r' = r\<lparr>adbr_ADB := (adbr_ADB r)\<lparr>adb_Status := (adbr_Status r)\<lparr>
             WatchedNodes := Slice (NodeSetToStringList sel), CurrentDisruptions := n,
             DisruptionsAllowed := MaxDisruptions (adbr_Spec r) - n, Disruptions := Slice ds\<rparr>\<rparr>\<rparr>"
    by (cases res) (auto split: prod.splits)
  from disruption_loop_value [OF nodes loop [unfolded nds]] show thesis
    by (intro that [OF sel]) (simp_all add: r')
qed

lemma ndb_Sync_value:
  assumes stable: "nodes_stable env x" and listed: "list_nd (kube env) x = (Inr nds, x)"
    and run: "still x (ndb_Sync env r) (Inr r')"
  obtains sel where "nodes_for env x (ndb_NodeSelector (ndbr_Spec r)) = Inr sel"
    and "WatchedNodes (ndbr_Status r') = Slice (NodeSetToStringList sel)"
    and "CurrentDisruptions (ndbr_Status r') = word_of_nat (length (granted_on (disruption_nodes env x) sel nds))"
    and "DisruptionsAllowed (ndbr_Status r') = computeNodeDisruptionBudgetDisruptionsAllowed
       (float_out_of_range (lib env)) (MaxDisruptedNodes (ndbr_Spec r)) (MinUndisruptedNodes (ndbr_Spec r))
       (word_of_nat (length (NodeSetToStringList sel))) (CurrentDisruptions (ndbr_Status r'))"
    and "ndbr_Spec r' = ndbr_Spec r" and "ndb_meta (ndbr_NDB r') = ndb_meta (ndbr_NDB r)"
proof -
  have selected: "still x (ndb_GetSelectedNodes env r) (nodes_for env x (ndb_NodeSelector (ndbr_Spec r)))"
    unfolding ndb_GetSelectedNodes_def
    by (rule still_bind [OF still_nodes [OF stable]]) (simp split: sum.split)
  from still_bindD [OF selected run [unfolded ndb_Sync_def]] obtain sel
    where sel: "nodes_for env x (ndb_NodeSelector (ndbr_Spec r)) = Inr sel"
    by (cases "nodes_for env x (ndb_NodeSelector (ndbr_Spec r))") auto
  from still_bindD [OF selected run [unfolded ndb_Sync_def]] have sync: "still x (do {
      resolved \<leftarrow> ndb_ResolveDisruption env r;
      (case resolved of
         Inl err \<Rightarrow> ret (Inl err)
       | Inr (disruptionCount, disruptions) \<Rightarrow>
           ret (Inr (r\<lparr>ndbr_NDB := (ndbr_NDB r)\<lparr>ndb_Status := (ndbr_Status r)\<lparr>
             WatchedNodes := Slice (NodeSetToStringList sel), CurrentDisruptions := disruptionCount,
             DisruptionsAllowed := computeNodeDisruptionBudgetDisruptionsAllowed
               (float_out_of_range (lib env)) (MaxDisruptedNodes (ndbr_Spec r)) (MinUndisruptedNodes (ndbr_Spec r))
               (word_of_nat (length (NodeSetToStringList sel))) disruptionCount,
             Disruptions := Slice disruptions\<rparr>\<rparr>\<rparr>))) }) (Inr r')"
    by (simp add: sel Let_def)
  obtain res where loop: "still x (disruption_loop env sel nds 0 []) res"
    using steady_nodes_loop [OF stable] unfolding steady_def by blast
  have resolve: "still x (ndb_ResolveDisruption env r) res"
    unfolding ndb_ResolveDisruption_def
    by (rule still_bind [OF selected], unfold sel sum.case,
        rule still_bind [OF still_ask [where f = "list_nd (kube env)", OF listed]]) (simp add: loop)
  from still_bindD [OF resolve sync] obtain n ds where nds: "res = Inr (n, ds)"
      and r': "r' = r\<lparr>ndbr_NDB := (ndbr_NDB r)\<lparr>ndb_Status := (ndbr_Status r)\<lparr>
             WatchedNodes := Slice (NodeSetToStringList sel), CurrentDisruptions := n,
             DisruptionsAllowed := computeNodeDisruptionBudgetDisruptionsAllowed
               (float_out_of_range (lib env)) (MaxDisruptedNodes (ndbr_Spec r)) (MinUndisruptedNodes (ndbr_Spec r))
               (word_of_nat (length (NodeSetToStringList sel))) n,
             Disruptions := Slice ds\<rparr>\<rparr>\<rparr>"
    by (cases res) (auto split: prod.splits)
  from disruption_loop_value [OF stable loop [unfolded nds]] show thesis
    by (intro that [OF sel]) (simp_all add: r')
qed

section \<open>The budgets of a standing cluster, one by one\<close>

lemma sync_loopD:
  assumes "\<And>b. steady x (sync b)" and "still x (sync_loop sync bs) (Inr bs')"
  shows "list_all2 (\<lambda>b b'. still x (sync b) (Inr b')) bs bs'"
  using assms(2)
proof (induction bs arbitrary: bs')
  case (Cons b bs)
  obtain r where r: "still x (sync b) r" using assms(1) unfolding steady_def by blast
  obtain q where q: "still x (sync_loop sync bs) q"
    using steady_sync_loop [of x sync bs, OF assms(1)] unfolding steady_def by blast
  from still_bindD [OF r Cons.prems [unfolded sync_loop.simps]] obtain b' where b': "r = Inr b'"
    by (cases r) auto
  from still_bindD [OF r Cons.prems [unfolded sync_loop.simps]]
  have "still x (State_Monad.bind (sync_loop sync bs)
      (\<lambda>rest. ret (case rest of Inl err \<Rightarrow> Inl err | Inr bs' \<Rightarrow> Inr (b' # bs')))) (Inr bs')"
    by (simp add: b')
  from still_bindD [OF q this] obtain cs where "q = Inr cs" "bs' = b' # cs" by (cases q) auto
  with Cons.IH q r b' show ?case by simp
qed simp

lemma Sync_budget_stillD:
  assumes "steady x (adb_Sync env r)" "still x (Sync_budget env (ApplicationBudget r)) (Inr b')"
  obtains r' where "b' = ApplicationBudget r'" "still x (adb_Sync env r) (Inr r')"
proof -
  obtain q where q: "still x (adb_Sync env r) q" using assms(1) unfolding steady_def by blast
  with still_bindD [OF q assms(2) [unfolded Sync_budget_def Budget.case]] that show thesis
    by (cases q) auto
qed

lemma Sync_node_budget_stillD:
  assumes "steady x (ndb_Sync env r)" "still x (Sync_budget env (NodeBudget r)) (Inr b')"
  obtains r' where "b' = NodeBudget r'" "still x (ndb_Sync env r) (Inr r')"
proof -
  obtain q where q: "still x (ndb_Sync env r) q" using assms(1) unfolding steady_def by blast
  with still_bindD [OF q assms(2) [unfolded Sync_budget_def Budget.case]] that show thesis
    by (cases q) auto
qed

text \<open>Every listed budget is among the budgets returned, synchronised.\<close>

lemma GetAllBudgetsD:
  assumes stable: "cluster_stable env x"
    and adbs: "list_adb (kube env) None x = (Inr adbs, x)" and ndbs: "list_ndb (kube env) None x = (Inr ndbs, x)"
    and run: "still x (GetAllBudgetsInSync env) (Inr bs)"
  shows "adb \<in> set adbs \<Longrightarrow> \<exists>r'. ApplicationBudget r' \<in> set bs \<and>
      still x (adb_Sync env \<lparr>adbr_ADB = adb, hookCli = None\<rparr>) (Inr r')"
    and "ndb \<in> set ndbs \<Longrightarrow> \<exists>r'. NodeBudget r' \<in> set bs \<and> still x (ndb_Sync env \<lparr>ndbr_NDB = ndb\<rparr>) (Inr r')"
proof -
  let ?bs = "map (\<lambda>adb. ApplicationBudget \<lparr>adbr_ADB = adb, hookCli = None\<rparr>) adbs
    @ map (\<lambda>ndb. NodeBudget \<lparr>ndbr_NDB = ndb\<rparr>) ndbs"
  have "still x (State_Monad.bind (ask (list_ndb (kube env) None)) (\<lambda>r. case r of Inl err \<Rightarrow> ret (Inl err)
      | Inr ndbs \<Rightarrow> sync_loop (Sync_budget env)
          (map (\<lambda>adb. ApplicationBudget \<lparr>adbr_ADB = adb, hookCli = None\<rparr>) adbs
           @ map (\<lambda>ndb. NodeBudget \<lparr>ndbr_NDB = ndb\<rparr>) ndbs))) (Inr bs)"
    using still_bindD [OF still_ask [where f = "list_adb (kube env) None", OF adbs]
        run [unfolded GetAllBudgetsInSync_def]] by simp
  from still_bindD [OF still_ask [where f = "list_ndb (kube env) None", OF ndbs] this]
  have "still x (sync_loop (Sync_budget env) ?bs) (Inr bs)" by simp
  from sync_loopD [OF steady_Sync(3) [OF stable] this]
  have all: "list_all2 (\<lambda>b b'. still x (Sync_budget env b) (Inr b')) ?bs bs" .
  have found: "\<exists>b' \<in> set bs. still x (Sync_budget env b) (Inr b')" if "b \<in> set ?bs" for b
  proof -
    from that obtain i where i: "i < length ?bs" "?bs ! i = b" unfolding in_set_conv_nth by blast
    with list_all2_nthD [OF all, of i] list_all2_lengthD [OF all] show ?thesis
      by (intro bexI [of _ "bs ! i"]) auto
  qed
  show "\<exists>r'. ApplicationBudget r' \<in> set bs \<and>
      still x (adb_Sync env \<lparr>adbr_ADB = adb, hookCli = None\<rparr>) (Inr r')" if "adb \<in> set adbs"
  proof -
    from found [of "ApplicationBudget \<lparr>adbr_ADB = adb, hookCli = None\<rparr>"] that obtain b' where b': "b' \<in> set bs"
        "still x (Sync_budget env (ApplicationBudget \<lparr>adbr_ADB = adb, hookCli = None\<rparr>)) (Inr b')"
      by fastforce
    from Sync_budget_stillD [OF steady_Sync(1) [OF stable] b'(2)] b'(1) show ?thesis by blast
  qed
  show "\<exists>r'. NodeBudget r' \<in> set bs \<and> still x (ndb_Sync env \<lparr>ndbr_NDB = ndb\<rparr>) (Inr r')" if "ndb \<in> set ndbs"
  proof -
    from found [of "NodeBudget \<lparr>ndbr_NDB = ndb\<rparr>"] that obtain b' where b': "b' \<in> set bs"
        "still x (Sync_budget env (NodeBudget \<lparr>ndbr_NDB = ndb\<rparr>)) (Inr b')"
      by fastforce
    from Sync_node_budget_stillD [OF steady_Sync(2) [OF stable] b'(2)] b'(1) show ?thesis by blast
  qed
qed

end
