(* ===== verification/Truthful_Api.thy ===== *)
theory Truthful_Api
  imports Standing_Cluster
begin

text \<open>
  An API server that may fail at any read but never lies about nodes, pods and volumes.  What it holds is
  a \<open>view\<close>; the environment in which every read gives exactly the view's answer is \<open>ideal\<close>.  Resolving
  nodes and counting the disruptions of given objects either fail or return what they return in the
  ideal environment, which is a cluster that stands still.
\<close>

section \<open>Views\<close>

record view =
  v_nds :: "NodeDisruption list"
  v_adbs :: "ApplicationDisruptionBudget list"
  v_ndbs :: "NodeDisruptionBudget list"
  v_nodes :: "lselector option \<Rightarrow> fselector option \<Rightarrow> Node list"
  v_pods :: "string \<Rightarrow> lselector \<Rightarrow> Pod list"
  v_pvcs :: "string \<Rightarrow> lselector \<Rightarrow> PersistentVolumeClaim list"
  v_pv :: "string \<times> string \<Rightarrow> PersistentVolume"

text \<open>A read that may fail, leaves the view as it is, and on success answers \<open>a\<close>.\<close>

definition truthful :: "('x \<Rightarrow> view) \<Rightarrow> view \<Rightarrow> ('x \<Rightarrow> (error + 'a) \<times> 'x) \<Rightarrow> 'a \<Rightarrow> bool" where
  "truthful v V f a \<longleftrightarrow> (\<forall>x. v x = V \<longrightarrow> v (snd (f x)) = V \<and> (\<forall>b. fst (f x) = Inr b \<longrightarrow> b = a))"

definition truthful_nodes :: "'x env \<Rightarrow> ('x \<Rightarrow> view) \<Rightarrow> bool" where
  "truthful_nodes env v \<longleftrightarrow> (\<forall>V.
     (\<forall>ls fs. truthful v V (list_nodes (kube env) ls fs) (v_nodes V ls fs)) \<and>
     (\<forall>ns s. truthful v V (list_pods (kube env) ns s) (v_pods V ns s)) \<and>
     (\<forall>ns s. truthful v V (list_pvcs (kube env) ns s) (v_pvcs V ns s)) \<and>
     (\<forall>key. truthful v V (get_pv (kube env) key) (v_pv V key)))"

text \<open>The environment whose reads are the view's; it has one state, and accepts and forgets writes.\<close>

definition ideal :: "lib \<Rightarrow> view \<Rightarrow> unit env" where
  "ideal l V = \<lparr>lib = l,
     kube = \<lparr>get_nd = (\<lambda>key x. (Inl (NotFound ''''), x)), get_adb = (\<lambda>key x. (Inl (NotFound ''''), x)),
       get_ndb = (\<lambda>key x. (Inl (NotFound ''''), x)), get_pv = (\<lambda>key x. (Inr (v_pv V key), x)),
       list_nd = (\<lambda>x. (Inr (v_nds V), x)), list_adb = (\<lambda>ns x. (Inr (v_adbs V), x)),
       list_ndb = (\<lambda>ns x. (Inr (v_ndbs V), x)), list_nodes = (\<lambda>ls fs x. (Inr (v_nodes V ls fs), x)),
       list_pods = (\<lambda>ns s x. (Inr (v_pods V ns s), x)), list_pvcs = (\<lambda>ns s x. (Inr (v_pvcs V ns s), x)),
       update_nd = (\<lambda>o' x. (Inr o', x)), update_adb = (\<lambda>o' x. (Inr o', x)), update_ndb = (\<lambda>o' x. (Inr o', x)),
       status_nd = (\<lambda>o' x. (None, x)), status_adb = (\<lambda>o' x. (None, x)), status_ndb = (\<lambda>o' x. (None, x))\<rparr>,
     net = \<lparr>net_roundtrip = (\<lambda>tr oper x. (Inl (ErrLib ''''), x)), http_Do = (\<lambda>u d hs t x. (Inl (ErrLib ''''), x)),
       io_ReadAll = (\<lambda>r x. (Inl (ErrLib ''''), x))\<rparr>,
     clock = (\<lambda>x. (0, x))\<rparr>"

lemma ideal_simps [simp]:
  "lib (ideal l V) = l" "list_nd (kube (ideal l V)) = (\<lambda>x. (Inr (v_nds V), x))"
  "list_adb (kube (ideal l V)) ns = (\<lambda>x. (Inr (v_adbs V), x))"
  "list_ndb (kube (ideal l V)) ns = (\<lambda>x. (Inr (v_ndbs V), x))"
  "list_nodes (kube (ideal l V)) ls fs = (\<lambda>x. (Inr (v_nodes V ls fs), x))"
  "list_pods (kube (ideal l V)) n s = (\<lambda>x. (Inr (v_pods V n s), x))"
  "list_pvcs (kube (ideal l V)) n s = (\<lambda>x. (Inr (v_pvcs V n s), x))"
  "get_pv (kube (ideal l V)) key = (\<lambda>x. (Inr (v_pv V key), x))"
  by (simp_all add: ideal_def)

lemma cluster_ideal: "cluster_stable (ideal l V) ()"
  by (simp add: cluster_stable_def reads_stable_def nodes_stable_def)

section \<open>Agreement with the ideal environment\<close>

text \<open>
  \<open>agrees v V m i\<close>: run where the view is \<open>V\<close>, \<open>m\<close> leaves the view as it is, and if it succeeds, its
  result is that of \<open>i\<close>, which performs no effect.
\<close>

named_theorems agrees_intros \<open>computations that fail or agree with the ideal environment\<close>

definition agrees :: "('x \<Rightarrow> view) \<Rightarrow> view \<Rightarrow> ('x, error + 'a) act \<Rightarrow> (unit, error + 'a) act \<Rightarrow> bool" where
  "agrees v V m i \<longleftrightarrow> (\<forall>w. v (ext w) = V \<longrightarrow>
     (case run_state m w of (r, w') \<Rightarrow> v (ext w') = V \<and> (\<forall>a. r = Inr a \<longrightarrow> still () i (Inr a))))"

lemma agreesD:
  assumes "agrees v V m i" and "v (ext w) = V" and "run_state m w = (r, w')"
  shows "v (ext w') = V \<and> (\<forall>a. r = Inr a \<longrightarrow> still () i (Inr a))"
  using assms unfolding agrees_def by auto

lemma agreesI:
  assumes "\<And>w r w'. v (ext w) = V \<Longrightarrow> run_state m w = (r, w') \<Longrightarrow>
    v (ext w') = V \<and> (\<forall>a. r = Inr a \<longrightarrow> still () i (Inr a))"
  shows "agrees v V m i"
  using assms unfolding agrees_def by blast

lemma agrees_ret [agrees_intros]: "agrees v V (ret r) (ret r)"
  by (rule agreesI) (auto intro: still_ret)

lemma agrees_ask [agrees_intros]:
  "truthful v V f a \<Longrightarrow> agrees v V (ask f) (ask (\<lambda>u. (Inr a, u)))"
  by (rule agreesI) (auto simp: truthful_def still_def split: prod.splits)

lemma agrees_bind [agrees_intros]:
  assumes "agrees v V m i" and "\<And>a. agrees v V (f (Inr a)) (g (Inr a))"
    and "\<And>e. agrees v V (f (Inl e)) (ret (Inl e))"
  shows "agrees v V (State_Monad.bind m f) (State_Monad.bind i g)"
proof (rule agreesI)
  fix w r w'
  assume w: "v (ext w) = V" and run: "run_state (State_Monad.bind m f) w = (r, w')"
  obtain q w1 where m: "run_state m w = (q, w1)" by fastforce
  with run have f: "run_state (f q) w1 = (r, w')" by simp
  from agreesD [OF assms(1) w m] have w1: "v (ext w1) = V" and q: "\<And>b. q = Inr b \<Longrightarrow> still () i (Inr b)"
    by blast+
  show "v (ext w') = V \<and> (\<forall>a. r = Inr a \<longrightarrow> still () (State_Monad.bind i g) (Inr a))"
  proof (cases q)
    case (Inl e)
    from agreesD [OF assms(3) w1 f [unfolded Inl]] show ?thesis by simp
  next
    case (Inr b)
    have "still () (State_Monad.bind i g) (Inr a)" if "still () (g (Inr b)) (Inr a)" for a
      by (rule still_bind [where f = g, OF q [OF Inr] that])
    with agreesD [OF assms(2) w1 f [unfolded Inr]] show ?thesis by blast
  qed
qed

lemma agrees_cases [agrees_intros]:
  "(b \<Longrightarrow> agrees v V m i) \<Longrightarrow> (\<not> b \<Longrightarrow> agrees v V n j) \<Longrightarrow>
   agrees v V (if b then m else n) (if b then i else j)"
  "(s = None \<Longrightarrow> agrees v V m i) \<Longrightarrow> (\<And>a. s = Some a \<Longrightarrow> agrees v V (f a) (g a)) \<Longrightarrow>
   agrees v V (case s of None \<Rightarrow> m | Some a \<Rightarrow> f a) (case s of None \<Rightarrow> i | Some a \<Rightarrow> g a)"
  "(\<And>e. r = Inl e \<Longrightarrow> agrees v V (h e) (k e)) \<Longrightarrow> (\<And>a. r = Inr a \<Longrightarrow> agrees v V (f' a) (g' a)) \<Longrightarrow>
   agrees v V (case r of Inl e \<Rightarrow> h e | Inr a \<Rightarrow> f' a) (case r of Inl e \<Rightarrow> k e | Inr a \<Rightarrow> g' a)"
  "(\<And>a b. p = (a, b) \<Longrightarrow> agrees v V (F a b) (G a b)) \<Longrightarrow>
   agrees v V (case p of (a, b) \<Rightarrow> F a b) (case p of (a, b) \<Rightarrow> G a b)"
  by (simp_all split: option.split sum.split prod.split)

lemma agrees_let [agrees_intros]:
  "(\<And>a. a = t \<Longrightarrow> agrees v V (f a) (g a)) \<Longrightarrow> agrees v V (let a = t in f a) (let a = t in g a)"
  by simp

section \<open>Resolving and counting\<close>

lemma agrees_reads [agrees_intros]:
  assumes "truthful_nodes env v"
  shows "agrees v V (ask (list_nodes (kube env) ls fs)) (ask (list_nodes (kube (ideal l V)) ls fs))"
    "agrees v V (ask (list_pods (kube env) ns s)) (ask (list_pods (kube (ideal l V)) ns s))"
    "agrees v V (ask (list_pvcs (kube env) ns s)) (ask (list_pvcs (kube (ideal l V)) ns s))"
    "agrees v V (ask (get_pv (kube env) key)) (ask (get_pv (kube (ideal l V)) key))"
  unfolding ideal_simps using assms unfolding truthful_nodes_def by (blast intro: agrees_ask)+

lemma agrees_pv_loop:
  assumes "truthful_nodes env v"
  shows "agrees v V (pv_loop env PVNames ns) (pv_loop (ideal (lib env) V) PVNames ns)"
  by (induction PVNames arbitrary: ns)
    (auto intro!: agrees_intros assms simp del: ideal_simps(2-) if_split)

lemma agrees_resolver [agrees_intros]:
  assumes "truthful_nodes env v"
  shows "agrees v V (GetNodeFromNodeSelector env sel) (GetNodeFromNodeSelector (ideal (lib env) V) sel)"
    "agrees v V (GetNodesFromNamespacedPodSelector env sel ns) (GetNodesFromNamespacedPodSelector (ideal (lib env) V) sel ns)"
    "agrees v V (GetNodesFromNamespacedPVCSelector env sel ns) (GetNodesFromNamespacedPVCSelector (ideal (lib env) V) sel ns)"
  unfolding GetNodeFromNodeSelector_def GetNodesFromNamespacedPodSelector_def GetNodesFromNamespacedPVCSelector_def
  by (auto intro!: agrees_intros agrees_pv_loop assms simp del: ideal_simps(2-))

lemma agrees_selected [agrees_intros]:
  assumes "truthful_nodes env v"
  shows "agrees v V (adb_GetSelectedNodes env r) (adb_GetSelectedNodes (ideal (lib env) V) r)"
    "agrees v V (ndb_GetSelectedNodes env q) (ndb_GetSelectedNodes (ideal (lib env) V) q)"
  unfolding adb_GetSelectedNodes_def ndb_GetSelectedNodes_def by (auto intro!: agrees_intros assms)

lemma agrees_disruption_loop:
  assumes "truthful_nodes env v"
  shows "agrees v V (disruption_loop env sel nds n ds) (disruption_loop (ideal (lib env) V) sel nds n ds)"
  by (induction nds arbitrary: n ds) (auto intro!: agrees_intros assms simp del: if_split)

end
