(* ===== verification/Ledger.thy ===== *)
theory Ledger
  imports Api_Types
begin

text \<open>
  The abstract specification of the whole system: a ledger of the disruptions granted so far.  A
  disruption may be entered when every limit that it affects has room for one more; entries may
  disappear at any time.  Nothing of the controller's work (budgets' statuses, hooks, retries,
  statuses of disruptions) is visible here.
\<close>

section \<open>Limits and entries\<close>

text \<open>An entry: the disruption's namespace and name, and its spec.\<close>

type_synonym ticket = "(string \<times> string) \<times> NodeDisruptionSpec"

record limit =
  lim_types :: "string list"
  lim_watch :: "string set"
  lim_cap :: int

definition affected :: "(LabelSelector \<Rightarrow> string set) \<Rightarrow> ticket \<Rightarrow> limit \<Rightarrow> bool" where
  "affected nodes t lmt \<longleftrightarrow>
     nd_Type (snd t) \<in> set (lim_types lmt) \<and> nodes (nd_NodeSelector (snd t)) \<inter> lim_watch lmt \<noteq> {}"

definition used :: "(LabelSelector \<Rightarrow> string set) \<Rightarrow> ticket set \<Rightarrow> limit \<Rightarrow> nat" where
  "used nodes G lmt = card {t \<in> G. affected nodes t lmt}"

section \<open>Steps\<close>

inductive ledger_step :: "(LabelSelector \<Rightarrow> string set) \<Rightarrow> limit set \<Rightarrow> ticket set \<Rightarrow> ticket set \<Rightarrow> bool"
  for nodes lims where
  grant: "(\<And>lmt. lmt \<in> lims \<Longrightarrow> affected nodes t lmt \<Longrightarrow> int (used nodes G lmt) < lim_cap lmt) \<Longrightarrow>
    ledger_step nodes lims G (insert t G)"
| release: "G' \<subseteq> G \<Longrightarrow> ledger_step nodes lims G G'"

inductive_cases ledger_stepE: "ledger_step nodes lims G G'"

inductive_simps ledger_from_empty: "ledger_step nodes lims {} G'"

text \<open>
  A call that grants at most once, while others release entries before and after: what one reconciliation
  may do to the ledger.
\<close>

definition grows_once :: "(LabelSelector \<Rightarrow> string set) \<Rightarrow> limit set \<Rightarrow> ticket set \<Rightarrow> ticket set \<Rightarrow> bool" where
  "grows_once nodes lims G G' \<longleftrightarrow> (\<exists>G1 G2. G1 \<subseteq> G \<and> ledger_step nodes lims G1 G2 \<and> G' \<subseteq> G2)"

lemma grows_once_less: "grows_once nodes lims G G' \<Longrightarrow> G \<subseteq> H \<Longrightarrow> H' \<subseteq> G' \<Longrightarrow> grows_once nodes lims H H'"
  unfolding grows_once_def by (meson order_trans)

lemma grows_onceI:
  "G' \<subseteq> G \<Longrightarrow> grows_once nodes lims G G'"
  "ledger_step nodes lims G G' \<Longrightarrow> grows_once nodes lims G G'"
  unfolding grows_once_def using ledger_step.release by blast+

lemma grows_once_steps: "grows_once nodes lims G G' \<Longrightarrow> (ledger_step nodes lims)\<^sup>*\<^sup>* G G'"
  unfolding grows_once_def
  by (meson converse_rtranclp_into_rtranclp ledger_step.release rtranclp.rtrancl_refl)

definition fits :: "(LabelSelector \<Rightarrow> string set) \<Rightarrow> limit set \<Rightarrow> ticket set \<Rightarrow> bool" where
  "fits nodes lims G \<longleftrightarrow> finite G \<and> (\<forall>lmt \<in> lims. int (used nodes G lmt) \<le> max 0 (lim_cap lmt))"

lemma used_mono: "finite G \<Longrightarrow> G' \<subseteq> G \<Longrightarrow> used nodes G' lmt \<le> used nodes G lmt"
  unfolding used_def by (intro card_mono) auto

lemma used_insert:
  assumes "finite G"
  shows "used nodes (insert t G) lmt \<le> (if affected nodes t lmt then Suc (used nodes G lmt) else used nodes G lmt)"
proof -
  have "{u \<in> insert t G. affected nodes u lmt} =
      (if affected nodes t lmt then insert t {u \<in> G. affected nodes u lmt} else {u \<in> G. affected nodes u lmt})"
    by auto
  moreover have "finite {u \<in> G. affected nodes u lmt}" using assms by simp
  ultimately show ?thesis unfolding used_def by (simp add: card_insert_if)
qed

lemma fits_empty [simp]: "fits nodes lims {}"
  by (simp add: fits_def used_def)

lemma ledger_step_fits:
  assumes "ledger_step nodes lims G G'" and "fits nodes lims G"
  shows "fits nodes lims G'"
  using assms
proof (cases rule: ledger_step.cases)
  case (grant t)
  show ?thesis
    unfolding fits_def grant(1)
  proof (intro conjI ballI)
    show "finite (insert t G)" using assms(2) by (simp add: fits_def)
    fix lmt assume lmt: "lmt \<in> lims"
    have "int (used nodes (insert t G) lmt) \<le>
        (if affected nodes t lmt then int (used nodes G lmt) + 1 else int (used nodes G lmt))"
      using used_insert [of G nodes t lmt] assms(2) by (auto simp: fits_def split: if_splits)
    with grant(2) [OF lmt] assms(2) lmt show "int (used nodes (insert t G) lmt) \<le> max 0 (lim_cap lmt)"
      by (auto simp: fits_def split: if_splits)
  qed
next
  case release
  from release assms(2) used_mono [of G G' nodes] show ?thesis
    by (auto simp: fits_def intro: finite_subset) (meson of_nat_mono order_trans)
qed

lemma ledger_run_fits:
  "(ledger_step nodes lims)\<^sup>*\<^sup>* G G' \<Longrightarrow> fits nodes lims G \<Longrightarrow> fits nodes lims G'"
  by (induction rule: rtranclp_induct) (auto intro: ledger_step_fits)

text \<open>A step against more limits is a step against fewer.\<close>

lemma ledger_step_antimono:
  assumes "ledger_step nodes lims G G'" and "lims' \<subseteq> lims"
  shows "ledger_step nodes lims' G G'"
  using assms by (cases rule: ledger_step.cases) (auto intro: ledger_step.intros)

end
