(* ===== verification/Capacity.thy ===== *)
theory Capacity
  imports Nd_Transitions
begin

text \<open>
  What a grant means for the capacity of the budgets: the decision of a synchronised budget, read back
  from machine integers to numbers of disruptions and nodes, and carried through a whole attempt.
\<close>

text \<open>
  Granting a disruption of the nodes \<open>ns\<close> keeps the budget within its limits.  An application budget
  counts disruptions; a node budget counts its granted disruptions and the new one's nodes.
\<close>

fun keeps_capacity :: "NodeSet \<Rightarrow> Budget \<Rightarrow> bool" where
  "keeps_capacity ns (ApplicationBudget r) \<longleftrightarrow>
     (let granted = granted_count (elems (Disruptions (adbr_Status r))) in
      granted < 2 ^ 62 \<longrightarrow> int (granted + 1) \<le> sint (MaxDisruptions (adbr_Spec r)))"
| "keeps_capacity ns (NodeBudget r) \<longleftrightarrow>
     (let granted = granted_count (elems (Disruptions (ndbr_Status r)));
          watched = length (elems (WatchedNodes (ndbr_Status r)))
      in granted < 2 ^ 50 \<longrightarrow> watched < 2 ^ 50 \<longrightarrow>
        int (granted + ndb_hits r ns) \<le> sint (MaxDisruptedNodes (ndbr_Spec r)) \<and>
        sint (MinUndisruptedNodes (ndbr_Spec r)) \<le> int watched - int (granted + ndb_hits r ns))"

text \<open>Limits that a budget may reasonably have.\<close>

definition sane_adb :: "ApplicationDisruptionBudgetSpec \<Rightarrow> bool" where
  "sane_adb spec \<longleftrightarrow> - (2 ^ 62) \<le> sint (MaxDisruptions spec)"

definition sane_ndb :: "NodeDisruptionBudgetSpec \<Rightarrow> bool" where
  "sane_ndb spec \<longleftrightarrow> \<bar>sint (MaxDisruptedNodes spec)\<bar> < 2 ^ 50 \<and> \<bar>sint (MinUndisruptedNodes spec)\<bar> < 2 ^ 50"

lemma tolerated_keeps_capacity:
  assumes "budget_in_sync l b" and "TolerateDisruption b ns"
    and "case b of ApplicationBudget r \<Rightarrow> sane_adb (adbr_Spec r) | NodeBudget r \<Rightarrow> sane_ndb (ndbr_Spec r)"
  shows "keeps_capacity ns b"
proof (cases b)
  case (ApplicationBudget r)
  with assms(1) have "CurrentDisruptions (adbr_Status r) = word_of_nat (granted_count (elems (Disruptions (adbr_Status r))))"
      "DisruptionsAllowed (adbr_Status r) = MaxDisruptions (adbr_Spec r) - CurrentDisruptions (adbr_Status r)"
    by (auto simp: status_consistent_def)
  from adb_decision [where ns = ns, OF this] assms(2,3) show ?thesis
    by (simp add: ApplicationBudget sane_adb_def Let_def)
next
  case (NodeBudget r)
  with assms(1) have "DisruptionsAllowed (ndbr_Status r) = computeNodeDisruptionBudgetDisruptionsAllowed
       (float_out_of_range l) (MaxDisruptedNodes (ndbr_Spec r)) (MinUndisruptedNodes (ndbr_Spec r))
       (word_of_nat (length (elems (WatchedNodes (ndbr_Status r)))))
       (word_of_nat (granted_count (elems (Disruptions (ndbr_Status r)))))"
    by (auto simp: status_consistent_def)
  from ndb_decision [where ns = ns, OF this refl] assms(2,3) show ?thesis
    by (simp add: NodeBudget sane_ndb_def Let_def)
qed

lemma listed_sane:
  assumes "listed_budgets l adbs ndbs bs" and "b \<in> set bs"
    and "list_all (\<lambda>adb. sane_adb (adb_Spec adb)) adbs" and "list_all (\<lambda>ndb. sane_ndb (ndb_Spec ndb)) ndbs"
  shows "case b of ApplicationBudget r \<Rightarrow> sane_adb (adbr_Spec r) | NodeBudget r \<Rightarrow> sane_ndb (ndbr_Spec r)"
proof -
  from assms(1,2) have "budget_identity b \<in> set (map (\<lambda>adb. Inl (adb_meta adb, adb_Spec adb)) adbs
      @ map (\<lambda>ndb. Inr (ndb_meta ndb, ndb_Spec ndb)) ndbs)"
    unfolding listed_budgets_def by (metis image_eqI set_map)
  with assms(3,4) show ?thesis
    by (cases b) (auto simp: adb_identity_def ndb_identity_def list_all_iff)
qed


end
