(* ===== verification/Cluster_Limits.thy ===== *)
theory Cluster_Limits
  imports Truthful_Api Ledger Capacity
begin

text \<open>
  The ledger of a cluster: what a view says about the limits of the budgets and about the disruptions
  granted, and the reason why a grant finds room in every limit that it affects.
\<close>

section \<open>Reading a view\<close>

fun names_of :: "error + NodeSet \<Rightarrow> string set" where
  "names_of (Inl _) = {}"
| "names_of (Inr ns) = ns_Nodes ns"

text \<open>The nodes of a selector, and of an application budget, in a view; none when it has no answer.\<close>

definition sel_nodes :: "lib \<Rightarrow> view \<Rightarrow> LabelSelector \<Rightarrow> string set" where
  "sel_nodes l V sel = names_of (nodes_for (ideal l V) () sel)"

definition adb_nodes :: "lib \<Rightarrow> view \<Rightarrow> ApplicationDisruptionBudget \<Rightarrow> string set" where
  "adb_nodes l V adb = names_of (adb_nodes_for (ideal l V) () \<lparr>adbr_ADB = adb, hookCli = None\<rparr>)"

definition adb_limit :: "lib \<Rightarrow> view \<Rightarrow> ApplicationDisruptionBudget \<Rightarrow> limit" where
  "adb_limit l V adb = \<lparr>lim_types = adb_SupportedNodeDisruptionTypes (adb_Spec adb),
     lim_watch = adb_nodes l V adb, lim_cap = sint (MaxDisruptions (adb_Spec adb))\<rparr>"

definition ndb_limit :: "lib \<Rightarrow> view \<Rightarrow> NodeDisruptionBudget \<Rightarrow> limit" where
  "ndb_limit l V ndb = (let watched = sel_nodes l V (ndb_NodeSelector (ndb_Spec ndb)) in
     \<lparr>lim_types = ndb_SupportedNodeDisruptionTypes (ndb_Spec ndb), lim_watch = watched,
      lim_cap = min (sint (MaxDisruptedNodes (ndb_Spec ndb)))
        (int (card watched) - sint (MinUndisruptedNodes (ndb_Spec ndb)))\<rparr>)"

text \<open>A budget without types supports no disruption, and limits nothing until its types are filled in.\<close>

definition adb_limits :: "lib \<Rightarrow> view \<Rightarrow> limit set" where
  "adb_limits l V = {lmt \<in> adb_limit l V ` set (v_adbs V). lim_types lmt \<noteq> []}"

definition ndb_limits :: "lib \<Rightarrow> view \<Rightarrow> limit set" where
  "ndb_limits l V = {lmt \<in> ndb_limit l V ` set (v_ndbs V). lim_types lmt \<noteq> []}"

definition limits :: "lib \<Rightarrow> view \<Rightarrow> limit set" where
  "limits l V = adb_limits l V \<union> ndb_limits l V"

definition meta_key :: "ObjectMeta \<Rightarrow> string \<times> string" where
  "meta_key m = (om_Namespace m, om_Name m)"

definition object_key :: "NodeDisruption \<Rightarrow> string \<times> string" where
  "object_key nd = meta_key (nd_meta nd)"

definition ticket_of :: "NodeDisruption \<Rightarrow> ticket" where
  "ticket_of nd = (object_key nd, nd_Spec nd)"

definition granted_tickets :: "view \<Rightarrow> ticket set" where
  "granted_tickets V = ticket_of ` {nd \<in> set (v_nds V). nd_State (nd_Status nd) = Granted}"

text \<open>
  The views the theorems are about: the keys of objects are unique, budgets have limits within 50
  bits, and there are fewer than \<open>2 ^ 50\<close> disruptions and nodes.
\<close>

definition view_ok :: "lib \<Rightarrow> view \<Rightarrow> bool" where
  "view_ok l V \<longleftrightarrow> distinct (map object_key (v_nds V)) \<and> length (v_nds V) < 2 ^ 50 \<and>
     distinct (map (\<lambda>adb. meta_key (adb_meta adb)) (v_adbs V)) \<and>
     distinct (map (\<lambda>ndb. meta_key (ndb_meta ndb)) (v_ndbs V)) \<and>
     list_all (\<lambda>adb. sane_adb (adb_Spec adb)) (v_adbs V) \<and>
     list_all (\<lambda>ndb. sane_ndb (ndb_Spec ndb) \<and>
       card (sel_nodes l V (ndb_NodeSelector (ndb_Spec ndb))) < 2 ^ 50) (v_ndbs V)"

section \<open>Node sets are finite\<close>

lemma finite_names_of:
  assumes "sat m (\<lambda>res _. \<forall>s. res = Inr s \<longrightarrow> finite (ns_Nodes s))"
  shows "finite (names_of (fst (run_state m w)))"
proof -
  obtain res w' where run: "run_state m w = (res, w')" by fastforce
  with assms have "\<forall>s. res = Inr s \<longrightarrow> finite (ns_Nodes s)" by (blast elim: satD)
  with run show ?thesis by (cases res) simp_all
qed

lemma finite_sel_nodes [simp]: "finite (sel_nodes l V sel)"
  unfolding sel_nodes_def nodes_for_def by (rule finite_names_of [OF resolver_finite(1)])

lemma adb_selected_finite:
  "sat (adb_GetSelectedNodes env r) (\<lambda>res _. \<forall>s. res = Inr s \<longrightarrow> finite (ns_Nodes s))"
  unfolding adb_GetSelectedNodes_def
  by (rule sat_bind [OF resolver_finite(2)]) (auto intro!: sat_intros sat_bind [OF resolver_finite(3)] split: sum.splits)

lemma finite_adb_nodes [simp]: "finite (adb_nodes l V adb)"
  unfolding adb_nodes_def adb_nodes_for_def by (rule finite_names_of [OF adb_selected_finite])

lemma finite_granted_tickets [simp]: "finite (granted_tickets V)"
  by (simp add: granted_tickets_def)

section \<open>Where nodes are\<close>

text \<open>Two views that agree on nodes, pods and volumes; the objects of the program may differ.\<close>

definition same_nodes :: "view \<Rightarrow> view \<Rightarrow> bool" where
  "same_nodes V V' \<longleftrightarrow> v_nodes V' = v_nodes V \<and> v_pods V' = v_pods V \<and> v_pvcs V' = v_pvcs V \<and> v_pv V' = v_pv V"

lemma same_nodes_update [simp]:
  "same_nodes V (V\<lparr>v_nds := nds\<rparr>)" "same_nodes V (V\<lparr>v_adbs := adbs\<rparr>)" "same_nodes V (V\<lparr>v_ndbs := ndbs\<rparr>)"
  by (simp_all add: same_nodes_def)

lemma same_nodes_refl [simp]: "same_nodes V V"
  by (simp add: same_nodes_def)

lemma same_nodes_trans: "same_nodes V V' \<Longrightarrow> same_nodes V' V'' \<Longrightarrow> same_nodes V V''"
  by (simp add: same_nodes_def)

text \<open>The part of a view that resolving nodes reads.\<close>

definition nodes_only :: "view \<Rightarrow> view" where
  "nodes_only V = V\<lparr>v_nds := [], v_adbs := [], v_ndbs := []\<rparr>"

lemma same_nodes_only: "same_nodes V V' \<longleftrightarrow> nodes_only V' = nodes_only V" "same_nodes (nodes_only V) V"
  by (cases V; cases V'; auto simp: same_nodes_def nodes_only_def)+

lemma ideal_pv_loop:
  "v_nodes V' = v_nodes V \<Longrightarrow> v_pv V' = v_pv V \<Longrightarrow> pv_loop (ideal l V') PVNames ns = pv_loop (ideal l V) PVNames ns"
  by (induction PVNames arbitrary: ns)
    (auto intro!: arg_cong2 [where f = "State_Monad.bind"] ext split: sum.split option.split prod.split)

lemma ideal_resolver:
  assumes "same_nodes V V'"
  shows "GetNodeFromNodeSelector (ideal l V') sel = GetNodeFromNodeSelector (ideal l V) sel"
    "adb_GetSelectedNodes (ideal l V') r = adb_GetSelectedNodes (ideal l V) r"
    "ndb_GetSelectedNodes (ideal l V') q = ndb_GetSelectedNodes (ideal l V) q"
proof -
  note same = assms [unfolded same_nodes_def]
  note reads = same [THEN conjunct1] same [THEN conjunct2, THEN conjunct1]
    same [THEN conjunct2, THEN conjunct2, THEN conjunct1] same [THEN conjunct2, THEN conjunct2, THEN conjunct2]
  show "GetNodeFromNodeSelector (ideal l V') sel = GetNodeFromNodeSelector (ideal l V) sel"
    "adb_GetSelectedNodes (ideal l V') r = adb_GetSelectedNodes (ideal l V) r"
    "ndb_GetSelectedNodes (ideal l V') q = ndb_GetSelectedNodes (ideal l V) q"
    unfolding adb_GetSelectedNodes_def ndb_GetSelectedNodes_def GetNodeFromNodeSelector_def
      GetNodesFromNamespacedPodSelector_def GetNodesFromNamespacedPVCSelector_def ideal_simps
      ideal_pv_loop [OF reads(1,4)] reads
    by (rule refl)+
qed

lemma ideal_disruption_loop:
  assumes "same_nodes V V'"
  shows "disruption_loop (ideal l V') sel nds n ds = disruption_loop (ideal l V) sel nds n ds"
  by (induction nds arbitrary: n ds) (simp_all add: ideal_resolver [OF assms] cong: if_cong sum.case_cong)

lemma same_limits:
  assumes "same_nodes V V'"
  shows "sel_nodes l V' = sel_nodes l V" "adb_limit l V' = adb_limit l V" "ndb_limit l V' = ndb_limit l V"
proof -
  show sel: "sel_nodes l V' = sel_nodes l V"
    by (simp add: sel_nodes_def nodes_for_def ideal_resolver [OF assms] fun_eq_iff)
  show "adb_limit l V' = adb_limit l V" "ndb_limit l V' = ndb_limit l V"
    by (simp_all add: adb_limit_def ndb_limit_def adb_nodes_def adb_nodes_for_def ideal_resolver [OF assms] sel fun_eq_iff)
qed

lemma same_cluster [simp]:
  "sel_nodes l (V\<lparr>v_nds := nds\<rparr>) = sel_nodes l V" "limits l (V\<lparr>v_nds := nds\<rparr>) = limits l V"
  by (simp_all add: limits_def adb_limits_def ndb_limits_def same_limits [of V "V\<lparr>v_nds := nds\<rparr>"])

section \<open>Room for a grant\<close>

text \<open>
  The granted disruptions that a limit counts are among those that the synchronised budget counts;
  the code counts disruptions of every type, so the limit is kept with something to spare.
\<close>

lemma disruption_nodes_ideal [simp]:
  "ns_Nodes (disruption_nodes (ideal l V) () nd) = sel_nodes l V (nd_NodeSelector (nd_Spec nd))"
  by (simp add: disruption_nodes_def sel_nodes_def split: sum.split)

lemma used_le_counted:
  assumes "lim_watch lmt = ns_Nodes sel" and "finite (ns_Nodes sel)"
  shows "used (sel_nodes l V) (granted_tickets V) lmt
    \<le> length (granted_on (disruption_nodes (ideal l V) ()) sel (v_nds V))"
proof -
  let ?counted = "granted_on (disruption_nodes (ideal l V) ()) sel (v_nds V)"
  have counted: "nd \<in> set ?counted" if "nd \<in> set (v_nds V)" "nd_State (nd_Status nd) = Granted"
      "affected (sel_nodes l V) (ticket_of nd) lmt" for nd
    using that assms
    by (auto simp: ticket_of_def affected_def granted_on_def impacting_def ns.meets_iff)
  have "{t \<in> granted_tickets V. affected (sel_nodes l V) t lmt} \<subseteq> ticket_of ` set ?counted"
    using counted by (auto simp: granted_tickets_def)
  then have "used (sel_nodes l V) (granted_tickets V) lmt \<le> card (ticket_of ` set ?counted)"
    unfolding used_def by (intro card_mono) simp_all
  also have "\<dots> \<le> card (set ?counted)" by (rule card_image_le) simp
  also have "\<dots> \<le> length ?counted" by (rule card_length)
  finally show ?thesis .
qed

lemma counted_le: "length (granted_on nodes sel nds) \<le> length nds"
  by (simp add: granted_on_def)

text \<open>
  A budget that was synchronised in the view \<open>V\<close>, and that tolerates the disruption of the nodes \<open>ns\<close> if
  it is concerned, leaves room in its limit.  The budget's object may have been listed earlier.
\<close>

lemma room_adb:
  assumes sync: "still () (adb_Sync (ideal l V) \<lparr>adbr_ADB = adb, hookCli = None\<rparr>) (Inr r)"
    and sane: "sane_adb (adb_Spec adb)" "length (v_nds V) < 2 ^ 50"
    and tolerated: "concerned ndr ns (ApplicationBudget r) \<Longrightarrow> adb_TolerateDisruption r ns"
    and ns: "ns_Nodes ns = sel_nodes l V (nd_NodeSelector (ndr_Spec ndr))"
    and aff: "affected (sel_nodes l V) (key, ndr_Spec ndr) (adb_limit l V adb)"
  shows "int (used (sel_nodes l V) (granted_tickets V) (adb_limit l V adb)) < lim_cap (adb_limit l V adb)"
proof -
  have nds: "list_nd (kube (ideal l V)) () = (Inr (v_nds V), ())" by simp
  note stable = cluster_stableD(1) [OF cluster_ideal [of l V]]
  from adb_Sync_value [OF stable nds sync] obtain sel where
      sel: "adb_nodes_for (ideal l V) () \<lparr>adbr_ADB = adb, hookCli = None\<rparr> = Inr sel" and
      watched: "WatchedNodes (adbr_Status r) = Slice (NodeSetToStringList sel)" and
      current: "CurrentDisruptions (adbr_Status r) =
        word_of_nat (length (granted_on (disruption_nodes (ideal l V) ()) sel (v_nds V)))" and
      allowed: "DisruptionsAllowed (adbr_Status r) = MaxDisruptions (adbr_Spec \<lparr>adbr_ADB = adb, hookCli = None\<rparr>)
        - CurrentDisruptions (adbr_Status r)" and
      spec: "adbr_Spec r = adbr_Spec \<lparr>adbr_ADB = adb, hookCli = None\<rparr>" .
  have watch: "adb_nodes l V adb = ns_Nodes sel" by (simp add: adb_nodes_def sel)
  then have fin: "finite (ns_Nodes sel)" using finite_adb_nodes [of l V adb] by simp
  have "concerned ndr ns (ApplicationBudget r)"
    using aff spec watched fin
    by (auto simp: concerned_def budgetSupportsDisruptionType_def affected_def adb_limit_def watch ns
        bud.impacted_iff adb_watched_def adb_GetSupportedDisruptionTypes_def ns.set_to_list)
  then have "adb_TolerateDisruption r ns" by (rule tolerated)
  moreover have "- (2 ^ 62) \<le> sint (MaxDisruptions (adbr_Spec r))"
    using sane(1) spec by (auto simp: sane_adb_def)
  moreover have "length (granted_on (disruption_nodes (ideal l V) ()) sel (v_nds V)) < 2 ^ 62"
    using counted_le [of "disruption_nodes (ideal l V) ()" sel "v_nds V"] sane(2) by simp
  ultimately have "int (length (granted_on (disruption_nodes (ideal l V) ()) sel (v_nds V)) + 1)
      \<le> sint (MaxDisruptions (adb_Spec adb))"
    using adb_decision [OF current _ _, of ns] allowed spec by simp
  moreover have "used (sel_nodes l V) (granted_tickets V) (adb_limit l V adb)
      \<le> length (granted_on (disruption_nodes (ideal l V) ()) sel (v_nds V))"
    by (rule used_le_counted) (simp_all add: adb_limit_def watch fin)
  ultimately show ?thesis by (simp add: adb_limit_def)
qed

lemma room_ndb:
  assumes sync: "still () (ndb_Sync (ideal l V) \<lparr>ndbr_NDB = ndb\<rparr>) (Inr r)"
    and sane: "sane_ndb (ndb_Spec ndb)" "card (sel_nodes l V (ndb_NodeSelector (ndb_Spec ndb))) < 2 ^ 50"
      "length (v_nds V) < 2 ^ 50"
    and tolerated: "concerned ndr ns (NodeBudget r) \<Longrightarrow> ndb_TolerateDisruption r ns"
    and ns: "ns_Nodes ns = sel_nodes l V (nd_NodeSelector (ndr_Spec ndr))"
    and aff: "affected (sel_nodes l V) (key, ndr_Spec ndr) (ndb_limit l V ndb)"
  shows "int (used (sel_nodes l V) (granted_tickets V) (ndb_limit l V ndb)) < lim_cap (ndb_limit l V ndb)"
proof -
  have nds: "list_nd (kube (ideal l V)) () = (Inr (v_nds V), ())" by simp
  have stable: "nodes_stable (ideal l V) ()"
    using cluster_stableD(1) [OF cluster_ideal [of l V]] by (simp add: reads_stable_def)
  let ?counted = "\<lambda>sel. granted_on (disruption_nodes (ideal l V) ()) sel (v_nds V)"
  from ndb_Sync_value [OF stable nds sync] obtain sel where
      sel: "nodes_for (ideal l V) () (ndb_NodeSelector (ndbr_Spec \<lparr>ndbr_NDB = ndb\<rparr>)) = Inr sel" and
      watched: "WatchedNodes (ndbr_Status r) = Slice (NodeSetToStringList sel)" and
      current: "CurrentDisruptions (ndbr_Status r) = word_of_nat (length (?counted sel))" and
      allowed: "DisruptionsAllowed (ndbr_Status r) = computeNodeDisruptionBudgetDisruptionsAllowed
        (float_out_of_range (lib (ideal l V))) (MaxDisruptedNodes (ndbr_Spec \<lparr>ndbr_NDB = ndb\<rparr>))
        (MinUndisruptedNodes (ndbr_Spec \<lparr>ndbr_NDB = ndb\<rparr>))
        (word_of_nat (length (NodeSetToStringList sel))) (CurrentDisruptions (ndbr_Status r))" and
      spec: "ndbr_Spec r = ndbr_Spec \<lparr>ndbr_NDB = ndb\<rparr>" .
  have watch: "sel_nodes l V (ndb_NodeSelector (ndb_Spec ndb)) = ns_Nodes sel"
    using sel by (simp add: sel_nodes_def)
  then have fin: "finite (ns_Nodes sel)" using finite_sel_nodes [of l V "ndb_NodeSelector (ndb_Spec ndb)"] by simp
  have len: "length (NodeSetToStringList sel) = card (ns_Nodes sel)"
    using ns.to_list_distinct [of sel] ns.set_to_list [OF fin] distinct_card by metis
  have hit: "ns_Nodes sel \<inter> ns_Nodes ns \<noteq> {}"
    using aff by (auto simp: affected_def ndb_limit_def watch ns Let_def)
  have "concerned ndr ns (NodeBudget r)"
    using aff spec watched fin hit
    by (auto simp: concerned_def budgetSupportsDisruptionType_def affected_def ndb_limit_def Let_def
        bud.impacted_iff ndb_watched_def ndb_GetSupportedDisruptionTypes_def ns.set_to_list)
  then have "ndb_TolerateDisruption r ns" by (rule tolerated)
  moreover have "\<bar>sint (MaxDisruptedNodes (ndbr_Spec r))\<bar> < 2 ^ 50" "\<bar>sint (MinUndisruptedNodes (ndbr_Spec r))\<bar> < 2 ^ 50"
      "card (ns_Nodes sel) < 2 ^ 50"
    using sane(1,2) spec by (auto simp: sane_ndb_def watch)
  moreover have "length (?counted sel) < 2 ^ 50"
    using counted_le [of "disruption_nodes (ideal l V) ()" sel "v_nds V"] sane(3) by simp
  moreover have "DisruptionsAllowed (ndbr_Status r) = computeNodeDisruptionBudgetDisruptionsAllowed
        (float_out_of_range l) (MaxDisruptedNodes (ndbr_Spec r)) (MinUndisruptedNodes (ndbr_Spec r))
        (word_of_nat (card (ns_Nodes sel))) (word_of_nat (length (?counted sel)))"
    using allowed current spec len by simp
  moreover have "length (elems (WatchedNodes (ndbr_Status r))) = card (ns_Nodes sel)" by (simp add: watched len)
  ultimately have decision: "int (length (?counted sel) + ndb_hits r ns) \<le> sint (MaxDisruptedNodes (ndbr_Spec r)) \<and>
     sint (MinUndisruptedNodes (ndbr_Spec r)) \<le> int (card (ns_Nodes sel)) - int (length (?counted sel) + ndb_hits r ns)"
    using ndb_decision [of r "float_out_of_range l" "card (ns_Nodes sel)" "length (?counted sel)" ns] by blast
  have "0 < ndb_hits r ns"
    using hit fin by (simp add: ndb_hits_def watched ns.meets_iff ns.set_to_list)
  moreover have "used (sel_nodes l V) (granted_tickets V) (ndb_limit l V ndb) \<le> length (?counted sel)"
    by (rule used_le_counted) (simp_all add: ndb_limit_def watch fin Let_def)
  ultimately show ?thesis using decision spec by (simp add: ndb_limit_def watch Let_def)
qed

end
