(* ===== verification/Nd_Controller.thy ===== *)
theory Nd_Controller
  imports Nd_Transitions
begin

text \<open>
  The controller of node disruptions (\<open>NodeDisruptionReconciler\<close> of \<open>nodedisruption_controller.go\<close>):
  one call of \<open>Reconcile\<close> for a request, with the finalizer that makes the end of a disruption
  notify the application managers.
\<close>

section \<open>Dates\<close>

text \<open>\<open>time.Until(t)\<close>: a difference of times saturates at the range of a 64-bit duration.\<close>

definition Until :: "time \<Rightarrow> time \<Rightarrow> duration" where
  "Until t now = max (- (2 ^ 63)) (min (2 ^ 63 - 1) (t - now))"

definition FinalizerName :: string where
  "FinalizerName = ''node-disruption-controller/terminate-propagation''"

section \<open>The finalizer\<close>

definition under_deletion :: "ObjectMeta \<Rightarrow> bool" where
  "under_deletion m = (case om_DeletionTimestamp m of None \<Rightarrow> False | Some t \<Rightarrow> \<not> IsZero t)"

definition with_finalizers :: "string list \<Rightarrow> NodeDisruption \<Rightarrow> NodeDisruption" where
  "with_finalizers fs nd = nd\<lparr>nd_meta := (nd_meta nd)\<lparr>om_Finalizers := fs\<rparr>\<rparr>"

definition handleFinalizer :: "'x env \<Rightarrow> NodeDisruption \<Rightarrow> SNDR \<Rightarrow> ('x, error + bool) act" where
  "handleFinalizer env nd sndr =
     (if \<not> under_deletion (nd_meta nd) then
        (if ContainsFinalizer (lib env) (om_Finalizers (nd_meta nd)) FinalizerName then ret (Inr True)
         else do {
           r \<leftarrow> Update_nd env (with_finalizers
             (AddFinalizer (lib env) (om_Finalizers (nd_meta nd)) FinalizerName) nd);
           ret (case r of Inl err \<Rightarrow> Inl err | Inr _ \<Rightarrow> Inr False) })
      else if ContainsFinalizer (lib env) (om_Finalizers (nd_meta nd)) FinalizerName then do {
        err \<leftarrow> terminateAllImpactedBudgets env sndr;
        (case err of
           Some err \<Rightarrow> ret (Inl err)
         | None \<Rightarrow>
             (case RemoveFinalizer (lib env) (om_Finalizers (nd_meta nd)) FinalizerName of
                (fs, removed) \<Rightarrow>
                  if removed then do {
                    r \<leftarrow> Update_nd env (with_finalizers fs nd);
                    ret (case r of Inl err \<Rightarrow> Inl err | Inr _ \<Rightarrow> Inr False) }
                  else ret (Inr False))) }
      else ret (Inr False))"

section \<open>Reconcile\<close>

text \<open>
  Once the object is fetched and its finalizer is in place.  An error of the reconciliation itself is
  dropped, as the code does.
\<close>

definition reconcile_disruption :: "'x env \<Rightarrow> NodeDisruption \<Rightarrow> SNDR \<Rightarrow> ('x, Result \<times> error option) act" where
  "reconcile_disruption env nd reconciler = do {
     metrics (UpdateNodeDisruptionMetrics nd);
     now \<leftarrow> Now env;
     if now < NextRetryDate (nd_Status nd) then do {
       _ \<leftarrow> Now env;
       now \<leftarrow> Now env;
       ret (\<lparr>RequeueAfter = Until (NextRetryDate (nd_Status nd)) now\<rparr>, None) }
     else do {
       r \<leftarrow> Reconcile_single env reconciler;
       (case r of
          Inl err \<Rightarrow> ret (empty_Result, None)
        | Inr reconciler \<Rightarrow>
            if nd_Status nd \<noteq> ndr_Status reconciler then do {
              err \<leftarrow> UpdateStatus env reconciler;
              (case err of
                 Some err \<Rightarrow> ret (empty_Result, if IsNotFound err then None else Some err)
               | None \<Rightarrow> ret (empty_Result, None)) }
            else ret (empty_Result, None)) } }"

definition nd_Reconcile :: "'x env \<Rightarrow> NodeDisruptionReconcilerConfig \<Rightarrow> string \<times> string \<Rightarrow>
    ('x, Result \<times> error option) act" where
  "nd_Reconcile env config req = do {
     r \<leftarrow> ask (get_nd (kube env) req);
     (case r of
        Inl err \<Rightarrow>
          if IsNotFound err then do {
            metrics (PruneNodeDisruptionMetrics (snd req));
            ret (empty_Result, None) }
          else ret (empty_Result, Some err)
      | Inr nd \<Rightarrow> do {
          let reconciler = \<lparr>ndr_ND = nd, ndr_Config = config\<rparr>;
          r \<leftarrow> handleFinalizer env nd reconciler;
          (case r of
             Inl err \<Rightarrow> ret (empty_Result, Some err)
           | Inr continueReconcile \<Rightarrow>
               if \<not> continueReconcile then ret (empty_Result, None)
               else reconcile_disruption env nd reconciler) }) }"


section \<open>Effects of one reconciliation\<close>

text \<open>An effect that a reconciliation of \<open>nd\<close> may have.\<close>

fun status_goes_up :: "NodeDisruption \<Rightarrow> effect \<Rightarrow> bool" where
  "status_goes_up nd (StatusND nd' _) \<longleftrightarrow>
     nd_State (nd_Status nd) \<le> nd_State (nd_Status nd') \<and> nd_State (nd_Status nd') \<noteq> Unknown \<and>
     nd_Spec nd' = nd_Spec nd \<and> nd_meta nd' = nd_meta nd \<and> nd_Status nd' \<noteq> nd_Status nd"
| "status_goes_up nd (UpdateND nd' _) \<longleftrightarrow> nd_Spec nd' = nd_Spec nd \<and> nd_Status nd' = nd_Status nd"
| "status_goes_up nd (StatusADB _ _) \<longleftrightarrow> False"
| "status_goes_up nd (StatusNDB _ _) \<longleftrightarrow> False"
| "status_goes_up nd (UpdateADB _ _) \<longleftrightarrow> False"
| "status_goes_up nd (UpdateNDB _ _) \<longleftrightarrow> False"
| "status_goes_up nd (Metric _) \<longleftrightarrow> True"
| "status_goes_up nd (HookCall _ _ _) \<longleftrightarrow> True"
| "status_goes_up nd (HealthCall _ _ _) \<longleftrightarrow> True"

text \<open>The discipline of one call: at most one write, well-formed metrics, and statuses that go up.\<close>

definition disciplined :: "NodeDisruption \<Rightarrow> effect list \<Rightarrow> bool" where
  "disciplined nd es \<longleftrightarrow> length (filter is_write es) \<le> 1 \<and> list_all effect_ok es \<and> list_all (status_goes_up nd) es"

lemma mild_disciplined: "mild e \<Longrightarrow> effect_ok e \<and> status_goes_up nd e \<and> \<not> is_write e"
  by (cases e) (simp_all add: mild_def)

lemma disciplined_append_mild:
  "list_all mild es \<Longrightarrow> disciplined nd (es @ es') \<longleftrightarrow> disciplined nd es'"
  using mild_disciplined by (auto simp: disciplined_def list_all_iff filter_empty_conv) 

lemma mild_is_disciplined: "list_all mild es \<Longrightarrow> disciplined nd es"
  using disciplined_append_mild [of es nd "[]"] by (simp add: disciplined_def)

lemma mild_metrics: "list_all metric_ok cs \<Longrightarrow> list_all mild (map Metric cs)"
  by (simp add: list_all_iff)

lemma sat_Update_nd:
  "sat (Update_nd env nd) (\<lambda>r es. es = [UpdateND nd (err_of r)])"
  unfolding Update_nd_def by (auto intro!: sat_intros)

lemma terminate_mild: "sat (terminateAllImpactedBudgets env ndr) (\<lambda>_. list_all mild)"
proof -
  have "sat (terminate_loop env ndr sts failed) (\<lambda>_. list_all mild)" for sts failed
  proof (induction sts arbitrary: failed)
    case (Cons st sts)
    have "sat (State_Monad.bind (adb_CallTerminateHook env r (ndr_ND ndr) (10 * 10 ^ 9))
        (\<lambda>(err, _). terminate_loop env ndr sts (if err \<noteq> None then True else failed))) (\<lambda>_. list_all mild)" for r
      by (rule sat_bind [OF adb.terminate_law]) (use Cons.IH in \<open>auto dest!: polite_mild intro: sat_weaken\<close>)
    then show ?case
      using Cons.IH by (auto intro!: sat_intros simp: Let_def)
  qed (simp add: sat_ret)
  then show ?thesis
    unfolding terminateAllImpactedBudgets_def by (rule sat_bind) (auto intro!: sat_ret)
qed

lemma with_finalizers_disciplined:
  "list_all mild es \<Longrightarrow> disciplined nd (es @ [UpdateND (with_finalizers fs nd) r])"
  by (simp add: disciplined_append_mild) (simp add: disciplined_def with_finalizers_def)

lemma finalizer_law:
  "sat (handleFinalizer env nd sndr) (\<lambda>r es. disciplined nd es \<and>
     (r = Inr True \<longrightarrow> es = [] \<and> \<not> under_deletion (nd_meta nd)))"
  unfolding handleFinalizer_def
  by (auto intro!: sat_intros sat_bind [OF sat_Update_nd] sat_bind [OF terminate_mild]
      simp: mild_is_disciplined with_finalizers_disciplined
        with_finalizers_disciplined [where es = "[]", simplified] split: sum.splits)

lemma Reconcile_single_law:
  "sat (Reconcile_single env ndr) (\<lambda>r es. list_all mild es \<and> on_success (\<lambda>ndr'.
     nd_State (ndr_Status ndr) \<le> nd_State (ndr_Status ndr') \<and> nd_State (ndr_Status ndr') \<noteq> Unknown \<and>
     ndr_Spec ndr' = ndr_Spec ndr \<and> nd_meta (ndr_ND ndr') = nd_meta (ndr_ND ndr)) r)"
  unfolding Reconcile_single_def
proof (rule sat_bind)
  show "sat (Sync env ndr) (\<lambda>r es. es = [] \<and> on_success (\<lambda>ndr'. nd_State (ndr_Status ndr') = nd_State (ndr_Status ndr) \<and>
      ndr_Spec ndr' = ndr_Spec ndr \<and> nd_meta (ndr_ND ndr') = nd_meta (ndr_ND ndr)) r)"
    by (rule sat_silent) (auto simp: Sync_def intro!: silent_intros sat_resolver_bind sat_ret split: sum.split)
  fix r :: "error + SNDR" and es :: "effect list"
  assume synced: "es = [] \<and> on_success (\<lambda>ndr'. nd_State (ndr_Status ndr') = nd_State (ndr_Status ndr) \<and>
      ndr_Spec ndr' = ndr_Spec ndr \<and> nd_meta (ndr_ND ndr') = nd_meta (ndr_ND ndr)) r"
  show "sat (case r of Inl err \<Rightarrow> ret (Inl err) | Inr ndr \<Rightarrow> TryTransitionState env ndr)
      (\<lambda>r es'. list_all mild (es @ es') \<and> on_success (\<lambda>ndr'.
     nd_State (ndr_Status ndr) \<le> nd_State (ndr_Status ndr') \<and> nd_State (ndr_Status ndr') \<noteq> Unknown \<and>
     ndr_Spec ndr' = ndr_Spec ndr \<and> nd_meta (ndr_ND ndr') = nd_meta (ndr_ND ndr)) r)"
    using synced
    by (cases r) (auto intro!: sat_ret sat_weaken [OF transition_up] elim!: on_success_mono)
qed

lemma reconcile_disruption_law:
  "sat (reconcile_disruption env nd \<lparr>ndr_ND = nd, ndr_Config = config\<rparr>) (\<lambda>_ es. disciplined nd es)"
proof -
  have status: "disciplined nd (es @ [StatusND (ndr_ND ndr') r])"
    if "list_all mild es" "nd_Status nd \<noteq> ndr_Status ndr'"
      "nd_State (nd_Status nd) \<le> nd_State (ndr_Status ndr')" "nd_State (ndr_Status ndr') \<noteq> Unknown"
      "ndr_Spec ndr' = nd_Spec nd" "nd_meta (ndr_ND ndr') = nd_meta nd" for es ndr' r
    using that by (simp add: disciplined_append_mild) (simp add: disciplined_def)
  have update: "sat (UpdateStatus env ndr') (\<lambda>r es. es = [StatusND (ndr_ND ndr') r])" for ndr'
    unfolding UpdateStatus_def StatusUpdate_nd_def by (auto intro!: sat_intros)
  have run: "sat (do {
      r \<leftarrow> Reconcile_single env \<lparr>ndr_ND = nd, ndr_Config = config\<rparr>;
      (case r of
         Inl err \<Rightarrow> ret (empty_Result, None)
       | Inr reconciler \<Rightarrow>
           if nd_Status nd \<noteq> ndr_Status reconciler then do {
             err \<leftarrow> UpdateStatus env reconciler;
             (case err of
                Some err \<Rightarrow> ret (empty_Result, if IsNotFound err then None else Some err)
              | None \<Rightarrow> ret (empty_Result, None)) }
           else ret (empty_Result, None)) }) (\<lambda>_ es. disciplined nd es)"
    by (rule sat_bind [OF Reconcile_single_law])
      (auto intro!: sat_sum sat_if sat_ret sat_bind [OF update] sat_option status simp: mild_is_disciplined)
  have metrics: "list_all mild (map Metric (UpdateNodeDisruptionMetrics nd))"
    by (rule mild_metrics [OF disruption_metrics_ok(1)])
  show ?thesis
    unfolding reconcile_disruption_def
    by (rule sat_metrics_bind, unfold disciplined_append_mild [OF metrics], intro sat_Now_bind sat_if sat_ret run)
      (simp_all add: disciplined_def)
qed


section \<open>Properties of the controller\<close>

lemma sat_get_bind:
  assumes "\<And>x. fst (get_nd (kube env) req x) = a" and "sat (f a) R"
  shows "sat (State_Monad.bind (ask (get_nd (kube env) req)) f) R"
  by (rule sat_bind [OF sat_ask_within [where Q = "\<lambda>r. r = a"]]) (use assms in auto)


text \<open>
  C12: Deleting a disruption.  While one of its preparing application budgets is not settled, a call of
  \<open>Reconcile\<close> on a disruption under deletion writes nothing, so the finalizer stays and the object
  remains: the call fails and will be repeated.
\<close>

theorem deletion_waits_for_termination:
  assumes "\<And>x. fst (get_nd (kube env) req x) = Inr nd"
    and "\<And>key x. fst (get_adb (kube env) key x) = adb_at key"
    and "under_deletion (nd_meta nd)"
    and "ContainsFinalizer (lib env) (om_Finalizers (nd_meta nd)) FinalizerName"
  shows "sat (nd_Reconcile env config req) (\<lambda>(result, err) es.
     list_all (\<lambda>st. must_notify st \<longrightarrow> settled (lib env) adb_at nd st es)
       (elems (DisruptedDisruptionBudgets (nd_Status nd)))
     \<or> err \<noteq> None \<and> list_all (\<lambda>e. \<not> is_write e) es)"
  unfolding nd_Reconcile_def
proof (rule sat_get_bind [OF assms(1)], simp only: sum.case Let_def)
  let ?sndr = "\<lparr>ndr_ND = nd, ndr_Config = config\<rparr>"
  let ?settled = "\<lambda>es. list_all (\<lambda>st. must_notify st \<longrightarrow> settled (lib env) adb_at nd st es)
       (elems (DisruptedDisruptionBudgets (nd_Status nd)))"
  have more: "settled (lib env) adb_at nd st es \<Longrightarrow> settled (lib env) adb_at nd st (es @ es')" for st es es'
    by (erule settled_mono) simp
  have "sat (handleFinalizer env nd ?sndr) (\<lambda>r es. r \<noteq> Inr True \<and>
      (?settled es \<or> (\<exists>err. r = Inl err) \<and> list_all (\<lambda>e. \<not> is_write e) es))"
    unfolding handleFinalizer_def using assms(3,4)
    by (auto intro!: sat_intros sat_bind [OF sat_conj [OF terminate_law [OF assms(2)] terminate_mild]]
        sat_bind [OF sat_Update_nd] simp: mild_def list_all_iff intro: more split: sum.splits)
  then show "sat (State_Monad.bind (handleFinalizer env nd ?sndr) (\<lambda>r. case r of
         Inl err \<Rightarrow> ret (empty_Result, Some err)
       | Inr continueReconcile \<Rightarrow>
           if \<not> continueReconcile then ret (empty_Result, None)
           else reconcile_disruption env nd ?sndr))
     (\<lambda>(result, err) es. ?settled es \<or> err \<noteq> None \<and> list_all (\<lambda>e. \<not> is_write e) es)"
    by (rule sat_bind) (auto intro!: sat_sum sat_if sat_ret)
qed

text \<open>
  Retry dates are respected: while the clock reads before the next retry date of a disruption that
  has its finalizer, a call only updates metrics and asks to be called again after a positive time.
\<close>

theorem waits_until_retry_date:
  assumes "\<And>x. fst (get_nd (kube env) req x) = Inr nd"
    and "\<And>x. fst (clock env x) < NextRetryDate (nd_Status nd)"
    and "\<not> under_deletion (nd_meta nd)"
    and "ContainsFinalizer (lib env) (om_Finalizers (nd_meta nd)) FinalizerName"
  shows "sat (nd_Reconcile env config req) (\<lambda>(result, err) es.
     es = map Metric (UpdateNodeDisruptionMetrics nd) \<and> err = None \<and> 0 < RequeueAfter result)"
proof -
  have clk: "clock_within env (\<lambda>t. t < NextRetryDate (nd_Status nd))"
    using assms(2) by (simp add: clock_within_def)
  have until: "0 < Until (NextRetryDate (nd_Status nd)) t" if "t < NextRetryDate (nd_Status nd)" for t
    using that by (simp add: Until_def)
  have "sat (reconcile_disruption env nd \<lparr>ndr_ND = nd, ndr_Config = config\<rparr>) (\<lambda>(result, err) es.
     es = map Metric (UpdateNodeDisruptionMetrics nd) \<and> err = None \<and> 0 < RequeueAfter result)"
    unfolding reconcile_disruption_def
    by (rule sat_metrics_bind, rule sat_bind [OF sat_Now [OF clk]], simp, rule sat_Now_bind,
        rule sat_bind [OF sat_Now [OF clk]], rule sat_ret) (simp add: until)
  moreover have "handleFinalizer env nd sndr = ret (Inr True)" for sndr
    using assms(3,4) by (simp add: handleFinalizer_def)
  ultimately show ?thesis
    unfolding nd_Reconcile_def by (intro sat_get_bind [OF assms(1)]) simp
qed


end
