(* ===== verification/Budget_Controllers.thy ===== *)
theory Budget_Controllers
  imports Budget
begin

text \<open>
  The controllers of the two kinds of budget: \<open>Reconcile\<close> brings the status of one budget up to date
  and fills in the default disruption types, and the map functions dispatch the event of a watched
  object to the budgets it concerns.
\<close>

section \<open>Which budgets an object concerns\<close>

text \<open>The kinds of object whose events the controllers watch, and any other kind.\<close>

datatype watched_object =
    PodObject ObjectMeta
  | PVCObject ObjectMeta
  | NodeObject ObjectMeta
  | NodeDisruptionObject ObjectMeta
  | OtherObject ObjectMeta

primrec object_meta :: "watched_object \<Rightarrow> ObjectMeta" where
  "object_meta (PodObject m) = m"
| "object_meta (PVCObject m) = m"
| "object_meta (NodeObject m) = m"
| "object_meta (NodeDisruptionObject m) = m"
| "object_meta (OtherObject m) = m"

text \<open>
  The error of \<open>LabelSelectorAsSelector\<close> is dropped; with it the selector is a nil interface, on
  which the method call \<open>Empty\<close> panics.
\<close>

definition selector_matches :: "lib \<Rightarrow> LabelSelector \<Rightarrow> labels \<Rightarrow> error + bool" where
  "selector_matches l sel objectLabelSet =
     (case LabelSelectorAsSelector l sel of
        Inl _ \<Rightarrow> Inl (Panic ''invalid memory address or nil pointer dereference'')
      | Inr selector \<Rightarrow> if ls_Empty selector then Inr False else Inr (ls_Matches selector objectLabelSet))"

definition adb_SelectorMatchesObject :: "lib \<Rightarrow> ApplicationDisruptionBudget \<Rightarrow> watched_object \<Rightarrow> error + bool" where
  "adb_SelectorMatchesObject l adb object =
     (let objectLabelSet = (case om_Labels (object_meta object) of None \<Rightarrow> Map.empty | Some ls \<Rightarrow> ls) in
      case object of
        PodObject _ \<Rightarrow> selector_matches l (PodSelector (adb_Spec adb)) objectLabelSet
      | PVCObject _ \<Rightarrow> selector_matches l (PVCSelector (adb_Spec adb)) objectLabelSet
      | NodeDisruptionObject _ \<Rightarrow> Inr True
      | NodeObject _ \<Rightarrow> Inr False
      | OtherObject _ \<Rightarrow> Inr False)"

definition ndb_SelectorMatchesObject :: "lib \<Rightarrow> NodeDisruptionBudget \<Rightarrow> watched_object \<Rightarrow> error + bool" where
  "ndb_SelectorMatchesObject l ndb object =
     (let objectLabelSet = (case om_Labels (object_meta object) of None \<Rightarrow> Map.empty | Some ls \<Rightarrow> ls) in
      case object of
        NodeObject _ \<Rightarrow> selector_matches l (ndb_NodeSelector (ndb_Spec ndb)) objectLabelSet
      | NodeDisruptionObject _ \<Rightarrow> Inr True
      | PodObject _ \<Rightarrow> Inr False
      | PVCObject _ \<Rightarrow> Inr False
      | OtherObject _ \<Rightarrow> Inr False)"

section \<open>Map functions\<close>

text \<open>The loop over the listed budgets, whose matching ones are requested by namespace and name.\<close>

fun requests_loop :: "('b \<Rightarrow> error + bool) \<Rightarrow> ('b \<Rightarrow> ObjectMeta) \<Rightarrow> 'b list \<Rightarrow> (string \<times> string) list \<Rightarrow>
    error + (string \<times> string) list" where
  "requests_loop matches meta [] requests = Inr requests"
| "requests_loop matches meta (b # bs) requests =
     (case matches b of
        Inl err \<Rightarrow> Inl err
      | Inr m \<Rightarrow> requests_loop matches meta bs
          (if m then requests @ [(om_Namespace (meta b), om_Name (meta b))] else requests))"

definition adb_MapFunc :: "'x env \<Rightarrow> watched_object \<Rightarrow> ('x, error + (string \<times> string) list) act" where
  "adb_MapFunc env object = do {
     adbs \<leftarrow> ask (list_adb (kube env) (Some (om_Namespace (object_meta object))));
     ret (case adbs of
        Inl err \<Rightarrow> Inr []
      | Inr items \<Rightarrow> requests_loop (\<lambda>adb. adb_SelectorMatchesObject (lib env) adb object) adb_meta items []) }"

definition ndb_MapFunc :: "'x env \<Rightarrow> watched_object \<Rightarrow> ('x, error + (string \<times> string) list) act" where
  "ndb_MapFunc env object = do {
     ndbs \<leftarrow> ask (list_ndb (kube env) (Some (om_Namespace (object_meta object))));
     ret (case ndbs of
        Inl err \<Rightarrow> Inr []
      | Inr items \<Rightarrow> requests_loop (\<lambda>ndb. ndb_SelectorMatchesObject (lib env) ndb object) ndb_meta items []) }"

section \<open>Reconcile\<close>

definition with_adb_types :: "string list \<Rightarrow> ApplicationDisruptionBudget \<Rightarrow> ApplicationDisruptionBudget" where
  "with_adb_types types adb = adb\<lparr>adb_Spec := (adb_Spec adb)\<lparr>adb_SupportedNodeDisruptionTypes := types\<rparr>\<rparr>"

definition with_ndb_types :: "string list \<Rightarrow> NodeDisruptionBudget \<Rightarrow> NodeDisruptionBudget" where
  "with_ndb_types types ndb = ndb\<lparr>ndb_Spec := (ndb_Spec ndb)\<lparr>ndb_SupportedNodeDisruptionTypes := types\<rparr>\<rparr>"

definition adb_Reconcile :: "'x env \<Rightarrow> string list \<Rightarrow> string \<times> string \<Rightarrow> ('x, Result \<times> error option) act" where
  "adb_Reconcile env DefaultNodeDisruptionTypes req = do {
     let ref = \<lparr>ref_Namespace = fst req, ref_Name = snd req, ref_Kind = ''ApplicationDisruptionBudget''\<rparr>;
     r \<leftarrow> ask (get_adb (kube env) req);
     (case r of
        Inl err \<Rightarrow>
          if IsNotFound err then do { metrics (PruneADBMetrics ref); ret (empty_Result, None) }
          else ret (empty_Result, Some err)
      | Inr adb \<Rightarrow> do {
          r \<leftarrow> (if adb_SupportedNodeDisruptionTypes (adb_Spec adb) = [] \<and> DefaultNodeDisruptionTypes \<noteq> []
                then Update_adb env (with_adb_types DefaultNodeDisruptionTypes adb)
                else ret (Inr adb));
          (case r of
             Inl err \<Rightarrow> ret (empty_Result, Some err)
           | Inr adb \<Rightarrow> do {
               metrics (UpdateADBMetrics ref adb);
               r \<leftarrow> adb_Sync env \<lparr>adbr_ADB = adb, hookCli = None\<rparr>;
               (case r of
                  Inl err \<Rightarrow> ret (empty_Result, Some err)
                | Inr resolver \<Rightarrow>
                    if adb_Status (adbr_ADB resolver) \<noteq> adb_Status adb then do {
                      err \<leftarrow> adb_UpdateStatus env resolver;
                      ret (empty_Result, err) }
                    else ret (empty_Result, None)) }) }) }"

definition ndb_Reconcile :: "'x env \<Rightarrow> string list \<Rightarrow> string \<times> string \<Rightarrow> ('x, Result \<times> error option) act" where
  "ndb_Reconcile env DefaultNodeDisruptionTypes req = do {
     let ref = \<lparr>ref_Namespace = fst req, ref_Name = snd req, ref_Kind = ''NodeDisruptionBudget''\<rparr>;
     r \<leftarrow> ask (get_ndb (kube env) req);
     (case r of
        Inl err \<Rightarrow>
          if IsNotFound err then do { metrics (PruneNDBMetrics ref); ret (empty_Result, None) }
          else ret (empty_Result, Some err)
      | Inr ndb \<Rightarrow> do {
          r \<leftarrow> (if ndb_SupportedNodeDisruptionTypes (ndb_Spec ndb) = [] \<and> DefaultNodeDisruptionTypes \<noteq> []
                then Update_ndb env (with_ndb_types DefaultNodeDisruptionTypes ndb)
                else ret (Inr ndb));
          (case r of
             Inl err \<Rightarrow> ret (empty_Result, Some err)
           | Inr ndb \<Rightarrow> do {
               metrics (UpdateNDBMetrics ref ndb);
               r \<leftarrow> ndb_Sync env \<lparr>ndbr_NDB = ndb\<rparr>;
               (case r of
                  Inl err \<Rightarrow> ret (empty_Result, Some err)
                | Inr resolver \<Rightarrow>
                    if ndb_Status (ndbr_NDB resolver) \<noteq> ndb_Status ndb then do {
                      err \<leftarrow> ndb_UpdateStatus env resolver;
                      ret (empty_Result, err) }
                    else ret (empty_Result, None)) }) }) }"

section \<open>Dispatching events\<close>

lemma requests_loop_eq:
  "requests_loop matches meta bs acc = Inr reqs \<longleftrightarrow>
     list_all (\<lambda>b. \<exists>m. matches b = Inr m) bs \<and>
     reqs = acc @ map (\<lambda>b. (om_Namespace (meta b), om_Name (meta b))) (filter (\<lambda>b. matches b = Inr True) bs)"
proof (induction bs arbitrary: acc)
  case (Cons b bs)
  show ?case by (cases "matches b") (auto simp: Cons.IH)
qed auto

lemma selector_matches_defined:
  "(\<exists>m. selector_matches l sel lbls = Inr m) \<longleftrightarrow> (\<exists>s. LabelSelectorAsSelector l sel = Inr s)"
  by (cases "LabelSelectorAsSelector l sel") (auto simp: selector_matches_def intro: exI [of _ False])

text \<open>
  An event is dispatched to exactly the listed application budgets that it concerns: every budget
  for a node disruption, and for a pod or a volume claim those whose non-empty selector matches its
  labels.  The dispatch succeeds unless the selector it looks at is invalid in one of the budgets.
\<close>

theorem adb_events_dispatched:
  "requests_loop (\<lambda>adb. adb_SelectorMatchesObject l adb object) adb_meta adbs [] = Inr reqs \<longleftrightarrow>
     list_all (\<lambda>adb. case object of
         PodObject _ \<Rightarrow> \<exists>s. LabelSelectorAsSelector l (PodSelector (adb_Spec adb)) = Inr s
       | PVCObject _ \<Rightarrow> \<exists>s. LabelSelectorAsSelector l (PVCSelector (adb_Spec adb)) = Inr s
       | _ \<Rightarrow> True) adbs \<and>
     reqs = map (\<lambda>adb. (om_Namespace (adb_meta adb), om_Name (adb_meta adb)))
       (filter (\<lambda>adb. case object of
           NodeDisruptionObject _ \<Rightarrow> True
         | PodObject m \<Rightarrow> selector_matches l (PodSelector (adb_Spec adb))
             (case om_Labels m of None \<Rightarrow> Map.empty | Some ls \<Rightarrow> ls) = Inr True
         | PVCObject m \<Rightarrow> selector_matches l (PVCSelector (adb_Spec adb))
             (case om_Labels m of None \<Rightarrow> Map.empty | Some ls \<Rightarrow> ls) = Inr True
         | _ \<Rightarrow> False) adbs)"
  unfolding requests_loop_eq
  by (cases object) (simp_all add: adb_SelectorMatchesObject_def Let_def selector_matches_defined ex_bool_eq)


text \<open>
  C35: One invalid selector stops the dispatch: if any listed node budget has an invalid node selector,
  the map function for a node event panics, so no budget at all is reconciled for that event.
\<close>

theorem invalid_selector_panics:
  assumes "list_ndb (kube env) (Some (om_Namespace m)) (ext w) = (Inr ndbs, x)"
    and "ndb \<in> set ndbs" and "LabelSelectorAsSelector (lib env) (ndb_NodeSelector (ndb_Spec ndb)) = Inl err"
  shows "\<exists>s. run_state (ndb_MapFunc env (NodeObject m)) w = (Inl (Panic s), w\<lparr>ext := x\<rparr>)"
proof -
  let ?matches = "\<lambda>ndb. ndb_SelectorMatchesObject (lib env) ndb (NodeObject m)"
  have only_panics: "\<exists>s. e = Panic s" if "?matches b = Inl e" for b e
    using that by (auto simp: ndb_SelectorMatchesObject_def selector_matches_def Let_def split: sum.splits if_splits)
  have "?matches ndb = Inl (Panic ''invalid memory address or nil pointer dereference'')"
    using assms(3) by (simp add: ndb_SelectorMatchesObject_def selector_matches_def)
  with assms(2) have "\<exists>e. requests_loop ?matches ndb_meta ndbs acc = Inl e" for acc
  proof (induction ndbs arbitrary: acc)
    case (Cons b bs)
    then show ?case by (cases "?matches b") auto
  qed simp
  moreover have "\<exists>s. e = Panic s" if "requests_loop ?matches ndb_meta ndbs acc = Inl e" for acc e
    using that
  proof (induction ndbs arbitrary: acc)
    case (Cons b bs)
    then show ?case using only_panics by (cases "?matches b") auto
  qed simp
  ultimately show ?thesis
    using assms(1) by (simp add: ndb_MapFunc_def) metis
qed

section \<open>What the controllers write\<close>

text \<open>
  The effects of one call: the only write to the object itself fills in the default types, and a
  status written is in sync.
\<close>

fun adb_effect :: "lib \<Rightarrow> string list \<Rightarrow> ApplicationDisruptionBudget \<Rightarrow> effect \<Rightarrow> bool" where
  "adb_effect l defaults adb (UpdateADB adb' _) \<longleftrightarrow>
     adb_SupportedNodeDisruptionTypes (adb_Spec adb) = [] \<and> defaults \<noteq> [] \<and> adb' = with_adb_types defaults adb"
| "adb_effect l defaults adb (StatusADB adb' _) \<longleftrightarrow>
     budget_in_sync l (ApplicationBudget \<lparr>adbr_ADB = adb', hookCli = None\<rparr>)"
| "adb_effect l defaults adb e \<longleftrightarrow> \<not> is_write e \<and> \<not> is_hook e \<and> effect_ok e"

fun ndb_effect :: "lib \<Rightarrow> string list \<Rightarrow> NodeDisruptionBudget \<Rightarrow> effect \<Rightarrow> bool" where
  "ndb_effect l defaults ndb (UpdateNDB ndb' _) \<longleftrightarrow>
     ndb_SupportedNodeDisruptionTypes (ndb_Spec ndb) = [] \<and> defaults \<noteq> [] \<and> ndb' = with_ndb_types defaults ndb"
| "ndb_effect l defaults ndb (StatusNDB ndb' _) \<longleftrightarrow> budget_in_sync l (NodeBudget \<lparr>ndbr_NDB = ndb'\<rparr>)"
| "ndb_effect l defaults ndb e \<longleftrightarrow> \<not> is_write e \<and> \<not> is_hook e \<and> effect_ok e"

lemma sat_adb_writes:
  "sat (Update_adb env adb) (\<lambda>r es. es = [UpdateADB adb (err_of r)])"
  "sat (adb_UpdateStatus env r) (\<lambda>e es. es = [StatusADB (adbr_ADB r) e])"
  "sat (Update_ndb env ndb) (\<lambda>r es. es = [UpdateNDB ndb (err_of r)])"
  "sat (ndb_UpdateStatus env r') (\<lambda>e es. es = [StatusNDB (ndbr_NDB r') e])"
  unfolding Update_adb_def Update_ndb_def adb_UpdateStatus_def ndb_UpdateStatus_def
    StatusUpdate_adb_def StatusUpdate_ndb_def
  by (auto intro!: sat_intros)

lemma metrics_adb_effect [simp]:
  "list_all (adb_effect l defaults adb) (map Metric cs) \<longleftrightarrow> list_all metric_ok cs"
  "list_all (ndb_effect l defaults ndb) (map Metric cs) \<longleftrightarrow> list_all metric_ok cs"
  by (simp_all add: list_all_iff)

lemma sat_adb_Sync_bind:
  assumes "\<And>err. sat (f (Inl err)) R"
    and "\<And>r'. budget_in_sync (lib env) (ApplicationBudget r') \<Longrightarrow> sat (f (Inr r')) R"
  shows "sat (State_Monad.bind (adb_Sync env r) f) R"
proof (rule sat_bind [OF adb_Sync_keeps])
  fix res :: "error + ADBResolver" and es :: "effect list"
  assume "es = [] \<and> on_success (\<lambda>r'. status_consistent (adbr_Status r') \<and>
       DisruptionsAllowed (adbr_Status r') = MaxDisruptions (adbr_Spec r) - CurrentDisruptions (adbr_Status r') \<and>
       adbr_Spec r' = adbr_Spec r \<and> adb_meta (adbr_ADB r') = adb_meta (adbr_ADB r) \<and>
       hookCli r' = hookCli r) res"
  with assms show "sat (f res) (\<lambda>b es'. R b (es @ es'))"
    by (cases res) auto
qed

lemma sat_ndb_Sync_bind:
  assumes "\<And>err. sat (f (Inl err)) R"
    and "\<And>r'. budget_in_sync (lib env) (NodeBudget r') \<Longrightarrow> sat (f (Inr r')) R"
  shows "sat (State_Monad.bind (ndb_Sync env r) f) R"
proof (rule sat_bind [OF ndb_Sync_keeps])
  fix res :: "error + NDBResolver" and es :: "effect list"
  assume "es = [] \<and> on_success (\<lambda>r'. status_consistent (ndbr_Status r') \<and>
       DisruptionsAllowed (ndbr_Status r') = computeNodeDisruptionBudgetDisruptionsAllowed
         (float_out_of_range (lib env)) (MaxDisruptedNodes (ndbr_Spec r)) (MinUndisruptedNodes (ndbr_Spec r))
         (word_of_nat (length (elems (WatchedNodes (ndbr_Status r'))))) (CurrentDisruptions (ndbr_Status r')) \<and>
       ndbr_Spec r' = ndbr_Spec r \<and> ndb_meta (ndbr_NDB r') = ndb_meta (ndbr_NDB r)) res"
  with assms show "sat (f res) (\<lambda>b es'. R b (es @ es'))"
    by (cases res) auto
qed

text \<open>
  What a call of the application budgets' \<open>Reconcile\<close> writes, whatever the API answers: at most
  the default types, and only into a budget that has none, and at most one status, which is in sync.
  It calls no hook, and its metric commands are well formed.
\<close>

theorem adb_reconcile_effects:
  assumes "\<And>x. fst (get_adb (kube env) req x) = Inr adb"
  shows "sat (adb_Reconcile env defaults req) (\<lambda>_ es.
     length (filter is_write es) \<le> 2 \<and> list_all (adb_effect (lib env) defaults adb) es)"
  unfolding adb_Reconcile_def Let_def
  by (rule sat_bind [OF sat_ask_within [where Q = "\<lambda>r. r = Inr adb"]], rule assms)
    (auto intro!: sat_intros sat_adb_Sync_bind sat_bind [OF sat_adb_writes(1)] sat_bind [OF sat_adb_writes(2)]
      simp: budget_metrics_ok split: sum.splits)


text \<open>
  What a call of the node budgets' \<open>Reconcile\<close> writes: at most the default types, and only into a
  budget that has none, and at most one status, which is in sync; no hook, well-formed metrics.
\<close>

theorem ndb_reconcile_effects:
  assumes "\<And>x. fst (get_ndb (kube env) req x) = Inr ndb"
  shows "sat (ndb_Reconcile env defaults req) (\<lambda>_ es.
     length (filter is_write es) \<le> 2 \<and> list_all (ndb_effect (lib env) defaults ndb) es)"
  unfolding ndb_Reconcile_def Let_def
  by (rule sat_bind [OF sat_ask_within [where Q = "\<lambda>r. r = Inr ndb"]], rule assms)
    (auto intro!: sat_intros sat_ndb_Sync_bind sat_bind [OF sat_adb_writes(3)] sat_bind [OF sat_adb_writes(4)]
      simp: budget_metrics_ok split: sum.splits)


text \<open>
  Default types: an application budget without supported types gets the defaults of the controller,
  when there are any, as the first effect of a call, before its status is computed.
\<close>

theorem adb_defaults_filled:
  assumes "\<And>x. fst (get_adb (kube env) req x) = Inr adb"
    and "adb_SupportedNodeDisruptionTypes (adb_Spec adb) = []" and "defaults \<noteq> []"
  shows "sat (adb_Reconcile env defaults req) (\<lambda>(res, err) es. \<exists>e es'.
     es = UpdateADB (with_adb_types defaults adb) e # es' \<and> (e \<noteq> None \<longrightarrow> err = e \<and> es' = []))"
  unfolding adb_Reconcile_def Let_def
  by (rule sat_bind [OF sat_ask_within [where Q = "\<lambda>r. r = Inr adb"]], rule assms)
    (use assms(2,3) in \<open>auto intro!: sat_intros sat_adb_Sync_bind sat_bind [OF sat_adb_writes(1)]
      sat_bind [OF sat_adb_writes(2)] simp: err_of_def split: sum.splits\<close>)

end
