(* ===== verification/World_Order.thy ===== *)
theory World_Order
  imports Nd_Transitions Budget_Controllers
begin

text \<open>
  How the outside world moves while a method of the program runs.  If every read, every hook call and
  every look at the clock moves the world along a preorder, then so does every method that writes
  nothing to the API.  The preorder is a parameter: the same lemmas say that the cluster's view stays
  the same, that it only drifts in a permitted way, or that time does not run backwards.
\<close>

named_theorems moves_intros \<open>computations that move the world along an order\<close>

definition moves :: "('x \<Rightarrow> 'x \<Rightarrow> bool) \<Rightarrow> ('x, 'a) act \<Rightarrow> bool" where
  "moves R m \<longleftrightarrow> (\<forall>w. R (ext w) (ext (snd (run_state m w))))"

lemma movesD: "moves R m \<Longrightarrow> run_state m w = (a, w') \<Longrightarrow> R (ext w) (ext w')"
  unfolding moves_def by (metis snd_conv)

lemma moves_ask: "(\<And>x. R x (snd (f x))) \<Longrightarrow> moves R (ask f)"
  unfolding moves_def by (auto split: prod.split) (metis snd_conv)

lemma moves_cases [moves_intros]:
  "(b \<Longrightarrow> moves R m) \<Longrightarrow> (\<not> b \<Longrightarrow> moves R n) \<Longrightarrow> moves R (if b then m else n)"
  "(s = None \<Longrightarrow> moves R m) \<Longrightarrow> (\<And>a. s = Some a \<Longrightarrow> moves R (f a)) \<Longrightarrow>
   moves R (case s of None \<Rightarrow> m | Some a \<Rightarrow> f a)"
  "(\<And>e. r = Inl e \<Longrightarrow> moves R (h e)) \<Longrightarrow> (\<And>a. r = Inr a \<Longrightarrow> moves R (k a)) \<Longrightarrow>
   moves R (case r of Inl e \<Rightarrow> h e | Inr a \<Rightarrow> k a)"
  "(\<And>a b. p = (a, b) \<Longrightarrow> moves R (F a b)) \<Longrightarrow> moves R (case p of (a, b) \<Rightarrow> F a b)"
  "(\<And>a. a = t \<Longrightarrow> moves R (G a)) \<Longrightarrow> moves R (let a = t in G a)"
  by (simp_all split: option.split sum.split prod.split)

text \<open>One step of a run, taken apart.\<close>

lemma run_bind:
  assumes "run_state (State_Monad.bind m f) w = (b, w2)"
  obtains a w1 where "run_state m w = (a, w1)" and "run_state (f a) w1 = (b, w2)"
  using assms by (cases "run_state m w") simp

text \<open>
  Started in a state that satisfies \<open>P\<close>, \<open>m\<close> takes the world along \<open>R\<close>: for the methods that do write.
\<close>

definition steps :: "('x \<Rightarrow> 'x \<Rightarrow> bool) \<Rightarrow> ('x \<Rightarrow> bool) \<Rightarrow> ('x, 'a) act \<Rightarrow> bool" where
  "steps R P m \<longleftrightarrow> (\<forall>w. P (ext w) \<longrightarrow> R (ext w) (ext (snd (run_state m w))))"

lemma stepsD: "steps R P m \<Longrightarrow> P (ext w) \<Longrightarrow> run_state m w = (a, w') \<Longrightarrow> R (ext w) (ext w')"
  unfolding steps_def by (metis snd_conv)

lemma stepsI:
  assumes "\<And>w a w'. P (ext w) \<Longrightarrow> run_state m w = (a, w') \<Longrightarrow> R (ext w) (ext w')"
  shows "steps R P m"
  unfolding steps_def using assms by (metis prod.collapse)

lemma steps_moves: "moves D m \<Longrightarrow> (\<And>x y. D x y \<Longrightarrow> R x y) \<Longrightarrow> steps R P m"
  by (simp add: steps_def moves_def)

lemma steps_weaken: "steps R P m \<Longrightarrow> (\<And>x. Q x \<Longrightarrow> P x) \<Longrightarrow> steps R Q m"
  by (simp add: steps_def)

lemma steps_cases:
  "(b \<Longrightarrow> steps R P m) \<Longrightarrow> (\<not> b \<Longrightarrow> steps R P n) \<Longrightarrow> steps R P (if b then m else n)"
  "(s = None \<Longrightarrow> steps R P m) \<Longrightarrow> (\<And>a. s = Some a \<Longrightarrow> steps R P (f a)) \<Longrightarrow>
   steps R P (case s of None \<Rightarrow> m | Some a \<Rightarrow> f a)"
  "(\<And>e. r = Inl e \<Longrightarrow> steps R P (h e)) \<Longrightarrow> (\<And>a. r = Inr a \<Longrightarrow> steps R P (k a)) \<Longrightarrow>
   steps R P (case r of Inl e \<Rightarrow> h e | Inr a \<Rightarrow> k a)"
  "(\<And>a b. p = (a, b) \<Longrightarrow> steps R P (F a b)) \<Longrightarrow> steps R P (case p of (a, b) \<Rightarrow> F a b)"
  by (simp_all split: option.split sum.split prod.split)

lemma steps_bind:
  assumes "\<And>w a w'. P (ext w) \<Longrightarrow> run_state m w = (a, w') \<Longrightarrow> D (ext w) (ext w') \<and> Q (ext w')"
    and "\<And>a. steps R Q (f a)" and "\<And>x y z. D x y \<Longrightarrow> R y z \<Longrightarrow> R x z"
  shows "steps R P (State_Monad.bind m f)"
proof (rule stepsI)
  fix w b w'
  assume P: "P (ext w)" and run: "run_state (State_Monad.bind m f) w = (b, w')"
  from run obtain a w1 where m: "run_state m w = (a, w1)" and f: "run_state (f a) w1 = (b, w')" by (rule run_bind)
  from assms(1) [OF P m] stepsD [OF assms(2) _ f] assms(3) show "R (ext w) (ext w')" by blast
qed

lemma steps_then:
  assumes "steps R P m" and "\<And>a. moves D (f a)" and "\<And>x y z. R x y \<Longrightarrow> D y z \<Longrightarrow> R x z"
  shows "steps R P (State_Monad.bind m f)"
proof (rule stepsI)
  fix w b w'
  assume P: "P (ext w)" and run: "run_state (State_Monad.bind m f) w = (b, w')"
  from run obtain a w1 where m: "run_state m w = (a, w1)" and f: "run_state (f a) w1 = (b, w')" by (rule run_bind)
  from stepsD [OF assms(1) P m] movesD [OF assms(2) f] assms(3) show "R (ext w) (ext w')" by blast
qed

section \<open>Worlds that move along an order\<close>

locale world_order =
  fixes R :: "'x \<Rightarrow> 'x \<Rightarrow> bool" and env :: "'x env"
  assumes order_refl: "R x x"
    and order_trans: "R x y \<Longrightarrow> R y z \<Longrightarrow> R x z"
    and reads: "R x (snd (list_nd (kube env) x))" "R x (snd (list_adb (kube env) None x))"
      "R x (snd (list_ndb (kube env) None x))" "R x (snd (list_nodes (kube env) ls fs x))"
      "R x (snd (list_pods (kube env) ns s x))" "R x (snd (list_pvcs (kube env) ns s x))"
      "R x (snd (get_pv (kube env) key x))" "R x (snd (get_nd (kube env) key x))"
      "R x (snd (get_adb (kube env) key x))" "R x (snd (get_ndb (kube env) key x))"
    and tells: "R x (snd (clock env x))" "R x (snd (net_roundtrip (net env) tr oper x))"
      "R x (snd (http_Do (net env) u d hs t x))" "R x (snd (io_ReadAll (net env) rsp x))"
begin

lemma moves_basic [moves_intros]:
  "moves R (ret a)" "moves R (emit e)" "moves R (emits es)" "moves R (metrics cs)"
  by (simp_all add: moves_def order_refl)

lemma moves_bind [moves_intros]:
  "moves R m \<Longrightarrow> (\<And>a. moves R (f a)) \<Longrightarrow> moves R (State_Monad.bind m f)"
  by (simp add: moves_def split: prod.split) (metis order_trans snd_conv)

lemma moves_reads [moves_intros]:
  "moves R (ask (list_nd (kube env)))" "moves R (ask (list_adb (kube env) None))"
  "moves R (ask (list_ndb (kube env) None))" "moves R (ask (list_nodes (kube env) ls fs))"
  "moves R (ask (list_pods (kube env) ns s))" "moves R (ask (list_pvcs (kube env) ns s))"
  "moves R (ask (get_pv (kube env) key))" "moves R (ask (get_nd (kube env) key'))"
  "moves R (ask (get_adb (kube env) key'))" "moves R (ask (get_ndb (kube env) key'))"
  by (rule moves_ask, rule reads)+

lemma moves_tells [moves_intros]:
  "moves R (ask (net_roundtrip (net env) tr oper))" "moves R (ask (http_Do (net env) u d hs t))"
  "moves R (ask (io_ReadAll (net env) rsp))" "moves R (Now env)"
  unfolding Now_def by (rule moves_ask, rule tells)+

lemma moves_dates [moves_intros]:
  "moves R (AfterDeadline env r)" "moves R (getRetryDate env ndr)"
proof -
  show after: "moves R (AfterDeadline env r)" for r
    unfolding AfterDeadline_def by (auto intro!: moves_intros)
  show "moves R (getRetryDate env ndr)"
    unfolding getRetryDate_def by (auto intro!: moves_intros after)
qed

lemma moves_resolver [moves_intros]:
  "moves R (GetNodeFromNodeSelector env sel)" "moves R (GetNodesFromNamespacedPodSelector env sel n)"
  "moves R (GetNodesFromNamespacedPVCSelector env sel n)"
proof -
  have pvs: "moves R (pv_loop env PVNames ns)" for PVNames ns
    by (induction PVNames arbitrary: ns) (auto intro!: moves_intros)
  show "moves R (GetNodeFromNodeSelector env sel)" "moves R (GetNodesFromNamespacedPodSelector env sel n)"
    "moves R (GetNodesFromNamespacedPVCSelector env sel n)"
    unfolding GetNodeFromNodeSelector_def GetNodesFromNamespacedPodSelector_def GetNodesFromNamespacedPVCSelector_def
    by (auto intro!: moves_intros pvs)
qed

lemma moves_selected [moves_intros]:
  "moves R (adb_GetSelectedNodes env r)" "moves R (ndb_GetSelectedNodes env s)"
  unfolding adb_GetSelectedNodes_def ndb_GetSelectedNodes_def by (auto intro!: moves_intros)

lemma moves_disruption_loop [moves_intros]: "moves R (disruption_loop env sel nds n ds)"
  by (induction nds arbitrary: n ds) (auto intro!: moves_intros)

lemma moves_Sync [moves_intros]: "moves R (adb_Sync env r)" "moves R (ndb_Sync env s)" "moves R (Sync_budget env b)"
proof -
  show adb: "moves R (adb_Sync env r)" for r
    unfolding adb_Sync_def adb_ResolveDisruption_def by (auto intro!: moves_intros)
  show ndb: "moves R (ndb_Sync env s)" for s
    unfolding ndb_Sync_def ndb_ResolveDisruption_def by (auto intro!: moves_intros)
  show "moves R (Sync_budget env b)"
    unfolding Sync_budget_def by (cases b) (auto intro!: moves_intros adb ndb)
qed

lemma moves_sync_loop [moves_intros]: "moves R (sync_loop (Sync_budget env) bs)"
  by (induction bs) (auto intro!: moves_intros)

lemma moves_GetAllBudgets [moves_intros]: "moves R (GetAllBudgetsInSync env)"
  unfolding GetAllBudgetsInSync_def by (auto intro!: moves_intros)

lemma moves_operations [moves_intros]:
  "moves R (PrepareApplication env tr p opts)" "moves R (CheckReadiness env tr p opts)"
  "moves R (TerminateDisruption env tr p opts)"
  unfolding PrepareApplication_def CheckReadiness_def TerminateDisruption_def Submit_def
  by (auto intro!: moves_intros)

lemma moves_hooks [moves_intros]:
  "moves R (adb_CallPrepareHook env r nd t)" "moves R (adb_CallReadyHook env r nd t)"
  "moves R (adb_CallTerminateHook env r nd t)" "moves R (adb_CallHealthHook env r nd t)"
  "moves R (ndb_CallPrepareHook env s nd t)" "moves R (ndb_CallReadyHook env s nd t)"
  "moves R (ndb_CallTerminateHook env s nd t)" "moves R (ndb_CallHealthHook env s nd t)"
  unfolding adb_CallPrepareHook_def adb_CallReadyHook_def adb_CallTerminateHook_def adb_CallHealthHook_def
    ndb_CallPrepareHook_def ndb_CallReadyHook_def ndb_CallTerminateHook_def ndb_CallHealthHook_def
  by (auto intro!: moves_intros)

lemma moves_budget_hooks [moves_intros]:
  "moves R (CallPrepareHook env b nd t)" "moves R (CallReadyHook env b nd t)" "moves R (CallHealthHook env b nd t)"
  by (cases b; auto simp: CallPrepareHook_def CallReadyHook_def intro!: moves_intros)+

lemma moves_validation [moves_intros]:
  "moves R (ValidateWithInternalConstraints env ndr)" "moves R (ValidateWithBudgetConstraints env ndr bs cur)"
  "moves R (decide env ndr date retry failed sts)"
proof -
  show "moves R (ValidateWithInternalConstraints env ndr)"
    unfolding ValidateWithInternalConstraints_def ValidateOverlappingDisruption_def by (auto intro!: moves_intros)
  have check: "moves R (check_budget env ndr cur b)" for cur b
    unfolding check_budget_def v2HookCheck_def legacyHookCheck_def by (auto intro!: moves_intros)
  have "moves R (hook_loop env ndr cur bs failed sts)" for bs failed sts
    by (induction bs arbitrary: failed sts) (auto intro!: moves_intros check)
  moreover have "moves R (select_loop ndr ns bs acc)" for ns acc
    by (induction bs arbitrary: acc) (auto intro!: moves_intros)
  ultimately show "moves R (ValidateWithBudgetConstraints env ndr bs cur)"
    unfolding ValidateWithBudgetConstraints_def by (auto intro!: moves_intros)
  show "moves R (decide env ndr date retry failed sts)"
    unfolding decide_def by (auto intro!: moves_intros)
qed

lemma moves_attempt [moves_intros]:
  "moves R (attempt_with env ndr retry bs)" "moves R (Sync env ndr)" "moves R (TryTransitionState env ndr)"
  "moves R (Reconcile_single env ndr)" "moves R (terminateAllImpactedBudgets env ndr)"
proof -
  show attempt: "moves R (attempt_with env ndr retry bs)" for ndr retry bs
    unfolding attempt_with_def by (auto intro!: moves_intros)
  show sync: "moves R (Sync env ndr)"
    unfolding Sync_def by (auto intro!: moves_intros)
  show transition: "moves R (TryTransitionState env ndr)" for ndr
    unfolding TryTransitionState_def tryTransition_attempt
    by (auto intro!: moves_intros attempt split: NodeDisruptionState.split)
  show "moves R (Reconcile_single env ndr)"
    unfolding Reconcile_single_def by (auto intro!: moves_intros sync transition)
  have "moves R (terminate_loop env ndr sts failed)" for sts failed
    by (induction sts arbitrary: failed) (auto intro!: moves_intros)
  then show "moves R (terminateAllImpactedBudgets env ndr)"
    unfolding terminateAllImpactedBudgets_def by (auto intro!: moves_intros)
qed

end

text \<open>The coarsest order, about which every environment is right.\<close>

interpretation unconstrained: world_order "\<lambda>x y. True" env for env
  by unfold_locales simp_all

end
