(* ===== verification/Cluster_Server.thy ===== *)
theory Cluster_Server
  imports Cluster_Limits Nd_Controller World_Order
begin

text \<open>
  The API server that the controllers share, while others work with it as well: how the state of the
  cluster may drift at any moment, what reads answer and writes do under optimistic locking, and what a
  reconciliation therefore knows of the states that it ran through.
\<close>

section \<open>The state of the server\<close>

text \<open>
  The objects, and every version of an object of the program that was ever stored.  Resource versions
  identify versions of an object.
\<close>

record cluster_state =
  cs_view :: view
  past_nds :: "NodeDisruption set"
  past_adbs :: "ApplicationDisruptionBudget set"
  past_ndbs :: "NodeDisruptionBudget set"

definition same_version :: "('o \<Rightarrow> ObjectMeta) \<Rightarrow> 'o \<Rightarrow> 'o \<Rightarrow> bool" where
  "same_version meta a b \<longleftrightarrow> meta_key (meta a) = meta_key (meta b) \<and>
     om_ResourceVersion (meta a) = om_ResourceVersion (meta b)"

definition one_version :: "('o \<Rightarrow> ObjectMeta) \<Rightarrow> 'o set \<Rightarrow> bool" where
  "one_version meta H \<longleftrightarrow> (\<forall>a \<in> H. \<forall>b \<in> H. same_version meta a b \<longrightarrow> a = b)"

definition sound :: "lib \<Rightarrow> cluster_state \<Rightarrow> bool" where
  "sound l S \<longleftrightarrow> view_ok l (cs_view S) \<and>
     set (v_nds (cs_view S)) \<subseteq> past_nds S \<and> one_version nd_meta (past_nds S) \<and>
     set (v_adbs (cs_view S)) \<subseteq> past_adbs S \<and> one_version adb_meta (past_adbs S) \<and>
     set (v_ndbs (cs_view S)) \<subseteq> past_ndbs S \<and> one_version ndb_meta (past_ndbs S)"

section \<open>Drift\<close>

text \<open>
  What may happen to the cluster at any moment while a reconciliation runs: nodes, pods and volumes stay
  where they are, no limit in force is removed or tightened, and nobody else grants a disruption; all
  else may change, objects may come and go, and every change of an object is a new version of it.
\<close>

definition drift :: "lib \<Rightarrow> cluster_state \<Rightarrow> cluster_state \<Rightarrow> bool" where
  "drift l S S' \<longleftrightarrow> same_nodes (cs_view S) (cs_view S') \<and> (sound l S \<longrightarrow> sound l S' \<and>
     adb_limits l (cs_view S) \<subseteq> adb_limits l (cs_view S') \<and> ndb_limits l (cs_view S) \<subseteq> ndb_limits l (cs_view S') \<and>
     granted_tickets (cs_view S') \<subseteq> granted_tickets (cs_view S) \<and>
     past_nds S \<subseteq> past_nds S' \<and> past_adbs S \<subseteq> past_adbs S' \<and> past_ndbs S \<subseteq> past_ndbs S')"

lemma drift_refl [simp]: "drift l S S"
  by (simp add: drift_def)

lemma drift_trans: "drift l S S' \<Longrightarrow> drift l S' S'' \<Longrightarrow> drift l S S''"
  unfolding drift_def by (meson same_nodes_trans order_trans)

lemma drift_sound: "drift l S S' \<Longrightarrow> sound l S \<Longrightarrow> sound l S'"
  by (simp add: drift_def)

lemma drift_past:
  assumes "drift l S S'" and "sound l S"
  shows "past_nds S \<subseteq> past_nds S'" "past_adbs S \<subseteq> past_adbs S'" "past_ndbs S \<subseteq> past_ndbs S'"
  using assms by (simp_all add: drift_def)

lemma drift_nodes: "drift l S S' \<Longrightarrow> sel_nodes l (cs_view S') = sel_nodes l (cs_view S)"
  by (simp add: drift_def same_limits)

lemma sound_same:
  assumes "sound l S"
  shows "a \<in> past_nds S \<Longrightarrow> b \<in> past_nds S \<Longrightarrow> same_version nd_meta a b \<Longrightarrow> a = b"
    and "c \<in> past_adbs S \<Longrightarrow> d \<in> past_adbs S \<Longrightarrow> same_version adb_meta c d \<Longrightarrow> c = d"
    and "e \<in> past_ndbs S \<Longrightarrow> f \<in> past_ndbs S \<Longrightarrow> same_version ndb_meta e f \<Longrightarrow> e = f"
  using assms by (auto simp: sound_def one_version_def)

section \<open>Writes\<close>

text \<open>
  A write of the object \<open>new\<close> is applied only when the stored object still has the version that \<open>new\<close>
  names; the result is a version that this object never had.
\<close>

definition may_write :: "('o \<Rightarrow> ObjectMeta) \<Rightarrow> 'o \<Rightarrow> string \<Rightarrow> 'o set \<Rightarrow> 'o list \<Rightarrow> bool" where
  "may_write meta new rv H objs \<longleftrightarrow> (\<exists>stored \<in> set objs. same_version meta stored new) \<and>
     (\<forall>old \<in> H. meta_key (meta old) = meta_key (meta new) \<longrightarrow> om_ResourceVersion (meta old) \<noteq> rv)"

definition revise :: "('o \<Rightarrow> ObjectMeta) \<Rightarrow> 'o \<Rightarrow> ('o \<Rightarrow> 'o) \<Rightarrow> 'o list \<Rightarrow> 'o list" where
  "revise meta new put objs = map (\<lambda>stored. if meta_key (meta stored) = meta_key (meta new) then put stored else stored) objs"

definition with_version :: "string \<Rightarrow> ObjectMeta \<Rightarrow> ObjectMeta" where
  "with_version rv m = m\<lparr>om_ResourceVersion := rv\<rparr>"

lemma with_version_simps [simp]:
  "meta_key (with_version rv m) = meta_key m" "om_ResourceVersion (with_version rv m) = rv"
  by (simp_all add: with_version_def meta_key_def)

definition set_nds :: "NodeDisruption list \<Rightarrow> cluster_state \<Rightarrow> cluster_state" where
  "set_nds nds S = S\<lparr>cs_view := (cs_view S)\<lparr>v_nds := nds\<rparr>, past_nds := past_nds S \<union> set nds\<rparr>"

definition set_adbs :: "ApplicationDisruptionBudget list \<Rightarrow> cluster_state \<Rightarrow> cluster_state" where
  "set_adbs adbs S = S\<lparr>cs_view := (cs_view S)\<lparr>v_adbs := adbs\<rparr>, past_adbs := past_adbs S \<union> set adbs\<rparr>"

definition set_ndbs :: "NodeDisruptionBudget list \<Rightarrow> cluster_state \<Rightarrow> cluster_state" where
  "set_ndbs ndbs S = S\<lparr>cs_view := (cs_view S)\<lparr>v_ndbs := ndbs\<rparr>, past_ndbs := past_ndbs S \<union> set ndbs\<rparr>"

text \<open>
  \<open>Status().Update\<close> changes the status of the stored object only, \<open>Update\<close> all but the status; removing
  the last finalizer of a deleted disruption makes it disappear.  Controllers add no finalizers to budgets.
\<close>

definition put_status_nd :: "NodeDisruption \<Rightarrow> string \<Rightarrow> NodeDisruption \<Rightarrow> NodeDisruption" where
  "put_status_nd new rv stored = stored\<lparr>nd_meta := with_version rv (nd_meta stored), nd_Status := nd_Status new\<rparr>"

definition put_object_nd :: "NodeDisruption \<Rightarrow> string \<Rightarrow> NodeDisruption \<Rightarrow> NodeDisruption" where
  "put_object_nd new rv stored = new\<lparr>nd_meta := with_version rv (nd_meta new), nd_Status := nd_Status stored\<rparr>"

definition put_status_adb :: "ApplicationDisruptionBudget \<Rightarrow> string \<Rightarrow> ApplicationDisruptionBudget \<Rightarrow> ApplicationDisruptionBudget" where
  "put_status_adb new rv stored = stored\<lparr>adb_meta := with_version rv (adb_meta stored), adb_Status := adb_Status new\<rparr>"

definition put_object_adb :: "ApplicationDisruptionBudget \<Rightarrow> string \<Rightarrow> ApplicationDisruptionBudget \<Rightarrow> ApplicationDisruptionBudget" where
  "put_object_adb new rv stored = new\<lparr>adb_meta := with_version rv (adb_meta new), adb_Status := adb_Status stored\<rparr>"

definition put_status_ndb :: "NodeDisruptionBudget \<Rightarrow> string \<Rightarrow> NodeDisruptionBudget \<Rightarrow> NodeDisruptionBudget" where
  "put_status_ndb new rv stored = stored\<lparr>ndb_meta := with_version rv (ndb_meta stored), ndb_Status := ndb_Status new\<rparr>"

definition put_object_ndb :: "NodeDisruptionBudget \<Rightarrow> string \<Rightarrow> NodeDisruptionBudget \<Rightarrow> NodeDisruptionBudget" where
  "put_object_ndb new rv stored = new\<lparr>ndb_meta := with_version rv (ndb_meta new), ndb_Status := ndb_Status stored\<rparr>"

definition writes_nd :: "(NodeDisruption \<Rightarrow> string \<Rightarrow> NodeDisruption \<Rightarrow> NodeDisruption) \<Rightarrow> NodeDisruption \<Rightarrow>
    cluster_state \<Rightarrow> cluster_state \<Rightarrow> bool" where
  "writes_nd put new S S' \<longleftrightarrow> (\<exists>rv. may_write nd_meta new rv (past_nds S) (v_nds (cs_view S)) \<and>
     S' = set_nds (revise nd_meta new (put new rv) (v_nds (cs_view S))) S)"

definition drops_nd :: "NodeDisruption \<Rightarrow> cluster_state \<Rightarrow> cluster_state \<Rightarrow> bool" where
  "drops_nd new S S' \<longleftrightarrow> S' = set_nds (filter (\<lambda>stored. object_key stored \<noteq> object_key new) (v_nds (cs_view S))) S"

definition writes_adb :: "(ApplicationDisruptionBudget \<Rightarrow> string \<Rightarrow> ApplicationDisruptionBudget \<Rightarrow> ApplicationDisruptionBudget) \<Rightarrow>
    ApplicationDisruptionBudget \<Rightarrow> cluster_state \<Rightarrow> cluster_state \<Rightarrow> bool" where
  "writes_adb put new S S' \<longleftrightarrow> (\<exists>rv. may_write adb_meta new rv (past_adbs S) (v_adbs (cs_view S)) \<and>
     S' = set_adbs (revise adb_meta new (put new rv) (v_adbs (cs_view S))) S)"

definition writes_ndb :: "(NodeDisruptionBudget \<Rightarrow> string \<Rightarrow> NodeDisruptionBudget \<Rightarrow> NodeDisruptionBudget) \<Rightarrow>
    NodeDisruptionBudget \<Rightarrow> cluster_state \<Rightarrow> cluster_state \<Rightarrow> bool" where
  "writes_ndb put new S S' \<longleftrightarrow> (\<exists>rv. may_write ndb_meta new rv (past_ndbs S) (v_ndbs (cs_view S)) \<and>
     S' = set_ndbs (revise ndb_meta new (put new rv) (v_ndbs (cs_view S))) S)"

section \<open>A live server\<close>

text \<open>
  The documented behaviour that the theorems on runs rely on.  \<open>s\<close> gives the state of the server in a
  state of the outside world.  Every call takes time, in which the state drifts; a list that succeeds
  is what was there at some moment of the call; a single object may come from an old cache, as long as it is
  a version that was stored once; a write is applied at some moment or not, whatever it answers; hooks and
  the clock only let time pass.
\<close>

definition answered :: "lib \<Rightarrow> ('x \<Rightarrow> cluster_state) \<Rightarrow> ('x \<Rightarrow> (error + 'a) \<times> 'x) \<Rightarrow> 'x \<Rightarrow> (cluster_state \<Rightarrow> 'a \<Rightarrow> bool) \<Rightarrow> bool" where
  "answered l s f x A \<longleftrightarrow> (\<exists>S. drift l (s x) S \<and> drift l S (s (snd (f x))) \<and>
     (\<forall>a. fst (f x) = Inr a \<longrightarrow> A S a))"

definition applied :: "lib \<Rightarrow> ('x \<Rightarrow> cluster_state) \<Rightarrow> ('x \<Rightarrow> 'a \<times> 'x) \<Rightarrow> 'x \<Rightarrow>
    (cluster_state \<Rightarrow> cluster_state \<Rightarrow> bool) \<Rightarrow> bool" where
  "applied l s f x W \<longleftrightarrow> (\<exists>S S'. drift l (s x) S \<and> (S' = S \<or> W S S') \<and> drift l S' (s (snd (f x))))"

definition live_reads :: "'x env \<Rightarrow> ('x \<Rightarrow> cluster_state) \<Rightarrow> bool" where
  "live_reads env s \<longleftrightarrow> (let l = lib env; k = kube env in \<forall>x.
     answered l s (list_nd k) x (\<lambda>S a. a = v_nds (cs_view S)) \<and>
     answered l s (list_adb k None) x (\<lambda>S a. a = v_adbs (cs_view S)) \<and>
     answered l s (list_ndb k None) x (\<lambda>S a. a = v_ndbs (cs_view S)) \<and>
     (\<forall>ls fs. answered l s (list_nodes k ls fs) x (\<lambda>S a. a = v_nodes (cs_view S) ls fs)) \<and>
     (\<forall>ns sel. answered l s (list_pods k ns sel) x (\<lambda>S a. a = v_pods (cs_view S) ns sel)) \<and>
     (\<forall>ns sel. answered l s (list_pvcs k ns sel) x (\<lambda>S a. a = v_pvcs (cs_view S) ns sel)) \<and>
     (\<forall>key. answered l s (get_pv k key) x (\<lambda>S a. a = v_pv (cs_view S) key)) \<and>
     (\<forall>key. answered l s (get_nd k key) x (\<lambda>S a. a \<in> past_nds S)) \<and>
     (\<forall>key. answered l s (get_adb k key) x (\<lambda>S a. a \<in> past_adbs S)) \<and>
     (\<forall>key. answered l s (get_ndb k key) x (\<lambda>S a. a \<in> past_ndbs S)) \<and>
     drift l (s x) (s (snd (clock env x))) \<and>
     (\<forall>tr oper. drift l (s x) (s (snd (net_roundtrip (net env) tr oper x)))) \<and>
     (\<forall>u d hs t. drift l (s x) (s (snd (http_Do (net env) u d hs t x)))) \<and>
     (\<forall>r. drift l (s x) (s (snd (io_ReadAll (net env) r x)))))"

definition live_writes :: "'x env \<Rightarrow> ('x \<Rightarrow> cluster_state) \<Rightarrow> bool" where
  "live_writes env s \<longleftrightarrow> (let l = lib env; k = kube env in \<forall>x.
     (\<forall>nd. applied l s (update_nd k nd) x (\<lambda>S S'. writes_nd put_object_nd nd S S' \<or> drops_nd nd S S')) \<and>
     (\<forall>nd. applied l s (status_nd k nd) x (writes_nd put_status_nd nd)) \<and>
     (\<forall>adb. applied l s (update_adb k adb) x (writes_adb put_object_adb adb)) \<and>
     (\<forall>adb. applied l s (status_adb k adb) x (writes_adb put_status_adb adb)) \<and>
     (\<forall>ndb. applied l s (update_ndb k ndb) x (writes_ndb put_object_ndb ndb)) \<and>
     (\<forall>ndb. applied l s (status_ndb k ndb) x (writes_ndb put_status_ndb ndb)))"

definition live_server :: "'x env \<Rightarrow> ('x \<Rightarrow> cluster_state) \<Rightarrow> bool" where
  "live_server env s \<longleftrightarrow> live_reads env s \<and> live_writes env s"

lemma live_reads:
  assumes "live_server env s"
  shows "answered (lib env) s (list_nd (kube env)) x (\<lambda>S a. a = v_nds (cs_view S))"
    "answered (lib env) s (list_adb (kube env) None) x (\<lambda>S a. a = v_adbs (cs_view S))"
    "answered (lib env) s (list_ndb (kube env) None) x (\<lambda>S a. a = v_ndbs (cs_view S))"
    "answered (lib env) s (list_nodes (kube env) ls fs) x (\<lambda>S a. a = v_nodes (cs_view S) ls fs)"
    "answered (lib env) s (list_pods (kube env) ns sel) x (\<lambda>S a. a = v_pods (cs_view S) ns sel)"
    "answered (lib env) s (list_pvcs (kube env) ns sel) x (\<lambda>S a. a = v_pvcs (cs_view S) ns sel)"
    "answered (lib env) s (get_pv (kube env) key) x (\<lambda>S a. a = v_pv (cs_view S) key)"
    "answered (lib env) s (get_nd (kube env) key) x (\<lambda>S a. a \<in> past_nds S)"
    "answered (lib env) s (get_adb (kube env) key) x (\<lambda>S a. a \<in> past_adbs S)"
    "answered (lib env) s (get_ndb (kube env) key) x (\<lambda>S a. a \<in> past_ndbs S)"
    "drift (lib env) (s x) (s (snd (clock env x)))"
    "drift (lib env) (s x) (s (snd (net_roundtrip (net env) tr oper x)))"
    "drift (lib env) (s x) (s (snd (http_Do (net env) u d hs t x)))"
    "drift (lib env) (s x) (s (snd (io_ReadAll (net env) r x)))"
  using assms by (simp_all only: live_server_def live_reads_def Let_def simp_thms)

lemma live_writes:
  assumes "live_server env s"
  shows "applied (lib env) s (update_nd (kube env) nd) x (\<lambda>S S'. writes_nd put_object_nd nd S S' \<or> drops_nd nd S S')"
    "applied (lib env) s (status_nd (kube env) nd) x (writes_nd put_status_nd nd)"
    "applied (lib env) s (update_adb (kube env) adb) x (writes_adb put_object_adb adb)"
    "applied (lib env) s (status_adb (kube env) adb) x (writes_adb put_status_adb adb)"
    "applied (lib env) s (update_ndb (kube env) ndb) x (writes_ndb put_object_ndb ndb)"
    "applied (lib env) s (status_ndb (kube env) ndb) x (writes_ndb put_status_ndb ndb)"
  using assms by (simp_all only: live_server_def live_writes_def Let_def simp_thms)

section \<open>What drifts\<close>

text \<open>The order in which a world with a live server moves.\<close>

abbreviation drifts :: "lib \<Rightarrow> ('x \<Rightarrow> cluster_state) \<Rightarrow> 'x \<Rightarrow> 'x \<Rightarrow> bool" where
  "drifts l s x y \<equiv> drift l (s x) (s y)"

lemma answered_drifts: "answered l s f x A \<Longrightarrow> drifts l s x (snd (f x))"
  unfolding answered_def using drift_trans by blast

lemma live_world: "live_server env s \<Longrightarrow> world_order (drifts (lib env) s) env"
  by (rule world_order.intro)
    (simp, erule (1) drift_trans, (rule answered_drifts live_reads(11-14), erule live_reads)+, (erule live_reads)+)

end
