(* ===== verification/Lifecycle.thy ===== *)
theory Lifecycle
  imports Progress Cluster_Server
begin

text \<open>
  The life of a disruption, call by call of the controller: the finalizer, the first state, the
  preparation of the budgets and the grant, with what one call writes being what the next one reads.
\<close>

section \<open>The object in the store\<close>

text \<open>
  The server keeps the object of the request \<open>req\<close>: it is \<open>kept x\<close> in a state \<open>x\<close>, nothing but the two
  writes changes it, and these are accepted on its current version.
\<close>

definition stores :: "'x env \<Rightarrow> string \<times> string \<Rightarrow> ('x \<Rightarrow> NodeDisruption) \<Rightarrow> bool" where
  "stores env req kept \<longleftrightarrow> world_order (\<lambda>x y. kept y = kept x) env \<and>
     (\<forall>x. fst (get_nd (kube env) req x) = Inr (kept x)) \<and>
     (\<forall>x nd. same_version nd_meta nd (kept x) \<longrightarrow>
       (\<exists>rv. kept (snd (update_nd (kube env) nd x)) = put_object_nd nd rv (kept x)) \<and>
       (\<exists>rv. kept (snd (status_nd (kube env) nd x)) = put_status_nd nd rv (kept x)))"

text \<open>The same disruption, whatever its status, its finalizers and its version.\<close>

definition same_request :: "NodeDisruption \<Rightarrow> NodeDisruption \<Rightarrow> bool" where
  "same_request nd nd' \<longleftrightarrow> nd_Spec nd' = nd_Spec nd \<and>
     (nd_meta nd')\<lparr>om_Finalizers := [], om_ResourceVersion := []\<rparr> = (nd_meta nd)\<lparr>om_Finalizers := [], om_ResourceVersion := []\<rparr>"

lemma same_request_refl [simp]: "same_request nd nd"
  by (simp add: same_request_def)

lemma same_request_trans: "same_request a b \<Longrightarrow> same_request b c \<Longrightarrow> same_request a c"
  by (simp add: same_request_def)

lemma same_request_fields:
  assumes "same_request nd nd'"
  shows "nd_Spec nd' = nd_Spec nd" "om_Name (nd_meta nd') = om_Name (nd_meta nd)"
    "under_deletion (nd_meta nd') = under_deletion (nd_meta nd)"
proof -
  let ?bare = "\<lambda>m. m\<lparr>om_Finalizers := [], om_ResourceVersion := []\<rparr>"
  from assms have meta: "?bare (nd_meta nd') = ?bare (nd_meta nd)" by (simp add: same_request_def)
  show "nd_Spec nd' = nd_Spec nd" using assms by (simp add: same_request_def)
  show "om_Name (nd_meta nd') = om_Name (nd_meta nd)" using arg_cong [OF meta, of om_Name] by simp
  show "under_deletion (nd_meta nd') = under_deletion (nd_meta nd)"
    using arg_cong [OF meta, of om_DeletionTimestamp] by (simp add: under_deletion_def)
qed

section \<open>Favourable calls\<close>

text \<open>The reconciler of a disruption whose nodes have been resolved.\<close>

definition resolved :: "NodeDisruptionReconcilerConfig \<Rightarrow> NodeSet \<Rightarrow> NodeDisruption \<Rightarrow> SNDR" where
  "resolved config ns nd = \<lparr>ndr_ND = nd\<lparr>nd_Status := (nd_Status nd)\<lparr>DisruptedNodes := Slice (NodeSetToStringList ns)\<rparr>\<rparr>,
     ndr_Config = config\<rparr>"

lemma resolved_simps [simp]:
  "ndr_Config (resolved config ns nd) = config" "ndr_Spec (resolved config ns nd) = nd_Spec nd"
  "nd_meta (ndr_ND (resolved config ns nd)) = nd_meta nd"
  "ndr_Status (resolved config ns nd) = (nd_Status nd)\<lparr>DisruptedNodes := Slice (NodeSetToStringList ns)\<rparr>"
  by (simp_all add: resolved_def)

text \<open>The status that the disruption has for a budget, by the name of the budget.\<close>

definition status_at :: "NamespacedName \<Rightarrow> DisruptedBudgetStatus slice \<Rightarrow> DisruptedBudgetStatus" where
  "status_at ref cur = (let idx = IndexFunc (\<lambda>s. Reference s = ref) (elems cur)
     in if idx > -1 then elems cur ! nat idx else zero_status)"

definition unasked :: "DisruptedBudgetStatus slice \<Rightarrow> NamespacedName \<Rightarrow> bool" where
  "unasked cur ref \<longleftrightarrow> \<not> Preparing (status_at ref cur) \<and> \<not> Ok (status_at ref cur)"

text \<open>The budgets that want to prepare themselves for the disruption.\<close>

definition hooked_names :: "SNDR \<Rightarrow> Budget list \<Rightarrow> NamespacedName set" where
  "hooked_names ndr bs = GetNamespacedName ` {b \<in> set bs. concerned ndr (nodes_of_status ndr) b \<and> V2HooksReady b}"

lemma unprepared_names:
  "list_ex (unprepared cur) (filter (concerned ndr (nodes_of_status ndr)) bs) \<longleftrightarrow> (\<exists>ref \<in> hooked_names ndr bs. unasked cur ref)"
proof -
  have "unprepared cur b \<longleftrightarrow> V2HooksReady b \<and> unasked cur (GetNamespacedName b)" for b
    by (simp add: unprepared_def unasked_def status_for_def status_at_def)
  then show ?thesis by (auto simp: list_ex_iff hooked_names_def)
qed

text \<open>
  A call on the stored version \<open>nd\<close> is favourable when it resolves the nodes and finds all budgets, those
  concerned tolerate the disruption, nothing else stands against it, the application managers agree, and
  the budgets \<open>H\<close> are those with hooks to prepare.
\<close>

definition tolerant :: "lib \<Rightarrow> SNDR \<Rightarrow> Budget list \<Rightarrow> bool" where
  "tolerant l ndr bs \<longleftrightarrow> list_all (\<lambda>b. concerned ndr (nodes_of_status ndr) b \<longrightarrow>
     TolerateDisruption b (nodes_of_status ndr) \<and> callable l b) bs"

definition favourable :: "NodeDisruptionReconcilerConfig \<Rightarrow> NamespacedName set \<Rightarrow> ('x \<Rightarrow> NodeDisruption) \<Rightarrow>
    'x env \<Rightarrow> NodeDisruption \<Rightarrow> bool" where
  "favourable config H kept env nd \<longleftrightarrow> cooperative env \<and> (\<exists>ns. admissible env (resolved config ns nd) \<and>
     (\<forall>w :: (effect, 'x) world. kept (ext w) = nd \<longrightarrow>
       fst (run_state (GetNodeFromNodeSelector env (nd_NodeSelector (nd_Spec nd))) w) = Inr ns \<and>
       (\<exists>bs. fst (run_state (GetAllBudgetsInSync env) w) = Inr bs \<and>
         tolerant (lib env) (resolved config ns nd) bs \<and> hooked_names (resolved config ns nd) bs = H)))"

section \<open>What is left to do\<close>

text \<open>How many calls a disruption is away from its grant.\<close>

definition stage :: "NamespacedName set \<Rightarrow> NodeDisruptionStatus \<Rightarrow> nat" where
  "stage H st = (case nd_State st of
     Unknown \<Rightarrow> 3
   | Pending \<Rightarrow> if \<exists>ref \<in> H. unasked (DisruptedDisruptionBudgets st) ref then 2 else 1
   | _ \<Rightarrow> 0)"

definition calls_left :: "lib \<Rightarrow> NamespacedName set \<Rightarrow> NodeDisruption \<Rightarrow> nat" where
  "calls_left l H nd = stage H (nd_Status nd) +
     (if ContainsFinalizer l (om_Finalizers (nd_meta nd)) FinalizerName then 0 else 1)"

text \<open>One reconciliation in a favourable environment.\<close>

definition moved_on :: "NamespacedName set \<Rightarrow> NodeDisruption \<Rightarrow> SNDR \<Rightarrow> bool" where
  "moved_on H nd ndr \<longleftrightarrow> nd_meta (ndr_ND ndr) = nd_meta nd \<and> ndr_Spec ndr = nd_Spec nd \<and>
     nd_State (ndr_Status ndr) \<noteq> Rejected \<and> stage H (ndr_Status ndr) \<le> stage H (nd_Status nd) - 1"

lemma agreed_moved_on:
  assumes agrees: "attempt_agrees (resolved config ns nd) bs ndr" and pending: "nd_State (nd_Status nd) = Pending"
    and H: "hooked_names (resolved config ns nd) bs = H"
  shows "moved_on H nd ndr"
proof -
  let ?ndr = "resolved config ns nd"
  note same = agreed_fields [OF agrees]
  have names: "hooked_names ndr bs = H" by (simp only: H [symmetric] hooked_names_def same)
  have prepared: "\<not> (\<exists>ref \<in> H. unasked (DisruptedDisruptionBudgets (ndr_Status ndr)) ref)"
    unfolding names [symmetric] unprepared_names [symmetric]
    using agreed_state(2) [OF agrees] unfolding same by (auto simp: list_all_iff list_ex_iff)
  have "stage H (ndr_Status ndr) \<le> stage H (nd_Status nd) - 1"
  proof (cases "\<exists>ref \<in> H. unasked (DisruptedDisruptionBudgets (nd_Status nd)) ref")
    case True
    then show ?thesis using agreed_state(1) [OF agrees] prepared by (auto simp: stage_def pending)
  next
    case False
    then have "\<not> list_ex (unprepared (DisruptedDisruptionBudgets (ndr_Status ?ndr))) (filter (concerned ?ndr (nodes_of_status ?ndr)) bs)"
      unfolding unprepared_names H by simp
    then have "nd_State (ndr_Status ndr) = Granted"
      by (intro prepared_grants [OF agrees]) (auto simp: list_all_iff list_ex_iff)
    then show ?thesis by (simp add: stage_def)
  qed
  with same agreed_state(1) [OF agrees] show ?thesis by (auto simp: moved_on_def)
qed

lemma transition_moves_on:
  assumes order: "world_order (\<lambda>x y. kept y = kept x) env" and coop: "cooperative env"
    and adm: "admissible env (resolved config ns nd)" and state: "nd_State (nd_Status nd) \<noteq> Rejected"
    and budgets: "\<And>w :: (effect, 'x) world. kept (ext w) = nd \<Longrightarrow> \<exists>bs. fst (run_state (GetAllBudgetsInSync env) w) = Inr bs \<and>
         tolerant (lib env) (resolved config ns nd) bs \<and> hooked_names (resolved config ns nd) bs = H"
    and w: "kept (ext w) = nd" and run: "run_state (TryTransitionState env (resolved config ns nd)) w = (r, w')"
  shows "\<exists>ndr. r = Inr ndr \<and> moved_on H nd ndr"
proof (cases "nd_State (nd_Status nd) = Pending")
  case True
  let ?ndr = "resolved config ns nd"
  from run True obtain q w1 where attempt: "run_state (tryTransitionToGranted env ?ndr) w = (q, w1)" and
      r: "\<And>ndr. q = Inr ndr \<Longrightarrow> r = Inr ndr"
    unfolding TryTransitionState_def
    by (cases "run_state (tryTransitionToGranted env ?ndr) w") (auto split: sum.splits)
  from attempt [unfolded tryTransition_attempt] obtain retry w2 where
      date: "run_state (getRetryDate env ?ndr) w = (retry, w2)" and
      rest: "run_state (do { r \<leftarrow> GetAllBudgetsInSync env;
        (case r of Inl err \<Rightarrow> ret (Inl err) | Inr budgets \<Rightarrow> attempt_with env ?ndr retry budgets) }) w2 = (q, w1)"
    by (rule run_bind)
  have "kept (ext w2) = nd" using movesD [OF world_order.moves_dates(2) [OF order] date] w by simp
  from budgets [OF this] obtain bs w3 where "run_state (GetAllBudgetsInSync env) w2 = (Inr bs, w3)"
      and tolerant: "tolerant (lib env) ?ndr bs" and H: "hooked_names ?ndr bs = H"
    by (cases "run_state (GetAllBudgetsInSync env) w2") auto
  with rest have "run_state (attempt_with env ?ndr retry bs) w3 = (q, w1)" by simp
  then obtain ndr where "q = Inr ndr" "attempt_agrees ?ndr bs ndr"
    using satD [OF attempt_with_agrees [OF coop adm tolerant [unfolded tolerant_def]]] by blast
  with r True H show ?thesis by (auto intro: agreed_moved_on)
next
  case False
  with state run show ?thesis
    unfolding TryTransitionState_def by (cases "nd_State (nd_Status nd)") (auto simp: moved_on_def stage_def)
qed

lemma Reconcile_single_moves_on:
  assumes order: "world_order (\<lambda>x y. kept y = kept x) env" and favourable: "favourable config H kept env nd"
    and state: "nd_State (nd_Status nd) \<noteq> Rejected" and w: "kept (ext w) = nd"
    and run: "run_state (Reconcile_single env \<lparr>ndr_ND = nd, ndr_Config = config\<rparr>) w = (r, w')"
  shows "\<exists>ndr. r = Inr ndr \<and> moved_on H nd ndr"
proof -
  from favourable obtain ns where coop: "cooperative env" and adm: "admissible env (resolved config ns nd)"
      and nodes: "\<And>w. kept (ext w) = nd \<Longrightarrow> fst (run_state (GetNodeFromNodeSelector env (nd_NodeSelector (nd_Spec nd))) w) = Inr ns"
      and budgets: "\<And>w. kept (ext w) = nd \<Longrightarrow> \<exists>bs. fst (run_state (GetAllBudgetsInSync env) w) = Inr bs \<and>
         tolerant (lib env) (resolved config ns nd) bs \<and> hooked_names (resolved config ns nd) bs = H"
    unfolding favourable_def by blast
  from run [unfolded Reconcile_single_def] obtain q w1 where sync: "run_state (Sync env \<lparr>ndr_ND = nd, ndr_Config = config\<rparr>) w = (q, w1)"
      and rest: "run_state (case q of Inl err \<Rightarrow> ret (Inl err) | Inr ndr \<Rightarrow> TryTransitionState env ndr) w1 = (r, w')"
    by (rule run_bind)
  from sync nodes [OF w] have q: "q = Inr (resolved config ns nd)"
    unfolding Sync_def by (auto simp: resolved_def set_status_def split: prod.splits)
  have "kept (ext w1) = nd" using movesD [OF world_order.moves_attempt(2) [OF order] sync] w by simp
  from transition_moves_on [OF order coop adm state budgets this] rest q show ?thesis by simp
qed

section \<open>One call\<close>

lemma writes_stored:
  assumes "stores env req kept" and "same_version nd_meta nd (kept (ext w))"
  shows "run_state (Update_nd env nd) w = (r, w') \<Longrightarrow> \<exists>rv. kept (ext w') = put_object_nd nd rv (kept (ext w))"
    and "run_state (UpdateStatus env \<lparr>ndr_ND = nd, ndr_Config = config\<rparr>) w = (err, w') \<Longrightarrow>
      \<exists>rv. kept (ext w') = put_status_nd nd rv (kept (ext w))"
proof -
  from assms have "\<exists>rv. kept (snd (update_nd (kube env) nd (ext w))) = put_object_nd nd rv (kept (ext w))"
      "\<exists>rv. kept (snd (status_nd (kube env) nd (ext w))) = put_status_nd nd rv (kept (ext w))"
    unfolding stores_def by blast+
  then show "run_state (Update_nd env nd) w = (r, w') \<Longrightarrow> \<exists>rv. kept (ext w') = put_object_nd nd rv (kept (ext w))"
    and "run_state (UpdateStatus env \<lparr>ndr_ND = nd, ndr_Config = config\<rparr>) w = (err, w') \<Longrightarrow>
      \<exists>rv. kept (ext w') = put_status_nd nd rv (kept (ext w))"
    unfolding Update_nd_def UpdateStatus_def StatusUpdate_nd_def by (auto split: prod.splits)
qed

text \<open>What one call makes of the stored object.\<close>

definition advanced :: "lib \<Rightarrow> NamespacedName set \<Rightarrow> NodeDisruption \<Rightarrow> NodeDisruption \<Rightarrow> bool" where
  "advanced l H nd nd' \<longleftrightarrow> same_request nd nd' \<and> nd_State (nd_Status nd') \<noteq> Rejected \<and>
     calls_left l H nd' \<le> calls_left l H nd - 1"

lemma finalizer_advances:
  assumes stores: "stores env req kept" and nd: "nd = kept (ext w)"
    and law: "\<And>fs. ContainsFinalizer (lib env) (AddFinalizer (lib env) fs FinalizerName) FinalizerName"
    and absent: "\<not> ContainsFinalizer (lib env) (om_Finalizers (nd_meta nd)) FinalizerName"
    and state: "nd_State (nd_Status nd) \<noteq> Rejected" and alive: "\<not> under_deletion (nd_meta nd)"
    and run: "run_state (handleFinalizer env nd sndr) w = (r, w')"
  shows "r \<noteq> Inr True" and "advanced (lib env) H nd (kept (ext w'))"
proof -
  let ?fs = "AddFinalizer (lib env) (om_Finalizers (nd_meta nd)) FinalizerName"
  from run have "run_state (do { r \<leftarrow> Update_nd env (with_finalizers ?fs nd);
      ret (case r of Inl err \<Rightarrow> Inl err | Inr _ \<Rightarrow> Inr False) }) w = (r, w')"
    by (simp only: handleFinalizer_def absent alive simp_thms if_True if_False)
  then obtain q where update: "run_state (Update_nd env (with_finalizers ?fs nd)) w = (q, w')"
      and r: "r = (case q of Inl err \<Rightarrow> Inl err | Inr _ \<Rightarrow> Inr False)"
    by (rule run_bind) auto
  from r show "r \<noteq> Inr True" by (auto split: sum.splits)
  have "same_version nd_meta (with_finalizers ?fs nd) (kept (ext w))"
    by (simp add: nd same_version_def with_finalizers_def meta_key_def)
  from writes_stored(1) [OF stores this update] obtain rv where
      kept: "kept (ext w') = put_object_nd (with_finalizers ?fs nd) rv nd" by (auto simp: nd)
  show "advanced (lib env) H nd (kept (ext w'))"
    using law absent state
    by (simp add: advanced_def calls_left_def same_request_def kept put_object_nd_def with_finalizers_def with_version_def)
qed

lemma reconcile_advances:
  assumes stores: "stores env req kept" and nd: "nd = kept (ext w)" and favourable: "favourable config H kept env nd"
    and date: "clock_within env (\<lambda>t. NextRetryDate (nd_Status nd) \<le> t)"
    and present: "ContainsFinalizer (lib env) (om_Finalizers (nd_meta nd)) FinalizerName"
    and state: "nd_State (nd_Status nd) \<noteq> Rejected"
    and run: "run_state (reconcile_disruption env nd \<lparr>ndr_ND = nd, ndr_Config = config\<rparr>) w = (res, w')"
  shows "advanced (lib env) H nd (kept (ext w'))"
proof -
  let ?sndr = "\<lparr>ndr_ND = nd, ndr_Config = config\<rparr>"
  let ?after = "\<lambda>r. case r of
          Inl err \<Rightarrow> ret (empty_Result, None)
        | Inr reconciler \<Rightarrow>
            if nd_Status nd \<noteq> ndr_Status reconciler then do {
              err \<leftarrow> UpdateStatus env reconciler;
              (case err of
                 Some err \<Rightarrow> ret (empty_Result, if IsNotFound err then None else Some err)
               | None \<Rightarrow> ret (empty_Result, None)) }
            else ret (empty_Result, None)"
  have order: "world_order (\<lambda>x y. kept y = kept x) env" using stores by (simp add: stores_def)
  from run [unfolded reconcile_disruption_def] obtain u wa where
      metrics: "run_state (metrics (UpdateNodeDisruptionMetrics nd)) w = (u, wa)" and
      "run_state (do { now \<leftarrow> Now env;
         if now < NextRetryDate (nd_Status nd) then do {
           _ \<leftarrow> Now env;
           now \<leftarrow> Now env;
           ret (\<lparr>RequeueAfter = Until (NextRetryDate (nd_Status nd)) now\<rparr>, None) }
         else State_Monad.bind (Reconcile_single env ?sndr) ?after }) wa = (res, w')"
    by (rule run_bind)
  from this(2) obtain now w1 where clock: "run_state (Now env) wa = (now, w1)" and
      late: "run_state (if now < NextRetryDate (nd_Status nd) then do {
           _ \<leftarrow> Now env;
           now \<leftarrow> Now env;
           ret (\<lparr>RequeueAfter = Until (NextRetryDate (nd_Status nd)) now\<rparr>, None) }
         else State_Monad.bind (Reconcile_single env ?sndr) ?after) w1 = (res, w')"
    by (rule run_bind)
  have w1: "kept (ext w1) = nd"
    using movesD [OF world_order.moves_basic(4) [OF order] metrics] movesD [OF world_order.moves_tells(4) [OF order] clock]
    by (simp add: nd)
  have "\<not> now < NextRetryDate (nd_Status nd)" by (rule satD [OF sat_Now [OF date] clock]) simp
  with late have rest: "run_state (State_Monad.bind (Reconcile_single env ?sndr) ?after) w1 = (res, w')"
    by (simp only: if_False)
  from rest obtain r w2 where single: "run_state (Reconcile_single env ?sndr) w1 = (r, w2)" and
      after: "run_state (?after r) w2 = (res, w')" by (rule run_bind)
  have w2: "kept (ext w2) = nd" using movesD [OF world_order.moves_attempt(4) [OF order] single] w1 by simp
  from Reconcile_single_moves_on [OF order favourable state w1 single] obtain ndr where
      r: "r = Inr ndr" and moved: "moved_on H nd ndr" by blast
  have kept: "nd_Status (kept (ext w')) = ndr_Status ndr \<and> same_request nd (kept (ext w')) \<and>
      om_Finalizers (nd_meta (kept (ext w'))) = om_Finalizers (nd_meta nd)"
  proof (cases "nd_Status nd = ndr_Status ndr")
    case True
    with after r w2 show ?thesis by simp
  next
    case False
    with after r obtain err where "run_state (UpdateStatus env ndr) w2 = (err, w')"
      by (cases "run_state (UpdateStatus env ndr) w2") (auto split: option.splits)
    moreover have "same_version nd_meta (ndr_ND ndr) (kept (ext w2))"
      using moved by (simp add: moved_on_def w2 same_version_def)
    ultimately obtain rv where "kept (ext w') = put_status_nd (ndr_ND ndr) rv nd"
      using writes_stored(2) [OF stores, where nd = "ndr_ND ndr" and config = "ndr_Config ndr" and w = w2] w2
      by (auto simp: UpdateStatus_def)
    then show ?thesis by (simp add: put_status_nd_def same_request_def with_version_def)
  qed
  with kept moved present show ?thesis by (simp add: advanced_def calls_left_def moved_on_def)
qed

text \<open>The two cases of a call.\<close>

lemma call_advances:
  assumes stores: "stores env req kept" and favourable: "favourable config H kept env (kept x)"
    and law: "\<And>fs. ContainsFinalizer (lib env) (AddFinalizer (lib env) fs FinalizerName) FinalizerName"
    and date: "clock_within env (\<lambda>t. NextRetryDate (nd_Status (kept x)) \<le> t)"
    and state: "nd_State (nd_Status (kept x)) \<noteq> Rejected" and alive: "\<not> under_deletion (nd_meta (kept x))"
    and run: "run_state (nd_Reconcile env config req) (start x) = (res, w)"
  shows "advanced (lib env) H (kept x) (kept (ext w))"
proof -
  let ?nd = "kept x"
  have order: "world_order (\<lambda>x y. kept y = kept x) env" and get: "fst (get_nd (kube env) req x) = Inr ?nd"
    using stores by (simp_all add: stores_def)
  let ?after = "\<lambda>r. case r of
             Inl err \<Rightarrow> ret (empty_Result, Some err)
           | Inr continueReconcile \<Rightarrow>
               if \<not> continueReconcile then ret (empty_Result, None)
               else reconcile_disruption env ?nd \<lparr>ndr_ND = ?nd, ndr_Config = config\<rparr>"
  let ?missing = "\<lambda>err. if IsNotFound err then do {
            metrics (PruneNodeDisruptionMetrics (snd req));
            ret (empty_Result, None) }
          else ret (empty_Result, Some err)"
  from run [unfolded nd_Reconcile_def Let_def] obtain q w1 where read: "run_state (ask (get_nd (kube env) req)) (start x) = (q, w1)" and
      rest: "run_state (case q of Inl err \<Rightarrow> ?missing err
        | Inr nd \<Rightarrow> State_Monad.bind (handleFinalizer env nd \<lparr>ndr_ND = nd, ndr_Config = config\<rparr>) (\<lambda>r. case r of
             Inl err \<Rightarrow> ret (empty_Result, Some err)
           | Inr continueReconcile \<Rightarrow>
               if \<not> continueReconcile then ret (empty_Result, None)
               else reconcile_disruption env nd \<lparr>ndr_ND = nd, ndr_Config = config\<rparr>)) w1 = (res, w)"
    by (rule run_bind)
  from movesD [OF world_order.moves_reads(8) [OF order] read] have w1: "kept (ext w1) = ?nd" by (simp add: start_def)
  from read get have "q = Inr ?nd" by (auto simp: start_def split: prod.splits)
  with rest have "run_state (State_Monad.bind (handleFinalizer env ?nd \<lparr>ndr_ND = ?nd, ndr_Config = config\<rparr>) ?after) w1 = (res, w)"
    by (simp only: sum.case)
  then obtain r w2 where fin: "run_state (handleFinalizer env ?nd \<lparr>ndr_ND = ?nd, ndr_Config = config\<rparr>) w1 = (r, w2)"
      and after: "run_state (?after r) w2 = (res, w)" by (rule run_bind)
  show ?thesis
  proof (cases "ContainsFinalizer (lib env) (om_Finalizers (nd_meta ?nd)) FinalizerName")
    case True
    with fin alive have "r = Inr True" "w2 = w1" by (simp_all add: handleFinalizer_def)
    with after show ?thesis
      by (intro reconcile_advances [OF stores w1 [symmetric] favourable date True state]) simp
  next
    case False
    note fin_case = finalizer_advances [OF stores w1 [symmetric] law False state alive fin]
    from fin_case(1) after have "w = w2" by (auto split: sum.splits if_splits)
    with fin_case(2) show ?thesis by simp
  qed
qed

section \<open>Four calls suffice\<close>

lemma calls_left_le: "calls_left l H nd \<le> 4"
  by (simp add: calls_left_def stage_def split: NodeDisruptionState.split)

text \<open>
  C3: A requested disruption gets granted.  Take a new disruption, with or without the finalizer, and four
  calls of \<open>Reconcile\<close> on it, each in an environment of its own, each not before the date that the last
  one asked for, and each finding what the last one wrote.  If in every call the budgets tolerate the
  disruption, nothing else stands against it and the application managers answer 200, then it is
  granted in the end: one call for the finalizer, one for the first state, one that prepares the
  budgets with hooks of version 2, and one that finds them ready.
\<close>

theorem requested_gets_granted:
  assumes "\<forall>i < 4. stores (e i) req kept \<and> favourable config H kept (e i) (kept (xs i)) \<and> lib (e i) = l"
    and "\<forall>fs. ContainsFinalizer l (AddFinalizer l fs FinalizerName) FinalizerName"
    and "\<forall>i < 4. clock_within (e i) (\<lambda>t. NextRetryDate (nd_Status (kept (xs i))) \<le> t)"
    and "\<forall>i < 4. kept (xs (Suc i)) = kept (ext (snd (run_state (nd_Reconcile (e i) config req) (start (xs i)))))"
    and "nd_State (nd_Status (kept (xs 0))) \<in> {Unknown, Pending}" and "\<not> under_deletion (nd_meta (kept (xs 0)))"
  shows "nd_State (nd_Status (kept (xs 4))) = Granted \<and> same_request (kept (xs 0)) (kept (xs 4))"
proof -
  have "same_request (kept (xs 0)) (kept (xs i)) \<and> nd_State (nd_Status (kept (xs i))) \<noteq> Rejected \<and>
      calls_left l H (kept (xs i)) \<le> 4 - i" if "i \<le> 4" for i
    using that
  proof (induction i)
    case 0
    with assms(5) show ?case by (auto simp: calls_left_le)
  next
    case (Suc i)
    then have i: "i < 4" and same: "same_request (kept (xs 0)) (kept (xs i))" and state: "nd_State (nd_Status (kept (xs i))) \<noteq> Rejected"
        and left: "calls_left l H (kept (xs i)) \<le> 4 - i" by simp_all
    obtain res w where run: "run_state (nd_Reconcile (e i) config req) (start (xs i)) = (res, w)" by fastforce
    have alive: "\<not> under_deletion (nd_meta (kept (xs i)))" using assms(6) same_request_fields [OF same] by simp
    from assms(1-3) i have "advanced l H (kept (xs i)) (kept (ext w))"
      using call_advances [where kept = kept and H = H, OF _ _ _ _ state alive run] by simp
    with assms(4) i run have "advanced l H (kept (xs i)) (kept (xs (Suc i)))" by simp
    with same left i show ?case by (auto simp: advanced_def intro: same_request_trans)
  qed
  from this [of 4] show ?thesis by (auto simp: calls_left_def stage_def split: NodeDisruptionState.splits if_splits)
qed

end
