(* ===== verification/Main_Config.thy ===== *)
theory Main_Config
  imports Node_Disruption
begin

text \<open>
  The configuration that \<open>cmd/main.go\<close> makes from the command line: the lists of disruption types, the
  check that the default types are allowed, and the configurations handed to the controllers.
\<close>

section \<open>Lists of types\<close>

text \<open>
  \<open>strings.FieldsFunc\<close>: the maximal runs of characters that are no separators; \<open>cur\<close> is the run being
  read.
\<close>

fun fields_loop :: "(char \<Rightarrow> bool) \<Rightarrow> string \<Rightarrow> string \<Rightarrow> string list" where
  "fields_loop sep [] cur = (if cur = [] then [] else [cur])"
| "fields_loop sep (c # cs) cur =
     (if sep c then (if cur = [] then fields_loop sep cs [] else cur # fields_loop sep cs [])
      else fields_loop sep cs (cur @ [c]))"

definition FieldsFunc :: "string \<Rightarrow> (char \<Rightarrow> bool) \<Rightarrow> string list" where
  "FieldsFunc s sep = fields_loop sep s []"

definition type_list :: "string \<Rightarrow> string list" where
  "type_list raw = FieldsFunc raw (\<lambda>c. c = CHR '','')"

text \<open>The loop over the default types, which exits at the first that is not allowed.\<close>

fun defaults_loop :: "lib \<Rightarrow> string set \<Rightarrow> string list \<Rightarrow> error option" where
  "defaults_loop l allowed [] = None"
| "defaults_loop l allowed (t # ts) =
     (if t \<notin> allowed then Some (ErrText (''default-node-disruption-types contains type '' @ quote l t
          @ '' which is not in node-disruption-types''))
      else defaults_loop l allowed ts)"

section \<open>The configuration\<close>

record flags =
  rejectEmptyNodeDisruption :: bool
  retryInterval :: duration
  rejectOverlappingDisruption :: bool
  healthHookTimeout :: duration
  nodeDisruptionTypesRaw :: string
  defaultNodeDisruptionTypesRaw :: string
  metricsAddr :: string
  probeAddr :: string
  enableLeaderElection :: bool
  logConsole :: bool
  logPath :: string
  logMaxSize :: gint
  logMaxBackups :: gint
  logCompress :: bool

definition DefaultRetryInterval :: duration where "DefaultRetryInterval = 60 * 10 ^ 9"
definition DefaultHealthHookTimeout :: duration where "DefaultHealthHookTimeout = 60 * 10 ^ 9"

text \<open>The values of the flags when the command line is empty.\<close>

definition default_flags :: flags where
  "default_flags = \<lparr>rejectEmptyNodeDisruption = False, retryInterval = DefaultRetryInterval,
     rejectOverlappingDisruption = False, healthHookTimeout = DefaultHealthHookTimeout,
     nodeDisruptionTypesRaw = '''', defaultNodeDisruptionTypesRaw = '''',
     metricsAddr = '':8080'', probeAddr = '':8081'', enableLeaderElection = False,
     logConsole = True, logPath = '''', logMaxSize = 10, logMaxBackups = 1, logCompress = False\<rparr>"

text \<open>
  The configuration of the node disruption controller and the default types of the two budget
  controllers, or the error with which the program exits.
\<close>

definition configure :: "lib \<Rightarrow> flags \<Rightarrow> error + (NodeDisruptionReconcilerConfig \<times> string list)" where
  "configure l fl =
     (let nodeDisruptionTypes = type_list (nodeDisruptionTypesRaw fl);
          defaultNodeDisruptionTypes = type_list (defaultNodeDisruptionTypesRaw fl);
          configs = (\<lparr>RejectEmptyNodeDisruption = rejectEmptyNodeDisruption fl,
             RetryInterval = retryInterval fl,
             RejectOverlappingDisruption = rejectOverlappingDisruption fl,
             HealthHookTimeout = healthHookTimeout fl,
             NodeDisruptionTypes = nodeDisruptionTypes\<rparr>, defaultNodeDisruptionTypes)
      in if nodeDisruptionTypes \<noteq> [] then
           (case defaults_loop l (fold insert nodeDisruptionTypes {}) defaultNodeDisruptionTypes of
              Some err \<Rightarrow> Inl err
            | None \<Rightarrow> Inr configs)
         else Inr configs)"

section \<open>Where the logs go\<close>

text \<open>\<open>lumberjack.Logger\<close>, a file that rotates; a nil writer means the console.\<close>

record file_logger =
  Filename :: string
  MaxSize :: gint
  MaxBackups :: gint
  Compress :: bool

datatype log_writer = NilWriter | FileWriter file_logger | MultiWriteSyncer file_logger

definition logOutput :: "bool \<Rightarrow> string \<Rightarrow> gint \<Rightarrow> gint \<Rightarrow> bool \<Rightarrow> log_writer" where
  "logOutput console path maxSize maxBackups compress =
     (if path = [] then NilWriter
      else let w = \<lparr>Filename = path, MaxSize = maxSize, MaxBackups = maxBackups, Compress = compress\<rparr>
           in if console then MultiWriteSyncer w else FileWriter w)"

primrec log_to_console :: "log_writer \<Rightarrow> bool" where
  "log_to_console NilWriter = True"
| "log_to_console (FileWriter _) = False"
| "log_to_console (MultiWriteSyncer _) = True"

text \<open>The console flag only matters when the logs also go to a file.\<close>

lemma log_destinations:
  "log_to_console (logOutput console path maxSize maxBackups compress) \<longleftrightarrow> console \<or> path = []"
  by (simp add: logOutput_def Let_def)

section \<open>Properties\<close>

lemma fields_loop_append:
  "list_all (\<lambda>c. \<not> sep c) s \<Longrightarrow> fields_loop sep (s @ cs) cur = fields_loop sep cs (cur @ s)"
  by (induction s arbitrary: cur) simp_all

lemma fields_loop_clean:
  "list_all (\<lambda>c. \<not> sep c) cur \<Longrightarrow>
   list_all (\<lambda>t. t \<noteq> [] \<and> list_all (\<lambda>c. \<not> sep c) t) (fields_loop sep s cur)"
  by (induction sep s cur rule: fields_loop.induct) auto

text \<open>
  C37: A list of types is read as it is written: joining non-empty types without commas by commas and
  reading the result gives the types back, in order; and whatever the text, every type read is
  non-empty and has no comma.
\<close>

theorem type_list_roundtrip:
  "list_all (\<lambda>t. t \<noteq> '''' \<and> CHR '','' \<notin> set t) (type_list raw) \<and>
   (list_all (\<lambda>t. t \<noteq> '''' \<and> CHR '','' \<notin> set t) types \<longrightarrow> type_list (join_with '','' types) = types)"
proof -
  let ?sep = "\<lambda>c. c = CHR '',''"
  have clean: "CHR '','' \<notin> set t \<longleftrightarrow> list_all (\<lambda>c. \<not> ?sep c) t" for t
    by (auto simp: list_all_iff)
  have "fields_loop ?sep (join_with '','' ts) [] = ts"
    if "list_all (\<lambda>t. t \<noteq> '''' \<and> list_all (\<lambda>c. \<not> ?sep c) t) ts" for ts
    using that
  proof (induction "'',''" ts rule: join_with.induct)
    case (2 s)
    then show ?case using fields_loop_append [of ?sep s "[]" "[]"] by simp
  next
    case (3 s s' ss)
    then show ?case using fields_loop_append [of ?sep s "'','' @ join_with '','' (s' # ss)" "[]"] by simp
  qed simp
  then show ?thesis
    using fields_loop_clean [of ?sep "[]" raw] by (simp add: type_list_def FieldsFunc_def clean)
qed

lemma defaults_loop_None: "defaults_loop l allowed ts = None \<longleftrightarrow> set ts \<subseteq> allowed"
  by (induction ts) auto

text \<open>
  The program starts exactly when no list of allowed types is given or every default type is in
  it; the controllers then get those very lists.
\<close>

theorem configure_checks_defaults:
  "(\<exists>config. configure l fl = Inr (config, type_list (defaultNodeDisruptionTypesRaw fl)) \<and>
      NodeDisruptionTypes config = type_list (nodeDisruptionTypesRaw fl))
   = (type_list (nodeDisruptionTypesRaw fl) = [] \<or>
      set (type_list (defaultNodeDisruptionTypesRaw fl)) \<subseteq> set (type_list (nodeDisruptionTypesRaw fl)))"
  using defaults_loop_None [of l "set (type_list (nodeDisruptionTypesRaw fl))"
      "type_list (defaultNodeDisruptionTypesRaw fl)"]
  by (auto simp: configure_def Let_def union_set_fold [symmetric] split: option.splits)

end
