(* ===== verification/Budget_Witnesses.thy ===== *)
theory Budget_Witnesses
  imports Standing_Cluster Budget_Controllers Main_Config
begin

text \<open>
  The witnesses of the properties of the budgets, of their controllers, of the resolver and of the
  command line: each applies its property to concrete objects.
\<close>

section \<open>Frozen clusters\<close>

lemma cluster_frozen: "cluster_stable (frozen_env c) x"
  by (simp add: cluster_stable_def reads_stable_def nodes_stable_def frozen_env_def frozen_kube_def)

lemma reads_frozen: "reads_stable (frozen_env c) x"
  using cluster_frozen by (rule cluster_stableD)

lemma nodes_frozen: "nodes_stable (frozen_env c) x"
  using reads_frozen [of c x] by (simp add: reads_stable_def)

lemma lib_frozen [simp]: "lib (frozen_env c) = sample_lib"
  by (simp add: frozen_env_def)

lemma lists_frozen [simp]:
  "list_adb (kube (frozen_env c)) None x = (Inr (c_adbs c), x)"
  "list_ndb (kube (frozen_env c)) None x = (Inr (c_ndbs c), x)"
  "list_nd (kube (frozen_env c)) x = (Inr (c_nds c), x)"
  "fst (get_adb (kube (frozen_env c)) key x) = sample_get adb_meta (c_adbs c) key"
  by (simp_all add: frozen_env_def frozen_kube_def sample_kube_def sample_ns_def)

definition app_budget :: "gint \<Rightarrow> ApplicationDisruptionBudget" where
  "app_budget n = sample_adb ''b1'' n (any_of ''app'' ''x'')"

definition rack_disruption :: NodeDisruption where
  "rack_disruption = sample_nd ''d2'' (any_of ''rack'' ''a'') Granted"

definition busy_cluster :: "ApplicationDisruptionBudget list \<Rightarrow> NodeDisruptionBudget list \<Rightarrow> cluster" where
  "busy_cluster adbs ndbs = three_nodes\<lparr>c_nds := [rack_disruption], c_adbs := adbs, c_ndbs := ndbs\<rparr>"

lemma busy_simps [simp]:
  "c_nds (busy_cluster adbs ndbs) = [rack_disruption]" "c_adbs (busy_cluster adbs ndbs) = adbs"
  "c_ndbs (busy_cluster adbs ndbs) = ndbs"
  by (simp_all add: busy_cluster_def three_nodes_def empty_cluster_def)

definition rack_a :: NodeSet where "rack_a = \<lparr>ns_Nodes = {''n1'', ''n2''}\<rparr>"

definition app_resolver :: ADBResolver where
  "app_resolver = \<lparr>adbr_ADB = app_budget 1, hookCli = None\<rparr>"

definition pool_resolver :: NDBResolver where
  "pool_resolver = \<lparr>ndbr_NDB = sample_ndb ''pool'' 2 0 (any_of ''pool'' ''p'')\<rparr>"

section \<open>Synchronisation and decisions\<close>

theorem adb_Sync_exact_witness:
  "\<exists>r. still () (adb_Sync (frozen_env (busy_cluster [] [])) app_resolver) (Inr r) \<and>
     WatchedNodes (adbr_Status r) = Slice [''n1'', ''n2''] \<and> CurrentDisruptions (adbr_Status r) = 1 \<and>
     DisruptionsAllowed (adbr_Status r) = 0"
proof -
  let ?env = "frozen_env (busy_cluster [] [])"
  have "adb_nodes_for ?env () app_resolver = Inr rack_a" by code_simp
  with still_adb_selected [OF reads_frozen] have sel: "still () (adb_GetSelectedNodes ?env app_resolver) (Inr rack_a)"
    by metis
  have rack: "nodes_for ?env () (nd_NodeSelector (nd_Spec rack_disruption)) = Inr rack_a" by code_simp
  have figures: "NodeSetToStringList rack_a = [''n1'', ''n2'']" "length (granted_on (\<lambda>_. rack_a) rack_a [rack_disruption]) = 1"
    "MaxDisruptions (adbr_Spec app_resolver) = 1"
    by code_simp+
  have "still () (adb_Sync ?env app_resolver) (Inr (app_resolver\<lparr>adbr_ADB := (adbr_ADB app_resolver)\<lparr>adb_Status := \<lparr>
     WatchedNodes = Slice (NodeSetToStringList rack_a),
     DisruptionsAllowed = MaxDisruptions (adbr_Spec app_resolver)
       - word_of_nat (length (granted_on (\<lambda>_. rack_a) rack_a [rack_disruption])),
     CurrentDisruptions = word_of_nat (length (granted_on (\<lambda>_. rack_a) rack_a [rack_disruption])),
     Disruptions = Slice (map disruption_entry (filter (impacting (\<lambda>_. rack_a) rack_a) [rack_disruption]))\<rparr>\<rparr>\<rparr>))"
    by (rule adb_Sync_exact [OF nodes_frozen sel]) (simp_all add: rack)
  note sync = this [unfolded figures]
  show ?thesis by (rule exI, rule conjI, rule sync) simp
qed

theorem ndb_Sync_exact_witness:
  "\<exists>r. still () (ndb_Sync (frozen_env (busy_cluster [] [])) pool_resolver) (Inr r) \<and>
     WatchedNodes (ndbr_Status r) = Slice [''n1'', ''n2'', ''n3''] \<and> CurrentDisruptions (ndbr_Status r) = 1 \<and>
     DisruptionsAllowed (ndbr_Status r) = 1"
proof -
  let ?env = "frozen_env (busy_cluster [] [])" and ?pool = "\<lparr>ns_Nodes = {''n1'', ''n2'', ''n3''}\<rparr>"
  have sel: "nodes_for ?env () (ndb_NodeSelector (ndbr_Spec pool_resolver)) = Inr ?pool" by code_simp
  have rack: "nodes_for ?env () (nd_NodeSelector (nd_Spec rack_disruption)) = Inr rack_a" by code_simp
  have figures: "NodeSetToStringList ?pool = [''n1'', ''n2'', ''n3'']"
    "length (granted_on (\<lambda>_. rack_a) ?pool [rack_disruption]) = 1"
    by code_simp+
  have allowed: "computeNodeDisruptionBudgetDisruptionsAllowed (float_out_of_range (lib ?env))
      (MaxDisruptedNodes (ndbr_Spec pool_resolver)) (MinUndisruptedNodes (ndbr_Spec pool_resolver))
      (word_of_nat (length [''n1'', ''n2'', ''n3''])) (word_of_nat 1) = 1"
    by code_simp
  have "still () (ndb_Sync ?env pool_resolver) (Inr (pool_resolver\<lparr>ndbr_NDB := (ndbr_NDB pool_resolver)\<lparr>ndb_Status := \<lparr>
     WatchedNodes = Slice (NodeSetToStringList ?pool),
     DisruptionsAllowed = computeNodeDisruptionBudgetDisruptionsAllowed (float_out_of_range (lib ?env))
       (MaxDisruptedNodes (ndbr_Spec pool_resolver)) (MinUndisruptedNodes (ndbr_Spec pool_resolver))
       (word_of_nat (length (NodeSetToStringList ?pool)))
       (word_of_nat (length (granted_on (\<lambda>_. rack_a) ?pool [rack_disruption]))),
     CurrentDisruptions = word_of_nat (length (granted_on (\<lambda>_. rack_a) ?pool [rack_disruption])),
     Disruptions = Slice (map disruption_entry (filter (impacting (\<lambda>_. rack_a) ?pool) [rack_disruption]))\<rparr>\<rparr>\<rparr>))"
    by (rule ndb_Sync_exact [OF nodes_frozen sel]) (simp_all add: rack)
  note sync = this [unfolded figures allowed]
  show ?thesis by (rule exI, rule conjI, rule sync) simp
qed

definition synced_app :: ADBResolver where
  "synced_app = \<lparr>adbr_ADB = (app_budget 2)\<lparr>adb_Status := \<lparr>WatchedNodes = Slice [''n1''],
     DisruptionsAllowed = 1, CurrentDisruptions = 1, Disruptions = NilSlice\<rparr>\<rparr>, hookCli = None\<rparr>"

theorem adb_tolerates_iff_witness: "adb_TolerateDisruption synced_app rack_a"
  using adb_tolerates_iff [of synced_app 1 rack_a]
  by (simp add: synced_app_def app_budget_def sample_adb_def)

theorem disruptions_allowed_exact_witness:
  "sint (computeNodeDisruptionBudgetDisruptionsAllowed (\<lambda>_. 0) 3 8 (word_of_nat 10) (word_of_nat 1)) = 1"
  using disruptions_allowed_exact [of 3 8 10 1 "\<lambda>_. 0"] by simp

definition synced_pool :: NDBResolver where
  "synced_pool = \<lparr>ndbr_NDB = (sample_ndb ''pool'' 2 0 (any_of ''pool'' ''p''))\<lparr>ndb_Status := \<lparr>
     WatchedNodes = Slice [''n1'', ''n2'', ''n3''], DisruptionsAllowed = 1, CurrentDisruptions = 1,
     Disruptions = NilSlice\<rparr>\<rparr>\<rparr>"

theorem ndb_tolerates_iff_witness: "\<not> ndb_TolerateDisruption synced_pool rack_a"
proof -
  have allowed: "DisruptionsAllowed (ndbr_Status synced_pool) = computeNodeDisruptionBudgetDisruptionsAllowed (\<lambda>_. 0)
      (MaxDisruptedNodes (ndbr_Spec synced_pool)) (MinUndisruptedNodes (ndbr_Spec synced_pool))
      (word_of_nat 3) (word_of_nat 1)"
    by code_simp
  have figures: "ndb_hits synced_pool rack_a = 2" "sint (MaxDisruptedNodes (ndbr_Spec synced_pool)) = 2"
    "sint (MinUndisruptedNodes (ndbr_Spec synced_pool)) = 0" "length (elems (WatchedNodes (ndbr_Status synced_pool))) = 3"
    by code_simp+
  show ?thesis
    using ndb_tolerates_iff [OF allowed, of rack_a] by (simp add: figures)
qed

theorem all_budgets_listed_witness:
  "\<exists>bs w. run_state (GetAllBudgetsInSync (frozen_env (busy_cluster [app_budget 1] []))) (start ()) = (Inr bs, w) \<and>
     map budget_identity bs = [Inl (adb_meta (app_budget 1), adb_Spec (app_budget 1))]"
proof -
  let ?env = "frozen_env (busy_cluster [app_budget 1] [])"
  let ?run = "run_state (GetAllBudgetsInSync ?env) (start ())"
  have "case fst ?run of Inl e \<Rightarrow> False | Inr bs \<Rightarrow> True" by code_simp
  then obtain bs w where run: "?run = (Inr bs, w)" by (cases ?run) (auto split: sum.splits)
  have lists: "list_adb (kube ?env) None (ext (start ())) = (Inr [app_budget 1], ())"
    "list_ndb (kube ?env) None () = (Inr [], ())"
    by simp_all
  from all_budgets_listed [OF lists run] run show ?thesis by simp
qed

section \<open>Hooks\<close>

definition not_ready :: http_response where
  "not_ready = \<lparr>rsp_Code = 425, rsp_Header = (\<lambda>_. ''''), rsp_Body = Consumed ''too early''\<rparr>"


section \<open>Volume affinities\<close>

definition zone_term :: "string \<Rightarrow> NodeSelectorTerm" where
  "zone_term z = \<lparr>MatchExpressions = [\<lparr>nsr_Key = ''zone'', nsr_Operator = ''In'', nsr_Values = [z]\<rparr>], MatchFields = []\<rparr>"

theorem affinity_terms_conjoined_witness:
  "\<exists>ls fs. NodeSelectorAsSelector sample_lib (Some [zone_term ''a'', zone_term ''b'']) = Inr (ls, fs) \<and>
     \<not> ls_Matches ls [''zone'' \<mapsto> ''a'']"
proof -
  let ?terms = "[zone_term ''a'', zone_term ''b'']"
  have "case NodeSelectorAsSelector sample_lib (Some ?terms) of Inl e \<Rightarrow> False | Inr p \<Rightarrow> True" by code_simp
  then obtain ls fs where ok: "NodeSelectorAsSelector sample_lib (Some ?terms) = Inr (ls, fs)"
    by (auto split: sum.splits)
  have "ls_Matches ls [''zone'' \<mapsto> ''a''] \<longleftrightarrow> list_all (\<lambda>t. list_all
      (\<lambda>e. \<exists>r. NodeLabelSelectorAsRequirement sample_lib e = Inr r \<and> sample_holds [''zone'' \<mapsto> ''a''] r)
      (MatchExpressions t)) ?terms"
    by (rule affinity_terms_conjoined [OF _ _ ok]) (simp_all add: sample_lib_def del: sample_holds.simps)
  then have "\<not> ls_Matches ls [''zone'' \<mapsto> ''a'']"
    by (simp add: zone_term_def NodeLabelSelectorAsRequirement_def sample_lib_def)
  with ok show ?thesis by blast
qed

section \<open>Controllers\<close>

theorem adb_reconcile_effects_witness:
  "sat (adb_Reconcile (frozen_env (busy_cluster [app_budget 1] [])) [''maintenance''] (''app'', ''b1'')) (\<lambda>_ es.
     length (filter is_write es) \<le> 2 \<and> list_all (adb_effect sample_lib [''maintenance''] (app_budget 1)) es)"
proof -
  have "fst (get_adb (kube (frozen_env (busy_cluster [app_budget 1] []))) (''app'', ''b1'') x) = Inr (app_budget 1)" for x
    by (simp add: sample_get_def om_key_def app_budget_def sample_adb_def named_def)
  from adb_reconcile_effects [OF this, of "[''maintenance'']"] show ?thesis by simp
qed

definition settled_adb :: ApplicationDisruptionBudget where
  "settled_adb = (app_budget 1)\<lparr>adb_Status := \<lparr>WatchedNodes = Slice [''n1'', ''n2''], DisruptionsAllowed = 0,
     CurrentDisruptions = 1, Disruptions = Slice [\<lparr>d_Name = ''d2'', d_State = ''granted''\<rparr>]\<rparr>\<rparr>"


theorem invalid_selector_panics_witness:
  "\<exists>s w. run_state (ndb_MapFunc (frozen_env (busy_cluster [] [sample_ndb ''pool'' 2 0
     \<lparr>matchLabels = [], matchExpressions = [(''k'', ''Maybe'', [])]\<rparr>]))
     (NodeObject (named ''n1''))) (start ()) = (Inl (Panic s), w)"
proof -
  let ?ndb = "sample_ndb ''pool'' 2 0
     \<lparr>matchLabels = [], matchExpressions = [(''k'', ''Maybe'', [])]\<rparr>"
  let ?env = "frozen_env (busy_cluster [] [?ndb])"
  have listed: "list_ndb (kube ?env) (Some (om_Namespace (named ''n1''))) (ext (start ())) = (Inr [?ndb], ())"
    by (simp add: frozen_env_def frozen_kube_def sample_kube_def sample_ns_def named_def)
  have "LabelSelectorAsSelector (lib ?env) (ndb_NodeSelector (ndb_Spec ?ndb)) = Inl (ErrLib ''invalid operator'')"
    by (simp add: sample_lib_def sample_selector_def sample_ndb_def)
  with invalid_selector_panics [OF listed] show ?thesis by fastforce
qed

section \<open>Command line\<close>

theorem type_list_roundtrip_witness:
  "type_list (join_with '','' [''maintenance'', ''decommission'']) = [''maintenance'', ''decommission'']"
  using type_list_roundtrip [of "''''" "[''maintenance'', ''decommission'']"] by simp

end
