(* ===== verification/Witnesses.thy ===== *)
theory Witnesses
  imports Budget_Witnesses Capacity Nd_Controller
begin

text \<open>
  The witnesses of the properties that have hypotheses: each applies its property to a concrete
  cluster, in which the hypotheses hold, and where the property is about an outcome, to a concrete
  run that has this outcome.
\<close>

section \<open>Scenarios\<close>

definition app_cluster :: "ApplicationDisruptionBudget \<Rightarrow> cluster" where
  "app_cluster adb = three_nodes\<lparr>c_adbs := [adb]\<rparr>"

definition sample_config :: NodeDisruptionReconcilerConfig where
  "sample_config = \<lparr>RejectEmptyNodeDisruption = False, RetryInterval = 60 * 10 ^ 9,
     RejectOverlappingDisruption = True, HealthHookTimeout = 10 ^ 9, NodeDisruptionTypes = []\<rparr>"

definition maintenance :: NodeDisruption where
  "maintenance = with_nodes [''n1''] (sample_nd ''d1'' (any_of ''rack'' ''a'') Pending)"

definition reconciler :: "NodeDisruption \<Rightarrow> SNDR" where
  "reconciler nd = \<lparr>ndr_ND = nd, ndr_Config = sample_config\<rparr>"

definition with_spec :: "(NodeDisruptionSpec \<Rightarrow> NodeDisruptionSpec) \<Rightarrow> NodeDisruption \<Rightarrow> NodeDisruption" where
  "with_spec f nd = nd\<lparr>nd_Spec := f (nd_Spec nd)\<rparr>"

lemma frozen_simps [simp]:
  "fst (list_adb (kube (frozen_env c)) None x) = Inr (c_adbs c)"
  "fst (list_ndb (kube (frozen_env c)) None x) = Inr (c_ndbs c)"
  "fst (list_nd (kube (frozen_env c)) x) = Inr (c_nds c)"
  "fst (get_nd (kube (frozen_env c)) key x) = sample_get nd_meta (c_nds c) key"
  "fst (get_ndb (kube (frozen_env c)) key x) = sample_get ndb_meta (c_ndbs c) key"
  "fst (clock (frozen_env c) x) = c_now c"
  by (simp_all add: frozen_env_def frozen_kube_def sample_kube_def sample_ns_def)

lemma scenario_simps [simp]:
  "ndr_ND (reconciler nd) = nd" "ndr_Config (reconciler nd) = sample_config"
  "nd_Status (with_spec f nd) = nd_Status nd" "nd_Spec (with_spec f nd) = f (nd_Spec nd)"
  "nd_meta (with_spec f nd) = nd_meta nd"
  "c_adbs (app_cluster adb) = [adb]" "c_ndbs (app_cluster adb) = []" "c_now (app_cluster adb) = 10 ^ 9"
  by (simp_all add: reconciler_def with_spec_def app_cluster_def three_nodes_def empty_cluster_def)

lemma maintenance_pending [simp]: "nd_State (nd_Status maintenance) = Pending"
  by (simp add: maintenance_def with_nodes_def sample_nd_def)

definition outcome :: "NodeDisruptionState \<Rightarrow> error + SNDR \<Rightarrow> bool" where
  "outcome s r = (case r of Inl _ \<Rightarrow> False | Inr ndr \<Rightarrow> nd_State (ndr_Status ndr) = s)"

lemma outcomeE:
  assumes "outcome s r" obtains ndr where "r = Inr ndr" "nd_State (ndr_Status ndr) = s"
  using assms by (cases r) (auto simp: outcome_def)

lemma successE:
  assumes "outcome s r" and "on_success P r"
  obtains ndr where "r = Inr ndr" "nd_State (ndr_Status ndr) = s" "P ndr"
  using assms by (cases r) (auto simp: outcome_def on_success_def)

lemma start_trace [simp]: "trace (start x) = []"
  by (simp add: start_def)

section \<open>Grants\<close>

definition grant_run :: "(error + SNDR) \<times> (effect, unit) world" where
  "grant_run = run_state (TryTransitionState (frozen_env (app_cluster (app_budget 1))) (reconciler maintenance)) (start ())"

lemma grant_run_granted: "outcome Granted (fst grant_run)"
  by code_simp




section \<open>Transitions\<close>

definition other_disruption :: NodeDisruption where
  "other_disruption = with_nodes [''n1'', ''n2''] (sample_nd ''d2'' (any_of ''rack'' ''a'') Granted)"

theorem overlapping_never_granted_witness:
  "sat (TryTransitionState (frozen_env (three_nodes\<lparr>c_nds := [other_disruption]\<rparr>)) (reconciler maintenance))
     (\<lambda>r es. on_success (\<lambda>ndr'. nd_State (ndr_Status ndr') \<noteq> Granted) r)"
  by (rule overlapping_never_granted [where items = "[other_disruption]" and other = other_disruption])
    (simp_all add: other_disruption_def maintenance_def with_nodes_def sample_nd_def named_def sample_config_def)

definition tomorrow :: NodeDisruption where
  "tomorrow = with_spec (\<lambda>s. s\<lparr>DoNotGrantBefore := 2 * 10 ^ 9\<rparr>) maintenance"

theorem not_granted_before_date_witness:
  "sat (TryTransitionState (frozen_env (app_cluster (app_budget 1))) (reconciler tomorrow))
     (\<lambda>r es. on_success (\<lambda>ndr'. nd_State (ndr_Status ndr') \<noteq> Granted) r)"
  by (rule not_granted_before_date) (simp_all add: tomorrow_def)

definition overdue :: NodeDisruption where
  "overdue = with_spec (\<lambda>s. s\<lparr>Retry := \<lparr>Enabled = True, Deadline = 7\<rparr>\<rparr>) maintenance"

definition overdue_run :: "(error + SNDR) \<times> (effect, unit) world" where
  "overdue_run = run_state (TryTransitionState (frozen_env (app_cluster (app_budget 1))) (reconciler overdue)) (start ())"

theorem rejected_after_deadline_witness:
  "\<exists>ndr'. fst overdue_run = Inr ndr' \<and> nd_State (ndr_Status ndr') = Rejected \<and>
     fails_after (reconciler overdue) [] (elems (DisruptedDisruptionBudgets (ndr_Status ndr')))"
proof -
  have fields: "Deadline (Retry (nd_Spec overdue)) = 7" "Enabled (Retry (nd_Spec overdue))"
    "nd_State (nd_Status overdue) = Pending" "elems (DisruptedDisruptionBudgets (nd_Status overdue)) = []"
    by (simp_all add: overdue_def maintenance_def with_nodes_def sample_nd_def)
  have "sat (TryTransitionState (frozen_env (app_cluster (app_budget 1))) (reconciler overdue))
      (\<lambda>r es. on_success (\<lambda>ndr'. nd_State (ndr_Status ndr') = Rejected \<and> list_all (\<lambda>e. \<not> is_hook e) es \<and>
         fails_after (reconciler overdue) (elems (DisruptedDisruptionBudgets (ndr_Status (reconciler overdue))))
           (elems (DisruptedDisruptionBudgets (ndr_Status ndr')))) r)"
    by (rule rejected_after_deadline; simp add: fields)
  note run = sat_run [OF this, of "start ()", OF start_trace, folded overdue_run_def]
  have "outcome Rejected (fst overdue_run)" by code_simp
  from successE [OF this run] show ?thesis unfolding scenario_simps fields by metis
qed

definition patient :: NodeDisruption where
  "patient = with_spec (\<lambda>s. s\<lparr>Retry := \<lparr>Enabled = True, Deadline = 0\<rparr>\<rparr>) maintenance"

definition refused_run :: "(error + SNDR) \<times> (effect, unit) world" where
  "refused_run = run_state (TryTransitionState (frozen_env (app_cluster (app_budget 0))) (reconciler patient)) (start ())"

theorem pending_has_next_date_witness:
  "\<exists>ndr'. fst refused_run = Inr ndr' \<and> nd_State (ndr_Status ndr') = Pending \<and>
     (NextRetryDate (ndr_Status ndr') \<noteq> 0 \<or>
        \<not> list_all (\<lambda>st. \<not> Preparing st) (elems (DisruptedDisruptionBudgets (ndr_Status ndr'))))"
proof -
  have pending: "nd_State (ndr_Status (reconciler patient)) = Pending" by (simp add: patient_def)
  note run = sat_run [OF pending_has_next_date [OF pending], of "start ()" "frozen_env (app_cluster (app_budget 0))",
      OF start_trace, folded refused_run_def]
  have "outcome Pending (fst refused_run)" by code_simp
  from successE [OF this run] show ?thesis by metis
qed

definition hooked :: ApplicationDisruptionBudget where
  "hooked = with_hooks ''http://manager'' (app_budget 1)"

theorem final_states_frozen_witness:
  "sat (Reconcile_single (frozen_env (app_cluster hooked)) (reconciler other_disruption)) (\<lambda>r es. es = [] \<and>
     on_success (\<lambda>ndr'. \<exists>nodes. sorted nodes \<and> distinct nodes \<and>
       ndr' = set_status ((nd_Status other_disruption)\<lparr>DisruptedNodes := Slice nodes\<rparr>) (reconciler other_disruption)) r)"
  using final_states_frozen [where ndr = "reconciler other_disruption" and env = "frozen_env (app_cluster hooked)"]
  by (simp add: other_disruption_def with_nodes_def sample_nd_def)

section \<open>Hooks of version 2\<close>

definition hooked_budget :: Budget where
  "hooked_budget = ApplicationBudget \<lparr>adbr_ADB = hooked, hookCli = None\<rparr>"

lemma budgets_frozen:
  assumes "on_success B (budgets_at (frozen_env c) ())"
  shows "budgets_within (frozen_env c) B"
  unfolding budgets_within_def
  by (rule sat_weaken [OF still_sat [where a = "budgets_at (frozen_env c) ()"]])
    (use assms still_budgets [OF cluster_frozen] in auto)

theorem no_grant_before_preparation_witness:
  "sat (TryTransitionState (frozen_env (app_cluster hooked)) (reconciler maintenance)) (\<lambda>r es.
     on_success (\<lambda>ndr'. nd_State (ndr_Status ndr') \<noteq> Granted) r)"
proof (rule no_grant_before_preparation)
  show "nd_State (ndr_Status (reconciler maintenance)) = Pending" by simp
  show "budgets_within (frozen_env (app_cluster hooked)) (list_ex (\<lambda>b.
      concerned (reconciler maintenance) (nodes_of_status (reconciler maintenance)) b \<and> V2HooksReady b \<and>
      GetNamespacedName b \<notin> Reference ` set (elems (DisruptedDisruptionBudgets (ndr_Status (reconciler maintenance))))))"
    by (rule budgets_frozen) code_simp
qed

definition prepare_run :: "DisruptedBudgetStatus \<times> (effect, unit) world" where
  "prepare_run = run_state (v2HookCheck (frozen_env (app_cluster hooked)) (reconciler maintenance) hooked_budget zero_status)
     (start ())"


section \<open>Termination\<close>

definition preparing_status :: DisruptedBudgetStatus where
  "preparing_status = \<lparr>Reference = \<lparr>ref_Namespace = ''app'', ref_Name = ''b1'', ref_Kind = ''ApplicationDisruptionBudget''\<rparr>,
     Reason = '''', Preparing = True, Ok = True\<rparr>"

definition prepared_disruption :: NodeDisruption where
  "prepared_disruption = other_disruption\<lparr>
     nd_Status := (nd_Status other_disruption)\<lparr>DisruptedDisruptionBudgets := Slice [preparing_status]\<rparr>\<rparr>"

lemma prepared_statuses [simp]:
  "elems (DisruptedDisruptionBudgets (nd_Status prepared_disruption)) = [preparing_status]" "must_notify preparing_status"
  by (simp_all add: prepared_disruption_def preparing_status_def must_notify_def)

definition terminate_run :: "error option \<times> (effect, unit) world" where
  "terminate_run = run_state (terminateAllImpactedBudgets (frozen_env (app_cluster hooked)) (reconciler prepared_disruption))
     (start ())"


definition deleted_disruption :: NodeDisruption where
  "deleted_disruption = prepared_disruption\<lparr>nd_meta := (nd_meta prepared_disruption)\<lparr>
     om_DeletionTimestamp := Some 5, om_Finalizers := [FinalizerName]\<rparr>\<rparr>"

definition deleting_cluster :: cluster where
  "deleting_cluster = (app_cluster hooked)\<lparr>c_nds := [deleted_disruption]\<rparr>"

definition delete_run :: "(Result \<times> error option) \<times> (effect, unit) world" where
  "delete_run = run_state (nd_Reconcile (frozen_env deleting_cluster) sample_config ('''', ''d2'')) (start ())"

theorem deletion_waits_for_termination_witness:
  "snd (fst delete_run) = None \<and> list_ex is_write (trace (snd delete_run)) \<and>
   settled sample_lib (sample_get adb_meta [hooked]) deleted_disruption preparing_status (trace (snd delete_run))"
proof -
  let ?env = "frozen_env deleting_cluster"
  have run: "snd (fst delete_run) = None" "list_ex is_write (trace (snd delete_run))" by code_simp+
  have get: "fst (get_nd (kube ?env) ('''', ''d2'') x) = Inr deleted_disruption" for x
    by (simp add: deleting_cluster_def sample_get_def om_key_def deleted_disruption_def prepared_disruption_def
        other_disruption_def with_nodes_def sample_nd_def named_def)
  have adbs: "fst (get_adb (kube ?env) key x) = sample_get adb_meta [hooked] key" for key x
    by (simp add: deleting_cluster_def)
  have deleted: "under_deletion (nd_meta deleted_disruption)"
    by (simp add: deleted_disruption_def under_deletion_def)
  have held: "ContainsFinalizer (lib ?env) (om_Finalizers (nd_meta deleted_disruption)) FinalizerName"
    by (simp add: deleted_disruption_def sample_lib_def)
  have sts: "elems (DisruptedDisruptionBudgets (nd_Status deleted_disruption)) = [preparing_status]"
    by (simp add: deleted_disruption_def)
  have "sat (nd_Reconcile ?env sample_config ('''', ''d2'')) (\<lambda>res es.
     case res of (result, err) \<Rightarrow> list_all (\<lambda>st. must_notify st \<longrightarrow>
        settled (lib ?env) (sample_get adb_meta [hooked]) deleted_disruption st es)
       (elems (DisruptedDisruptionBudgets (nd_Status deleted_disruption)))
     \<or> err \<noteq> None \<and> list_all (\<lambda>e. \<not> is_write e) es)"
    by (rule sat_weaken [OF deletion_waits_for_termination [OF get adbs deleted held]]) (auto split: prod.splits)
  note law = sat_run [OF this, of "start ()", OF start_trace, folded delete_run_def]
  with run show ?thesis by (cases "fst delete_run") (simp add: sts)
qed

section \<open>Reconciliation\<close>

definition one_disruption :: "NodeDisruption \<Rightarrow> unit env" where
  "one_disruption nd = frozen_env ((app_cluster (app_budget 1))\<lparr>c_nds := [nd]\<rparr>)"

lemma one_disruption [simp]:
  "om_key (nd_meta nd) = ('''', ''d1'') \<Longrightarrow> fst (get_nd (kube (one_disruption nd)) ('''', ''d1'') x) = Inr nd"
  "fst (clock (one_disruption nd) x) = 10 ^ 9" "lib (one_disruption nd) = sample_lib"
  by (simp_all add: one_disruption_def sample_get_def app_cluster_def three_nodes_def empty_cluster_def)

lemma maintenance_key [simp]: "om_key (nd_meta maintenance) = ('''', ''d1'')"
  by (simp add: om_key_def maintenance_def with_nodes_def sample_nd_def named_def)


definition finalized :: "NodeDisruption \<Rightarrow> NodeDisruption" where
  "finalized nd = nd\<lparr>nd_meta := (nd_meta nd)\<lparr>om_Finalizers := [FinalizerName]\<rparr>\<rparr>"

lemma finalized_simps [simp]:
  "om_key (nd_meta (finalized nd)) = om_key (nd_meta nd)" "om_Finalizers (nd_meta (finalized nd)) = [FinalizerName]"
  "nd_Status (finalized nd) = nd_Status nd" "nd_Spec (finalized nd) = nd_Spec nd"
  "under_deletion (nd_meta (finalized nd)) = under_deletion (nd_meta nd)"
  by (simp_all add: finalized_def om_key_def under_deletion_def)

lemma maintenance_alive [simp]: "\<not> under_deletion (nd_meta maintenance)"
  by (simp add: under_deletion_def maintenance_def with_nodes_def sample_nd_def named_def)

lemma holds_finalizer [simp]: "ContainsFinalizer sample_lib [FinalizerName] FinalizerName"
  by (simp add: sample_lib_def)

definition scheduled :: NodeDisruption where
  "scheduled = (finalized maintenance)\<lparr>nd_Status := (nd_Status maintenance)\<lparr>NextRetryDate := 2 * 10 ^ 9\<rparr>\<rparr>"

theorem waits_until_retry_date_witness:
  "sat (nd_Reconcile (one_disruption scheduled) sample_config ('''', ''d1'')) (\<lambda>(result, err) es.
     es = map Metric (UpdateNodeDisruptionMetrics scheduled) \<and> err = None \<and> 0 < RequeueAfter result)"
  by (rule waits_until_retry_date) (simp_all add: scheduled_def)

definition unreadable :: NodeDisruption where
  "unreadable = with_spec (\<lambda>s. s\<lparr>nd_NodeSelector := \<lparr>matchLabels = [], matchExpressions = [(''k'', ''Maybe'', [])]\<rparr>\<rparr>)
     (finalized maintenance)"


section \<open>Refusals\<close>

theorem overlap_check_skips_types_witness:
  "\<exists>es. run_state (ValidateWithInternalConstraints (frozen_env three_nodes)
      ((reconciler maintenance)\<lparr>ndr_Config := sample_config\<lparr>NodeDisruptionTypes := [''decommission'']\<rparr>\<rparr>)) (start ())
    = run_state (ValidateWithInternalConstraints (frozen_env three_nodes) (reconciler maintenance)) (start ()) \<and>
   nd_Type (nd_Spec maintenance) \<notin> set [''decommission''] \<and>
   fst (run_state (ValidateWithInternalConstraints (frozen_env three_nodes) (reconciler maintenance)) (start ()))
    = Inr (False, Slice es)"
proof -
  let ?m = "ValidateWithInternalConstraints (frozen_env three_nodes)"
  have flag: "RejectOverlappingDisruption (ndr_Config (reconciler maintenance))" by (simp add: sample_config_def)
  have "case fst (run_state (?m (reconciler maintenance)) (start ())) of Inl e \<Rightarrow> False
      | Inr (failed, sts) \<Rightarrow> \<not> failed \<and> sts = Slice (elems sts)" by code_simp
  then obtain es where "fst (run_state (?m (reconciler maintenance)) (start ())) = Inr (False, Slice es)"
    by (auto split: sum.splits prod.splits)
  moreover have "nd_Type (nd_Spec maintenance) = ''maintenance''"
    by (simp add: maintenance_def with_nodes_def sample_nd_def)
  ultimately show ?thesis
    using overlap_check_skips_types [OF flag, of "frozen_env three_nodes" "[''decommission'']"] by simp
qed

definition full_budget :: Budget where
  "full_budget = ApplicationBudget \<lparr>adbr_ADB = (app_budget 0)\<lparr>adb_Status := \<lparr>WatchedNodes = Slice [''n1''],
     DisruptionsAllowed = 0, CurrentDisruptions = 0, Disruptions = NilSlice\<rparr>\<rparr>, hookCli = None\<rparr>"

theorem refusal_forgets_preparing_witness:
  "sat (ValidateWithBudgetConstraints (frozen_env three_nodes) (reconciler maintenance) [full_budget] (Slice [preparing_status]))
     (\<lambda>(failed, sts) es. terminateAllImpactedBudgets (frozen_env three_nodes)
        (set_status ((nd_Status maintenance)\<lparr>DisruptedDisruptionBudgets := sts\<rparr>) (reconciler maintenance)) = ret None)"
proof -
  have "find (refuses (reconciler maintenance) (nodes_of_status (reconciler maintenance))) [full_budget] \<noteq> None"
    by code_simp
  from refusal_forgets_preparing [OF this] show ?thesis by simp
qed

end
