(* ===== verification/Retry_Loop.thy ===== *)
theory Retry_Loop
  imports World_Order
begin

text \<open>
  The retries of one disruption, one reconciliation after another, each at the date that the one before
  asked for.  With retries enabled and a deadline set, there are finitely many: the loop returns, within
  a number of attempts that the dates give.
\<close>

section \<open>Time\<close>

text \<open>
  A world with a clock that does not run backwards: \<open>now\<close> is the time of a state of the world, and a
  look at the clock gives a time between those before and after it.
\<close>

definition timely :: "'x env \<Rightarrow> ('x \<Rightarrow> time) \<Rightarrow> bool" where
  "timely env now \<longleftrightarrow> world_order (\<lambda>x y. now x \<le> now y) env \<and>
     (\<forall>x. now x \<le> fst (clock env x) \<and> fst (clock env x) \<le> now (snd (clock env x)))"

text \<open>What the work queue promises: a request is not taken up before its date.\<close>

definition waits :: "('x \<Rightarrow> time) \<Rightarrow> (time \<Rightarrow> 'x \<Rightarrow> 'x) \<Rightarrow> bool" where
  "waits now sleep \<longleftrightarrow> (\<forall>d x. d \<le> now (sleep d x) \<and> now x \<le> now (sleep d x))"

lemma timely_order: "timely env now \<Longrightarrow> world_order (\<lambda>x y. now x \<le> now y) env"
  by (simp add: timely_def)

lemma timely_Now:
  assumes "timely env now" and "run_state (Now env) w = (t, w')"
  shows "now (ext w) \<le> t" and "t \<le> now (ext w')"
  using assms unfolding timely_def Now_def by (auto split: prod.splits) (metis fst_conv snd_conv)+

text \<open>Time passes while a method runs.\<close>

lemmas timely_mono = world_order.moves_dates [OF timely_order, THEN movesD]
  world_order.moves_GetAllBudgets [OF timely_order, THEN movesD]
  world_order.moves_validation [OF timely_order, THEN movesD]
  world_order.moves_attempt [OF timely_order, THEN movesD]

section \<open>The loop\<close>

text \<open>
  The reconciliations of a disruption until it is granted or rejected, or until one fails, after which
  the controller asks for no further call.  \<open>sleep d\<close> is what happens to the world until the date \<open>d\<close>.
\<close>

abbreviation final :: "SNDR \<Rightarrow> bool" where
  "final ndr \<equiv> nd_State (ndr_Status ndr) = Granted \<or> nd_State (ndr_Status ndr) = Rejected"

definition wake :: "(time \<Rightarrow> 'x \<Rightarrow> 'x) \<Rightarrow> SNDR \<Rightarrow> (effect, 'x) world \<Rightarrow> (effect, 'x) world" where
  "wake sleep ndr w = w\<lparr>ext := sleep (NextRetryDate (ndr_Status ndr)) (ext w)\<rparr>"

partial_function (option) settle :: "'x env \<Rightarrow> (time \<Rightarrow> 'x \<Rightarrow> 'x) \<Rightarrow> SNDR \<Rightarrow> (effect, 'x) world \<Rightarrow>
    ((error + SNDR) \<times> (effect, 'x) world) option" where
  "settle env sleep ndr w =
     (if final ndr then Some (Inr ndr, w)
      else (case run_state (Reconcile_single env ndr) (wake sleep ndr w) of
          (Inl err, w') \<Rightarrow> Some (Inl err, w')
        | (Inr ndr', w') \<Rightarrow> settle env sleep ndr' w'))"

text \<open>The same with at most \<open>n\<close> reconciliations.\<close>

fun attempts :: "nat \<Rightarrow> 'x env \<Rightarrow> (time \<Rightarrow> 'x \<Rightarrow> 'x) \<Rightarrow> SNDR \<Rightarrow> (effect, 'x) world \<Rightarrow>
    ((error + SNDR) \<times> (effect, 'x) world) option" where
  "attempts 0 env sleep ndr w = (if final ndr then Some (Inr ndr, w) else None)"
| "attempts (Suc n) env sleep ndr w =
     (if final ndr then Some (Inr ndr, w)
      else (case run_state (Reconcile_single env ndr) (wake sleep ndr w) of
          (Inl err, w') \<Rightarrow> Some (Inl err, w')
        | (Inr ndr', w') \<Rightarrow> attempts n env sleep ndr' w'))"

declare attempts.simps [simp del]

lemma attempts_settle: "attempts n env sleep ndr w = Some res \<Longrightarrow> settle env sleep ndr w = Some res"
proof (induction n arbitrary: ndr w)
  case 0
  then show ?case by (subst settle.simps) (auto simp: attempts.simps split: if_splits)
next
  case (Suc n)
  from Suc.prems show ?case
    by (subst settle.simps, subst (asm) attempts.simps)
      (auto dest: Suc.IH split: if_splits prod.splits sum.splits)
qed

lemma attempts_result: "attempts n env sleep ndr w = Some (r, w') \<Longrightarrow> on_success final r"
proof (induction n arbitrary: ndr w)
  case 0
  then show ?case by (auto simp: attempts.simps split: if_splits)
next
  case (Suc n)
  from Suc.prems show ?case
    by (subst (asm) attempts.simps) (auto dest: Suc.IH split: if_splits prod.splits sum.splits)
qed

section \<open>The dates of one attempt\<close>

text \<open>A disruption that is retried until a deadline.\<close>

definition retried :: "SNDR \<Rightarrow> bool" where
  "retried ndr \<longleftrightarrow> Enabled (Retry (ndr_Spec ndr)) \<and> Deadline (Retry (ndr_Spec ndr)) \<noteq> 0 \<and>
     0 < RetryInterval (ndr_Config ndr)"

abbreviation deadline :: "SNDR \<Rightarrow> time" where
  "deadline ndr \<equiv> Deadline (Retry (ndr_Spec ndr))"

lemma AfterDeadline_run:
  assumes time: "timely env now" and "retried ndr"
    and run: "run_state (AfterDeadline env (Retry (ndr_Spec ndr))) w = (b, w')"
  shows "deadline ndr < now (ext w) \<Longrightarrow> b" and "b \<Longrightarrow> deadline ndr < now (ext w')"
proof -
  from assms(2) have spec: "Enabled (Retry (ndr_Spec ndr))" "deadline ndr \<noteq> 0" by (simp_all add: retried_def)
  from run [unfolded AfterDeadline_def] spec obtain t where now: "run_state (Now env) w = (t, w')"
      and b: "b = (deadline ndr < t)"
    by (auto simp: IsAfterDeadline_def split: prod.splits)
  from timely_Now [OF time now] b show "deadline ndr < now (ext w) \<Longrightarrow> b" "b \<Longrightarrow> deadline ndr < now (ext w')"
    by auto
qed

lemma getRetryDate_run:
  assumes time: "timely env now" and retried: "retried ndr"
    and run: "run_state (getRetryDate env ndr) w = (d, w')"
  shows "d = 0 \<and> deadline ndr < now (ext w') \<or>
    now (ext w) \<le> deadline ndr \<and> now (ext w) + RetryInterval (ndr_Config ndr) \<le> d"
proof -
  from retried have "getRetryDate env ndr = do {
      after \<leftarrow> AfterDeadline env (Retry (ndr_Spec ndr));
      if \<not> after then do { now \<leftarrow> Now env; ret (now + RetryInterval (ndr_Config ndr)) } else ret 0 }"
    by (simp add: retried_def getRetryDate_def)
  from run [unfolded this] obtain b w1 where after: "run_state (AfterDeadline env (Retry (ndr_Spec ndr))) w = (b, w1)" and
      rest: "run_state (if \<not> b then do { now \<leftarrow> Now env; ret (now + RetryInterval (ndr_Config ndr)) } else ret 0) w1 = (d, w')"
    by (rule run_bind)
  note b = AfterDeadline_run [OF time retried after]
  show ?thesis
  proof (cases b)
    case True
    with rest b show ?thesis by auto
  next
    case False
    with rest obtain t where now: "run_state (Now env) w1 = (t, w')" and d: "d = t + RetryInterval (ndr_Config ndr)"
      by (auto split: prod.splits)
    from timely_Now(1) [OF time now] timely_mono(1) [OF time after] False b d show ?thesis by auto
  qed
qed

lemma decide_run:
  assumes time: "timely env now" and retried: "retried ndr"
    and run: "run_state (decide env ndr (getDoNotGrantBeforeDate ndr) retry failed sts) w = ((s, d), w')"
    and "s = Pending"
  shows "\<not> failed \<and> d = DoNotGrantBefore (ndr_Spec ndr) \<and> now (ext w) < d \<or>
    failed \<and> d = retry \<and> (retry = 0 \<longrightarrow> \<not> deadline ndr < now (ext w))"
proof (cases failed)
  case False
  with run \<open>s = Pending\<close> have set: "DoNotGrantBefore (ndr_Spec ndr) \<noteq> 0"
    by (auto simp: decide_def getDoNotGrantBeforeDate_def)
  with False have "decide env ndr (getDoNotGrantBeforeDate ndr) retry failed sts = do { now \<leftarrow> Now env;
      if now < DoNotGrantBefore (ndr_Spec ndr) then ret (Pending, DoNotGrantBefore (ndr_Spec ndr)) else ret (Granted, retry) }"
    by (simp add: decide_def getDoNotGrantBeforeDate_def)
  from run [unfolded this] obtain t w1 where now: "run_state (Now env) w = (t, w1)" and
      "run_state (if t < DoNotGrantBefore (ndr_Spec ndr) then ret (Pending, DoNotGrantBefore (ndr_Spec ndr))
        else ret (Granted, retry)) w1 = ((s, d), w')"
    by (rule run_bind)
  with timely_Now(1) [OF time now] \<open>s = Pending\<close> False show ?thesis by (auto split: if_splits)
next
  case True
  show ?thesis
  proof (cases "retry = 0 \<and> 0 \<le> IndexFunc Preparing (elems sts)")
    case looked: True
    with True have "decide env ndr (getDoNotGrantBeforeDate ndr) retry failed sts = do {
        after \<leftarrow> AfterDeadline env (Retry (ndr_Spec ndr));
        if \<not> after then ret (Pending, 0) else ret (Rejected, 0) }"
      using looked by (simp add: decide_def Let_def cong: if_cong)
    from run [unfolded this] obtain b w1 where after: "run_state (AfterDeadline env (Retry (ndr_Spec ndr))) w = (b, w1)" and
        "run_state (if \<not> b then ret (Pending, 0) else ret (Rejected, 0)) w1 = ((s, d), w')"
      by (rule run_bind)
    with AfterDeadline_run(1) [OF time retried after] \<open>s = Pending\<close> True looked show ?thesis by (auto split: if_splits)
  next
    case False
    with True run \<open>s = Pending\<close> show ?thesis by (auto simp: decide_def Let_def split: if_splits)
  qed
qed

lemma attempt_with_dates:
  assumes time: "timely env now" and retried: "retried ndr"
    and run: "run_state (attempt_with env ndr retry bs) w = (Inr ndr', w')"
    and pending: "nd_State (ndr_Status ndr') = Pending"
  shows "let d = NextRetryDate (ndr_Status ndr') in d = DoNotGrantBefore (ndr_Spec ndr) \<and> now (ext w) < d \<or>
    d = retry \<and> (retry = 0 \<longrightarrow> \<not> deadline ndr < now (ext w))"
proof -
  from run [unfolded attempt_with_def] obtain r w1 where
      internal: "run_state (ValidateWithInternalConstraints env ndr) w = (r, w1)" and
      rest: "run_state (case r of
      Inl err \<Rightarrow> ret (Inl err)
    | Inr (anyFailed, statuses) \<Rightarrow> do {
        (anyFailed, statuses) \<leftarrow>
          (if \<not> anyFailed
           then ValidateWithBudgetConstraints env ndr bs (DisruptedDisruptionBudgets (ndr_Status ndr))
           else ret (anyFailed, statuses));
        (state, nextRetryDate) \<leftarrow> decide env ndr (getDoNotGrantBeforeDate ndr) retry anyFailed statuses;
        ret (Inr (set_status ((ndr_Status ndr)\<lparr>DisruptedDisruptionBudgets := statuses,
          nd_State := state, NextRetryDate := nextRetryDate\<rparr>) ndr)) }) w1 = (Inr ndr', w')"
    by (rule run_bind)
  then obtain failed0 sts0 where r: "r = Inr (failed0, sts0)" by (cases r) auto
  from rest [unfolded r sum.case prod.case] obtain p w2 where
      budgets: "run_state (if \<not> failed0
        then ValidateWithBudgetConstraints env ndr bs (DisruptedDisruptionBudgets (ndr_Status ndr))
        else ret (failed0, sts0)) w1 = (p, w2)" and
      rest2: "run_state (case p of (anyFailed, statuses) \<Rightarrow> do {
        (state, nextRetryDate) \<leftarrow> decide env ndr (getDoNotGrantBeforeDate ndr) retry anyFailed statuses;
        ret (Inr (set_status ((ndr_Status ndr)\<lparr>DisruptedDisruptionBudgets := statuses,
          nd_State := state, NextRetryDate := nextRetryDate\<rparr>) ndr)) }) w2 = (Inr ndr' :: error + SNDR, w')"
    by (rule run_bind)
  obtain failed sts where p: "p = (failed, sts)" by fastforce
  from rest2 [unfolded p prod.case] obtain q w3 where
      choose: "run_state (decide env ndr (getDoNotGrantBeforeDate ndr) retry failed sts) w2 = (q, w3)" and
      "run_state (case q of (state, nextRetryDate) \<Rightarrow>
        ret (Inr (set_status ((ndr_Status ndr)\<lparr>DisruptedDisruptionBudgets := sts,
          nd_State := state, NextRetryDate := nextRetryDate\<rparr>) ndr))) w3 = (Inr ndr' :: error + SNDR, w')"
    by (rule run_bind)
  then obtain s d where q: "q = (s, d)" and ndr': "ndr' = set_status ((ndr_Status ndr)\<lparr>DisruptedDisruptionBudgets := sts,
          nd_State := s, NextRetryDate := d\<rparr>) ndr"
    by (cases q) auto
  have "now (ext w1) \<le> now (ext w2)"
    using budgets by (auto split: if_splits dest: timely_mono(5) [OF time])
  with timely_mono(4) [OF time internal] have "now (ext w) \<le> now (ext w2)" by simp
  with decide_run [OF time retried choose [unfolded q]] pending show ?thesis
    by (auto simp: ndr' Let_def)
qed

text \<open>
  What an attempt that leaves the disruption pending says of its next date: it is the date before which
  nothing is granted, and still to come, or it is a retry interval away, and the deadline has not
  passed.
\<close>

definition postponed :: "SNDR \<Rightarrow> time \<Rightarrow> time \<Rightarrow> bool" where
  "postponed ndr t d \<longleftrightarrow> d = DoNotGrantBefore (ndr_Spec ndr) \<and> t < d \<or>
     t \<le> deadline ndr \<and> t + RetryInterval (ndr_Config ndr) \<le> d"

lemma transition_postponed:
  assumes time: "timely env now" and retried: "retried ndr" and "nd_State (ndr_Status ndr) = Pending"
    and run: "run_state (TryTransitionState env ndr) w = (Inr ndr', w')"
    and pending: "nd_State (ndr_Status ndr') = Pending"
  shows "postponed ndr (now (ext w)) (NextRetryDate (ndr_Status ndr'))"
proof -
  from run assms(3) obtain w1 where attempt: "run_state (tryTransitionToGranted env ndr) w = (Inr ndr', w1)"
    unfolding TryTransitionState_def
    by (cases "run_state (tryTransitionToGranted env ndr) w") (auto split: sum.splits)
  from attempt [unfolded tryTransition_attempt] obtain retry w2 where
      date: "run_state (getRetryDate env ndr) w = (retry, w2)" and
      rest: "run_state (do { r \<leftarrow> GetAllBudgetsInSync env;
        (case r of Inl err \<Rightarrow> ret (Inl err) | Inr budgets \<Rightarrow> attempt_with env ndr retry budgets) }) w2 = (Inr ndr', w1)"
    by (rule run_bind)
  from rest obtain q w3 where all: "run_state (GetAllBudgetsInSync env) w2 = (q, w3)" and
      "run_state (case q of Inl err \<Rightarrow> ret (Inl err) | Inr budgets \<Rightarrow> attempt_with env ndr retry budgets) w3 = (Inr ndr', w1)"
    by (rule run_bind)
  then obtain bs where last: "run_state (attempt_with env ndr retry bs) w3 = (Inr ndr', w1)"
    by (cases q) auto
  from timely_mono(2) [OF time date] timely_mono(3) [OF time all]
  have "now (ext w2) \<le> now (ext w3)" "now (ext w) \<le> now (ext w3)" by auto
  with attempt_with_dates [OF time retried last pending] getRetryDate_run [OF time retried date] show ?thesis
    by (auto simp: postponed_def Let_def)
qed

lemma Reconcile_single_next:
  assumes time: "timely env now" and retried: "retried ndr"
    and run: "run_state (Reconcile_single env ndr) w = (Inr ndr', w')"
  shows "ndr_Spec ndr' = ndr_Spec ndr" and "ndr_Config ndr' = ndr_Config ndr"
    and "final ndr' \<or> nd_State (ndr_Status ndr') = Pending"
    and "nd_State (ndr_Status ndr) = Pending \<Longrightarrow> nd_State (ndr_Status ndr') = Pending \<Longrightarrow>
      postponed ndr (now (ext w)) (NextRetryDate (ndr_Status ndr'))"
    and "nd_State (ndr_Status ndr) = Unknown \<Longrightarrow> NextRetryDate (ndr_Status ndr') = NextRetryDate (ndr_Status ndr)"
proof -
  from run [unfolded Reconcile_single_def] obtain r w1 where sync: "run_state (Sync env ndr) w = (r, w1)" and
      "run_state (case r of Inl err \<Rightarrow> ret (Inl err) | Inr ndr \<Rightarrow> TryTransitionState env ndr) w1 = (Inr ndr', w')"
    by (rule run_bind)
  then obtain ndr1 where r: "r = Inr ndr1" and transition: "run_state (TryTransitionState env ndr1) w1 = (Inr ndr', w')"
    by (cases r) auto
  from sync [unfolded Sync_def r] obtain ns where
      ndr1: "ndr1 = set_status ((ndr_Status ndr)\<lparr>DisruptedNodes := ns\<rparr>) ndr"
    by (elim run_bind) (auto split: sum.splits)
  have retried1: "retried ndr1" using retried by (simp add: retried_def ndr1)
  have keeps: "ndr_Spec ndr' = ndr_Spec ndr1 \<and> ndr_Config ndr' = ndr_Config ndr1 \<and> nd_State (ndr_Status ndr') \<noteq> Unknown"
  proof (cases "nd_State (ndr_Status ndr1) = Pending")
    case True
    from transition obtain es where "transition_result (\<lambda>_. True) (\<lambda>_. True) (list_all (budget_in_sync (lib env))) (lib env) ndr1 ndr' es"
      by (rule satD [OF transition_law [OF True clock_within_True lists_within_True budgets_within_sync]]) auto
    from transition_keeps [OF this] show ?thesis by auto
  next
    case False
    with transition show ?thesis unfolding TryTransitionState_def by (cases "nd_State (ndr_Status ndr1)") auto
  qed
  then show "ndr_Spec ndr' = ndr_Spec ndr" "ndr_Config ndr' = ndr_Config ndr"
      "final ndr' \<or> nd_State (ndr_Status ndr') = Pending"
    by (auto simp: ndr1) (metis NodeDisruptionState.exhaust)
  show "NextRetryDate (ndr_Status ndr') = NextRetryDate (ndr_Status ndr)" if "nd_State (ndr_Status ndr) = Unknown"
    using transition that unfolding TryTransitionState_def ndr1 by auto
  assume "nd_State (ndr_Status ndr) = Pending" and pending: "nd_State (ndr_Status ndr') = Pending"
  then have "postponed ndr1 (now (ext w1)) (NextRetryDate (ndr_Status ndr'))"
    by (intro transition_postponed [OF time retried1 _ transition]) (simp_all add: ndr1)
  then show "postponed ndr (now (ext w)) (NextRetryDate (ndr_Status ndr'))"
    using timely_mono(8) [OF time sync] by (auto simp: postponed_def ndr1)
qed

section \<open>The loop ends\<close>

text \<open>How many more attempts can leave the disruption pending, when the next one starts at \<open>t\<close>.\<close>

definition retries_left :: "SNDR \<Rightarrow> time \<Rightarrow> nat" where
  "retries_left ndr t = (if t < DoNotGrantBefore (ndr_Spec ndr) then 1 else 0) +
     (if t \<le> deadline ndr then Suc (nat ((deadline ndr - t) div RetryInterval (ndr_Config ndr))) else 0)"

lemma intervals_mono: "retried ndr \<Longrightarrow> t \<le> t' \<Longrightarrow>
    nat ((deadline ndr - t') div RetryInterval (ndr_Config ndr)) \<le> nat ((deadline ndr - t) div RetryInterval (ndr_Config ndr))"
  by (intro nat_mono zdiv_mono1) (auto simp: retried_def)

lemma retries_left_mono: "retried ndr \<Longrightarrow> t \<le> t' \<Longrightarrow> retries_left ndr t' \<le> retries_left ndr t"
  using intervals_mono [of ndr t t'] by (auto simp: retries_left_def)

lemma retries_left_next:
  assumes "retried ndr" and "t \<le> deadline ndr"
  shows "(if t + RetryInterval (ndr_Config ndr) \<le> deadline ndr
      then Suc (nat ((deadline ndr - (t + RetryInterval (ndr_Config ndr))) div RetryInterval (ndr_Config ndr))) else 0)
    < Suc (nat ((deadline ndr - t) div RetryInterval (ndr_Config ndr)))"
proof -
  let ?i = "RetryInterval (ndr_Config ndr)"
  have "0 < ?i" using assms(1) by (simp add: retried_def)
  then have "(deadline ndr - t) div ?i = (deadline ndr - (t + ?i)) div ?i + 1"
    using div_add_self2 [of ?i "deadline ndr - (t + ?i)"] by simp
  moreover have "0 \<le> (deadline ndr - (t + ?i)) div ?i" if "t + ?i \<le> deadline ndr"
    using that \<open>0 < ?i\<close> by (simp add: pos_imp_zdiv_nonneg_iff)
  ultimately show ?thesis by auto
qed

lemma postponed_decreases:
  assumes retried: "retried ndr" and "postponed ndr t d" and "d \<le> t'" and "t \<le> t'"
  shows "retries_left ndr t' < retries_left ndr t"
proof -
  from assms(2) consider (date) "d = DoNotGrantBefore (ndr_Spec ndr)" "t < d"
    | (retry) "t \<le> deadline ndr" "t + RetryInterval (ndr_Config ndr) \<le> d"
    by (auto simp: postponed_def)
  then show ?thesis
  proof cases
    case date
    then have "retries_left ndr d < retries_left ndr t"
      using intervals_mono [OF retried, of t d] by (auto simp: retries_left_def)
    with retries_left_mono [OF retried assms(3)] show ?thesis by simp
  next
    case retry
    with retries_left_next [OF retried, of t]
    have "retries_left ndr (t + RetryInterval (ndr_Config ndr)) < retries_left ndr t"
      using retried by (auto simp: retries_left_def retried_def split: if_splits)
    moreover have "retries_left ndr t' \<le> retries_left ndr (t + RetryInterval (ndr_Config ndr))"
      using retry assms(3) by (intro retries_left_mono [OF retried]) simp
    ultimately show ?thesis by simp
  qed
qed

lemma retries_left_cong:
  "ndr_Spec ndr' = ndr_Spec ndr \<Longrightarrow> ndr_Config ndr' = ndr_Config ndr \<Longrightarrow> retries_left ndr' t = retries_left ndr t"
  by (simp add: retries_left_def)

lemma wake_ext: "waits now sleep \<Longrightarrow> now (ext w) \<le> now (ext (wake sleep ndr w)) \<and>
    NextRetryDate (ndr_Status ndr) \<le> now (ext (wake sleep ndr w))"
  by (simp add: waits_def wake_def)

lemma attempts_end:
  assumes time: "timely env now" and sleep: "waits now sleep"
  shows "retried ndr \<Longrightarrow> final ndr \<or> nd_State (ndr_Status ndr) = Pending \<Longrightarrow>
    retries_left ndr (now (ext (wake sleep ndr w))) < n \<Longrightarrow> attempts n env sleep ndr w \<noteq> None"
proof (induction n arbitrary: ndr w)
  case (Suc n)
  show ?case
  proof (cases "final ndr")
    case False
    with Suc.prems have pending: "nd_State (ndr_Status ndr) = Pending" by blast
    obtain r w' where run: "run_state (Reconcile_single env ndr) (wake sleep ndr w) = (r, w')" by fastforce
    show ?thesis
    proof (cases r)
      case (Inr ndr')
      note next_one = Reconcile_single_next [OF time Suc.prems(1) run [unfolded Inr]]
      have retried': "retried ndr'" using Suc.prems(1) next_one(1,2) by (simp add: retried_def)
      have "attempts n env sleep ndr' w' \<noteq> None"
      proof (cases "final ndr'")
        case True
        then show ?thesis by (cases n) (auto simp: attempts.simps)
      next
        case False
        with next_one(3) have "nd_State (ndr_Status ndr') = Pending" by blast
        note next_one(4) [OF pending this]
        moreover have "now (ext (wake sleep ndr w)) \<le> now (ext (wake sleep ndr' w'))"
          using timely_mono(10) [OF time run] wake_ext [OF sleep, of w' ndr'] by simp
        ultimately have "retries_left ndr (now (ext (wake sleep ndr' w'))) < retries_left ndr (now (ext (wake sleep ndr w)))"
          using wake_ext [OF sleep, of w' ndr'] postponed_decreases [OF Suc.prems(1)] by blast
        with Suc.prems(3) show ?thesis
          by (intro Suc.IH [OF retried' next_one(3)]) (simp add: retries_left_cong [OF next_one(1,2)])
      qed
      with False run Inr show ?thesis by (subst attempts.simps) auto
    qed (use False run in \<open>subst attempts.simps; auto\<close>)
  qed (auto simp: attempts.simps)
qed simp

text \<open>
  C4: Retries end.  A disruption that is retried until a deadline is reconciled at most twice more than
  the retries that fit before the deadline: then it is granted or rejected, or a reconciliation has
  failed and the controller asks for no further call.  The loop of its reconciliations returns, and
  within that number of attempts.
\<close>

theorem retries_end:
  assumes "timely env now" and "waits now sleep" and "retried ndr"
  shows "\<exists>r w'. settle env sleep ndr w = Some (r, w') \<and> on_success final r \<and>
    attempts (retries_left ndr (now (ext w)) + 2) env sleep ndr w = Some (r, w')"
proof -
  let ?n = "retries_left ndr (now (ext w))"
  have awake: "retries_left ndr (now (ext (wake sleep ndr w))) \<le> ?n"
    using wake_ext [OF assms(2)] by (intro retries_left_mono [OF assms(3)]) blast
  have "attempts (Suc (Suc ?n)) env sleep ndr w \<noteq> None"
  proof (cases "nd_State (ndr_Status ndr) = Unknown")
    case True
    obtain r w' where run: "run_state (Reconcile_single env ndr) (wake sleep ndr w) = (r, w')" by fastforce
    show ?thesis
    proof (cases r)
      case (Inr ndr')
      note next_one = Reconcile_single_next [OF assms(1,3) run [unfolded Inr]]
      have "now (ext w) \<le> now (ext (wake sleep ndr' w'))"
        using timely_mono(10) [OF assms(1) run] wake_ext [OF assms(2), of w ndr] wake_ext [OF assms(2), of w' ndr'] by simp
      then have "retries_left ndr' (now (ext (wake sleep ndr' w'))) < Suc ?n"
        unfolding retries_left_cong [OF next_one(1,2)] by (simp add: less_Suc_eq_le retries_left_mono [OF assms(3)])
      then have "attempts (Suc ?n) env sleep ndr' w' \<noteq> None"
        using assms(3) next_one(1,2) by (intro attempts_end [OF assms(1,2) _ next_one(3)]) (simp add: retried_def)
      with True run Inr show ?thesis by (subst attempts.simps) auto
    qed (use True run in \<open>subst attempts.simps; auto\<close>)
  next
    case False
    then have "final ndr \<or> nd_State (ndr_Status ndr) = Pending" by (cases "nd_State (ndr_Status ndr)") auto
    with awake show ?thesis by (intro attempts_end [OF assms]) auto
  qed
  then obtain r w' where "attempts (?n + 2) env sleep ndr w = Some (r, w')" by auto
  with attempts_settle attempts_result show ?thesis by blast
qed

end
