(* ===== verification/Retry_Witnesses.thy ===== *)
theory Retry_Witnesses
  imports Witnesses Retry_Loop
begin

text \<open>
  The witness of the property of retries: a cluster with a clock, in which a disruption of no node,
  which the configuration refuses, is retried until its deadline and then rejected.
\<close>

section \<open>A clock that can be waited for\<close>

definition sleep_until :: "time \<Rightarrow> cluster \<Rightarrow> cluster" where
  "sleep_until d c = c\<lparr>c_now := max d (c_now c)\<rparr>"

lemma sample_timely: "timely sample_env c_now"
  unfolding timely_def
  by (intro conjI world_order.intro) (simp_all add: sample_env_def sample_kube_def sample_net_def)

lemma sample_waits: "waits c_now sleep_until"
  by (simp add: waits_def sleep_until_def)

definition retrying :: NodeDisruption where
  "retrying = with_spec (\<lambda>s. s\<lparr>Retry := \<lparr>Enabled = True, Deadline = 150\<rparr>\<rparr>) maintenance"

definition nowhere :: SNDR where
  "nowhere = \<lparr>ndr_ND = retrying, ndr_Config = sample_config\<lparr>RejectEmptyNodeDisruption := True, RetryInterval := 60\<rparr>\<rparr>"

lemma nowhere_retried: "retried nowhere"
  by (simp add: retried_def nowhere_def retrying_def with_spec_def sample_config_def)

definition refusing :: "(effect, cluster) world" where
  "refusing = start (empty_cluster\<lparr>c_now := 1\<rparr>)"

definition retries_run :: "((error + SNDR) \<times> (effect, cluster) world) option" where
  "retries_run = attempts (Suc (Suc (Suc (Suc (Suc 0))))) sample_env sleep_until nowhere refusing"

lemma retries_rejected:
  "(case retries_run of None \<Rightarrow> False | Some (r, w) \<Rightarrow> outcome Rejected r \<and> c_now (ext w) = 181)"
  unfolding retries_run_def refusing_def
  by code_simp

theorem retries_end_witness:
  "\<exists>r w. settle sample_env sleep_until nowhere refusing = Some (r, w) \<and> outcome Rejected r \<and>
     on_success final r"
proof -
  have "retries_left nowhere (now (ext refusing)) = 3" if "now = c_now" for now
    by (simp add: that retries_left_def retrying_def with_spec_def maintenance_def with_nodes_def sample_nd_def
        nowhere_def sample_config_def refusing_def start_def empty_cluster_def)
  then have bound: "retries_left nowhere (c_now (ext refusing)) + 2 = Suc (Suc (Suc (Suc (Suc 0))))" by simp
  from retries_end [OF sample_timely sample_waits nowhere_retried, of refusing, unfolded bound] retries_rejected
  show ?thesis by (auto simp: retries_run_def)
qed

end
