(* ===== verification/Live_Reads.thy ===== *)
theory Live_Reads
  imports Cluster_Server Budget_Controllers
begin

text \<open>
  What a method that only reads knows about the cluster, although the cluster drifts while it runs: nodes
  are resolved as in any state of the run, and a budget is synchronised as in one state of it.
\<close>

section \<open>Nodes\<close>

text \<open>
  \<open>settled_in\<close>: a successful result of \<open>m\<close> is that of \<open>i\<close> in every view with the nodes of the state in
  which \<open>m\<close> started.
\<close>

definition settled_in :: "('x \<Rightarrow> cluster_state) \<Rightarrow> ('x, error + 'a) act \<Rightarrow> (view \<Rightarrow> (unit, error + 'a) act) \<Rightarrow> bool" where
  "settled_in s m i \<longleftrightarrow> (\<forall>w a w' V. run_state m w = (Inr a, w') \<longrightarrow> same_nodes (cs_view (s (ext w))) V \<longrightarrow> still () (i V) (Inr a))"

lemma settled_inD:
  "settled_in s m i \<Longrightarrow> run_state m w = (Inr a, w') \<Longrightarrow> same_nodes (cs_view (s (ext w))) V \<Longrightarrow> still () (i V) (Inr a)"
  unfolding settled_in_def by blast

lemma live_nodes:
  assumes "live_server env s"
  shows "truthful_nodes env (\<lambda>x. nodes_only (cs_view (s x)))"
proof -
  have "truthful (\<lambda>x. nodes_only (cs_view (s x))) V f (field V)"
    if "\<And>x. answered (lib env) s f x (\<lambda>S a. a = field (cs_view S))" "\<And>V V'. same_nodes V V' \<Longrightarrow> field V = field V'"
    for f :: "'a \<Rightarrow> (error + 'c) \<times> 'a" and field and V
    unfolding truthful_def
  proof (intro allI impI)
    fix x assume x: "nodes_only (cs_view (s x)) = V"
    from that(1) [of x] obtain S where S: "drift (lib env) (s x) S" "drift (lib env) S (s (snd (f x)))"
        "\<And>a. fst (f x) = Inr a \<Longrightarrow> a = field (cs_view S)"
      unfolding answered_def by blast
    then have "same_nodes (cs_view (s x)) (cs_view S)" "same_nodes (cs_view S) (cs_view (s (snd (f x))))"
      by (simp_all add: drift_def)
    moreover from this have "field V = field (cs_view S)"
      using x that(2) same_nodes_only(2) same_nodes_trans by metis
    ultimately show "nodes_only (cs_view (s (snd (f x)))) = V \<and> (\<forall>b. fst (f x) = Inr b \<longrightarrow> b = field V)"
      using x S(3) same_nodes_only(1) by metis
  qed
  note read = this
  show ?thesis
    unfolding truthful_nodes_def
  proof (intro allI conjI)
    fix V :: view
    show "truthful (\<lambda>x. nodes_only (cs_view (s x))) V (list_nodes (kube env) ls fs) (v_nodes V ls fs)" for ls fs
      by (rule read [of _ "\<lambda>V. v_nodes V ls fs", OF live_reads(4) [OF assms]]) (simp add: same_nodes_def)
    show "truthful (\<lambda>x. nodes_only (cs_view (s x))) V (list_pods (kube env) ns sel) (v_pods V ns sel)" for ns sel
      by (rule read [of _ "\<lambda>V. v_pods V ns sel", OF live_reads(5) [OF assms]]) (simp add: same_nodes_def)
    show "truthful (\<lambda>x. nodes_only (cs_view (s x))) V (list_pvcs (kube env) ns sel) (v_pvcs V ns sel)" for ns sel
      by (rule read [of _ "\<lambda>V. v_pvcs V ns sel", OF live_reads(6) [OF assms]]) (simp add: same_nodes_def)
    show "truthful (\<lambda>x. nodes_only (cs_view (s x))) V (get_pv (kube env) key) (v_pv V key)" for key
      by (rule read [of _ "\<lambda>V. v_pv V key", OF live_reads(7) [OF assms]]) (simp add: same_nodes_def)
  qed
qed

lemma settled_agrees:
  assumes "\<And>V. agrees (\<lambda>x. nodes_only (cs_view (s x))) V m (i V)" and "\<And>V V'. same_nodes V V' \<Longrightarrow> i V' = i V"
  shows "settled_in s m i"
  unfolding settled_in_def
proof (intro allI impI)
  fix w a w' V
  assume run: "run_state m w = (Inr a, w')" and same: "same_nodes (cs_view (s (ext w))) V"
  from agreesD [OF assms(1) refl run] have "still () (i (nodes_only (cs_view (s (ext w))))) (Inr a)" by blast
  moreover have "i V = i (nodes_only (cs_view (s (ext w))))"
    using assms(2) same same_nodes_only(2) same_nodes_trans by metis
  ultimately show "still () (i V) (Inr a)" by simp
qed

lemma settled_resolver:
  assumes "live_server env s"
  shows "settled_in s (GetNodeFromNodeSelector env sel) (\<lambda>V. GetNodeFromNodeSelector (ideal (lib env) V) sel)"
    "settled_in s (adb_GetSelectedNodes env r) (\<lambda>V. adb_GetSelectedNodes (ideal (lib env) V) r)"
    "settled_in s (ndb_GetSelectedNodes env q) (\<lambda>V. ndb_GetSelectedNodes (ideal (lib env) V) q)"
    "settled_in s (disruption_loop env ns nds n ds) (\<lambda>V. disruption_loop (ideal (lib env) V) ns nds n ds)"
  using agrees_resolver(1) [OF live_nodes [OF assms]] agrees_selected [OF live_nodes [OF assms]]
    agrees_disruption_loop [OF live_nodes [OF assms]]
  by (auto intro!: settled_agrees simp: ideal_resolver ideal_disruption_loop)

section \<open>One state of a run\<close>

text \<open>\<open>reflects\<close>: a successful result of \<open>m\<close> is that of \<open>i\<close> in the view of one of the states during the run.\<close>

definition reflects :: "lib \<Rightarrow> ('x \<Rightarrow> cluster_state) \<Rightarrow> ('x, error + 'a) act \<Rightarrow> (view \<Rightarrow> (unit, error + 'a) act) \<Rightarrow> bool" where
  "reflects l s m i \<longleftrightarrow> (\<forall>w a w'. run_state m w = (Inr a, w') \<longrightarrow>
     (\<exists>S. drift l (s (ext w)) S \<and> drift l S (s (ext w')) \<and> still () (i (cs_view S)) (Inr a)))"

lemma reflectsE:
  assumes "reflects l s m i" and "run_state m w = (Inr a, w')"
  obtains S where "drift l (s (ext w)) S" and "drift l S (s (ext w'))" and "still () (i (cs_view S)) (Inr a)"
  using assms unfolding reflects_def by blast

text \<open>A step that may fail, and then the rest.\<close>

lemma run_success:
  assumes "run_state (State_Monad.bind m (\<lambda>r. case r of Inl e \<Rightarrow> ret (Inl e) | Inr a \<Rightarrow> f a)) w = (Inr b, w2)"
  obtains a w1 where "run_state m w = (Inr a, w1)" and "run_state (f a) w1 = (Inr b, w2)"
proof -
  from assms obtain r w1 where m: "run_state m w = (r, w1)" and
      f: "run_state (case r of Inl e \<Rightarrow> ret (Inl e) | Inr a \<Rightarrow> f a) w1 = (Inr b, w2)"
    by (rule run_bind)
  then show thesis using that by (cases r) auto
qed

lemma reflects_after:
  assumes "settled_in s m i" and "moves (drifts l s) m" and "\<And>a. reflects l s (f a) (\<lambda>V. g V a)"
  shows "reflects l s (State_Monad.bind m (\<lambda>r. case r of Inl e \<Rightarrow> ret (Inl e) | Inr a \<Rightarrow> f a))
    (\<lambda>V. State_Monad.bind (i V) (\<lambda>r. case r of Inl e \<Rightarrow> ret (Inl e) | Inr a \<Rightarrow> g V a))"
  unfolding reflects_def
proof (intro allI impI)
  fix w b w'
  assume "run_state (State_Monad.bind m (\<lambda>r. case r of Inl e \<Rightarrow> ret (Inl e) | Inr a \<Rightarrow> f a)) w = (Inr b, w')"
  then obtain a w1 where m: "run_state m w = (Inr a, w1)" and f: "run_state (f a) w1 = (Inr b, w')" by (rule run_success)
  from reflectsE [OF assms(3) f] obtain S where S: "drift l (s (ext w1)) S" "drift l S (s (ext w'))"
      and g: "still () (g (cs_view S) a) (Inr b)" .
  from movesD [OF assms(2) m] S(1) have start: "drift l (s (ext w)) S" by (rule drift_trans)
  then have "still () (i (cs_view S)) (Inr a)" by (intro settled_inD [OF assms(1) m]) (simp add: drift_def)
  then have "still () (State_Monad.bind (i (cs_view S)) (\<lambda>r. case r of Inl e \<Rightarrow> ret (Inl e) | Inr a \<Rightarrow> g (cs_view S) a)) (Inr b)"
    by (rule still_bind) (simp add: g)
  with start S(2) show "\<exists>S. drift l (s (ext w)) S \<and> drift l S (s (ext w')) \<and>
      still () (State_Monad.bind (i (cs_view S)) (\<lambda>r. case r of Inl e \<Rightarrow> ret (Inl e) | Inr a \<Rightarrow> g (cs_view S) a)) (Inr b)"
    by blast
qed

lemma reflects_then:
  assumes "reflects l s m i" and "\<And>a. settled_in s (f a) (\<lambda>V. g V a)" and "\<And>a. moves (drifts l s) (f a)"
  shows "reflects l s (State_Monad.bind m (\<lambda>r. case r of Inl e \<Rightarrow> ret (Inl e) | Inr a \<Rightarrow> f a))
    (\<lambda>V. State_Monad.bind (i V) (\<lambda>r. case r of Inl e \<Rightarrow> ret (Inl e) | Inr a \<Rightarrow> g V a))"
  unfolding reflects_def
proof (intro allI impI)
  fix w b w'
  assume "run_state (State_Monad.bind m (\<lambda>r. case r of Inl e \<Rightarrow> ret (Inl e) | Inr a \<Rightarrow> f a)) w = (Inr b, w')"
  then obtain a w1 where m: "run_state m w = (Inr a, w1)" and f: "run_state (f a) w1 = (Inr b, w')" by (rule run_success)
  from reflectsE [OF assms(1) m] obtain S where S: "drift l (s (ext w)) S" "drift l S (s (ext w1))"
      and i: "still () (i (cs_view S)) (Inr a)" .
  from S(2) movesD [OF assms(3) f] have last: "drift l S (s (ext w'))" by (rule drift_trans)
  from S(2) have "same_nodes (cs_view (s (ext w1))) (cs_view S)" by (simp add: drift_def same_nodes_def)
  from settled_inD [OF assms(2) f this] have "still () (g (cs_view S) a) (Inr b)" .
  then have "still () (State_Monad.bind (i (cs_view S)) (\<lambda>r. case r of Inl e \<Rightarrow> ret (Inl e) | Inr a \<Rightarrow> g (cs_view S) a)) (Inr b)"
    by (intro still_bind [OF i]) simp
  with S(1) last show "\<exists>S. drift l (s (ext w)) S \<and> drift l S (s (ext w')) \<and>
      still () (State_Monad.bind (i (cs_view S)) (\<lambda>r. case r of Inl e \<Rightarrow> ret (Inl e) | Inr a \<Rightarrow> g (cs_view S) a)) (Inr b)"
    by blast
qed

lemma reflects_list:
  assumes "live_server env s"
  shows "reflects (lib env) s (ask (list_nd (kube env))) (\<lambda>V. ask (list_nd (kube (ideal l V))))"
  unfolding reflects_def
proof (intro allI impI)
  fix w :: "(effect, 'a) world" and a w'
  assume "run_state (ask (list_nd (kube env))) w = (Inr a, w')"
  then have f: "fst (list_nd (kube env) (ext w)) = Inr a" "ext w' = snd (list_nd (kube env) (ext w))"
    by (auto split: prod.splits)
  from live_reads(1) [OF assms, of "ext w"] f obtain S where S: "drift (lib env) (s (ext w)) S"
      "drift (lib env) S (s (ext w'))" "a = v_nds (cs_view S)"
    unfolding answered_def by auto
  then show "\<exists>S. drift (lib env) (s (ext w)) S \<and> drift (lib env) S (s (ext w')) \<and>
      still () (ask (list_nd (kube (ideal l (cs_view S))))) (Inr a)"
    by (intro exI [of _ S]) (simp add: still_ask)
qed

lemma settled_ret: "settled_in s (ret (Inr b)) (\<lambda>V. ret (Inr b))"
  by (auto simp: settled_in_def still_ret)

lemma reflects_Sync:
  assumes "live_server env s"
  shows "reflects (lib env) s (adb_Sync env r) (\<lambda>V. adb_Sync (ideal (lib env) V) r)"
    and "reflects (lib env) s (ndb_Sync env q) (\<lambda>V. ndb_Sync (ideal (lib env) V) q)"
proof -
  note settled = settled_resolver [OF assms]
  note order = world_order.moves_selected [OF live_world [OF assms]] world_order.moves_disruption_loop [OF live_world [OF assms]]
    world_order.moves_basic(1) [OF live_world [OF assms]]
  have adb: "reflects (lib env) s (adb_ResolveDisruption env r) (\<lambda>V. adb_ResolveDisruption (ideal (lib env) V) r)"
    unfolding adb_ResolveDisruption_def
    by (intro reflects_after [OF settled(2) order(1)] reflects_then [OF reflects_list [OF assms]] settled(4) order(3))
  have ndb: "reflects (lib env) s (ndb_ResolveDisruption env q) (\<lambda>V. ndb_ResolveDisruption (ideal (lib env) V) q)"
    unfolding ndb_ResolveDisruption_def
    by (intro reflects_after [OF settled(3) order(2)] reflects_then [OF reflects_list [OF assms]] settled(4) order(3))
  show "reflects (lib env) s (adb_Sync env r) (\<lambda>V. adb_Sync (ideal (lib env) V) r)"
    unfolding adb_Sync_def Let_def
    by (intro reflects_after [OF settled(2) order(1)] reflects_then [OF adb]) (auto intro: settled_ret order(4) split: prod.split)
  show "reflects (lib env) s (ndb_Sync env q) (\<lambda>V. ndb_Sync (ideal (lib env) V) q)"
    unfolding ndb_Sync_def Let_def ideal_simps
    by (intro reflects_after [OF settled(3) order(2)] reflects_then [OF ndb]) (auto intro: settled_ret order(4) split: prod.split)
qed

section \<open>All budgets\<close>

text \<open>
  A list of all budgets: every budget that was listed, in a state \<open>T\<close>, is there, synchronised in a state
  \<open>U\<close> since then.
\<close>

definition synced_adb :: "lib \<Rightarrow> cluster_state \<Rightarrow> cluster_state \<Rightarrow> Budget list \<Rightarrow> ApplicationDisruptionBudget \<Rightarrow> bool" where
  "synced_adb l T S' bs adb \<longleftrightarrow> (\<exists>r U. ApplicationBudget r \<in> set bs \<and> drift l T U \<and> drift l U S' \<and>
     still () (adb_Sync (ideal l (cs_view U)) \<lparr>adbr_ADB = adb, hookCli = None\<rparr>) (Inr r))"

definition synced_ndb :: "lib \<Rightarrow> cluster_state \<Rightarrow> cluster_state \<Rightarrow> Budget list \<Rightarrow> NodeDisruptionBudget \<Rightarrow> bool" where
  "synced_ndb l T S' bs ndb \<longleftrightarrow> (\<exists>r U. NodeBudget r \<in> set bs \<and> drift l T U \<and> drift l U S' \<and>
     still () (ndb_Sync (ideal l (cs_view U)) \<lparr>ndbr_NDB = ndb\<rparr>) (Inr r))"

definition synced_since :: "lib \<Rightarrow> cluster_state \<Rightarrow> cluster_state \<Rightarrow> Budget list \<Rightarrow> bool" where
  "synced_since l S S' bs \<longleftrightarrow> drift l S S' \<and>
     (\<exists>T. drift l S T \<and> (\<forall>adb \<in> set (v_adbs (cs_view T)). synced_adb l T S' bs adb)) \<and>
     (\<exists>T. drift l S T \<and> (\<forall>ndb \<in> set (v_ndbs (cs_view T)). synced_ndb l T S' bs ndb))"

lemma sync_loop_run:
  assumes order: "world_order (drifts l s) env"
    and "run_state (sync_loop (Sync_budget env) bs) w = (Inr bs', w')" and "b \<in> set bs"
  shows "\<exists>b' w1 w2. b' \<in> set bs' \<and> run_state (Sync_budget env b) w1 = (Inr b', w2) \<and>
    drift l (s (ext w)) (s (ext w1)) \<and> drift l (s (ext w2)) (s (ext w'))"
  using assms(2,3)
proof (induction bs arbitrary: w bs')
  case (Cons c cs)
  from Cons.prems(1) [unfolded sync_loop.simps] obtain c' w1 where c: "run_state (Sync_budget env c) w = (Inr c', w1)" and
      "run_state (do { rest \<leftarrow> sync_loop (Sync_budget env) cs;
        ret (case rest of Inl err \<Rightarrow> Inl err | Inr bs' \<Rightarrow> Inr (c' # bs')) }) w1 = (Inr bs' :: error + Budget list, w')"
    by (rule run_success)
  then obtain cs' where cs: "run_state (sync_loop (Sync_budget env) cs) w1 = (Inr cs', w')" and bs': "bs' = c' # cs'"
    by (elim run_bind) (auto split: sum.splits)
  note moves = world_order.moves_Sync(3) [OF order, THEN movesD, OF c] world_order.moves_sync_loop [OF order, THEN movesD, OF cs]
  show ?case
  proof (cases "b = c")
    case True
    with c moves(2) bs' show ?thesis by (intro exI [of _ c'] exI [of _ w] exI [of _ w1]) simp
  next
    case False
    with Cons.IH [OF cs] Cons.prems(2) obtain b' w2 w3 where "b' \<in> set cs'" "run_state (Sync_budget env b) w2 = (Inr b', w3)"
        "drift l (s (ext w1)) (s (ext w2))" "drift l (s (ext w3)) (s (ext w'))" by auto
    with drift_trans [OF moves(1)] bs' show ?thesis by (intro exI [of _ b'] exI [of _ w2] exI [of _ w3]) auto
  qed
qed simp

lemma Sync_budget_run:
  "run_state (Sync_budget env (ApplicationBudget r)) w = (Inr b, w') \<Longrightarrow>
     \<exists>r'. b = ApplicationBudget r' \<and> run_state (adb_Sync env r) w = (Inr r', w')"
  "run_state (Sync_budget env (NodeBudget q)) w = (Inr b, w') \<Longrightarrow>
     \<exists>q'. b = NodeBudget q' \<and> run_state (ndb_Sync env q) w = (Inr q', w')"
  unfolding Sync_budget_def Budget.case by (elim run_bind; auto simp: map_sum_def split: sum.splits)+

lemma Sync_budget_reflects:
  assumes server: "live_server env s"
  shows "run_state (Sync_budget env (ApplicationBudget r)) w = (Inr b, w') \<Longrightarrow> \<exists>r' U. b = ApplicationBudget r' \<and>
      drift (lib env) (s (ext w)) U \<and> drift (lib env) U (s (ext w')) \<and> still () (adb_Sync (ideal (lib env) (cs_view U)) r) (Inr r')"
    and "run_state (Sync_budget env (NodeBudget q)) w = (Inr b, w') \<Longrightarrow> \<exists>q' U. b = NodeBudget q' \<and>
      drift (lib env) (s (ext w)) U \<and> drift (lib env) U (s (ext w')) \<and> still () (ndb_Sync (ideal (lib env) (cs_view U)) q) (Inr q')"
  using Sync_budget_run reflects_Sync [OF server] unfolding reflects_def by meson+

lemma GetAllBudgets_run:
  assumes server: "live_server env s" and run: "run_state (GetAllBudgetsInSync env) w = (Inr bs, w')"
  shows "synced_since (lib env) (s (ext w)) (s (ext w')) bs"
proof -
  note order = live_world [OF server]
  let ?budgets = "\<lambda>adbs ndbs. map (\<lambda>adb. ApplicationBudget \<lparr>adbr_ADB = adb, hookCli = None\<rparr>) adbs
             @ map (\<lambda>ndb. NodeBudget \<lparr>ndbr_NDB = ndb\<rparr>) ndbs"
  from run [unfolded GetAllBudgetsInSync_def] obtain adbs w1 where
      adbs: "run_state (ask (list_adb (kube env) None)) w = (Inr adbs, w1)" and
      "run_state (State_Monad.bind (ask (list_ndb (kube env) None)) (\<lambda>r. case r of Inl err \<Rightarrow> ret (Inl err)
        | Inr ndbs \<Rightarrow> sync_loop (Sync_budget env) (?budgets adbs ndbs))) w1 = (Inr bs, w')"
    by (rule run_success)
  from this(2) obtain ndbs w2 where ndbs: "run_state (ask (list_ndb (kube env) None)) w1 = (Inr ndbs, w2)" and
      loop: "run_state (sync_loop (Sync_budget env) (?budgets adbs ndbs)) w2 = (Inr bs, w')"
    by (rule run_success)
  from adbs live_reads(2) [OF server, of "ext w"] obtain A where A: "drift (lib env) (s (ext w)) A"
      "drift (lib env) A (s (ext w1))" "adbs = v_adbs (cs_view A)"
    unfolding answered_def by (auto split: prod.splits)
  from ndbs live_reads(3) [OF server, of "ext w1"] obtain N where N: "drift (lib env) (s (ext w1)) N"
      "drift (lib env) N (s (ext w2))" "ndbs = v_ndbs (cs_view N)"
    unfolding answered_def by (auto split: prod.splits)
  have late: "drift (lib env) A (s (ext w2))" "drift (lib env) (s (ext w)) N" using A N drift_trans by metis+
  have "synced_adb (lib env) A (s (ext w')) bs adb" if "adb \<in> set (v_adbs (cs_view A))" for adb
    using sync_loop_run [OF order loop, of "ApplicationBudget \<lparr>adbr_ADB = adb, hookCli = None\<rparr>"] that A(3) late(1)
    unfolding synced_adb_def by (auto dest!: Sync_budget_reflects(1) [OF server]) (meson drift_trans)
  moreover have "synced_ndb (lib env) N (s (ext w')) bs ndb" if "ndb \<in> set (v_ndbs (cs_view N))" for ndb
    using sync_loop_run [OF order loop, of "NodeBudget \<lparr>ndbr_NDB = ndb\<rparr>"] that N(2,3)
    unfolding synced_ndb_def by (auto dest!: Sync_budget_reflects(2) [OF server]) (meson drift_trans)
  ultimately show ?thesis
    unfolding synced_since_def
    using A(1) late(2) movesD [OF world_order.moves_GetAllBudgets [OF order] run] by blast
qed

end
