(* ===== verification/Live_Writes.thy ===== *)
theory Live_Writes
  imports Cluster_Server Budget_Controllers
begin

text \<open>
  What the writes of the controllers do to the state of a live server.  All but one of them drift: they
  tighten no limit and grant nothing.  The exception is the status of a disruption, which may enter one
  disruption into the ledger.
\<close>

section \<open>A revised list\<close>

text \<open>An accepted write replaces the version that its author had read, and no other object.\<close>

lemma revised:
  assumes accepted: "may_write meta new rv H objs" and versions: "one_version meta H" and objs: "set objs \<subseteq> H"
    and keys: "distinct (map (\<lambda>obj. meta_key (meta obj)) objs)"
    and old: "old \<in> H" "same_version meta old new"
    and put: "\<And>obj. meta_key (meta obj) = meta_key (meta new) \<Longrightarrow>
      meta_key (meta (put obj)) = meta_key (meta new) \<and> om_ResourceVersion (meta (put obj)) = rv"
  shows "old \<in> set objs" and "set (revise meta new put objs) = insert (put old) (set objs - {old})"
    and "map (\<lambda>obj. meta_key (meta obj)) (revise meta new put objs) = map (\<lambda>obj. meta_key (meta obj)) objs"
    and "one_version meta (H \<union> set (revise meta new put objs))"
proof -
  from accepted obtain stored where stored: "stored \<in> set objs" "same_version meta stored new"
    unfolding may_write_def by blast
  with old have "same_version meta stored old" by (simp add: same_version_def)
  with versions stored(1) objs old(1) have "stored = old" unfolding one_version_def by blast
  with stored show member: "old \<in> set objs" by simp
  have same: "meta_key (meta obj) = meta_key (meta new) \<longleftrightarrow> obj = old" if "obj \<in> set objs" for obj
    using keys that member old(2) by (auto simp: distinct_map inj_on_def same_version_def)
  show set_eq: "set (revise meta new put objs) = insert (put old) (set objs - {old})"
    using member same by (force simp: revise_def)
  show "map (\<lambda>obj. meta_key (meta obj)) (revise meta new put objs) = map (\<lambda>obj. meta_key (meta obj)) objs"
    using put by (simp add: revise_def)
  have key: "meta_key (meta (put old)) = meta_key (meta new)" "om_ResourceVersion (meta (put old)) = rv"
    using put [of old] old(2) by (simp_all add: same_version_def)
  have fresh: "\<not> same_version meta a (put old)" if "a \<in> H" for a
    using accepted that key by (auto simp: may_write_def same_version_def)
  have "H \<union> set (revise meta new put objs) = insert (put old) H" using objs set_eq by blast
  moreover have "one_version meta (insert (put old) H)"
    using versions fresh unfolding one_version_def same_version_def by (metis insert_iff)
  ultimately show "one_version meta (H \<union> set (revise meta new put objs))" by simp
qed

lemma revised_stored:
  assumes "may_write meta new rv H objs" and "set objs \<subseteq> H"
  obtains stored where "stored \<in> H" and "same_version meta stored new"
  using assms unfolding may_write_def by blast

lemmas put_meta = put_status_nd_def put_object_nd_def put_status_adb_def put_object_adb_def
  put_status_ndb_def put_object_ndb_def

text \<open>A write of the API, and the result that is made of its answer.\<close>

lemma steps_write:
  assumes "\<And>x. applied l s f x W"
    and "\<And>x S S'. P x \<Longrightarrow> drift l (s x) S \<Longrightarrow> W S S' \<Longrightarrow> R S S'"
    and "\<And>S S'. drift l S S' \<Longrightarrow> R S S'" and "\<And>A B C D. drift l A B \<Longrightarrow> R B C \<Longrightarrow> drift l C D \<Longrightarrow> R A D"
  shows "steps (\<lambda>x y. R (s x) (s y)) P (do { r \<leftarrow> ask f; emit (e r); ret (g r) })"
proof (rule stepsI)
  fix w :: "(effect, 'a) world" and a w'
  assume P: "P (ext w)" and "run_state (do { r \<leftarrow> ask f; emit (e r); ret (g r) }) w = (a, w')"
  then have w': "ext w' = snd (f (ext w))" by (auto split: prod.splits)
  from assms(1) [of "ext w"] obtain S S' where S: "drift l (s (ext w)) S" "S' = S \<or> W S S'" "drift l S' (s (ext w'))"
    unfolding applied_def w' by blast
  then have "R S S'" using assms(2) [OF P] assms(3) [OF drift_refl] by blast
  from assms(4) [OF S(1) this S(3)] show "R (s (ext w)) (s (ext w'))" .
qed

text \<open>A read of an object, then the rest, which knows that the object is a version that was stored.\<close>

lemma steps_get:
  assumes answered: "\<And>x. answered l s f x (\<lambda>S a. a \<in> past S)" and past: "\<And>S S'. drift l S S' \<Longrightarrow> sound l S \<Longrightarrow> past S \<subseteq> past S'"
    and sound: "sound l S0" and base: "\<And>S S'. drift l S S' \<Longrightarrow> R S S'" and comp: "\<And>A B C. drift l A B \<Longrightarrow> R B C \<Longrightarrow> R A C"
    and failed: "\<And>e. moves (drifts l s) (g (Inl e))"
    and found: "\<And>a. steps (\<lambda>x y. R (s x) (s y)) (\<lambda>x. sound l (s x) \<and> drift l S0 (s x) \<and> a \<in> past (s x)) (g (Inr a))"
  shows "steps (\<lambda>x y. R (s x) (s y)) (\<lambda>x. s x = S0) (State_Monad.bind (ask f) g)"
proof (rule stepsI)
  fix w :: "(effect, 'a) world" and a w'
  assume w: "s (ext w) = S0" and "run_state (State_Monad.bind (ask f) g) w = (a, w')"
  then obtain r w1 where get: "run_state (ask f) w = (r, w1)" and rest: "run_state (g r) w1 = (a, w')"
    by (elim run_bind)
  from get have "f (ext w) = (r, ext w1)" by (auto split: prod.splits)
  with answered [of "ext w"] w obtain S where S: "drift l S0 S" "drift l S (s (ext w1))" "\<And>b. r = Inr b \<Longrightarrow> b \<in> past S"
    unfolding answered_def by auto
  note drift = drift_trans [OF S(1,2)]
  have "R (s (ext w1)) (s (ext w'))"
  proof (cases r)
    case (Inl e)
    with movesD [OF failed rest [unfolded Inl]] show ?thesis by (simp add: base)
  next
    case (Inr b)
    have "sound l (s (ext w1)) \<and> drift l S0 (s (ext w1)) \<and> b \<in> past (s (ext w1))"
      using S(3) [OF Inr] past [OF S(2)] drift_sound [OF drift sound] drift_sound [OF S(1) sound] drift by blast
    with stepsD [OF found _ rest [unfolded Inr]] show ?thesis by blast
  qed
  with drift w show "R (s (ext w)) (s (ext w'))" by (simp add: comp)
qed

section \<open>Disruptions\<close>

lemma sound_set_nds:
  assumes "sound l S" and "map object_key nds = map object_key (v_nds (cs_view S))"
    and "one_version nd_meta (past_nds S \<union> set nds)"
  shows "sound l (set_nds nds S)"
proof -
  from assms(2) have "length nds = length (v_nds (cs_view S))" by (rule map_eq_imp_length_eq)
  with assms show ?thesis
    by (auto simp: sound_def set_nds_def view_ok_def simp del: set_map)
qed

lemma drift_set_nds:
  assumes "sound l S \<Longrightarrow> sound l (set_nds nds S)"
    and "sound l S \<Longrightarrow> granted_tickets (cs_view (set_nds nds S)) \<subseteq> granted_tickets (cs_view S)"
  shows "drift l S (set_nds nds S)"
proof -
  have "same_nodes (cs_view S) (cs_view (set_nds nds S))" by (simp add: set_nds_def)
  note fixed = same_limits [OF this]
  have "adb_limits l (cs_view (set_nds nds S)) = adb_limits l (cs_view S)"
    "ndb_limits l (cs_view (set_nds nds S)) = ndb_limits l (cs_view S)"
    by (simp_all add: adb_limits_def ndb_limits_def fixed) (simp_all add: set_nds_def)
  with assms show ?thesis
    unfolding drift_def by (auto simp: set_nds_def)
qed

lemma written_nd:
  assumes "writes_nd put new S S'" and sound: "sound l S" and old: "old \<in> past_nds S" "same_version nd_meta old new"
    and put: "\<And>rv obj. meta_key (nd_meta obj) = meta_key (nd_meta new) \<Longrightarrow>
      meta_key (nd_meta (put new rv obj)) = meta_key (nd_meta new) \<and> om_ResourceVersion (nd_meta (put new rv obj)) = rv"
  obtains nds rv where "S' = set_nds nds S" and "sound l S'" and "old \<in> set (v_nds (cs_view S))"
    and "set nds = insert (put new rv old) (set (v_nds (cs_view S)) - {old})"
proof -
  from assms(1) obtain rv where accepted: "may_write nd_meta new rv (past_nds S) (v_nds (cs_view S))"
      and S': "S' = set_nds (revise nd_meta new (put new rv) (v_nds (cs_view S))) S"
    unfolding writes_nd_def by blast
  from sound have "set (v_nds (cs_view S)) \<subseteq> past_nds S" "one_version nd_meta (past_nds S)"
      "distinct (map (\<lambda>obj. meta_key (nd_meta obj)) (v_nds (cs_view S)))"
    by (simp_all add: sound_def view_ok_def object_key_def [abs_def])
  note facts = revised [OF accepted this(2,1,3) old, of "put new rv", OF put]
  have "sound l S'"
    unfolding S' by (rule sound_set_nds [OF sound]) (use facts(3,4) in \<open>simp_all add: object_key_def [abs_def]\<close>)
  with S' facts(1,2) show thesis by (intro that)
qed

lemma drift_filter: "drift l S (set_nds (filter P (v_nds (cs_view S))) S)"
proof (rule drift_set_nds)
  let ?nds = "filter P (v_nds (cs_view S))"
  show "sound l (set_nds ?nds S)" if "sound l S"
  proof -
    from that have "length ?nds < 2 ^ 50" "distinct (map object_key ?nds)"
      by (auto simp: sound_def view_ok_def distinct_map_filter intro: le_less_trans [OF length_filter_le])
    moreover from that have "past_nds S \<union> set ?nds = past_nds S" by (auto simp: sound_def)
    ultimately show ?thesis using that by (auto simp: sound_def set_nds_def view_ok_def)
  qed
  show "granted_tickets (cs_view (set_nds ?nds S)) \<subseteq> granted_tickets (cs_view S)"
    by (auto simp: granted_tickets_def set_nds_def)
qed

lemma drops_nd_drift: "drops_nd new S S' \<Longrightarrow> drift l S S'"
  by (simp add: drops_nd_def drift_filter)

text \<open>A write of finalizers on a version that was read.\<close>

lemma finalizers_drift:
  assumes accepted: "writes_nd put_object_nd (with_finalizers fs nd) S S'" and nd: "sound l S \<Longrightarrow> nd \<in> past_nds S"
  shows "drift l S S'"
proof -
  have same: "same_version nd_meta nd (with_finalizers fs nd)"
    by (simp add: same_version_def with_finalizers_def meta_key_def)
  have "sound l S' \<and> granted_tickets (cs_view S') \<subseteq> granted_tickets (cs_view S)" if sound: "sound l S"
  proof -
    from accepted sound nd [OF sound] same obtain nds rv where S': "S' = set_nds nds S" "sound l S'"
        "nd \<in> set (v_nds (cs_view S))"
        "set nds = insert (put_object_nd (with_finalizers fs nd) rv nd) (set (v_nds (cs_view S)) - {nd})"
      by (rule written_nd) (simp add: put_meta)
    then show ?thesis
      by (auto simp: set_nds_def granted_tickets_def ticket_of_def object_key_def put_meta with_finalizers_def
          with_version_def meta_key_def)
  qed
  moreover from accepted obtain nds where "S' = set_nds nds S" unfolding writes_nd_def by blast
  ultimately show ?thesis using drift_set_nds by blast
qed

section \<open>Steps of the ledger\<close>

text \<open>
  What a call that may grant once does: it is a drift but for one disruption entered into the ledger,
  against the limits \<open>L\<close>.
\<close>

definition evolves :: "lib \<Rightarrow> limit set \<Rightarrow> cluster_state \<Rightarrow> cluster_state \<Rightarrow> bool" where
  "evolves l L S S' \<longleftrightarrow> same_nodes (cs_view S) (cs_view S') \<and> (sound l S \<longrightarrow> sound l S' \<and>
     limits l (cs_view S) \<subseteq> limits l (cs_view S') \<and>
     grows_once (sel_nodes l (cs_view S)) L (granted_tickets (cs_view S)) (granted_tickets (cs_view S')))"

lemma limits_drift: "drift l S S' \<Longrightarrow> sound l S \<Longrightarrow> limits l (cs_view S) \<subseteq> limits l (cs_view S')"
  by (auto simp: drift_def limits_def)

lemma drift_evolves: "drift l S S' \<Longrightarrow> evolves l L S S'"
  using limits_drift [of l S S'] by (auto simp: drift_def evolves_def intro: grows_onceI)

lemma drift_then_evolves: "drift l S T \<Longrightarrow> evolves l L T S' \<Longrightarrow> evolves l L S S'"
  using limits_drift [of l S T] same_limits(1) [of "cs_view S" "cs_view T" l]
  unfolding evolves_def by (auto simp: drift_def intro: grows_once_less same_nodes_trans)

lemma evolves_then_drift: "evolves l L S T \<Longrightarrow> drift l T S' \<Longrightarrow> evolves l L S S'"
  using limits_drift [of l T S'] same_limits(1) [of "cs_view S" "cs_view T" l]
  unfolding evolves_def by (auto simp: drift_def intro: grows_once_less same_nodes_trans)

text \<open>Every limit of \<open>L\<close> that the disruption affects has room for one more.\<close>

definition room :: "lib \<Rightarrow> limit set \<Rightarrow> ticket \<Rightarrow> cluster_state \<Rightarrow> bool" where
  "room l L t S \<longleftrightarrow> (\<forall>lmt \<in> L. affected (sel_nodes l (cs_view S)) t lmt \<longrightarrow>
     int (used (sel_nodes l (cs_view S)) (granted_tickets (cs_view S)) lmt) < lim_cap lmt)"

text \<open>The status of a disruption, written on the version that was read.\<close>

lemma status_evolves:
  assumes accepted: "writes_nd put_status_nd new S S'" and nd: "nd \<in> past_nds S" "nd_meta new = nd_meta nd"
    and room: "nd_State (nd_Status new) = Granted \<Longrightarrow> nd_State (nd_Status nd) \<noteq> Granted \<Longrightarrow> room l L (ticket_of nd) S"
  shows "evolves l L S S'"
proof -
  have same: "same_version nd_meta nd new" by (simp add: same_version_def nd(2))
  have nodes: "same_nodes (cs_view S) (cs_view S')"
    using accepted by (auto simp: writes_nd_def set_nds_def)
  have lims: "limits l (cs_view S') = limits l (cs_view S)"
    using accepted by (auto simp: writes_nd_def set_nds_def)
  have "sound l S' \<and> grows_once (sel_nodes l (cs_view S)) L (granted_tickets (cs_view S)) (granted_tickets (cs_view S'))"
    if sound: "sound l S"
  proof -
    let ?G = "granted_tickets (cs_view S)"
    from accepted sound nd(1) same obtain nds rv where S': "S' = set_nds nds S" "sound l S'"
        and mem: "nd \<in> set (v_nds (cs_view S))"
        and nds: "set nds = insert (put_status_nd new rv nd) (set (v_nds (cs_view S)) - {nd})"
      by (rule written_nd) (simp add: put_meta)
    have ticket: "ticket_of (put_status_nd new rv nd) = ticket_of nd"
      by (simp add: put_meta ticket_of_def object_key_def)
    have all: "granted_tickets (cs_view S') \<subseteq>
        (if nd_State (nd_Status new) = Granted then insert (ticket_of nd) ?G else ?G)"
      unfolding granted_tickets_def S'(1) using nds ticket by (auto simp: set_nds_def put_meta)
    have "grows_once (sel_nodes l (cs_view S)) L ?G (granted_tickets (cs_view S'))"
    proof (cases "nd_State (nd_Status new) = Granted \<and> nd_State (nd_Status nd) \<noteq> Granted")
      case True
      with room have "ledger_step (sel_nodes l (cs_view S)) L ?G (insert (ticket_of nd) ?G)"
        by (intro ledger_step.grant) (auto simp: room_def)
      then have "grows_once (sel_nodes l (cs_view S)) L ?G (insert (ticket_of nd) ?G)" by (rule grows_onceI)
      then show ?thesis by (rule grows_once_less) (use all True in auto)
    next
      case False
      with all mem have "granted_tickets (cs_view S') \<subseteq> ?G" by (auto simp: granted_tickets_def split: if_splits)
      then show ?thesis by (rule grows_onceI)
    qed
    with S'(2) show ?thesis by simp
  qed
  with nodes lims show ?thesis by (simp add: evolves_def)
qed

end
