(* ===== verification/Disruption_Runs.thy ===== *)
theory Disruption_Runs
  imports Live_Reads Live_Writes
begin

text \<open>
  A reconciliation of a disruption, whatever fails in it and whatever happens around it, is a step of the
  ledger: it enters at most one granted disruption, and only when every limit that was in force when it
  started has room for it.
\<close>

section \<open>Room\<close>

lemma used_drift:
  assumes "drift l S S'" and "sound l S"
  shows "used (sel_nodes l (cs_view S')) (granted_tickets (cs_view S')) lmt
    \<le> used (sel_nodes l (cs_view S)) (granted_tickets (cs_view S)) lmt"
  unfolding drift_nodes [OF assms(1)] using assms by (intro used_mono) (simp_all add: drift_def)

lemma room_drift:
  assumes drift: "drift l S S'" and sound: "sound l S" and room: "room l L t S"
  shows "room l L t S'"
  unfolding room_def
proof (intro ballI impI)
  fix lmt assume "lmt \<in> L" and "affected (sel_nodes l (cs_view S')) t lmt"
  with room have "int (used (sel_nodes l (cs_view S)) (granted_tickets (cs_view S)) lmt) < lim_cap lmt"
    unfolding drift_nodes [OF drift] by (simp add: room_def)
  with used_drift [OF drift sound, of lmt]
  show "int (used (sel_nodes l (cs_view S')) (granted_tickets (cs_view S')) lmt) < lim_cap lmt" by linarith
qed

text \<open>A budget that tolerated a disruption, synchronised in a state of the run, has room at its end.\<close>

lemma adb_room:
  assumes synced: "synced_adb l T S' bs adb" and sound: "sound l T" and listed: "adb \<in> set (v_adbs (cs_view T))"
    and tolerated: "list_all (\<lambda>b. concerned ndr ns b \<longrightarrow> TolerateDisruption b ns) bs"
    and ns: "ns_Nodes ns = sel_nodes l (cs_view S') (nd_NodeSelector (ndr_Spec ndr))"
    and aff: "affected (sel_nodes l (cs_view S')) (key, ndr_Spec ndr) (adb_limit l (cs_view T) adb)"
  shows "int (used (sel_nodes l (cs_view S')) (granted_tickets (cs_view S')) (adb_limit l (cs_view T) adb))
    < lim_cap (adb_limit l (cs_view T) adb)"
proof -
  from synced obtain r U where r: "ApplicationBudget r \<in> set bs" and U: "drift l T U" "drift l U S'"
      and sync: "still () (adb_Sync (ideal l (cs_view U)) \<lparr>adbr_ADB = adb, hookCli = None\<rparr>) (Inr r)"
    unfolding synced_adb_def by blast
  note soundU = drift_sound [OF U(1) sound]
  have limit: "adb_limit l (cs_view U) adb = adb_limit l (cs_view T) adb"
    using U(1) same_limits(2) [of "cs_view T" "cs_view U" l] by (simp add: drift_def)
  have "int (used (sel_nodes l (cs_view U)) (granted_tickets (cs_view U)) (adb_limit l (cs_view U) adb))
      < lim_cap (adb_limit l (cs_view U) adb)"
  proof (rule room_adb [OF sync, where ndr = ndr and ns = ns and key = key])
    show "sane_adb (adb_Spec adb)" "length (v_nds (cs_view U)) < 2 ^ 50"
      using sound soundU listed by (simp_all add: sound_def view_ok_def list_all_iff)
    show "adb_TolerateDisruption r ns" if "concerned ndr ns (ApplicationBudget r)"
      using tolerated r that by (force simp: list_all_iff)
  qed (use ns aff in \<open>simp_all add: drift_nodes [OF U(2)] limit\<close>)
  with used_drift [OF U(2) soundU, of "adb_limit l (cs_view T) adb"] show ?thesis unfolding limit by linarith
qed

lemma ndb_room:
  assumes synced: "synced_ndb l T S' bs ndb" and sound: "sound l T" and listed: "ndb \<in> set (v_ndbs (cs_view T))"
    and tolerated: "list_all (\<lambda>b. concerned ndr ns b \<longrightarrow> TolerateDisruption b ns) bs"
    and ns: "ns_Nodes ns = sel_nodes l (cs_view S') (nd_NodeSelector (ndr_Spec ndr))"
    and aff: "affected (sel_nodes l (cs_view S')) (key, ndr_Spec ndr) (ndb_limit l (cs_view T) ndb)"
  shows "int (used (sel_nodes l (cs_view S')) (granted_tickets (cs_view S')) (ndb_limit l (cs_view T) ndb))
    < lim_cap (ndb_limit l (cs_view T) ndb)"
proof -
  from synced obtain r U where r: "NodeBudget r \<in> set bs" and U: "drift l T U" "drift l U S'"
      and sync: "still () (ndb_Sync (ideal l (cs_view U)) \<lparr>ndbr_NDB = ndb\<rparr>) (Inr r)"
    unfolding synced_ndb_def by blast
  note soundU = drift_sound [OF U(1) sound]
  have limit: "ndb_limit l (cs_view U) ndb = ndb_limit l (cs_view T) ndb"
    using U(1) same_limits(3) [of "cs_view T" "cs_view U" l] by (simp add: drift_def)
  have "int (used (sel_nodes l (cs_view U)) (granted_tickets (cs_view U)) (ndb_limit l (cs_view U) ndb))
      < lim_cap (ndb_limit l (cs_view U) ndb)"
  proof (rule room_ndb [OF sync, where ndr = ndr and ns = ns and key = key])
    show "sane_ndb (ndb_Spec ndb)" "length (v_nds (cs_view U)) < 2 ^ 50"
        "card (sel_nodes l (cs_view U) (ndb_NodeSelector (ndb_Spec ndb))) < 2 ^ 50"
      using sound soundU listed by (simp_all add: sound_def view_ok_def list_all_iff drift_nodes [OF U(1)])
    show "ndb_TolerateDisruption r ns" if "concerned ndr ns (NodeBudget r)"
      using tolerated r that by (force simp: list_all_iff)
  qed (use ns aff in \<open>simp_all add: drift_nodes [OF U(2)] limit\<close>)
  with used_drift [OF U(2) soundU, of "ndb_limit l (cs_view T) ndb"] show ?thesis unfolding limit by linarith
qed

text \<open>When all concerned budgets tolerated a disruption, every limit in force has room for it.\<close>

lemma tolerated_room:
  assumes synced: "synced_since l S S' bs" and sound: "sound l S"
    and tolerated: "list_all (\<lambda>b. concerned ndr ns b \<longrightarrow> TolerateDisruption b ns) bs"
    and ns: "ns_Nodes ns = sel_nodes l (cs_view S') (nd_NodeSelector (ndr_Spec ndr))"
  shows "room l (limits l (cs_view S)) (key, ndr_Spec ndr) S'"
  unfolding room_def
proof (intro ballI impI)
  fix lmt
  assume lmt: "lmt \<in> limits l (cs_view S)" and aff: "affected (sel_nodes l (cs_view S')) (key, ndr_Spec ndr) lmt"
  from synced obtain A N where A: "drift l S A" "\<forall>adb \<in> set (v_adbs (cs_view A)). synced_adb l A S' bs adb"
      and N: "drift l S N" "\<forall>ndb \<in> set (v_ndbs (cs_view N)). synced_ndb l N S' bs ndb"
    unfolding synced_since_def by blast
  from lmt A(1) N(1) sound have "lmt \<in> adb_limits l (cs_view A) \<or> lmt \<in> ndb_limits l (cs_view N)"
    by (auto simp: limits_def drift_def)
  then consider adb where "adb \<in> set (v_adbs (cs_view A))" "lmt = adb_limit l (cs_view A) adb"
    | ndb where "ndb \<in> set (v_ndbs (cs_view N))" "lmt = ndb_limit l (cs_view N) ndb"
    unfolding adb_limits_def ndb_limits_def by blast
  then show "int (used (sel_nodes l (cs_view S')) (granted_tickets (cs_view S')) lmt) < lim_cap lmt"
    using adb_room [OF _ drift_sound [OF A(1) sound] _ tolerated ns] ndb_room [OF _ drift_sound [OF N(1) sound] _ tolerated ns]
      A(2) N(2) aff by cases blast+
qed

section \<open>A grant finds room\<close>

text \<open>A transition to granted was tolerated by every budget, each synchronised since it began.\<close>

lemma transition_tolerated:
  assumes server: "live_server env s" and pending: "nd_State (ndr_Status ndr) = Pending"
    and run: "run_state (TryTransitionState env ndr) w = (Inr ndr', w')"
    and granted: "nd_State (ndr_Status ndr') = Granted"
  obtains bs S S' where "drift (lib env) (s (ext w)) S" and "synced_since (lib env) S S' bs" and "drift (lib env) S' (s (ext w'))"
    and "list_all (\<lambda>b. concerned ndr (nodes_of_status ndr) b \<longrightarrow> TolerateDisruption b (nodes_of_status ndr)) bs"
proof -
  note order = live_world [OF server]
  from run pending obtain w1 where attempt: "run_state (tryTransitionToGranted env ndr) w = (Inr ndr', w1)"
      and same: "ext w' = ext w1"
    unfolding TryTransitionState_def
    by (cases "run_state (tryTransitionToGranted env ndr) w") (auto split: sum.splits)
  from attempt [unfolded tryTransition_attempt] obtain retry w2 where
      date: "run_state (getRetryDate env ndr) w = (retry, w2)" and
      rest: "run_state (do { r \<leftarrow> GetAllBudgetsInSync env;
        (case r of Inl err \<Rightarrow> ret (Inl err) | Inr budgets \<Rightarrow> attempt_with env ndr retry budgets) }) w2 = (Inr ndr', w1)"
    by (rule run_bind)
  from rest obtain bs w3 where all: "run_state (GetAllBudgetsInSync env) w2 = (Inr bs, w3)" and
      last: "run_state (attempt_with env ndr retry bs) w3 = (Inr ndr', w1)"
    by (rule run_success)
  from date have "retry_date (\<lambda>_. True) ndr retry"
    by (rule satD [OF getRetryDate_law [OF clock_within_True]]) simp
  from last obtain es where "attempt_result (\<lambda>_. True) (\<lambda>_. True) (\<lambda>b. b = bs) (lib env) ndr ndr' es"
    by (rule satD [OF attempt_with_law [where B = "\<lambda>b. b = bs", OF clock_within_True lists_within_True
          \<open>retry_date (\<lambda>_. True) ndr retry\<close> refl]]) auto
  from granted_backed [OF transition_resultI [where cs = "[]", OF this] granted]
  have "list_all (\<lambda>b. concerned ndr (nodes_of_status ndr) b \<longrightarrow> TolerateDisruption b (nodes_of_status ndr)) bs"
    by (auto simp: backed_def list_all_iff)
  moreover have "drift (lib env) (s (ext w)) (s (ext w2))"
    by (rule movesD [OF world_order.moves_dates(2) [OF order] date])
  moreover have "drift (lib env) (s (ext w3)) (s (ext w'))"
    unfolding same by (rule movesD [OF world_order.moves_attempt(1) [OF order] last])
  ultimately show thesis using GetAllBudgets_run [OF server all] that by blast
qed

text \<open>What the status computed by one reconciliation says: a new grant has room when it is computed.\<close>

lemma Reconcile_single_run:
  assumes server: "live_server env s" and sound: "sound (lib env) (s (ext w))"
    and run: "run_state (Reconcile_single env \<lparr>ndr_ND = nd, ndr_Config = config\<rparr>) w = (Inr ndr', w')"
  shows "nd_meta (ndr_ND ndr') = nd_meta nd"
    and "nd_State (ndr_Status ndr') = Granted \<Longrightarrow> nd_State (nd_Status nd) \<noteq> Granted \<Longrightarrow>
      room (lib env) (limits (lib env) (cs_view (s (ext w)))) (ticket_of nd) (s (ext w'))"
proof -
  let ?ndr = "\<lparr>ndr_ND = nd, ndr_Config = config\<rparr>" and ?l = "lib env"
  note order = live_world [OF server]
  show "nd_meta (ndr_ND ndr') = nd_meta nd"
    using run by (rule satD [OF Reconcile_single_law]) simp
  from run [unfolded Reconcile_single_def] obtain ndr w1 where sync: "run_state (Sync env ?ndr) w = (Inr ndr, w1)" and
      transition: "run_state (TryTransitionState env ndr) w1 = (Inr ndr', w')"
    by (rule run_success)
  obtain q w2 where nodes: "run_state (GetNodeFromNodeSelector env (nd_NodeSelector (nd_Spec nd))) w = (q, w2)"
    by fastforce
  from sync [unfolded Sync_def] nodes obtain ns where q: "q = Inr ns" and w1: "w1 = w2" and
      ndr: "ndr = set_status ((nd_Status nd)\<lparr>DisruptedNodes := Slice (NodeSetToStringList ns)\<rparr>) ?ndr"
    by (cases q) auto
  from settled_inD [OF settled_resolver(1) [OF server] nodes [unfolded q] same_nodes_refl]
  have "run_state (GetNodeFromNodeSelector (ideal ?l (cs_view (s (ext w)))) (nd_NodeSelector (nd_Spec nd))) (start ())
      = (Inr ns, start ())"
    by (intro still_run) (simp add: start_def)
  then have sel: "sel_nodes ?l (cs_view (s (ext w))) (nd_NodeSelector (nd_Spec nd)) = ns_Nodes ns"
    by (simp add: sel_nodes_def nodes_for_def)
  then have "finite (ns_Nodes ns)" by (metis finite_sel_nodes)
  then have names: "ns_Nodes (nodes_of_status ndr) = ns_Nodes ns" by (simp add: ndr ns.set_to_list)
  assume granted: "nd_State (ndr_Status ndr') = Granted" and new: "nd_State (nd_Status nd) \<noteq> Granted"
  from transition granted new have pending: "nd_State (ndr_Status ndr) = Pending"
    unfolding TryTransitionState_def by (cases "nd_State (nd_Status nd)") (auto simp: ndr)
  from transition_tolerated [OF server pending transition granted] obtain bs S S' where
      S: "drift ?l (s (ext w1)) S" and synced: "synced_since (lib env) S S' bs" and S': "drift ?l S' (s (ext w'))" and
      tolerated: "list_all (\<lambda>b. concerned ndr (nodes_of_status ndr) b \<longrightarrow> TolerateDisruption b (nodes_of_status ndr)) bs" .
  from movesD [OF world_order.moves_attempt(2) [OF order] sync] S have from_start: "drift ?l (s (ext w)) S"
    by (rule drift_trans)
  note soundS = drift_sound [OF from_start sound]
  have "room ?l (limits ?l (cs_view S)) (object_key nd, ndr_Spec ndr) S'"
  proof (rule tolerated_room [OF synced soundS tolerated])
    from synced have "drift ?l S S'" by (simp add: synced_since_def)
    from drift_nodes [OF this] show "ns_Nodes (nodes_of_status ndr) = sel_nodes ?l (cs_view S') (nd_NodeSelector (ndr_Spec ndr))"
      unfolding names by (simp add: drift_nodes [OF from_start] ndr sel)
  qed
  moreover have "sound ?l S'" using synced drift_sound [OF _ soundS] by (simp add: synced_since_def)
  ultimately have "room ?l (limits ?l (cs_view S)) (object_key nd, ndr_Spec ndr) (s (ext w'))"
    by (intro room_drift [OF S'])
  with limits_drift [OF from_start sound]
  show "room ?l (limits ?l (cs_view (s (ext w)))) (ticket_of nd) (s (ext w'))"
    by (auto simp: room_def ticket_of_def ndr)
qed

section \<open>One reconciliation\<close>

abbreviation evolving :: "lib \<Rightarrow> limit set \<Rightarrow> ('x \<Rightarrow> cluster_state) \<Rightarrow> 'x \<Rightarrow> 'x \<Rightarrow> bool" where
  "evolving l L s x y \<equiv> evolves l L (s x) (s y)"

text \<open>The state is sound, came from \<open>S0\<close> by drifting, and has \<open>nd\<close> among its versions.\<close>

definition holding :: "lib \<Rightarrow> ('x \<Rightarrow> cluster_state) \<Rightarrow> cluster_state \<Rightarrow> NodeDisruption \<Rightarrow> 'x \<Rightarrow> bool" where
  "holding l s S0 nd x \<longleftrightarrow> sound l (s x) \<and> drift l S0 (s x) \<and> nd \<in> past_nds (s x)"

lemma holding_drift: "holding l s S0 nd x \<Longrightarrow> drifts l s x y \<Longrightarrow> holding l s S0 nd y"
  using drift_trans [of l S0 "s x" "s y"] drift_sound [of l "s x" "s y"] drift_past(1) [of l "s x" "s y"]
  by (auto simp: holding_def)

lemma Update_nd_drifts:
  assumes server: "live_server env s"
  shows "steps (drifts (lib env) s) (holding (lib env) s S0 nd) (Update_nd env (with_finalizers fs nd))"
  unfolding Update_nd_def
proof (rule steps_write [where l = "lib env", OF live_writes(1) [OF server]])
  fix x S S'
  assume hold: "holding (lib env) s S0 nd x" and S: "drift (lib env) (s x) S"
    and "writes_nd put_object_nd (with_finalizers fs nd) S S' \<or> drops_nd (with_finalizers fs nd) S S'"
  moreover from hold S have "nd \<in> past_nds S" by (auto simp: holding_def drift_def)
  ultimately show "drift (lib env) S S'" using finalizers_drift drops_nd_drift by blast
qed (auto intro: drift_trans)

lemma UpdateStatus_evolves:
  assumes server: "live_server env s" and meta: "nd_meta (ndr_ND ndr) = nd_meta nd"
  shows "steps (evolving (lib env) L s) (\<lambda>x. holding (lib env) s S0 nd x \<and>
      (nd_State (ndr_Status ndr) = Granted \<longrightarrow> nd_State (nd_Status nd) \<noteq> Granted \<longrightarrow> room (lib env) L (ticket_of nd) (s x)))
    (UpdateStatus env ndr)"
  unfolding UpdateStatus_def StatusUpdate_nd_def
proof (rule steps_write [where l = "lib env", OF live_writes(2) [OF server]], elim conjE)
  fix x S S'
  assume hold: "holding (lib env) s S0 nd x" and S: "drift (lib env) (s x) S"
    and accepted: "writes_nd put_status_nd (ndr_ND ndr) S S'"
    and room: "nd_State (ndr_Status ndr) = Granted \<longrightarrow> nd_State (nd_Status nd) \<noteq> Granted \<longrightarrow> room (lib env) L (ticket_of nd) (s x)"
  from hold S have "nd \<in> past_nds S" "sound (lib env) (s x)" by (auto simp: holding_def drift_def)
  moreover from this room room_drift [OF S] have "room (lib env) L (ticket_of nd) S"
    if "nd_State (ndr_Status ndr) = Granted" "nd_State (nd_Status nd) \<noteq> Granted" using that by blast
  ultimately show "evolves (lib env) L S S'" by (intro status_evolves [OF accepted _ meta])
qed (auto intro: drift_evolves drift_then_evolves evolves_then_drift)

lemma handleFinalizer_drifts:
  assumes server: "live_server env s"
  shows "steps (drifts (lib env) s) (holding (lib env) s S0 nd) (handleFinalizer env nd sndr)"
proof -
  note order = live_world [OF server]
  have quiet: "steps (drifts (lib env) s) (holding (lib env) s S0 nd) (ret a)" for a :: "error + bool"
    by (rule steps_moves [OF world_order.moves_basic(1) [OF order]])
  have update: "steps (drifts (lib env) s) (holding (lib env) s S0 nd)
      (do { r \<leftarrow> Update_nd env (with_finalizers fs nd); ret (g r) })" for fs and g :: "_ \<Rightarrow> error + bool"
    by (rule steps_then [OF Update_nd_drifts [OF server] world_order.moves_basic(1) [OF order]]) (rule drift_trans)
  show ?thesis
    unfolding handleFinalizer_def
    by (intro steps_cases quiet update
        steps_bind [where Q = "holding (lib env) s S0 nd" and D = "drifts (lib env) s"])
      (auto intro!: world_order.moves_attempt(5) [OF order, THEN movesD] intro: holding_drift drift_trans)
qed

text \<open>A step that drifts, then the rest.\<close>

lemma evolving_bind:
  assumes "steps (drifts l s) (holding l s S0 nd) m" and "\<And>a. steps (evolving l L s) (holding l s S0 nd) (f a)"
  shows "steps (evolving l L s) (holding l s S0 nd) (State_Monad.bind m f)"
  by (rule steps_bind [where Q = "holding l s S0 nd" and D = "drifts l s", OF _ assms(2)])
    (use stepsD [OF assms(1)] in \<open>blast intro: holding_drift drift_then_evolves\<close>)+

lemma evolving_after:
  assumes "moves (drifts l s) m" and "\<And>a. steps (evolving l L s) (holding l s S0 nd) (f a)"
  shows "steps (evolving l L s) (holding l s S0 nd) (State_Monad.bind m f)"
  by (rule evolving_bind [OF steps_moves [OF assms(1)] assms(2)])

lemma evolving_quiet: "moves (drifts l s) m \<Longrightarrow> steps (evolving l L s) P m"
  by (rule steps_moves [OF _ drift_evolves])

text \<open>What follows the computation of a new status may rely on it.\<close>

lemma reconciled_evolves:
  assumes server: "live_server env s" and L: "L = limits (lib env) (cs_view S0)" and sound: "sound (lib env) S0"
    and failed: "\<And>err. moves (drifts (lib env) s) (after (Inl err))"
    and next_status: "\<And>ndr. nd_meta (ndr_ND ndr) = nd_meta nd \<Longrightarrow>
      steps (evolving (lib env) L s) (\<lambda>x. holding (lib env) s S0 nd x \<and> (nd_State (ndr_Status ndr) = Granted \<longrightarrow>
        nd_State (nd_Status nd) \<noteq> Granted \<longrightarrow> room (lib env) L (ticket_of nd) (s x))) (after (Inr ndr))"
  shows "steps (evolving (lib env) L s) (holding (lib env) s S0 nd)
    (State_Monad.bind (Reconcile_single env \<lparr>ndr_ND = nd, ndr_Config = config\<rparr>) after)"
proof (rule stepsI)
  fix w :: "(effect, 'a) world" and a w'
  assume hold: "holding (lib env) s S0 nd (ext w)"
    and "run_state (State_Monad.bind (Reconcile_single env \<lparr>ndr_ND = nd, ndr_Config = config\<rparr>) after) w = (a, w')"
  then obtain r w1 where run: "run_state (Reconcile_single env \<lparr>ndr_ND = nd, ndr_Config = config\<rparr>) w = (r, w1)"
      and rest: "run_state (after r) w1 = (a, w')"
    by (elim run_bind)
  have drift: "drift (lib env) (s (ext w)) (s (ext w1))"
    by (rule movesD [OF world_order.moves_attempt(4) [OF live_world [OF server]] run])
  have "evolves (lib env) L (s (ext w1)) (s (ext w'))"
  proof (cases r)
    case (Inl err)
    from movesD [OF failed rest [unfolded Inl]] show ?thesis by (rule drift_evolves)
  next
    case (Inr ndr)
    from hold have "sound (lib env) (s (ext w))" "L \<subseteq> limits (lib env) (cs_view (s (ext w)))"
      using limits_drift sound L by (auto simp: holding_def)
    with Reconcile_single_run [OF server _ run [unfolded Inr]] have "nd_meta (ndr_ND ndr) = nd_meta nd"
        "nd_State (ndr_Status ndr) = Granted \<longrightarrow> nd_State (nd_Status nd) \<noteq> Granted \<longrightarrow> room (lib env) L (ticket_of nd) (s (ext w1))"
      by (auto simp: room_def)
    with stepsD [OF next_status _ rest [unfolded Inr]] holding_drift [OF hold drift] show ?thesis by blast
  qed
  with drift show "evolves (lib env) L (s (ext w)) (s (ext w'))" by (rule drift_then_evolves)
qed

lemma reconcile_disruption_evolves:
  assumes server: "live_server env s" and L: "L = limits (lib env) (cs_view S0)" and sound: "sound (lib env) S0"
  shows "steps (evolving (lib env) L s) (holding (lib env) s S0 nd)
    (reconcile_disruption env nd \<lparr>ndr_ND = nd, ndr_Config = config\<rparr>)"
proof -
  note order = live_world [OF server]
  note moves = world_order.moves_basic [OF order] world_order.moves_bind [OF order] world_order.moves_tells [OF order]
  show ?thesis
    unfolding reconcile_disruption_def
  proof (rule evolving_after [OF moves(4)], rule evolving_after [OF world_order.moves_tells(4) [OF order]],
      rule steps_cases(1), intro evolving_quiet moves, rule reconciled_evolves [OF server L sound], goal_cases)
    case 1
    show ?case unfolding sum.case by (rule moves)
  next
    case (2 _ now ndr)
    show ?case
      unfolding sum.case
      by (intro steps_cases steps_then [OF UpdateStatus_evolves [OF server 2(2)], where D = "drifts (lib env) s"]
          moves_cases moves evolving_quiet) (rule evolves_then_drift)
  qed
qed

lemma nd_Reconcile_evolves:
  assumes server: "live_server env s" and L: "L = limits (lib env) (cs_view S0)" and sound: "sound (lib env) S0"
  shows "steps (evolving (lib env) L s) (\<lambda>x. s x = S0) (nd_Reconcile env config req)"
proof -
  note order = live_world [OF server]
  note moves = world_order.moves_basic [OF order] world_order.moves_bind [OF order]
  show ?thesis
    unfolding nd_Reconcile_def Let_def
  proof (rule steps_get [OF live_reads(8) [OF server] _ sound, where R = "evolves (lib env) L"], goal_cases)
    case 1 then show ?case by (rule drift_past)
  next
    case 4 show ?case unfolding sum.case by (intro moves_cases moves)
  next
    case (5 nd)
    have "steps (evolving (lib env) L s) (holding (lib env) s S0 nd)
        (State_Monad.bind (handleFinalizer env nd \<lparr>ndr_ND = nd, ndr_Config = config\<rparr>) (\<lambda>r. case r of
             Inl err \<Rightarrow> ret (empty_Result, Some err)
           | Inr continueReconcile \<Rightarrow>
               if \<not> continueReconcile then ret (empty_Result, None)
               else reconcile_disruption env nd \<lparr>ndr_ND = nd, ndr_Config = config\<rparr>))"
      by (intro evolving_bind [OF handleFinalizer_drifts [OF server]] steps_cases evolving_quiet moves
          reconcile_disruption_evolves [OF server L sound])
    then show ?case unfolding holding_def sum.case .
  qed (erule drift_evolves | erule (1) drift_then_evolves)+
qed

end
