(* ===== verification/Budget_Runs.thy ===== *)
theory Budget_Runs
  imports Live_Writes
begin

text \<open>
  The reconciliations of budgets, seen from the ledger: they only let the cluster drift.  They move no
  limit that is in force and grant nothing; a budget without disruption types comes into force when its
  types are filled in.
\<close>

section \<open>Limits of revised budgets\<close>

lemma adb_limit_cong:
  assumes "adb_Spec a = adb_Spec b" and "om_Namespace (adb_meta a) = om_Namespace (adb_meta b)"
  shows "adb_limit l V a = adb_limit l V b"
proof -
  have "adb_GetSelectedNodes (ideal l V) \<lparr>adbr_ADB = a, hookCli = None\<rparr>
      = adb_GetSelectedNodes (ideal l V) \<lparr>adbr_ADB = b, hookCli = None\<rparr>"
    by (simp only: adb_GetSelectedNodes_def ADBResolver.simps assms)
  then show ?thesis by (simp add: adb_limit_def adb_nodes_def adb_nodes_for_def assms)
qed

lemma ndb_limit_cong: "ndb_Spec a = ndb_Spec b \<Longrightarrow> ndb_limit l V a = ndb_limit l V b"
  by (simp add: ndb_limit_def)

lemma lim_types_limit [simp]:
  "lim_types (adb_limit l V adb) = adb_SupportedNodeDisruptionTypes (adb_Spec adb)"
  "lim_types (ndb_limit l V ndb) = ndb_SupportedNodeDisruptionTypes (ndb_Spec ndb)"
  by (simp_all add: adb_limit_def ndb_limit_def Let_def)

section \<open>Writes of budgets\<close>

text \<open>
  An accepted write drifts when it keeps the sizes of the stored budget, and its limit unless that was
  not in force.
\<close>

lemma drift_writes_adb:
  assumes accepted: "writes_adb put new S S'"
    and meta: "\<And>rv obj. meta_key (adb_meta obj) = meta_key (adb_meta new) \<Longrightarrow>
      meta_key (adb_meta (put new rv obj)) = meta_key (adb_meta new) \<and> om_ResourceVersion (adb_meta (put new rv obj)) = rv"
    and keeps: "\<And>rv old. sound l S \<Longrightarrow> old \<in> past_adbs S \<Longrightarrow> same_version adb_meta old new \<Longrightarrow>
      MaxDisruptions (adb_Spec (put new rv old)) = MaxDisruptions (adb_Spec old) \<and>
      (adb_SupportedNodeDisruptionTypes (adb_Spec old) \<noteq> [] \<longrightarrow>
        adb_limit l (cs_view S) (put new rv old) = adb_limit l (cs_view S) old)"
  shows "drift l S S'"
proof -
  from accepted obtain rv where may: "may_write adb_meta new rv (past_adbs S) (v_adbs (cs_view S))"
      and S': "S' = set_adbs (revise adb_meta new (put new rv) (v_adbs (cs_view S))) S"
    unfolding writes_adb_def by blast
  let ?adbs = "revise adb_meta new (put new rv) (v_adbs (cs_view S))"
  have nodes: "same_nodes (cs_view S) (cs_view S')" by (simp add: S' set_adbs_def)
  note fixed = same_limits [OF nodes]
  have "sound l S' \<and> adb_limits l (cs_view S) \<subseteq> adb_limits l (cs_view S')" if sound: "sound l S"
  proof -
    from sound have objs: "set (v_adbs (cs_view S)) \<subseteq> past_adbs S" "one_version adb_meta (past_adbs S)"
        "distinct (map (\<lambda>obj. meta_key (adb_meta obj)) (v_adbs (cs_view S)))"
        "list_all (\<lambda>adb. sane_adb (adb_Spec adb)) (v_adbs (cs_view S))"
      by (simp_all add: sound_def view_ok_def)
    from revised_stored [OF may objs(1)] obtain old where old: "old \<in> past_adbs S" "same_version adb_meta old new" .
    note facts = revised [OF may objs(2,1,3) old, of "put new rv", OF meta]
    note kept = keeps [OF sound old, of rv]
    have "sane_adb (adb_Spec (put new rv old))" using kept facts(1) objs(4) by (auto simp: sane_adb_def list_all_iff)
    then have "list_all (\<lambda>adb. sane_adb (adb_Spec adb)) ?adbs" using objs(4) by (auto simp: list_all_iff facts(2))
    moreover have "distinct (map (\<lambda>obj. meta_key (adb_meta obj)) ?adbs)" using objs(3) by (simp add: facts(3))
    moreover have "sel_nodes l (cs_view S') = sel_nodes l (cs_view S)" by (rule fixed)
    ultimately have "sound l S'"
      using sound facts(4) by (auto simp: S' sound_def set_adbs_def view_ok_def)
    moreover have "adb_limits l (cs_view S) \<subseteq> adb_limits l (cs_view S')"
      unfolding adb_limits_def fixed using kept
      by (auto simp: S' set_adbs_def facts(2))
    ultimately show ?thesis ..
  qed
  moreover have "ndb_limits l (cs_view S') = ndb_limits l (cs_view S)"
    by (simp add: ndb_limits_def fixed) (simp add: S' set_adbs_def)
  moreover have "granted_tickets (cs_view S') = granted_tickets (cs_view S)"
    by (simp add: granted_tickets_def S' set_adbs_def)
  ultimately show ?thesis
    using nodes unfolding drift_def by (auto simp: S' set_adbs_def)
qed

lemma drift_writes_ndb:
  assumes accepted: "writes_ndb put new S S'"
    and meta: "\<And>rv obj. meta_key (ndb_meta obj) = meta_key (ndb_meta new) \<Longrightarrow>
      meta_key (ndb_meta (put new rv obj)) = meta_key (ndb_meta new) \<and> om_ResourceVersion (ndb_meta (put new rv obj)) = rv"
    and keeps: "\<And>rv old. sound l S \<Longrightarrow> old \<in> past_ndbs S \<Longrightarrow> same_version ndb_meta old new \<Longrightarrow>
      MaxDisruptedNodes (ndb_Spec (put new rv old)) = MaxDisruptedNodes (ndb_Spec old) \<and>
      MinUndisruptedNodes (ndb_Spec (put new rv old)) = MinUndisruptedNodes (ndb_Spec old) \<and>
      ndb_NodeSelector (ndb_Spec (put new rv old)) = ndb_NodeSelector (ndb_Spec old) \<and>
      (ndb_SupportedNodeDisruptionTypes (ndb_Spec old) \<noteq> [] \<longrightarrow>
        ndb_limit l (cs_view S) (put new rv old) = ndb_limit l (cs_view S) old)"
  shows "drift l S S'"
proof -
  from accepted obtain rv where may: "may_write ndb_meta new rv (past_ndbs S) (v_ndbs (cs_view S))"
      and S': "S' = set_ndbs (revise ndb_meta new (put new rv) (v_ndbs (cs_view S))) S"
    unfolding writes_ndb_def by blast
  let ?ndbs = "revise ndb_meta new (put new rv) (v_ndbs (cs_view S))"
  let ?ok = "\<lambda>ndb. sane_ndb (ndb_Spec ndb) \<and> card (sel_nodes l (cs_view S) (ndb_NodeSelector (ndb_Spec ndb))) < 2 ^ 50"
  have nodes: "same_nodes (cs_view S) (cs_view S')" by (simp add: S' set_ndbs_def)
  note fixed = same_limits [OF nodes]
  have "sound l S' \<and> ndb_limits l (cs_view S) \<subseteq> ndb_limits l (cs_view S')" if sound: "sound l S"
  proof -
    from sound have objs: "set (v_ndbs (cs_view S)) \<subseteq> past_ndbs S" "one_version ndb_meta (past_ndbs S)"
        "distinct (map (\<lambda>obj. meta_key (ndb_meta obj)) (v_ndbs (cs_view S)))" "list_all ?ok (v_ndbs (cs_view S))"
      by (simp_all add: sound_def view_ok_def)
    from revised_stored [OF may objs(1)] obtain old where old: "old \<in> past_ndbs S" "same_version ndb_meta old new" .
    note facts = revised [OF may objs(2,1,3) old, of "put new rv", OF meta]
    note kept = keeps [OF sound old, of rv]
    have "?ok (put new rv old)" using kept facts(1) objs(4) by (auto simp: sane_ndb_def list_all_iff)
    then have "list_all ?ok ?ndbs" using objs(4) by (auto simp: list_all_iff facts(2))
    moreover have "distinct (map (\<lambda>obj. meta_key (ndb_meta obj)) ?ndbs)" using objs(3) by (simp add: facts(3))
    moreover have "sel_nodes l (cs_view S') = sel_nodes l (cs_view S)" by (rule fixed)
    ultimately have "sound l S'"
      using sound facts(4) by (auto simp: S' sound_def set_ndbs_def view_ok_def)
    moreover have "ndb_limits l (cs_view S) \<subseteq> ndb_limits l (cs_view S')"
      unfolding ndb_limits_def fixed using kept
      by (auto simp: S' set_ndbs_def facts(2))
    ultimately show ?thesis ..
  qed
  moreover have "adb_limits l (cs_view S') = adb_limits l (cs_view S)"
    by (simp add: adb_limits_def fixed) (simp add: S' set_ndbs_def)
  moreover have "granted_tickets (cs_view S') = granted_tickets (cs_view S)"
    by (simp add: granted_tickets_def S' set_ndbs_def)
  ultimately show ?thesis
    using nodes unfolding drift_def by (auto simp: S' set_ndbs_def)
qed

text \<open>Statuses drift always, types when they are filled in on a version without.\<close>

lemma budget_status_drift:
  "writes_adb put_status_adb adb S S' \<Longrightarrow> drift l S S'" "writes_ndb put_status_ndb ndb S S' \<Longrightarrow> drift l S S'"
proof -
  have adb: "adb_limit l V (put_status_adb adb rv old) = adb_limit l V old" for V rv old
    by (rule adb_limit_cong) (simp_all add: put_meta with_version_def)
  have ndb: "ndb_limit l V (put_status_ndb ndb rv old) = ndb_limit l V old" for V rv old
    by (rule ndb_limit_cong) (simp add: put_meta)
  show "drift l S S'" if "writes_adb put_status_adb adb S S'"
    by (rule drift_writes_adb [OF that]) (simp_all add: adb, simp_all add: put_meta)
  show "drift l S S'" if "writes_ndb put_status_ndb ndb S S'"
    by (rule drift_writes_ndb [OF that]) (simp_all add: ndb, simp_all add: put_meta)
qed

lemma fill_types_drift:
  assumes "writes_adb put_object_adb (with_adb_types types adb) S S'"
    and "sound l S \<Longrightarrow> adb \<in> past_adbs S" and "adb_SupportedNodeDisruptionTypes (adb_Spec adb) = []"
  shows "drift l S S'"
proof (rule drift_writes_adb [OF assms(1)])
  fix rv old assume sound: "sound l S" and old: "old \<in> past_adbs S" "same_version adb_meta old (with_adb_types types adb)"
  from old(2) have "same_version adb_meta old adb" by (simp add: same_version_def with_adb_types_def)
  with sound_same(2) [OF sound old(1) assms(2) [OF sound]] have "old = adb" .
  with assms(3) show "MaxDisruptions (adb_Spec (put_object_adb (with_adb_types types adb) rv old)) = MaxDisruptions (adb_Spec old) \<and>
      (adb_SupportedNodeDisruptionTypes (adb_Spec old) \<noteq> [] \<longrightarrow>
        adb_limit l (cs_view S) (put_object_adb (with_adb_types types adb) rv old) = adb_limit l (cs_view S) old)"
    by (simp add: put_meta with_adb_types_def)
qed (simp add: put_meta)

lemma fill_node_types_drift:
  assumes "writes_ndb put_object_ndb (with_ndb_types types ndb) S S'"
    and "sound l S \<Longrightarrow> ndb \<in> past_ndbs S" and "ndb_SupportedNodeDisruptionTypes (ndb_Spec ndb) = []"
  shows "drift l S S'"
proof (rule drift_writes_ndb [OF assms(1)])
  fix rv old assume sound: "sound l S" and old: "old \<in> past_ndbs S" "same_version ndb_meta old (with_ndb_types types ndb)"
  from old(2) have "same_version ndb_meta old ndb" by (simp add: same_version_def with_ndb_types_def)
  with sound_same(3) [OF sound old(1) assms(2) [OF sound]] have "old = ndb" .
  with assms(3) show "MaxDisruptedNodes (ndb_Spec (put_object_ndb (with_ndb_types types ndb) rv old)) = MaxDisruptedNodes (ndb_Spec old) \<and>
      MinUndisruptedNodes (ndb_Spec (put_object_ndb (with_ndb_types types ndb) rv old)) = MinUndisruptedNodes (ndb_Spec old) \<and>
      ndb_NodeSelector (ndb_Spec (put_object_ndb (with_ndb_types types ndb) rv old)) = ndb_NodeSelector (ndb_Spec old) \<and>
      (ndb_SupportedNodeDisruptionTypes (ndb_Spec old) \<noteq> [] \<longrightarrow>
        ndb_limit l (cs_view S) (put_object_ndb (with_ndb_types types ndb) rv old) = ndb_limit l (cs_view S) old)"
    by (simp add: put_meta with_ndb_types_def)
qed (simp add: put_meta)

section \<open>The reconciliations of budgets\<close>

lemma moves_status:
  assumes server: "live_server env s"
  shows "moves (drifts (lib env) s) (adb_UpdateStatus env r)" "moves (drifts (lib env) s) (ndb_UpdateStatus env q)"
proof -
  have "steps (drifts (lib env) s) (\<lambda>_. True) (adb_UpdateStatus env r)"
    unfolding adb_UpdateStatus_def StatusUpdate_adb_def
    by (rule steps_write [where l = "lib env", OF live_writes(4) [OF server]])
      (auto intro: budget_status_drift drift_trans)
  moreover have "steps (drifts (lib env) s) (\<lambda>_. True) (ndb_UpdateStatus env q)"
    unfolding ndb_UpdateStatus_def StatusUpdate_ndb_def
    by (rule steps_write [where l = "lib env", OF live_writes(6) [OF server]])
      (auto intro: budget_status_drift drift_trans)
  ultimately show "moves (drifts (lib env) s) (adb_UpdateStatus env r)" "moves (drifts (lib env) s) (ndb_UpdateStatus env q)"
    by (simp_all add: steps_def moves_def)
qed

lemma fill_drifts:
  assumes server: "live_server env s"
  shows "adb_SupportedNodeDisruptionTypes (adb_Spec adb) = [] \<Longrightarrow>
      steps (drifts (lib env) s) (\<lambda>x. sound (lib env) (s x) \<and> adb \<in> past_adbs (s x)) (Update_adb env (with_adb_types types adb))"
    and "ndb_SupportedNodeDisruptionTypes (ndb_Spec ndb) = [] \<Longrightarrow>
      steps (drifts (lib env) s) (\<lambda>x. sound (lib env) (s x) \<and> ndb \<in> past_ndbs (s x)) (Update_ndb env (with_ndb_types types ndb))"
proof -
  show "steps (drifts (lib env) s) (\<lambda>x. sound (lib env) (s x) \<and> adb \<in> past_adbs (s x)) (Update_adb env (with_adb_types types adb))"
    if "adb_SupportedNodeDisruptionTypes (adb_Spec adb) = []"
    unfolding Update_adb_def
    by (rule steps_write [where l = "lib env", OF live_writes(3) [OF server]])
      (use that drift_past(2) in \<open>blast intro: fill_types_drift drift_trans\<close>)+
  show "steps (drifts (lib env) s) (\<lambda>x. sound (lib env) (s x) \<and> ndb \<in> past_ndbs (s x)) (Update_ndb env (with_ndb_types types ndb))"
    if "ndb_SupportedNodeDisruptionTypes (ndb_Spec ndb) = []"
    unfolding Update_ndb_def
    by (rule steps_write [where l = "lib env", OF live_writes(5) [OF server]])
      (use that drift_past(3) in \<open>blast intro: fill_node_types_drift drift_trans\<close>)+
qed

lemma adb_Reconcile_drifts:
  assumes server: "live_server env s"
    and sound: "sound (lib env) S0"
  shows "steps (drifts (lib env) s) (\<lambda>x. s x = S0) (adb_Reconcile env types req)"
proof -
  note order = live_world [OF server]
  note moves = world_order.moves_basic [OF order] world_order.moves_bind [OF order] world_order.moves_Sync [OF order]
    moves_status [OF server] moves_cases
  show ?thesis
    unfolding adb_Reconcile_def Let_def
  proof (rule steps_get [OF live_reads(9) [OF server] _ sound, where R = "drift (lib env)"], goal_cases)
    case 1 then show ?case by (rule drift_past)
  next
    case 4 show ?case unfolding sum.case by (intro moves)
  next
    case (5 adb)
    show ?case
      unfolding sum.case
      by (rule steps_then [where D = "drifts (lib env) s"],
          intro steps_cases steps_weaken [OF fill_drifts(1) [OF server]] steps_moves [OF world_order.moves_basic(1) [OF order]],
          blast, blast, assumption, intro moves, erule (1) drift_trans)
  qed (assumption | erule (1) drift_trans)+
qed

lemma ndb_Reconcile_drifts:
  assumes server: "live_server env s"
    and sound: "sound (lib env) S0"
  shows "steps (drifts (lib env) s) (\<lambda>x. s x = S0) (ndb_Reconcile env types req)"
proof -
  note order = live_world [OF server]
  note moves = world_order.moves_basic [OF order] world_order.moves_bind [OF order] world_order.moves_Sync [OF order]
    moves_status [OF server] moves_cases
  show ?thesis
    unfolding ndb_Reconcile_def Let_def
  proof (rule steps_get [OF live_reads(10) [OF server] _ sound, where R = "drift (lib env)"], goal_cases)
    case 1 then show ?case by (rule drift_past)
  next
    case 4 show ?case unfolding sum.case by (intro moves)
  next
    case (5 ndb)
    show ?case
      unfolding sum.case
      by (rule steps_then [where D = "drifts (lib env) s"],
          intro steps_cases steps_weaken [OF fill_drifts(2) [OF server]] steps_moves [OF world_order.moves_basic(1) [OF order]],
          blast, blast, assumption, intro moves, erule (1) drift_trans)
  qed (assumption | erule (1) drift_trans)+
qed

end
