(* ===== verification/Cluster_Runs.thy ===== *)
theory Cluster_Runs
  imports Disruption_Runs Budget_Runs
begin

text \<open>
  The three controllers in one cluster: their reconciliations in any order, while the cluster drifts at
  any moment of each of them, and with whatever else quietly happens in between.  Every run refines a
  run of the ledger, so the limits of the budgets hold in every state that can be reached.
\<close>

section \<open>The system\<close>

text \<open>
  A change between two reconciliations: it does not move nodes between selectors, does not remove or
  tighten a limit in force and does not grant a disruption.
\<close>

definition quiet :: "lib \<Rightarrow> cluster_state \<Rightarrow> cluster_state \<Rightarrow> bool" where
  "quiet l S S' \<longleftrightarrow> sound l S' \<and> sel_nodes l (cs_view S') = sel_nodes l (cs_view S) \<and>
     limits l (cs_view S) \<subseteq> limits l (cs_view S') \<and> granted_tickets (cs_view S') \<subseteq> granted_tickets (cs_view S)"

lemma drift_quiet: "drift l S S' \<Longrightarrow> sound l S \<Longrightarrow> quiet l S S'"
  using limits_drift [of l S S'] drift_nodes [of l S S'] by (auto simp: quiet_def drift_def)

inductive system_step :: "'x env \<Rightarrow> ('x \<Rightarrow> cluster_state) \<Rightarrow> 'x \<Rightarrow> 'x \<Rightarrow> bool" for env s where
  disruption: "run_state (nd_Reconcile env config req) (start x) = (res, w) \<Longrightarrow> system_step env s x (ext w)"
| application_budget: "run_state (adb_Reconcile env types req) (start x) = (res, w) \<Longrightarrow> system_step env s x (ext w)"
| node_budget: "run_state (ndb_Reconcile env types req) (start x) = (res, w) \<Longrightarrow> system_step env s x (ext w)"
| outside: "quiet (lib env) (s x) (s y) \<Longrightarrow> system_step env s x y"

text \<open>What every step does to the cluster, and what therefore every run does.\<close>

definition refines_ledger :: "lib \<Rightarrow> cluster_state \<Rightarrow> cluster_state \<Rightarrow> bool" where
  "refines_ledger l S S' \<longleftrightarrow> sound l S' \<and> sel_nodes l (cs_view S') = sel_nodes l (cs_view S) \<and>
     limits l (cs_view S) \<subseteq> limits l (cs_view S') \<and>
     (ledger_step (sel_nodes l (cs_view S)) (limits l (cs_view S)))\<^sup>*\<^sup>*
       (granted_tickets (cs_view S)) (granted_tickets (cs_view S'))"

lemma refines_evolves: "evolves l (limits l (cs_view S)) S S' \<Longrightarrow> sound l S \<Longrightarrow> refines_ledger l S S'"
  using same_limits(1) [of "cs_view S" "cs_view S'" l]
  by (auto simp: evolves_def refines_ledger_def intro: grows_once_steps)

lemma refines_quiet: "quiet l S S' \<Longrightarrow> refines_ledger l S S'"
  by (auto simp: quiet_def refines_ledger_def intro: ledger_step.release)

lemma refines_trans:
  assumes "refines_ledger l S S'" and "refines_ledger l S' S''"
  shows "refines_ledger l S S''"
proof -
  let ?step = "ledger_step (sel_nodes l (cs_view S))"
  from assms have "(?step (limits l (cs_view S')))\<^sup>*\<^sup>* (granted_tickets (cs_view S')) (granted_tickets (cs_view S''))"
      and sub: "limits l (cs_view S) \<subseteq> limits l (cs_view S')" by (auto simp: refines_ledger_def)
  moreover have "?step (limits l (cs_view S')) \<le> ?step (limits l (cs_view S))" by (auto intro: ledger_step_antimono [OF _ sub])
  ultimately have "(?step (limits l (cs_view S)))\<^sup>*\<^sup>* (granted_tickets (cs_view S')) (granted_tickets (cs_view S''))"
    using rtranclp_mono by blast
  with assms show ?thesis unfolding refines_ledger_def by (auto intro: rtranclp_trans)
qed

lemma reconciles:
  assumes server: "live_server env s" and sound: "sound (lib env) (s x)"
  shows "run_state (nd_Reconcile env config req) (start x) = (res, w) \<Longrightarrow>
      evolves (lib env) (limits (lib env) (cs_view (s x))) (s x) (s (ext w))"
    and "run_state (adb_Reconcile env types req) (start x) = (res, w) \<Longrightarrow> drift (lib env) (s x) (s (ext w))"
    and "run_state (ndb_Reconcile env types req) (start x) = (res, w) \<Longrightarrow> drift (lib env) (s x) (s (ext w))"
  using stepsD [OF nd_Reconcile_evolves [OF server refl sound], of "start x" config req res w]
    stepsD [OF adb_Reconcile_drifts [OF server sound], of "start x" types req res w]
    stepsD [OF ndb_Reconcile_drifts [OF server sound], of "start x" types req res w]
  by (auto simp: start_def)

lemma system_step_refines:
  assumes server: "live_server env s" and sound: "sound (lib env) (s x)" and step: "system_step env s x y"
  shows "refines_ledger (lib env) (s x) (s y)"
  using step
  by (cases rule: system_step.cases)
    (auto intro: refines_evolves refines_quiet drift_quiet reconciles [OF server sound] sound)

lemma system_runs_refine:
  assumes "(system_step env s)\<^sup>*\<^sup>* x y" and "live_server env s" and "sound (lib env) (s x)"
  shows "refines_ledger (lib env) (s x) (s y)"
  using assms(1)
proof (induction rule: rtranclp_induct)
  case base
  show ?case by (rule refines_quiet [OF drift_quiet [OF drift_refl assms(3)]])
next
  case (step y z)
  then have "sound (lib env) (s y)" by (simp add: refines_ledger_def)
  from refines_trans [OF step.IH system_step_refines [OF assms(2) this step.hyps(2)]] show ?case .
qed

section \<open>Properties of runs\<close>




end
