(* ===== verification/Sample_Server.thy ===== *)
theory Sample_Server
  imports Cluster_Runs Sample_Env
begin

text \<open>
  A live server, used by the witnesses of the properties of runs only: a view with a log of all versions,
  optimistic locking, and somebody else who deletes the rejected disruptions whenever disruptions are listed.
\<close>

section \<open>State\<close>

record server =
  sv_nds :: "NodeDisruption list"
  sv_adbs :: "ApplicationDisruptionBudget list"
  sv_ndbs :: "NodeDisruptionBudget list"
  log_nds :: "NodeDisruption list"
  log_adbs :: "ApplicationDisruptionBudget list"
  log_ndbs :: "NodeDisruptionBudget list"

definition no_volume :: PersistentVolume where
  "no_volume = \<lparr>pv_meta = named [], pv_NodeAffinity = None\<rparr>"

text \<open>Nodes, pods and volumes are those of a cluster \<open>c\<close>; its other objects are those to begin with.\<close>

definition sv_view :: "cluster \<Rightarrow> server \<Rightarrow> view" where
  "sv_view c x = \<lparr>v_nds = sv_nds x, v_adbs = sv_adbs x, v_ndbs = sv_ndbs x,
     v_nodes = (\<lambda>ls fs. case ls of None \<Rightarrow> c_nodes c | Some s \<Rightarrow> sample_list node_meta s (c_nodes c)),
     v_pods = (\<lambda>ns s. sample_list pod_meta s (sample_ns pod_meta (Some ns) (c_pods c))),
     v_pvcs = (\<lambda>ns s. sample_list pvc_meta s (sample_ns pvc_meta (Some ns) (c_pvcs c))),
     v_pv = (\<lambda>key. no_volume)\<rparr>"

definition serve :: "cluster \<Rightarrow> server" where
  "serve c = \<lparr>sv_nds = c_nds c, sv_adbs = c_adbs c, sv_ndbs = c_ndbs c, log_nds = [], log_adbs = [], log_ndbs = []\<rparr>"

definition state_of :: "cluster \<Rightarrow> server \<Rightarrow> cluster_state" where
  "state_of c x = \<lparr>cs_view = sv_view c x, past_nds = set (log_nds x) \<union> set (sv_nds x),
     past_adbs = set (log_adbs x) \<union> set (sv_adbs x), past_ndbs = set (log_ndbs x) \<union> set (sv_ndbs x)\<rparr>"

text \<open>A version that is longer than all versions so far.\<close>

definition fresh_version :: "('o \<Rightarrow> ObjectMeta) \<Rightarrow> 'o list \<Rightarrow> string" where
  "fresh_version meta objs = CHR ''x'' # concat (map (\<lambda>obj. om_ResourceVersion (meta obj)) objs)"

lemma fresh_version:
  assumes "obj \<in> set objs"
  shows "om_ResourceVersion (meta obj) \<noteq> fresh_version meta objs"
proof -
  have "length (om_ResourceVersion (meta obj)) \<le> length (concat (map (\<lambda>obj. om_ResourceVersion (meta obj)) objs))"
    using assms by (induction objs) auto
  then show ?thesis by (auto simp: fresh_version_def)
qed

section \<open>Writes\<close>

definition lock_and :: "('o \<Rightarrow> ObjectMeta) \<Rightarrow> ('o \<Rightarrow> string \<Rightarrow> 'o \<Rightarrow> 'o) \<Rightarrow> 'o \<Rightarrow> 'o list \<Rightarrow> 'o list \<Rightarrow> 'o list option" where
  "lock_and meta put new old objs = (if list_ex (\<lambda>stored. same_version meta stored new) objs
     then Some (revise meta new (put new (fresh_version meta (old @ objs))) objs) else None)"

lemma lock_and_may:
  "lock_and meta put new old objs = Some objs' \<Longrightarrow> \<exists>rv. may_write meta new rv (set old \<union> set objs) objs \<and>
     objs' = revise meta new (put new rv) objs"
  using fresh_version [of _ "old @ objs" meta]
  by (auto simp: lock_and_def may_write_def list_ex_iff split: if_splits intro!: exI [of _ "fresh_version meta (old @ objs)"])

definition keep_nds :: "NodeDisruption list \<Rightarrow> server \<Rightarrow> server" where
  "keep_nds nds x = x\<lparr>sv_nds := nds, log_nds := log_nds x @ sv_nds x\<rparr>"

definition keep_adbs :: "ApplicationDisruptionBudget list \<Rightarrow> server \<Rightarrow> server" where
  "keep_adbs adbs x = x\<lparr>sv_adbs := adbs, log_adbs := log_adbs x @ sv_adbs x\<rparr>"

definition keep_ndbs :: "NodeDisruptionBudget list \<Rightarrow> server \<Rightarrow> server" where
  "keep_ndbs ndbs x = x\<lparr>sv_ndbs := ndbs, log_ndbs := log_ndbs x @ sv_ndbs x\<rparr>"

lemma state_of_keep:
  "state_of c (keep_nds nds x) = set_nds nds (state_of c x)" "state_of c (keep_adbs adbs x) = set_adbs adbs (state_of c x)"
  "state_of c (keep_ndbs ndbs x) = set_ndbs ndbs (state_of c x)"
  by (auto simp: state_of_def sv_view_def keep_nds_def keep_adbs_def keep_ndbs_def set_nds_def set_adbs_def set_ndbs_def)

definition save_nd :: "(NodeDisruption \<Rightarrow> string \<Rightarrow> NodeDisruption \<Rightarrow> NodeDisruption) \<Rightarrow> NodeDisruption \<Rightarrow> server \<Rightarrow>
    (error + NodeDisruption) \<times> server" where
  "save_nd put nd x = (case lock_and nd_meta put nd (log_nds x) (sv_nds x) of
     None \<Rightarrow> (Inl (ErrLib ''conflict''), x) | Some nds \<Rightarrow> (sample_get nd_meta nds (om_key (nd_meta nd)), keep_nds nds x))"

definition save_adb :: "(ApplicationDisruptionBudget \<Rightarrow> string \<Rightarrow> ApplicationDisruptionBudget \<Rightarrow> ApplicationDisruptionBudget) \<Rightarrow>
    ApplicationDisruptionBudget \<Rightarrow> server \<Rightarrow> (error + ApplicationDisruptionBudget) \<times> server" where
  "save_adb put adb x = (case lock_and adb_meta put adb (log_adbs x) (sv_adbs x) of
     None \<Rightarrow> (Inl (ErrLib ''conflict''), x) | Some adbs \<Rightarrow> (sample_get adb_meta adbs (om_key (adb_meta adb)), keep_adbs adbs x))"

definition save_ndb :: "(NodeDisruptionBudget \<Rightarrow> string \<Rightarrow> NodeDisruptionBudget \<Rightarrow> NodeDisruptionBudget) \<Rightarrow>
    NodeDisruptionBudget \<Rightarrow> server \<Rightarrow> (error + NodeDisruptionBudget) \<times> server" where
  "save_ndb put ndb x = (case lock_and ndb_meta put ndb (log_ndbs x) (sv_ndbs x) of
     None \<Rightarrow> (Inl (ErrLib ''conflict''), x) | Some ndbs \<Rightarrow> (sample_get ndb_meta ndbs (om_key (ndb_meta ndb)), keep_ndbs ndbs x))"

lemma save_writes:
  "state_of c (snd (save_nd put nd x)) = state_of c x \<or> writes_nd put nd (state_of c x) (state_of c (snd (save_nd put nd x)))"
  "state_of c (snd (save_adb put' adb x)) = state_of c x \<or> writes_adb put' adb (state_of c x) (state_of c (snd (save_adb put' adb x)))"
  "state_of c (snd (save_ndb put'' ndb x)) = state_of c x \<or> writes_ndb put'' ndb (state_of c x) (state_of c (snd (save_ndb put'' ndb x)))"
proof -
  have fields: "cs_view (state_of c x) = sv_view c x" "v_nds (sv_view c x) = sv_nds x" "v_adbs (sv_view c x) = sv_adbs x" "v_ndbs (sv_view c x) = sv_ndbs x"
      "past_nds (state_of c x) = set (log_nds x) \<union> set (sv_nds x)"
      "past_adbs (state_of c x) = set (log_adbs x) \<union> set (sv_adbs x)"
      "past_ndbs (state_of c x) = set (log_ndbs x) \<union> set (sv_ndbs x)"
    by (simp_all add: state_of_def sv_view_def)
  show "state_of c (snd (save_nd put nd x)) = state_of c x \<or> writes_nd put nd (state_of c x) (state_of c (snd (save_nd put nd x)))"
    unfolding save_nd_def writes_nd_def fields by (auto simp: state_of_keep dest: lock_and_may split: option.split)
  show "state_of c (snd (save_adb put' adb x)) = state_of c x \<or> writes_adb put' adb (state_of c x) (state_of c (snd (save_adb put' adb x)))"
    unfolding save_adb_def writes_adb_def fields by (auto simp: state_of_keep dest: lock_and_may split: option.split)
  show "state_of c (snd (save_ndb put'' ndb x)) = state_of c x \<or> writes_ndb put'' ndb (state_of c x) (state_of c (snd (save_ndb put'' ndb x)))"
    unfolding save_ndb_def writes_ndb_def fields by (auto simp: state_of_keep dest: lock_and_may split: option.split)
qed

section \<open>The environment\<close>

fun error_of :: "(error + 'a) \<times> server \<Rightarrow> error option \<times> server" where
  "error_of (Inl err, x) = (Some err, x)"
| "error_of (Inr a, x) = (None, x)"

lemma snd_error_of [simp]: "snd (error_of p) = snd p"
  by (cases p rule: error_of.cases) simp_all

definition others_delete :: "server \<Rightarrow> server" where
  "others_delete x = keep_nds (filter (\<lambda>nd. nd_State (nd_Status nd) \<noteq> Rejected) (sv_nds x)) x"

definition server_kube :: "cluster \<Rightarrow> server kube" where
  "server_kube c = \<lparr>
     get_nd = (\<lambda>key x. (sample_get nd_meta (sv_nds x) key, x)),
     get_adb = (\<lambda>key x. (sample_get adb_meta (sv_adbs x) key, x)),
     get_ndb = (\<lambda>key x. (sample_get ndb_meta (sv_ndbs x) key, x)),
     get_pv = (\<lambda>key x. (Inr (no_volume), x)),
     list_nd = (\<lambda>x. (Inr (sv_nds x), others_delete x)),
     list_adb = (\<lambda>ns x. (Inr (sample_ns adb_meta ns (sv_adbs x)), x)),
     list_ndb = (\<lambda>ns x. (Inr (sample_ns ndb_meta ns (sv_ndbs x)), x)),
     list_nodes = (\<lambda>ls fs x. (Inr (case ls of None \<Rightarrow> c_nodes c | Some s \<Rightarrow> sample_list node_meta s (c_nodes c)), x)),
     list_pods = (\<lambda>ns s x. (Inr (sample_list pod_meta s (sample_ns pod_meta (Some ns) (c_pods c))), x)),
     list_pvcs = (\<lambda>ns s x. (Inr (sample_list pvc_meta s (sample_ns pvc_meta (Some ns) (c_pvcs c))), x)),
     update_nd = save_nd put_object_nd,
     update_adb = save_adb put_object_adb,
     update_ndb = save_ndb put_object_ndb,
     status_nd = (\<lambda>nd x. error_of (save_nd put_status_nd nd x)),
     status_adb = (\<lambda>adb x. error_of (save_adb put_status_adb adb x)),
     status_ndb = (\<lambda>ndb x. error_of (save_ndb put_status_ndb ndb x)) \<rparr>"

definition server_net :: "server net" where
  "server_net = \<lparr>
     net_roundtrip = (\<lambda>tr oper x. (Inr \<lparr>rsp_Code = 200, rsp_Header = (\<lambda>_. ''5''), rsp_Body = ConsumedEOF\<rparr>, x)),
     http_Do = (\<lambda>url data hdrs t x. (Inr \<lparr>StatusCode = 200, hr_Body = ''body''\<rparr>, x)),
     io_ReadAll = (\<lambda>r x. (Inr (hr_Body r), x)) \<rparr>"

definition server_env :: "cluster \<Rightarrow> server env" where
  "server_env c = \<lparr>lib = sample_lib, kube = server_kube c, net = server_net, clock = (\<lambda>x. (10 ^ 9, x))\<rparr>"

lemma server_env_lib [simp]: "lib (server_env c) = sample_lib"
  by (simp add: server_env_def)

section \<open>It is live\<close>

lemma sample_get_in: "sample_get meta xs key = Inr x \<Longrightarrow> x \<in> set xs"
  by (cases "filter (\<lambda>x. om_key (meta x) = key) xs") (auto simp: sample_get_def filter_eq_Cons_iff)

lemma sample_ns_None [simp]: "sample_ns meta None xs = xs"
  by (simp add: sample_ns_def)

lemma others_drift: "drift l (state_of c x) (state_of c (others_delete x))"
proof -
  let ?nds = "filter (\<lambda>nd. nd_State (nd_Status nd) \<noteq> Rejected) (v_nds (cs_view (state_of c x)))"
  have "drift l (state_of c x) (set_nds ?nds (state_of c x))" by (rule drift_filter)
  then show ?thesis by (simp add: others_delete_def state_of_keep) (simp add: state_of_def sv_view_def)
qed

lemma answers:
  "snd (f x) = x \<or> snd (f x) = others_delete x \<Longrightarrow> (\<And>x a. fst (f x) = Inr a \<Longrightarrow> A (state_of c x) a) \<Longrightarrow> answered l (state_of c) f x A"
  unfolding answered_def using others_drift by (intro exI [of _ "state_of c x"]) auto

lemma applies:
  assumes "state_of c (snd (f x)) = state_of c x \<or> W (state_of c x) (state_of c (snd (f x)))"
  shows "applied l (state_of c) f x W"
  unfolding applied_def by (intro exI [of _ "state_of c x"] exI [of _ "state_of c (snd (f x))"]) (use assms in auto)

lemma server_is_live: "live_server (server_env c) (state_of c)"
proof -
  have "live_reads (server_env c) (state_of c)"
    unfolding live_reads_def Let_def
    by (intro allI conjI answers)
      (auto simp: server_env_def server_kube_def server_net_def state_of_def sv_view_def dest: sample_get_in
        intro: others_drift [unfolded state_of_def sv_view_def])
  moreover have "live_writes (server_env c) (state_of c)"
    unfolding live_writes_def Let_def
    by (intro allI conjI applies) (use save_writes in \<open>auto simp: server_env_def server_kube_def\<close>)
  ultimately show ?thesis by (simp add: live_server_def)
qed

lemma serve_view [simp]:
  "cs_view (state_of c x) = sv_view c x" "v_nds (sv_view c (serve c)) = c_nds c" "v_adbs (sv_view c (serve c)) = c_adbs c"
  "v_ndbs (sv_view c (serve c)) = c_ndbs c"
  by (simp_all add: state_of_def serve_def sv_view_def)

lemma sound_serve: "view_ok l (sv_view c (serve c)) \<Longrightarrow> one_version nd_meta (set (c_nds c)) \<Longrightarrow>
    one_version adb_meta (set (c_adbs c)) \<Longrightarrow> one_version ndb_meta (set (c_ndbs c)) \<Longrightarrow> sound l (state_of c (serve c))"
  by (simp add: sound_def) (simp add: state_of_def serve_def)

end
