(* ===== verification/Startup.thy ===== *)
theory Startup
  imports Main_Config Nd_Controller Budget_Controllers
begin

text \<open>
  How \<open>cmd/main.go\<close> puts the program together: the manager it asks controller-runtime for, the three
  controllers that \<open>SetupWithManager\<close> registers with it, each with the kinds of object it watches,
  and the start-up sequence with its exit codes.  The manager itself is a parameter.
\<close>

section \<open>Controllers\<close>

datatype object_kind = Pod_kind | PersistentVolumeClaim_kind | Node_kind | NodeDisruption_kind
  | ApplicationDisruptionBudget_kind | NodeDisruptionBudget_kind

datatype watch_predicate = ResourceVersionChangedPredicate

record 'x watch =
  w_Kind :: object_kind
  w_MapFunc :: "watched_object \<Rightarrow> ('x, error + (string \<times> string) list) act"
  w_Predicate :: watch_predicate

text \<open>What the controller builder collects before \<open>Complete\<close> registers it.\<close>

record 'x controller =
  ctl_For :: object_kind
  ctl_Watches :: "'x watch list"
  ctl_SkipNameValidation :: bool
  ctl_Reconcile :: "string \<times> string \<Rightarrow> ('x, Result \<times> error option) act"

definition nd_controller :: "'x env \<Rightarrow> NodeDisruptionReconcilerConfig \<Rightarrow> 'x controller" where
  "nd_controller env config = \<lparr>ctl_For = NodeDisruption_kind, ctl_Watches = [],
     ctl_SkipNameValidation = True, ctl_Reconcile = nd_Reconcile env config\<rparr>"

definition adb_controller :: "'x env \<Rightarrow> string list \<Rightarrow> 'x controller" where
  "adb_controller env types = \<lparr>ctl_For = ApplicationDisruptionBudget_kind,
     ctl_Watches =
       [\<lparr>w_Kind = Pod_kind, w_MapFunc = adb_MapFunc env, w_Predicate = ResourceVersionChangedPredicate\<rparr>,
        \<lparr>w_Kind = PersistentVolumeClaim_kind, w_MapFunc = adb_MapFunc env, w_Predicate = ResourceVersionChangedPredicate\<rparr>,
        \<lparr>w_Kind = NodeDisruption_kind, w_MapFunc = adb_MapFunc env, w_Predicate = ResourceVersionChangedPredicate\<rparr>],
     ctl_SkipNameValidation = True, ctl_Reconcile = adb_Reconcile env types\<rparr>"

definition ndb_controller :: "'x env \<Rightarrow> string list \<Rightarrow> 'x controller" where
  "ndb_controller env types = \<lparr>ctl_For = NodeDisruptionBudget_kind,
     ctl_Watches =
       [\<lparr>w_Kind = Node_kind, w_MapFunc = ndb_MapFunc env, w_Predicate = ResourceVersionChangedPredicate\<rparr>,
        \<lparr>w_Kind = NodeDisruption_kind, w_MapFunc = ndb_MapFunc env, w_Predicate = ResourceVersionChangedPredicate\<rparr>],
     ctl_SkipNameValidation = True, ctl_Reconcile = ndb_Reconcile env types\<rparr>"

section \<open>The manager\<close>

record manager_options =
  mo_Scheme :: "string list"
  mo_MetricsBindAddress :: string
  mo_WebhookPort :: gint
  mo_HealthProbeBindAddress :: string
  mo_LeaderElection :: bool
  mo_LeaderElectionID :: string

text \<open>The calls of controller-runtime that may fail; they may change the outside world.\<close>

record 'x manager_lib =
  NewManager :: "manager_options \<Rightarrow> 'x \<Rightarrow> error option \<times> 'x"
  Complete :: "'x controller \<Rightarrow> 'x \<Rightarrow> error option \<times> 'x"
  AddHealthzCheck :: "string \<Rightarrow> 'x \<Rightarrow> error option \<times> 'x"
  AddReadyzCheck :: "string \<Rightarrow> 'x \<Rightarrow> error option \<times> 'x"
  Start :: "'x \<Rightarrow> error option \<times> 'x"

text \<open>What starting the program does, with the answers it got, and the errors it logs.\<close>

datatype 'x startup =
    Made manager_options "error option"
  | Registered "'x controller" "error option"
  | Probe string "error option"
  | Ran "error option"
  | SetupError string error

text \<open>The types of the two groups that \<open>init\<close> adds to the scheme.\<close>

definition scheme_groups :: "string list" where
  "scheme_groups = [''client-go'', ''nodedisruption.criteo.com/v1alpha1'']"

definition manager_options_of :: "flags \<Rightarrow> manager_options" where
  "manager_options_of fl = \<lparr>mo_Scheme = scheme_groups, mo_MetricsBindAddress = metricsAddr fl,
     mo_WebhookPort = 9443, mo_HealthProbeBindAddress = probeAddr fl,
     mo_LeaderElection = enableLeaderElection fl, mo_LeaderElectionID = ''493e6e3e.criteo.com''\<rparr>"

definition SetupWithManager :: "'x manager_lib \<Rightarrow> 'x controller \<Rightarrow> ('x startup, 'x, error option) io" where
  "SetupWithManager mgr c = do {
     err \<leftarrow> ask (Complete mgr c);
     emit (Registered c err);
     ret err }"

text \<open>\<open>if err := step; err != nil { setupLog.Error(err, msg); os.Exit(1) }\<close>, and the rest of \<open>main\<close>.\<close>

definition must :: "string \<Rightarrow> ('x startup, 'x, error option) io \<Rightarrow> ('x startup, 'x, int) io \<Rightarrow>
    ('x startup, 'x, int) io" where
  "must msg step rest = do {
     err \<leftarrow> step;
     (case err of
        Some e \<Rightarrow> do { emit (SetupError msg e); ret 1 }
      | None \<Rightarrow> rest) }"

text \<open>The result is the exit code of the process.\<close>

definition main :: "'x env \<Rightarrow> 'x manager_lib \<Rightarrow> flags \<Rightarrow> ('x startup, 'x, int) io" where
  "main env mgr fl =
     must ''unable to start manager''
       (do { err \<leftarrow> ask (NewManager mgr (manager_options_of fl)); emit (Made (manager_options_of fl) err); ret err })
     (case configure (lib env) fl of
        Inl err \<Rightarrow> do { emit (SetupError ''invalid configuration'' err); ret 1 }
      | Inr (config, defaultNodeDisruptionTypes) \<Rightarrow>
          must ''unable to create controller'' (SetupWithManager mgr (nd_controller env config))
         (must ''unable to create controller''
            (SetupWithManager mgr (adb_controller env defaultNodeDisruptionTypes))
         (must ''unable to create controller''
            (SetupWithManager mgr (ndb_controller env defaultNodeDisruptionTypes))
         (must ''unable to set up health check''
            (do { err \<leftarrow> ask (AddHealthzCheck mgr ''healthz''); emit (Probe ''healthz'' err); ret err })
         (must ''unable to set up ready check''
            (do { err \<leftarrow> ask (AddReadyzCheck mgr ''readyz''); emit (Probe ''readyz'' err); ret err })
         (must ''problem running manager''
            (do { err \<leftarrow> ask (Start mgr); emit (Ran err); ret err })
         (ret 0)))))))"

section \<open>The start-up sequence\<close>

text \<open>What is done before the manager runs, when nothing fails.\<close>

definition ready_to_run :: "'x env \<Rightarrow> flags \<Rightarrow> NodeDisruptionReconcilerConfig \<Rightarrow> string list \<Rightarrow> 'x startup list" where
  "ready_to_run env fl config types =
     [Made (manager_options_of fl) None, Registered (nd_controller env config) None,
      Registered (adb_controller env types) None, Registered (ndb_controller env types) None,
      Probe ''healthz'' None, Probe ''readyz'' None]"

definition exits_with :: "int \<Rightarrow> 'x startup list \<Rightarrow> bool" where
  "exits_with code es \<longleftrightarrow> (if code = 0 then last es = Ran None
     else code = 1 \<and> (\<exists>msg e. es \<noteq> [] \<and> last es = SetupError msg e))"

definition runs :: "'x startup \<Rightarrow> bool" where
  "runs e \<longleftrightarrow> (\<exists>r. e = Ran r)"

lemma runs_simps [simp]: "runs (Ran r)" "\<not> runs (Made m r)" "\<not> runs (Registered c r)"
    "\<not> runs (Probe n r)" "\<not> runs (SetupError msg err)"
  by (auto simp: runs_def)

definition orderly :: "'x env \<Rightarrow> flags \<Rightarrow> int \<Rightarrow> 'x startup list \<Rightarrow> bool" where
  "orderly env fl code es \<longleftrightarrow> exits_with code es \<and>
     (if list_ex runs es then
        (\<exists>config types r. configure (lib env) fl = Inr (config, types) \<and>
           take 7 es = ready_to_run env fl config types @ [Ran r])
      else code = 1)"

text \<open>One step of the sequence: it either ends the program with its error or lets the rest run.\<close>

lemma sat_must:
  assumes fails: "\<And>e. R 1 [ev (Some e), SetupError msg e]"
    and goes_on: "sat rest (\<lambda>c es. R c (ev None # es))"
  shows "sat (must msg (do { err \<leftarrow> ask f; emit (ev err); ret err }) rest) R"
proof -
  have "sat (do { err \<leftarrow> ask f; emit (ev err); ret err }) (\<lambda>r es. es = [ev r])"
    by (rule sat_intros)+ simp
  then show ?thesis
    unfolding must_def by (rule sat_bind) (auto intro!: sat_intros goes_on fails split: option.split)
qed

lemma sat_main: "sat (main env mgr fl) (orderly env fl)"
  unfolding main_def SetupWithManager_def
  by (intro sat_must sat_sum sat_prod sat_emit_bind sat_ret;
      simp add: orderly_def exits_with_def ready_to_run_def)


section \<open>Events reach the budgets they concern\<close>

primrec kind_of :: "watched_object \<Rightarrow> object_kind option" where
  "kind_of (PodObject _) = Some Pod_kind"
| "kind_of (PVCObject _) = Some PersistentVolumeClaim_kind"
| "kind_of (NodeObject _) = Some Node_kind"
| "kind_of (NodeDisruptionObject _) = Some NodeDisruption_kind"
| "kind_of (OtherObject _) = None"

text \<open>
  What a controller of budgets owes to the budgets it reconciles: every kind of object that can
  concern one is watched, and all its watches dispatch events by the same loop.
\<close>

locale dispatching_controller =
  fixes ctl :: "'x controller"
    and concerns :: "'b \<Rightarrow> watched_object \<Rightarrow> error + bool"
    and listing :: "string option \<Rightarrow> 'x \<Rightarrow> (error + 'b list) \<times> 'x"
    and meta :: "'b \<Rightarrow> ObjectMeta"
  assumes watched: "concerns b obj = Inr True \<Longrightarrow> \<exists>w \<in> set (ctl_Watches ctl). kind_of obj = Some (w_Kind w)"
    and dispatched: "w \<in> set (ctl_Watches ctl) \<Longrightarrow> w_MapFunc w obj = do {
      bs \<leftarrow> ask (listing (Some (om_Namespace (object_meta obj))));
      ret (case bs of
         Inl err \<Rightarrow> Inr []
       | Inr items \<Rightarrow> requests_loop (\<lambda>b. concerns b obj) meta items []) }"
begin

lemma event_reaches:
  assumes listed: "listing (Some (om_Namespace (object_meta obj))) (ext s) = (Inr bs, x)"
    and valid: "list_all (\<lambda>b. \<exists>m. concerns b obj = Inr m) bs"
    and concerned: "concerns b obj = Inr True"
  shows "\<exists>w \<in> set (ctl_Watches ctl). kind_of obj = Some (w_Kind w) \<and>
     run_state (w_MapFunc w obj) s =
       (Inr (map (\<lambda>b. (om_Namespace (meta b), om_Name (meta b))) (filter (\<lambda>b. concerns b obj = Inr True) bs)),
        s\<lparr>ext := x\<rparr>)"
proof -
  have "requests_loop (\<lambda>b. concerns b obj) meta bs [] =
    Inr (map (\<lambda>b. (om_Namespace (meta b), om_Name (meta b))) (filter (\<lambda>b. concerns b obj = Inr True) bs))"
    using valid by (simp add: requests_loop_eq)
  moreover from watched [OF concerned] obtain w where "w \<in> set (ctl_Watches ctl)" "kind_of obj = Some (w_Kind w)"
    by blast
  ultimately show ?thesis using listed by (intro bexI [of _ w]) (simp_all add: dispatched)
qed

end

interpretation adb_events: dispatching_controller "adb_controller env types"
    "adb_SelectorMatchesObject (lib env)" "list_adb (kube env)" adb_meta for env types
proof
  fix b obj
  assume "adb_SelectorMatchesObject (lib env) b obj = Inr True"
  then show "\<exists>w \<in> set (ctl_Watches (adb_controller env types)). kind_of obj = Some (w_Kind w)"
    by (cases obj) (simp_all add: adb_SelectorMatchesObject_def adb_controller_def)
qed (auto simp: adb_controller_def adb_MapFunc_def)

interpretation ndb_events: dispatching_controller "ndb_controller env types"
    "ndb_SelectorMatchesObject (lib env)" "list_ndb (kube env)" ndb_meta for env types
proof
  fix b obj
  assume "ndb_SelectorMatchesObject (lib env) b obj = Inr True"
  then show "\<exists>w \<in> set (ctl_Watches (ndb_controller env types)). kind_of obj = Some (w_Kind w)"
    by (cases obj) (simp_all add: ndb_SelectorMatchesObject_def ndb_controller_def)
qed (auto simp: ndb_controller_def ndb_MapFunc_def)


end
