(* ===== verification/Status_Shape.thy ===== *)
theory Status_Shape
  imports Nd_Controller
begin

text \<open>
  The shape of a disruption's status: which statuses of budgets, dates and node lists go with which
  state.  Every status that the controller writes has it, whatever the environment answers.
\<close>

section \<open>Well-formed statuses\<close>

text \<open>An approval gives no reason, and a refusal that is not a preparation gives one.\<close>

definition budget_status_ok :: "DisruptedBudgetStatus \<Rightarrow> bool" where
  "budget_status_ok st \<longleftrightarrow> (Ok st \<longrightarrow> Reason st = '''') \<and> (\<not> Ok st \<and> \<not> Preparing st \<longrightarrow> Reason st \<noteq> '''')"

text \<open>
  An unknown disruption has been validated against nothing; a pending one that was has a date for the
  next attempt or a budget that prepares; a granted one has approvals only; a rejected one has a
  refusal, and no next attempt.
\<close>

definition state_ok :: "NodeDisruptionStatus \<Rightarrow> bool" where
  "state_ok st \<longleftrightarrow> (let sts = elems (DisruptedDisruptionBudgets st) in
     (case nd_State st of
        Unknown \<Rightarrow> sts = [] \<and> NextRetryDate st = 0
      | Pending \<Rightarrow> NextRetryDate st \<noteq> 0 \<or> sts = [] \<or> (\<exists>s \<in> set sts. Preparing s)
      | Granted \<Rightarrow> list_all Ok sts
      | Rejected \<Rightarrow> NextRetryDate st = 0 \<and> (\<exists>s \<in> set sts. \<not> Ok s)))"

definition status_ok :: "NodeDisruptionStatus \<Rightarrow> bool" where
  "status_ok st \<longleftrightarrow> list_all budget_status_ok (elems (DisruptedDisruptionBudgets st)) \<and> state_ok st \<and>
     sorted (elems (DisruptedNodes st)) \<and> distinct (elems (DisruptedNodes st))"

lemma failed_status_ok [simp]: "budget_status_ok (failed_status ref reason) \<longleftrightarrow> reason \<noteq> ''''"
  by (simp add: budget_status_ok_def failed_status_def)

lemma state_ok_nodes [simp]: "state_ok (st\<lparr>DisruptedNodes := nodes\<rparr>) = state_ok st"
  by (cases "nd_State st") (simp_all add: state_ok_def Let_def)

section \<open>The statuses that validations answer\<close>

abbreviation all_ok :: "bool \<times> DisruptedBudgetStatus slice \<Rightarrow> bool" where
  "all_ok res \<equiv> list_all budget_status_ok (elems (snd res))"

lemma check_budget_ok: "sat (check_budget env ndr cur b) (\<lambda>st _. budget_status_ok st)"
proof -
  have "sat (v2HookCheck env ndr b c) (\<lambda>st _. budget_status_ok st)" for c
    unfolding v2HookCheck_def Let_def
    by (auto intro!: sat_intros sat_bind [OF bud.prepare_law] sat_bind [OF bud.ready_law] simp: budget_status_ok_def)
  moreover have "sat (legacyHookCheck env ndr b) (\<lambda>st _. budget_status_ok st)"
    unfolding legacyHookCheck_def Let_def
    by (auto intro!: sat_intros sat_bind [OF bud.health_law] simp: budget_status_ok_def failed_status_def)
  ultimately show ?thesis
    unfolding check_budget_def by (simp add: sat_if)
qed

lemma hook_loop_ok:
  "list_all budget_status_ok (elems sts) \<Longrightarrow> sat (hook_loop env ndr cur bs failed sts) (\<lambda>res _. all_ok res)"
proof (induction bs arbitrary: failed sts)
  case Nil
  then show ?case by (simp add: sat_ret)
next
  case (Cons b bs)
  then show ?case
    unfolding hook_loop.simps by (intro sat_bind [OF check_budget_ok]) (simp add: Cons.IH)
qed

lemma budget_constraints_ok: "sat (ValidateWithBudgetConstraints env ndr bs cur) (\<lambda>res _. all_ok res)"
  unfolding ValidateWithBudgetConstraints_def Let_def select_loop_eq
  by (auto intro!: sat_intros hook_loop_ok split: option.split)

lemma internal_ok:
  assumes "list_all budget_status_ok (elems (DisruptedDisruptionBudgets (ndr_Status ndr)))"
  shows "sat (ValidateWithInternalConstraints env ndr) (\<lambda>r _. on_success (\<lambda>res. fst res \<longrightarrow> all_ok res) r)"
proof -
  have overlap: "fst (overlap_loop ndr ns items) \<Longrightarrow> budget_status_ok (snd (overlap_loop ndr ns items))" for ns items
    by (simp add: overlap_loop_eq overlap_reason_def split: option.splits)
  have "sat (ValidateOverlappingDisruption env ndr ns) (\<lambda>r _. on_success (\<lambda>(failed, st). failed \<longrightarrow> budget_status_ok st) r)" for ns
    unfolding ValidateOverlappingDisruption_def
    by (auto intro!: sat_intros simp: case_prod_unfold overlap split: sum.split)
  then have "sat (do { r \<leftarrow> ValidateOverlappingDisruption env ndr ns;
       ret (case r of Inl err \<Rightarrow> Inl err | Inr (anyFailed, status) \<Rightarrow> Inr (anyFailed, Slice [status])) })
     (\<lambda>r _. on_success (\<lambda>res. fst res \<longrightarrow> all_ok res) r)" for ns
    by (rule sat_bind) (auto intro!: sat_ret split: sum.splits)
  then show ?thesis
    unfolding ValidateWithInternalConstraints_def Let_def
    using assms by (auto intro!: sat_if sat_ret sat_bind [OF AfterDeadline_law [OF clock_within_True]])
qed

lemma attempt_statuses_ok:
  assumes "list_all budget_status_ok (elems (DisruptedDisruptionBudgets (ndr_Status ndr)))"
  shows "sat (tryTransitionToGranted env ndr) (\<lambda>r _. on_success (\<lambda>ndr'.
     list_all budget_status_ok (elems (DisruptedDisruptionBudgets (ndr_Status ndr')))) r)"
proof -
  have "sat (if \<not> failed
       then ValidateWithBudgetConstraints env ndr bs (DisruptedDisruptionBudgets (ndr_Status ndr))
       else ret (failed, sts)) (\<lambda>res _. all_ok res)"
    if "failed \<longrightarrow> list_all budget_status_ok (elems sts)" for failed sts bs
    using that by (auto intro!: sat_if sat_ret budget_constraints_ok)
  note budgets = this
  have decide: "sat (decide env ndr date retry failed sts) (\<lambda>_ _. True)" for date retry failed sts
    unfolding decide_def Let_def
    by (auto intro!: sat_if sat_ret sat_Now_bind sat_bind [OF AfterDeadline_law [OF clock_within_True]])
  have "sat (attempt_with env ndr retry bs) (\<lambda>r _. on_success (\<lambda>ndr'.
     list_all budget_status_ok (elems (DisruptedDisruptionBudgets (ndr_Status ndr')))) r)" for retry bs
    unfolding attempt_with_def
    by (rule sat_bind [OF internal_ok [OF assms]])
      (auto intro!: sat_sum sat_ret sat_prod sat_bind [OF budgets] sat_bind [OF decide])
  then show ?thesis
    unfolding tryTransition_attempt
    by (intro sat_bind [OF getRetryDate_law [OF clock_within_True]] sat_bind [OF budgets_within_sync [unfolded budgets_within_def]])
      (auto intro!: sat_sum sat_ret)
qed

section \<open>Transitions\<close>

lemma transition_state_ok:
  assumes "transition_result P L B l ndr ndr' es"
  shows "state_ok (ndr_Status ndr')"
proof -
  from assms obtain bs retry failed sts s d es1 where
      v: "validated P L l ndr bs failed sts es1" and dec: "decided P ndr retry failed sts s d" and
      ndr': "ndr' = set_status ((ndr_Status ndr)\<lparr>DisruptedDisruptionBudgets := sts, nd_State := s,
        NextRetryDate := d\<rparr>) ndr"
    unfolding transition_result_def attempt_result_def by blast
  from dec have s: "s \<in> {Pending, Granted, Rejected}" by (auto simp: decided_def split: if_splits)
  have pending: "d \<noteq> 0 \<or> (\<exists>s \<in> set (elems sts). Preparing s)" if "s = Pending"
    using dec that by (auto simp: decided_def list_all_iff split: if_splits)
  have granted: "list_all Ok (elems sts)" if "s = Granted"
  proof -
    from dec that have "\<not> failed" by (auto simp: decided_def split: if_splits)
    with v have "budget_result l ndr bs False sts es1" by (auto simp: validated_def split: if_splits)
    then show ?thesis by (rule granted_answers(3))
  qed
  have rejected: "d = 0 \<and> (\<exists>s \<in> set (elems sts). \<not> Ok s)" if "s = Rejected"
  proof
    from dec that have failed: failed and "d = 0" by (auto simp: decided_def split: if_splits)
    then show "d = 0" by blast
    from v failed have "(\<exists>t. internal_result L ndr t True sts) \<or> budget_result l ndr bs True sts es1"
      unfolding validated_def by (auto split: if_splits)
    then show "\<exists>s \<in> set (elems sts). \<not> Ok s"
    proof
      assume "\<exists>t. internal_result L ndr t True sts"
      then obtain old where "fails_after ndr old (elems sts)" by (auto simp: internal_result_def split: if_splits)
      then show ?thesis by (auto simp: fails_after_def dest: own_failureD)
    next
      assume "budget_result l ndr bs True sts es1"
      then show ?thesis
        by (auto simp: budget_result_def list_all_iff failed_status_def split: option.splits)
    qed
  qed
  show ?thesis
    using s pending granted rejected unfolding state_ok_def Let_def ndr' by auto
qed

lemma transition_ok:
  assumes "status_ok (ndr_Status ndr)"
  shows "sat (TryTransitionState env ndr) (\<lambda>r _. on_success (\<lambda>ndr'. status_ok (ndr_Status ndr')) r)"
proof (cases "nd_State (ndr_Status ndr) = Pending")
  case True
  have sts: "list_all budget_status_ok (elems (DisruptedDisruptionBudgets (ndr_Status ndr)))"
    using assms by (simp add: status_ok_def)
  have "sat (TryTransitionState env ndr) (\<lambda>r _. on_success (\<lambda>ndr'.
     list_all budget_status_ok (elems (DisruptedDisruptionBudgets (ndr_Status ndr')))) r)"
    unfolding TryTransitionState_def using True
    by (auto intro!: sat_bind [OF attempt_statuses_ok [OF sts]] sat_sum sat_metrics_bind sat_ret)
  from sat_conj [OF this transition_law [OF True clock_within_True lists_within_True budgets_within_sync]]
  show ?thesis
  proof (rule sat_weaken)
    show "on_success (\<lambda>ndr'. status_ok (ndr_Status ndr')) r"
      if "on_success (\<lambda>ndr'. list_all budget_status_ok (elems (DisruptedDisruptionBudgets (ndr_Status ndr')))) r \<and>
        list_all mild es \<and> on_success (\<lambda>ndr'. transition_result (\<lambda>_. True) (\<lambda>_. True)
          (list_all (budget_in_sync (lib env))) (lib env) ndr ndr' es) r" for r es
      using that assms by (cases r) (auto simp: status_ok_def transition_state_ok transition_keeps(5))
  qed
next
  case False
  with assms show ?thesis
    unfolding TryTransitionState_def
    by (cases "nd_State (ndr_Status ndr)") (auto intro!: sat_ret simp: status_ok_def state_ok_def)
qed

lemma Reconcile_single_ok:
  assumes "status_ok (ndr_Status ndr)"
  shows "sat (Reconcile_single env ndr) (\<lambda>r _. on_success (\<lambda>ndr'. status_ok (ndr_Status ndr')) r)"
proof -
  have "status_ok (ndr_Status (set_status ((ndr_Status ndr)\<lparr>DisruptedNodes := Slice (NodeSetToStringList ns)\<rparr>) ndr))" for ns
    using assms by (simp add: status_ok_def ns.to_list_sorted ns.to_list_distinct)
  then have "sat (Sync env ndr) (\<lambda>r _. on_success (\<lambda>ndr'. status_ok (ndr_Status ndr')) r)"
    unfolding Sync_def by (intro sat_resolver_bind sat_ret) (auto split: sum.split)
  then show ?thesis
    unfolding Reconcile_single_def by (rule sat_bind) (auto intro!: sat_sum sat_ret transition_ok)
qed

section \<open>The controller\<close>

text \<open>No effect of \<open>es\<close> writes an ill-formed status.\<close>

fun writes_ok :: "effect \<Rightarrow> bool" where
  "writes_ok (StatusND nd _) \<longleftrightarrow> status_ok (nd_Status nd)"
| "writes_ok e \<longleftrightarrow> True"

lemma not_write_ok: "\<not> is_write e \<Longrightarrow> writes_ok e"
  by (cases e) simp_all

lemma mild_writes_ok: "list_all mild es \<Longrightarrow> list_all writes_ok es"
  by (auto simp: list_all_iff mild_def intro: not_write_ok)

text \<open>The status of a disruption that was just created.\<close>

definition new_status :: NodeDisruptionStatus where
  "new_status = \<lparr>nd_State = Unknown, DisruptedDisruptionBudgets = NilSlice, DisruptedNodes = NilSlice,
     NextRetryDate = 0\<rparr>"

lemma new_status_ok: "status_ok new_status"
  by (simp add: status_ok_def state_ok_def new_status_def)

lemma handleFinalizer_ok: "sat (handleFinalizer env nd sndr) (\<lambda>_ es. list_all writes_ok es)"
  unfolding handleFinalizer_def
  by (auto intro!: sat_intros sat_bind [OF sat_Update_nd] sat_bind [OF terminate_mild]
      intro: mild_writes_ok split: sum.splits)

lemma reconcile_disruption_ok:
  assumes "status_ok (nd_Status nd)"
  shows "sat (reconcile_disruption env nd \<lparr>ndr_ND = nd, ndr_Config = config\<rparr>) (\<lambda>_ es. list_all writes_ok es)"
proof -
  have update: "sat (UpdateStatus env ndr') (\<lambda>r es. es = [StatusND (ndr_ND ndr') r])" for ndr'
    unfolding UpdateStatus_def StatusUpdate_nd_def by (auto intro!: sat_intros)
  have single: "sat (Reconcile_single env \<lparr>ndr_ND = nd, ndr_Config = config\<rparr>)
      (\<lambda>r es. list_all writes_ok es \<and> on_success (\<lambda>ndr'. status_ok (ndr_Status ndr')) r)"
    by (rule sat_weaken [OF sat_conj [OF Reconcile_single_law Reconcile_single_ok]])
      (use assms in \<open>auto intro: mild_writes_ok\<close>)
  show ?thesis
    unfolding reconcile_disruption_def
    by (intro sat_metrics_bind sat_Now_bind sat_if sat_ret sat_bind [OF single])
      (auto intro!: sat_sum sat_if sat_ret sat_bind [OF update] sat_option simp: list_all_iff)
qed

text \<open>
  C5: Well-formed statuses.  When the status that a disruption has in the API is well formed, as that of
  a new one is, then so is every status that a call of \<open>Reconcile\<close> writes, whatever configuration it
  runs with and whatever the environment answers: approvals without a reason and refusals with one, nodes
  sorted and without duplicates, a granted disruption with approvals only, a rejected one with a refusal
  and no further date, and a pending one with a further date or a budget that prepares.
\<close>

theorem written_statuses_well_formed:
  assumes "\<And>nd. fst (get_nd (kube env) req x) = Inr nd \<Longrightarrow> status_ok (nd_Status nd)"
  shows "list_all writes_ok (trace (snd (run_state (nd_Reconcile env config req) (start x))))"
proof -
  obtain r x' where read: "get_nd (kube env) req x = (r, x')" by fastforce
  let ?rest = "case r of
      Inl err \<Rightarrow>
        if IsNotFound err then do {
          metrics (PruneNodeDisruptionMetrics (snd req));
          ret (empty_Result, None) }
        else ret (empty_Result, Some err)
    | Inr nd \<Rightarrow> do {
        r \<leftarrow> handleFinalizer env nd \<lparr>ndr_ND = nd, ndr_Config = config\<rparr>;
        (case r of
           Inl err \<Rightarrow> ret (empty_Result, Some err)
         | Inr continueReconcile \<Rightarrow>
             if \<not> continueReconcile then ret (empty_Result, None)
             else reconcile_disruption env nd \<lparr>ndr_ND = nd, ndr_Config = config\<rparr>) }"
  have "sat ?rest (\<lambda>_ es. list_all writes_ok es)"
    using assms read
    by (auto intro!: sat_sum sat_if sat_metrics_bind sat_ret sat_bind [OF handleFinalizer_ok]
        sat_weaken [OF reconcile_disruption_ok] simp: list_all_iff)
  from sat_run [OF this, of "start x'"]
  have "list_all writes_ok (trace (snd (run_state ?rest (start x'))))" by (simp add: start_def)
  moreover have "run_state (ask (get_nd (kube env) req)) (start x) = (r, start x')" by (simp add: read start_def)
  ultimately show ?thesis
    unfolding nd_Reconcile_def Let_def by (simp only: State_Monad.run_state_bind prod.case)
qed

end
