(* ===== verification/Run_Witnesses.thy ===== *)
theory Run_Witnesses
  imports Retry_Witnesses Sample_Server Progress Startup Status_Shape
begin

text \<open>
  The properties of runs, witnessed on the sample server: a run that grants a disruption while somebody
  else deletes another one.
\<close>

section \<open>A run that grants\<close>

definition created :: NodeDisruption where
  "created = with_finalizers [FinalizerName]
     (maintenance\<lparr>nd_meta := (nd_meta maintenance)\<lparr>om_CreationTimestamp := unix_epoch\<rparr>\<rparr>)"

definition refused :: NodeDisruption where
  "refused = sample_nd ''d2'' (any_of ''rack'' ''a'') Rejected"

definition requested :: cluster where
  "requested = (app_cluster (app_budget 1))\<lparr>c_nds := [created, refused]\<rparr>"

abbreviation view_at :: "server \<Rightarrow> view" where
  "view_at \<equiv> sv_view requested"

lemma requested_lists [simp]:
  "c_nds requested = [created, refused]" "c_adbs requested = [app_budget 1]" "c_ndbs requested = []"
  by (simp_all add: requested_def app_cluster_def three_nodes_def empty_cluster_def)

definition after_grant :: server where
  "after_grant = ext (snd (run_state (nd_Reconcile (server_env requested) sample_config ('''', ''d1'')) (start (serve requested))))"

lemma granted_after: "map (\<lambda>nd. (om_Name (nd_meta nd), nd_State (nd_Status nd))) (sv_nds after_grant) = [(''d1'', Granted)]"
  by code_simp

lemma created_name: "object_key created = ('''', ''d1'')" "object_key refused = ('''', ''d2'')"
  by (simp_all add: object_key_def meta_key_def created_def refused_def with_finalizers_def maintenance_def with_nodes_def
      sample_nd_def named_def)

lemma requested_sound: "sound sample_lib (state_of requested (serve requested))"
proof (rule sound_serve)
  show "view_ok sample_lib (view_at (serve requested))"
    by (simp add: view_ok_def sane_adb_def app_budget_def sample_adb_def created_name)
  show "one_version nd_meta (set (c_nds requested))"
    using created_name by (auto simp: one_version_def same_version_def object_key_def)
qed (simp_all add: one_version_def)

lemma requested_none: "granted_tickets (view_at (serve requested)) = {}"
  by code_simp

lemma granted_some: "granted_tickets (view_at after_grant) \<noteq> {}"
proof -
  obtain nd where "sv_nds after_grant = [nd]" "nd_State (nd_Status nd) = Granted"
    using granted_after by (auto simp: map_eq_Cons_conv)
  then show ?thesis by (auto simp: granted_tickets_def sv_view_def)
qed

lemma requested_limited: "limits sample_lib (view_at (serve requested)) \<noteq> {}"
proof -
  have "adb_limit sample_lib (view_at (serve requested)) (app_budget 1) \<in> limits sample_lib (view_at (serve requested))"
    by (simp add: limits_def adb_limits_def app_budget_def sample_adb_def)
  then show ?thesis by blast
qed


theorem written_statuses_well_formed_witness:
  "list_all writes_ok (trace (snd (run_state (nd_Reconcile (server_env requested) sample_config ('''', ''d1'')) (start (serve requested))))) \<and>
   map (\<lambda>nd. (om_Name (nd_meta nd), nd_State (nd_Status nd))) (sv_nds after_grant) = [(''d1'', Granted)]"
proof
  have "fst (get_nd (kube (server_env requested)) ('''', ''d1'') (serve requested)) = Inr created"
    using created_name by (simp add: server_env_def server_kube_def serve_def sample_get_def om_key_def object_key_def meta_key_def)
  moreover have "status_ok (nd_Status created)"
    by (simp add: status_ok_def state_ok_def created_def with_finalizers_def maintenance_def with_nodes_def sample_nd_def)
  ultimately have "status_ok (nd_Status nd)"
    if "fst (get_nd (kube (server_env requested)) ('''', ''d1'') (serve requested)) = Inr nd" for nd
    using that by simp
  then show "list_all writes_ok (trace (snd (run_state (nd_Reconcile (server_env requested) sample_config ('''', ''d1'')) (start (serve requested)))))"
    by (rule written_statuses_well_formed)
qed (rule granted_after)

lemma grant_reached: "(system_step (server_env requested) (state_of requested))\<^sup>*\<^sup>* (serve requested) after_grant"
proof -
  obtain res w where "run_state (nd_Reconcile (server_env requested) sample_config ('''', ''d1'')) (start (serve requested)) = (res, w)"
    by fastforce
  from system_step.disruption [OF this, of "state_of requested"] this have "system_step (server_env requested) (state_of requested) (serve requested) after_grant"
    by (simp add: after_grant_def)
  then show ?thesis by blast
qed


definition budget_synced :: server where
  "budget_synced = ext (snd (run_state (adb_Reconcile (server_env requested) [] (''app'', ''b1'')) (start (serve requested))))"


section \<open>Two attempts\<close>

fun good_urls :: "Budget \<Rightarrow> bool" where
  "good_urls (ApplicationBudget r) \<longleftrightarrow>
     URL (HealthHook (adbr_Spec r)) \<noteq> ''bad'' \<and> URL (HookV2BasePath (adbr_Spec r)) \<noteq> ''bad''"
| "good_urls (NodeBudget r) \<longleftrightarrow> True"

lemma callable_sample: "good_urls b \<Longrightarrow> callable sample_lib b"
  by (cases b) (simp_all add: sample_lib_def)

definition two_attempts :: "(effect, unit, error + SNDR) io" where
  "two_attempts = do { r \<leftarrow> TryTransitionState (frozen_env (app_cluster hooked)) (reconciler maintenance);
     (case r of Inl err \<Rightarrow> ret (Inl err) | Inr ndr' \<Rightarrow> TryTransitionState (frozen_env (app_cluster hooked)) ndr') }"

lemma hooked_budgets:
  obtains bs where "budgets_at (frozen_env (app_cluster hooked)) () = Inr bs"
    and "list_all (\<lambda>b. TolerateDisruption b (nodes_of_status (reconciler maintenance)) \<and> good_urls b) bs"
proof -
  have "case budgets_at (frozen_env (app_cluster hooked)) () of Inl _ \<Rightarrow> False
      | Inr bs \<Rightarrow> list_all (\<lambda>b. TolerateDisruption b (nodes_of_status (reconciler maintenance)) \<and> good_urls b) bs"
    by code_simp
  with that show thesis by (auto split: sum.splits)
qed

theorem granted_within_two_attempts_witness:
  "(\<exists>ndr'. fst (run_state two_attempts (start ())) = Inr ndr' \<and> nd_State (ndr_Status ndr') = Granted) \<and>
   outcome Pending (fst (run_state (TryTransitionState (frozen_env (app_cluster hooked)) (reconciler maintenance)) (start ())))"
proof
  let ?env = "frozen_env (app_cluster hooked)" and ?ndr = "reconciler maintenance"
  from hooked_budgets obtain bs where bs: "budgets_at ?env () = Inr bs"
      and all: "list_all (\<lambda>b. TolerateDisruption b (nodes_of_status ?ndr) \<and> good_urls b) bs" .
  have "sat two_attempts (\<lambda>r _. \<exists>ndr'. r = Inr ndr' \<and> nd_State (ndr_Status ndr') = Granted)"
    unfolding two_attempts_def
  proof (rule granted_within_two_attempts)
    show "nd_State (ndr_Status ?ndr) = Pending" by simp
    show "cooperative ?env"
      by (simp add: cooperative_def frozen_env_def frozen_net_def sample_net_def sample_lib_def app_cluster_def
          three_nodes_def empty_cluster_def)
    have "nd_Spec maintenance = nd_Spec (sample_nd ''d1'' (any_of ''rack'' ''a'') Pending)"
      by (simp add: maintenance_def with_nodes_def)
    then show "admissible ?env ?ndr"
      by (simp add: admissible_def clock_within_def sample_config_def sample_nd_def IsAfterDeadline_def
          frozen_env_def frozen_kube_def sample_kube_def app_cluster_def three_nodes_def empty_cluster_def)
    have "still x (GetAllBudgetsInSync ?env) (Inr bs)" for x
      using still_budgets [OF cluster_frozen [of "app_cluster hooked" x]] bs by simp
    then show "sat (GetAllBudgetsInSync ?env) (\<lambda>r _. r = Inr bs)"
      by (rule sat_weaken [OF still_sat]) simp
    show "list_all (\<lambda>b. concerned ?ndr (nodes_of_status ?ndr) b \<longrightarrow>
      TolerateDisruption b (nodes_of_status ?ndr) \<and> callable (lib ?env) b) bs"
      using all callable_sample by (auto simp: list_all_iff frozen_env_def)
  qed
  from sat_run [OF this, of "start ()", OF start_trace]
  show "\<exists>ndr'. fst (run_state two_attempts (start ())) = Inr ndr' \<and> nd_State (ndr_Status ndr') = Granted" .
  show "outcome Pending (fst (run_state (TryTransitionState ?env ?ndr) (start ())))" by code_simp
qed

section \<open>An event\<close>


end
