(* ===== verification/Life_Witness.thy ===== *)
theory Life_Witness
  imports Lifecycle Run_Witnesses
begin

text \<open>
  The life of a disruption, witnessed: a disruption that has just been requested, a budget with a hook of
  version 2, and four calls a minute from each other.
\<close>

section \<open>A server that keeps one disruption\<close>

text \<open>The state is the stored disruption; everything else is that of a cluster \<open>c\<close>.\<close>

definition next_version :: "NodeDisruption \<Rightarrow> string" where
  "next_version stored = CHR ''x'' # om_ResourceVersion (nd_meta stored)"

definition keep_nd :: "(NodeDisruption \<Rightarrow> string \<Rightarrow> NodeDisruption \<Rightarrow> NodeDisruption) \<Rightarrow> NodeDisruption \<Rightarrow> NodeDisruption \<Rightarrow> NodeDisruption" where
  "keep_nd put nd x = (if same_version nd_meta nd x then put nd (next_version x) x else x)"

definition keeper_kube :: "cluster \<Rightarrow> NodeDisruption kube" where
  "keeper_kube c = \<lparr>
     get_nd = (\<lambda>key x. (Inr x, x)),
     get_adb = (\<lambda>key x. (fst (get_adb sample_kube key c), x)),
     get_ndb = (\<lambda>key x. (fst (get_ndb sample_kube key c), x)),
     get_pv = (\<lambda>key x. (fst (get_pv sample_kube key c), x)),
     list_nd = (\<lambda>x. (Inr [x], x)),
     list_adb = (\<lambda>ns x. (fst (list_adb sample_kube ns c), x)),
     list_ndb = (\<lambda>ns x. (fst (list_ndb sample_kube ns c), x)),
     list_nodes = (\<lambda>ls fs x. (fst (list_nodes sample_kube ls fs c), x)),
     list_pods = (\<lambda>ns s x. (fst (list_pods sample_kube ns s c), x)),
     list_pvcs = (\<lambda>ns s x. (fst (list_pvcs sample_kube ns s c), x)),
     update_nd = (\<lambda>nd x. (if same_version nd_meta nd x then Inr (keep_nd put_object_nd nd x) else Inl (ErrLib ''conflict''),
       keep_nd put_object_nd nd x)),
     update_adb = (\<lambda>adb x. (Inr adb, x)),
     update_ndb = (\<lambda>ndb x. (Inr ndb, x)),
     status_nd = (\<lambda>nd x. (if same_version nd_meta nd x then None else Some (ErrLib ''conflict''), keep_nd put_status_nd nd x)),
     status_adb = (\<lambda>adb x. (None, x)),
     status_ndb = (\<lambda>ndb x. (None, x)) \<rparr>"

definition keeper_env :: "cluster \<Rightarrow> NodeDisruption env" where
  "keeper_env c = \<lparr>lib = sample_lib, kube = keeper_kube c,
     net = \<lparr>net_roundtrip = (\<lambda>tr oper x. (Inr \<lparr>rsp_Code = 200, rsp_Header = (\<lambda>_. ''5''), rsp_Body = ConsumedEOF\<rparr>, x)),
       http_Do = (\<lambda>url data hdrs t x. (Inr \<lparr>StatusCode = 200, hr_Body = ''body''\<rparr>, x)),
       io_ReadAll = (\<lambda>r x. (Inr (hr_Body r), x))\<rparr>,
     clock = (\<lambda>x. (c_now c, x))\<rparr>"

lemma keeper_lib [simp]: "lib (keeper_env c) = sample_lib"
  by (simp add: keeper_env_def)

lemma keeper_stable: "cluster_stable (keeper_env c) x"
  by (simp add: cluster_stable_def reads_stable_def nodes_stable_def keeper_env_def keeper_kube_def)

lemma keeper_stores: "stores (keeper_env c) req (\<lambda>x. x)"
proof -
  have "world_order (\<lambda>x y. y = x) (keeper_env c)"
    by unfold_locales (simp_all add: keeper_env_def keeper_kube_def)
  then show ?thesis
    by (auto simp: stores_def keeper_env_def keeper_kube_def keep_nd_def)
qed

section \<open>Four calls\<close>

definition lenient :: NodeDisruptionReconcilerConfig where
  "lenient = sample_config\<lparr>RejectOverlappingDisruption := False\<rparr>"

definition brand_new :: NodeDisruption where
  "brand_new = (let nd = sample_nd ''d1'' (any_of ''rack'' ''a'') Unknown
     in nd\<lparr>nd_Spec := (nd_Spec nd)\<lparr>Retry := \<lparr>Enabled = True, Deadline = 0\<rparr>\<rparr>,
       nd_meta := (nd_meta nd)\<lparr>om_CreationTimestamp := unix_epoch\<rparr>\<rparr>)"

text \<open>Call \<open>i\<close> comes \<open>i\<close> minutes after the first.\<close>

definition call_env :: "nat \<Rightarrow> NodeDisruption env" where
  "call_env i = keeper_env ((app_cluster hooked)\<lparr>c_now := 10 ^ 9 + int i * (60 * 10 ^ 9)\<rparr>)"

primrec life :: "nat \<Rightarrow> NodeDisruption" where
  "life 0 = brand_new"
| "life (Suc i) = ext (snd (run_state (nd_Reconcile (call_env i) lenient ('''', ''d1'')) (start (life i))))"

definition favoured :: "nat \<Rightarrow> NodeDisruption \<Rightarrow> bool" where
  "favoured i nd \<longleftrightarrow> (case nodes_for (call_env i) nd (nd_NodeSelector (nd_Spec nd)) of
     Inl _ \<Rightarrow> False
   | Inr ns \<Rightarrow> (case budgets_at (call_env i) nd of
       Inl _ \<Rightarrow> False
     | Inr bs \<Rightarrow> (let ndr = resolved lenient ns nd in
         list_all (\<lambda>b. TolerateDisruption b (nodes_of_status ndr) \<and> good_urls b) bs \<and>
         map GetNamespacedName (filter (\<lambda>b. concerned ndr (nodes_of_status ndr) b \<and> V2HooksReady b) bs) =
           [GetNamespacedName hooked_budget] \<and>
         DoNotGrantBefore (nd_Spec nd) = 0 \<and> Deadline (Retry (nd_Spec nd)) = 0 \<and>
         NextRetryDate (nd_Status nd) \<le> 10 ^ 9 + int i * (60 * 10 ^ 9))))"

lemma favoured_favourable:
  assumes "favoured i nd"
  shows "favourable lenient {GetNamespacedName hooked_budget} (\<lambda>x. x) (call_env i) nd"
    and "clock_within (call_env i) (\<lambda>t. NextRetryDate (nd_Status nd) \<le> t)"
proof -
  let ?env = "call_env i" and ?H = "{GetNamespacedName hooked_budget}"
  have stable: "cluster_stable ?env nd" unfolding call_env_def by (rule keeper_stable)
  from assms obtain ns bs where ns: "nodes_for ?env nd (nd_NodeSelector (nd_Spec nd)) = Inr ns"
      and bs: "budgets_at ?env nd = Inr bs"
      and good: "list_all (\<lambda>b. TolerateDisruption b (nodes_of_status (resolved lenient ns nd)) \<and> good_urls b) bs"
      and names: "map GetNamespacedName (filter (\<lambda>b. concerned (resolved lenient ns nd) (nodes_of_status (resolved lenient ns nd)) b \<and>
        V2HooksReady b) bs) = [GetNamespacedName hooked_budget]"
      and dates: "DoNotGrantBefore (nd_Spec nd) = 0" "Deadline (Retry (nd_Spec nd)) = 0"
        "NextRetryDate (nd_Status nd) \<le> 10 ^ 9 + int i * (60 * 10 ^ 9)"
    by (auto simp: favoured_def Let_def split: sum.splits)
  have clock: "clock ?env = (\<lambda>x. (10 ^ 9 + int i * (60 * 10 ^ 9), x))" by (simp add: call_env_def keeper_env_def)
  have "cooperative ?env"
    by (simp add: cooperative_def call_env_def keeper_env_def sample_lib_def)
  moreover have "admissible ?env (resolved lenient ns nd)"
    by (simp add: admissible_def clock_within_def clock dates IsAfterDeadline_def lenient_def sample_config_def type_disallowed_def)
  moreover have "tolerant (lib ?env) (resolved lenient ns nd) bs"
    using good callable_sample by (auto simp: tolerant_def list_all_iff call_env_def)
  moreover have "hooked_names (resolved lenient ns nd) bs = ?H"
    using arg_cong [OF names, of set] by (simp add: hooked_names_def)
  moreover have "fst (run_state (GetNodeFromNodeSelector ?env (nd_NodeSelector (nd_Spec nd))) w) = Inr ns"
      "fst (run_state (GetAllBudgetsInSync ?env) w) = Inr bs" if "ext w = nd" for w :: "(effect, NodeDisruption) world"
    using still_nodes [of ?env nd] still_budgets [OF stable] stable that ns bs
    by (simp_all add: still_def cluster_stable_def reads_stable_def)
  ultimately show "favourable lenient ?H (\<lambda>x. x) ?env nd"
    unfolding favourable_def by blast
  show "clock_within ?env (\<lambda>t. NextRetryDate (nd_Status nd) \<le> t)"
    using dates(3) by (simp add: clock_within_def clock)
qed

lemma life_stages:
  "map (\<lambda>i. (om_Finalizers (nd_meta (life i)), nd_State (nd_Status (life i)))) [0, 1, 2, 3] =
     [([], Unknown), ([FinalizerName], Unknown), ([FinalizerName], Pending), ([FinalizerName], Pending)]"
  by code_simp

lemma life_favoured: "favoured 0 (life 0)" "favoured 1 (life 1)" "favoured 2 (life 2)" "favoured 3 (life 3)"
  by code_simp+

theorem requested_gets_granted_witness:
  "map (\<lambda>i. nd_State (nd_Status (life i))) [0, 1, 2, 3, 4] = [Unknown, Unknown, Pending, Pending, Granted] \<and>
   same_request (life 0) (life 4)"
proof -
  have favoured: "\<forall>i < 4. favoured i (life i)"
    using life_favoured by (auto simp: numeral_eq_Suc less_Suc_eq)
  have "nd_State (nd_Status (life 4)) = Granted \<and> same_request (life 0) (life 4)"
  proof (rule requested_gets_granted [where kept = "\<lambda>x. x" and e = call_env and H = "{GetNamespacedName hooked_budget}"
        and config = lenient and req = "('''', ''d1'')" and l = sample_lib])
    show "\<forall>i < 4. stores (call_env i) ('''', ''d1'') (\<lambda>x. x) \<and>
        favourable lenient {GetNamespacedName hooked_budget} (\<lambda>x. x) (call_env i) (life i) \<and> lib (call_env i) = sample_lib"
      using favoured favoured_favourable(1) keeper_stores by (simp add: call_env_def)
    show "\<forall>i < 4. clock_within (call_env i) (\<lambda>t. NextRetryDate (nd_Status (life i)) \<le> t)"
      using favoured favoured_favourable(2) by blast
  qed (simp_all add: sample_lib_def brand_new_def sample_nd_def named_def under_deletion_def Let_def)
  with life_stages show ?thesis by simp
qed

end
