(* ===== verification/Stall.thy ===== *)
theory Stall
  imports Progress Nd_Controller
begin

text \<open>
  A disruption that nobody looks at again: without retry, while an application is still preparing
  itself, a call of the controller changes nothing and asks for no other call.
\<close>

section \<open>Checks that repeat themselves\<close>

text \<open>The status that a budget gets again and again while its ready hook fails with the same error.\<close>

definition waiting :: "'x env \<Rightarrow> SNDR \<Rightarrow> Budget \<Rightarrow> DisruptedBudgetStatus \<Rightarrow> bool" where
  "waiting env ndr b st \<longleftrightarrow> V2HooksReady b \<and> (\<exists>e.
     st = \<lparr>Reference = GetNamespacedName b, Reason = ''not ready for disruption: '' @ error_string (lib env) e,
       Preparing = True, Ok = False\<rparr> \<and>
     sat (CallReadyHook env b (ndr_ND ndr) (HealthHookTimeout (ndr_Config ndr))) (\<lambda>(err, _) _. err = Some e))"

lemma waiting_check:
  assumes "waiting env ndr b st" and "status_for b cur = st"
  shows "sat (check_budget env ndr cur b) (\<lambda>st' _. st' = st)"
proof -
  from assms(1) obtain e where "V2HooksReady b" and
      st: "st = \<lparr>Reference = GetNamespacedName b, Reason = ''not ready for disruption: '' @ error_string (lib env) e,
        Preparing = True, Ok = False\<rparr>" and
      ready: "sat (CallReadyHook env b (ndr_ND ndr) (HealthHookTimeout (ndr_Config ndr))) (\<lambda>(err, _) _. err = Some e)"
    unfolding waiting_def by blast
  then show ?thesis
    unfolding check_budget_def v2HookCheck_def Let_def assms(2)
    by (auto intro!: sat_bind [OF ready] sat_ret)
qed

lemma waiting_fields:
  "waiting env ndr b st \<Longrightarrow> Reference st = GetNamespacedName b \<and> Preparing st \<and> \<not> Ok st"
  by (auto simp: waiting_def)

text \<open>When the budgets have different names, each finds its own status.\<close>

lemma status_for_nth:
  assumes "map Reference sts = map GetNamespacedName bs" and "distinct (map GetNamespacedName bs)" and "i < length bs"
  shows "status_for (bs ! i) (Slice sts) = sts ! i"
proof -
  have len: "length sts = length bs" using assms(1) by (metis length_map)
  have nth: "Reference (sts ! j) = GetNamespacedName (bs ! j)" if "j < length bs" for j
    using arg_cong [OF assms(1), of "\<lambda>xs. xs ! j"] that len by simp
  let ?P = "\<lambda>s. Reference s = GetNamespacedName (bs ! i)"
  have "\<exists>s \<in> set sts. ?P s" using nth [OF assms(3)] assms(3) len by (metis nth_mem)
  note found = IndexFunc_nth [OF this]
  let ?n = "length (takeWhile (\<lambda>s. \<not> ?P s) sts)"
  have "length sts = ?n + length (dropWhile (\<lambda>s. \<not> ?P s) sts)" by (metis length_append takeWhile_dropWhile_id)
  moreover have "dropWhile (\<lambda>s. \<not> ?P s) sts \<noteq> []" using \<open>\<exists>s \<in> set sts. ?P s\<close> by (simp add: dropWhile_eq_Nil_conv)
  ultimately have "?n < length bs" using len by simp
  moreover from found(1,2) have "?P (sts ! ?n)" by simp
  ultimately have "?n = i" using nth assms(2,3) by (simp add: distinct_conv_nth) metis
  with found(1) show ?thesis by (simp add: status_for_def)
qed

lemma repeating_hook_loop:
  assumes "list_all2 (\<lambda>b st. \<not> Ok st \<and> sat (check_budget env ndr cur b) (\<lambda>st' _. st' = st)) bs sts"
  shows "sat (hook_loop env ndr cur bs failed acc) (\<lambda>res _.
    res = (failed \<or> bs \<noteq> [], if bs = [] then acc else Slice (elems acc @ sts)))"
  using assms
proof (induction arbitrary: failed acc rule: list_all2_induct)
  case (Cons b bs st sts)
  have again: "append_slice acc [st] = Slice (elems acc @ [st])" by (simp add: append_slice_def)
  have "sat (hook_loop env ndr cur bs (if \<not> Ok st then True else failed) (append_slice acc [st]))
      (\<lambda>res _. res = (True, Slice (elems acc @ st # sts)))"
    unfolding again
    by (rule sat_weaken [OF Cons.IH]) (use Cons.hyps in auto)
  with Cons.hyps show ?case
    by (auto intro!: sat_bind)
qed (simp add: sat_ret)

text \<open>An application manager that answers ``too early'' to the ready hook again and again.\<close>

lemma too_early:
  assumes answer: "\<And>tr oper x. \<exists>rsp. fst (net_roundtrip (net env) tr oper x) = Inr rsp \<and> rsp_Code rsp = 425 \<and>
      read_RetryAfter (lib env) rsp = Inr n"
    and callable: "callable (lib env) (ApplicationBudget r)"
  shows "sat (CallReadyHook env (ApplicationBudget r) nd t)
     (\<lambda>(err, _) _. err = Some (ErrText (''retry later, in '' @ Itoa (sint n) @ '' seconds'')))"
proof -
  have submit: "sat (Submit env tr oper (CheckReadinessReader_ReadResponse (lib env)))
      (\<lambda>res _. res = Inl (ErrResponse (CheckReadinessStatus425 n)))" for tr oper
    unfolding Submit_def
    by (rule sat_ask_bind_within [where Q = "\<lambda>res. \<exists>rsp. res = Inr rsp \<and> rsp_Code rsp = 425 \<and>
        read_RetryAfter (lib env) rsp = Inr n", OF answer])
      (auto intro!: sat_intros simp: CheckReadinessReader_ReadResponse_def)
  have ready: "sat (CheckReadiness env tr p opts) (\<lambda>res _. res = Inl (ErrResponse (CheckReadinessStatus425 n)))" for tr p opts
    unfolding CheckReadiness_def Let_def by (rule sat_bind [OF submit]) (auto intro!: sat_ret simp: typed_result_def)
  from callable_client [OF callable] obtain cli r' where "hookClient (lib env) r = Inr (cli, r')" by blast
  then have "sat (adb_CallReadyHook env r nd t)
      (\<lambda>(err, _) _. err = Some (ErrText (''retry later, in '' @ Itoa (sint n) @ '' seconds'')))"
    unfolding adb_CallReadyHook_def by (auto intro!: sat_bind [OF ready] sat_intros)
  then show ?thesis
    unfolding CallReadyHook_def by (auto elim!: sat_bind intro!: sat_ret)
qed

section \<open>A call that changes nothing\<close>

lemma waiting_attempt:
  assumes adm: "admissible env ndr" and pending: "nd_State (ndr_Status ndr) = Pending"
    and tolerated: "list_all (\<lambda>b. concerned ndr (nodes_of_status ndr) b \<longrightarrow> TolerateDisruption b (nodes_of_status ndr)) bs"
    and unready: "list_all2 (waiting env ndr) (filter (concerned ndr (nodes_of_status ndr)) bs)
      (elems (DisruptedDisruptionBudgets (ndr_Status ndr)))"
    and names: "distinct (map GetNamespacedName (filter (concerned ndr (nodes_of_status ndr)) bs))"
    and some: "filter (concerned ndr (nodes_of_status ndr)) bs \<noteq> []" and date: "NextRetryDate (ndr_Status ndr) = 0"
  shows "sat (attempt_with env ndr 0 bs) (\<lambda>r _. r = Inr ndr)"
proof -
  let ?cur = "DisruptedDisruptionBudgets (ndr_Status ndr)" and ?bs = "filter (concerned ndr (nodes_of_status ndr)) bs"
  have cur: "?cur = Slice (elems ?cur)" using unready some by (cases ?cur) auto
  have none: "find (refuses ndr (nodes_of_status ndr)) bs = None"
    using tolerated by (auto simp: find_None_iff refuses_def list_all_iff)
  have "map Reference (elems ?cur) = map GetNamespacedName ?bs"
    using unready by (induction rule: list_all2_induct) (auto dest: waiting_fields)
  note own = status_for_nth [OF this names]
  have "list_all2 (\<lambda>b st. \<not> Ok st \<and> sat (check_budget env ndr ?cur b) (\<lambda>st' _. st' = st)) ?bs (elems ?cur)"
    unfolding list_all2_conv_all_nth
  proof (intro conjI allI impI)
    show len: "length ?bs = length (elems ?cur)" using unready by (rule list_all2_lengthD)
    fix i
    assume i: "i < length ?bs"
    then have "waiting env ndr (?bs ! i) (elems ?cur ! i)" by (rule list_all2_nthD [OF unready])
    moreover have "status_for (?bs ! i) ?cur = elems ?cur ! i" using own [OF i] cur by simp
    ultimately show "\<not> Ok (elems ?cur ! i)" "sat (check_budget env ndr ?cur (?bs ! i)) (\<lambda>st' _. st' = elems ?cur ! i)"
      using waiting_fields waiting_check by blast+
  qed
  from repeating_hook_loop [OF this, of False NilSlice]
  have validate: "sat (ValidateWithBudgetConstraints env ndr bs ?cur) (\<lambda>res _. res = (True, ?cur))"
    unfolding ValidateWithBudgetConstraints_def Let_def select_loop_eq none using some cur by simp
  have "list_ex Preparing (elems ?cur)"
    using unready some by (cases ?bs) (auto simp: list_all2_Cons1 dest!: waiting_fields)
  moreover have "clock_within env (\<lambda>t. DoNotGrantBefore (ndr_Spec ndr) \<le> t \<and> \<not> IsAfterDeadline t (Retry (ndr_Spec ndr)))"
    using adm by (simp add: admissible_def)
  ultimately have decide: "sat (decide env ndr (getDoNotGrantBeforeDate ndr) 0 True ?cur) (\<lambda>res _. res = (Pending, 0))"
    by (intro sat_weaken [OF decide_law]) (auto simp: decided_def list_all_iff list_ex_iff split: if_splits)
  have "set_status ((ndr_Status ndr)\<lparr>DisruptedDisruptionBudgets := ?cur, nd_State := Pending, NextRetryDate := 0\<rparr>) ndr = ndr"
    using pending date by (simp add: set_status_def)
  then show ?thesis
    unfolding attempt_with_def
    by (auto intro!: sat_bind [OF admissible_internal [OF adm]] sat_bind [OF validate] sat_bind [OF decide] sat_ret)
qed

text \<open>
  C9: A disruption without retry stalls.  Take a pending disruption that is not retried, has its
  finalizer and is not deleted, whose nodes and budgets are as its status says: every budget concerned
  tolerates it and has been asked to prepare, and its ready hook keeps failing with the error that the
  status holds.  Then a call writes nothing and asks for no further call: since only a change of the
  disruption or a date starts a call, the readiness of the application is not checked again.
\<close>

theorem unready_disruption_stalls:
  fixes nd :: NodeDisruption and config :: NodeDisruptionReconcilerConfig
  defines "ndr \<equiv> \<lparr>ndr_ND = nd, ndr_Config = config\<rparr>"
  assumes "\<forall>x. fst (get_nd (kube env) req x) = Inr nd"
    and "\<not> under_deletion (nd_meta nd)" and "ContainsFinalizer (lib env) (om_Finalizers (nd_meta nd)) FinalizerName"
    and "nd_State (nd_Status nd) = Pending" and "\<not> Enabled (Retry (nd_Spec nd))" and "NextRetryDate (nd_Status nd) = 0"
    and "\<forall>x. 0 \<le> fst (clock env x)" and "admissible env ndr"
    and "sat (GetNodeFromNodeSelector env (nd_NodeSelector (nd_Spec nd))) (\<lambda>r _. \<exists>ns. r = Inr ns \<and>
      DisruptedNodes (nd_Status nd) = Slice (NodeSetToStringList ns))"
    and "sat (GetAllBudgetsInSync env) (\<lambda>r _. r = Inr bs)"
    and "list_all (\<lambda>b. concerned ndr (nodes_of_status ndr) b \<longrightarrow> TolerateDisruption b (nodes_of_status ndr)) bs"
    and "list_all2 (waiting env ndr) (filter (concerned ndr (nodes_of_status ndr)) bs) (elems (DisruptedDisruptionBudgets (nd_Status nd)))"
    and "distinct (map GetNamespacedName (filter (concerned ndr (nodes_of_status ndr)) bs))"
    and "list_ex (concerned ndr (nodes_of_status ndr)) bs"
  shows "sat (nd_Reconcile env config req) (\<lambda>res es. res = (empty_Result, None) \<and> list_all (\<lambda>e. \<not> is_write e) es)"
proof -
  have "filter (concerned ndr (nodes_of_status ndr)) bs \<noteq> []" using assms(15) by (auto simp: list_ex_iff filter_empty_conv)
  then have attempt: "sat (attempt_with env ndr 0 bs) (\<lambda>r _. r = Inr ndr)"
    using assms by (intro waiting_attempt) simp_all
  have spec: "ndr_Spec ndr = nd_Spec nd" by (simp add: ndr_def)
  have sync: "sat (Sync env ndr) (\<lambda>r _. r = Inr ndr)"
    unfolding Sync_def spec by (rule sat_bind [OF assms(10)]) (auto intro!: sat_ret simp: ndr_def set_status_def)
  have "getRetryDate env ndr = ret 0"
    using assms(6) by (simp add: getRetryDate_def ndr_def)
  then have "sat (tryTransitionToGranted env ndr) (\<lambda>r _. r = Inr ndr)"
    unfolding tryTransition_attempt by (auto intro!: sat_bind [OF assms(11)] attempt)
  then have "sat (TryTransitionState env ndr) (\<lambda>r _. r = Inr ndr)"
    using assms(5) unfolding TryTransitionState_def by (auto intro!: sat_bind sat_metrics_bind sat_ret simp: ndr_def)
  then have "sat (Reconcile_single env ndr) (\<lambda>r _. r = Inr ndr)"
    unfolding Reconcile_single_def by (auto intro!: sat_bind [OF sync])
  from sat_conj [OF this Reconcile_single_law]
  have single: "sat (Reconcile_single env ndr) (\<lambda>r es. r = Inr ndr \<and> list_all mild es)"
    by (rule sat_weaken) simp
  have clk: "clock_within env (\<lambda>t. \<not> t < NextRetryDate (nd_Status nd))"
    using assms(7,8) by (simp add: clock_within_def not_less)
  have "sat (reconcile_disruption env nd ndr) (\<lambda>res es. res = (empty_Result, None) \<and> list_all (\<lambda>e. \<not> is_write e) es)"
    unfolding reconcile_disruption_def
    by (rule sat_metrics_bind, rule sat_bind [OF sat_Now [OF clk]], simp, rule sat_bind [OF single])
      (auto intro!: sat_ret simp: ndr_def mild_def list_all_iff)
  moreover have "handleFinalizer env nd ndr = ret (Inr True)"
    using assms(3,4) by (simp add: handleFinalizer_def)
  ultimately show ?thesis
    using assms(2) unfolding nd_Reconcile_def ndr_def by (intro sat_get_bind [where a = "Inr nd"]) simp_all
qed

end
