(* ===== verification/Stall_Witness.thy ===== *)
theory Stall_Witness
  imports Stall Run_Witnesses
begin

text \<open>
  A disruption that stalls, witnessed: the application manager answers ``too early, retry in five seconds''.
\<close>

definition too_early_cluster :: "NodeDisruption \<Rightarrow> cluster" where
  "too_early_cluster nd = (app_cluster hooked)\<lparr>c_nds := [nd], c_code := (\<lambda>_. 425)\<rparr>"

definition not_ready :: DisruptedBudgetStatus where
  "not_ready = preparing_status\<lparr>Reason := ''not ready for disruption: retry later, in 5 seconds'', Ok := False\<rparr>"

definition stuck :: NodeDisruption where
  "stuck = created\<lparr>nd_Status := (nd_Status maintenance)\<lparr>DisruptedNodes := Slice [''n1'', ''n2''],
     DisruptedDisruptionBudgets := Slice [not_ready]\<rparr>\<rparr>"

definition stuck_run :: "(Result \<times> error option) \<times> (effect, unit) world" where
  "stuck_run = run_state (nd_Reconcile (frozen_env (too_early_cluster stuck)) sample_config ('''', ''d1'')) (start ())"

lemma stuck_simps [simp]:
  "nd_Spec stuck = nd_Spec maintenance" "nd_State (nd_Status stuck) = Pending" "NextRetryDate (nd_Status stuck) = 0"
  "DisruptedNodes (nd_Status stuck) = Slice [''n1'', ''n2'']" "DisruptedDisruptionBudgets (nd_Status stuck) = Slice [not_ready]"
  "om_Name (nd_meta stuck) = ''d1''" "om_key (nd_meta stuck) = ('''', ''d1'')" "om_Finalizers (nd_meta stuck) = [FinalizerName]"
  "\<not> under_deletion (nd_meta stuck)"
  by (simp_all add: stuck_def created_def with_finalizers_def maintenance_def with_nodes_def sample_nd_def named_def om_key_def under_deletion_def)

lemma too_early_cluster [simp]:
  "c_nds (too_early_cluster nd) = [nd]" "c_now (too_early_cluster nd) = 10 ^ 9" "c_code (too_early_cluster nd) u = 425"
  by (simp_all add: too_early_cluster_def app_cluster_def three_nodes_def empty_cluster_def)

lemma too_early_ready:
  assumes "callable sample_lib b" and "V2HooksReady b"
  shows "sat (CallReadyHook (frozen_env (too_early_cluster nd)) b nd' t)
     (\<lambda>(err, _) _. err = Some (ErrText (''retry later, in '' @ Itoa (sint (5 :: gint)) @ '' seconds'')))"
proof -
  from assms(2) obtain r where b: "b = ApplicationBudget r" by (cases b) (simp_all add: ndb_V2HooksReady_def)
  show ?thesis unfolding b
    by (rule too_early) (use assms(1) in \<open>simp_all add: b frozen_env_def frozen_net_def sample_net_def read_RetryAfter_def sample_lib_def\<close>)
qed

lemma stuck_budgets:
  obtains b where "budgets_at (frozen_env (too_early_cluster stuck)) () = Inr [b]"
    and "concerned (reconciler stuck) (nodes_of_status (reconciler stuck)) b" "TolerateDisruption b (nodes_of_status (reconciler stuck))"
    and "V2HooksReady b" "GetNamespacedName b = Reference not_ready" "callable sample_lib b"
proof -
  have "case budgets_at (frozen_env (too_early_cluster stuck)) () of
      Inl _ \<Rightarrow> False
    | Inr bs \<Rightarrow> length bs = 1 \<and> list_all (\<lambda>b. concerned (reconciler stuck) (nodes_of_status (reconciler stuck)) b \<and>
        TolerateDisruption b (nodes_of_status (reconciler stuck)) \<and> V2HooksReady b \<and>
        GetNamespacedName b = Reference not_ready \<and> good_urls b) bs"
    by code_simp
  with that callable_sample show thesis
    by (auto simp: length_Suc_conv split: sum.splits)
qed

lemma stuck_asks:
  "list_ex is_hook (trace (snd (run_state (Reconcile_single (frozen_env (too_early_cluster stuck)) (reconciler stuck)) (start ()))))"
  by code_simp

theorem unready_disruption_stalls_witness:
  "fst stuck_run = (empty_Result, None) \<and> list_all (\<lambda>e. \<not> is_write e) (trace (snd stuck_run)) \<and>
   list_ex is_hook (trace (snd (run_state (Reconcile_single (frozen_env (too_early_cluster stuck)) (reconciler stuck)) (start ()))))"
proof -
  let ?env = "frozen_env (too_early_cluster stuck)" and ?ndr = "reconciler stuck"
  from stuck_budgets obtain b where bs: "budgets_at ?env () = Inr [b]"
    and b: "concerned ?ndr (nodes_of_status ?ndr) b" "TolerateDisruption b (nodes_of_status ?ndr)"
      "V2HooksReady b" "GetNamespacedName b = Reference not_ready" "callable sample_lib b" .
  have fold: "\<lparr>ndr_ND = stuck, ndr_Config = sample_config\<rparr> = ?ndr" by (simp add: reconciler_def)
  have "Itoa (sint (5 :: gint)) = ''5''" by code_simp
  with too_early_ready [OF b(5,3)] have waiting: "waiting ?env ?ndr b not_ready"
    by (auto simp: waiting_def b not_ready_def preparing_status_def intro!: exI [of _ "ErrText ''retry later, in 5 seconds''"])
  have "sat (nd_Reconcile ?env sample_config ('''', ''d1''))
      (\<lambda>res es. res = (empty_Result, None) \<and> list_all (\<lambda>e. \<not> is_write e) es)"
  proof (rule unready_disruption_stalls [where nd = stuck and config = sample_config and bs = "[b]", unfolded fold])
    have "case nodes_for ?env () (nd_NodeSelector (nd_Spec maintenance)) of Inl _ \<Rightarrow> False
        | Inr ns \<Rightarrow> NodeSetToStringList ns = [''n1'', ''n2'']"
      by code_simp
    then obtain ns where "nodes_for ?env () (nd_NodeSelector (nd_Spec maintenance)) = Inr ns"
        "NodeSetToStringList ns = [''n1'', ''n2'']"
      by (auto split: sum.splits)
    then show "sat (GetNodeFromNodeSelector ?env (nd_NodeSelector (nd_Spec stuck)))
        (\<lambda>r _. \<exists>ns. r = Inr ns \<and> DisruptedNodes (nd_Status stuck) = Slice (NodeSetToStringList ns))"
      using still_nodes [OF nodes_frozen] by (intro sat_weaken [OF still_sat]) auto
    have "still x (GetAllBudgetsInSync ?env) (Inr [b])" for x
      using still_budgets [OF cluster_frozen [of "too_early_cluster stuck" x]] bs by simp
    then show "sat (GetAllBudgetsInSync ?env) (\<lambda>r _. r = Inr [b])"
      by (rule sat_weaken [OF still_sat]) simp
    show "admissible ?env ?ndr"
      by (simp add: admissible_def clock_within_def sample_config_def maintenance_def with_nodes_def sample_nd_def
          IsAfterDeadline_def overlaps_def)
  qed (use b waiting in \<open>simp_all add: sample_get_def maintenance_def with_nodes_def sample_nd_def\<close>)
  from sat_run [OF this, of "start ()", OF start_trace, folded stuck_run_def]
  show ?thesis using stuck_asks by simp
qed

end
