(* ===== verification/Client_Setup.thy ===== *)
theory Client_Setup
  imports Appmgr_Client
begin

text \<open>
  The rest of the generated client: how clients are made from a transport configuration
  (\<open>swagger_node_distruption_client_open_api_30_client.go\<close>, \<open>disruption_client.go\<close>), how the
  parameters of a request are set and written to it (\<open>prepare_application_parameters.go\<close>; the files
  of the other two operations hold the same code for their own types), and the validation of the
  model \<open>appmgr.Disruption\<close>.
\<close>

section \<open>Clients\<close>

datatype authentication = BasicAuth string string | BearerToken string

record runtime_transport = transport +
  DefaultAuthentication :: "authentication option"

text \<open>\<open>httptransport.New\<close>; a registry of formats is an opaque value \<open>'f\<close>.\<close>

definition new_transport :: "string \<Rightarrow> string \<Rightarrow> string list \<Rightarrow> runtime_transport" where
  "new_transport host basePath schemes =
     \<lparr>Host = host, BasePath = basePath, Schemes = schemes, DefaultAuthentication = None\<rparr>"

record 'f disruption_client =
  dc_transport :: runtime_transport
  dc_formats :: 'f

definition disruption_New :: "runtime_transport \<Rightarrow> 'f \<Rightarrow> 'f disruption_client" where
  "disruption_New transport formats = \<lparr>dc_transport = transport, dc_formats = formats\<rparr>"

definition NewClientWithBasicAuth ::
    "'f \<Rightarrow> string \<Rightarrow> string \<Rightarrow> string \<Rightarrow> string \<Rightarrow> string \<Rightarrow> 'f disruption_client" where
  "NewClientWithBasicAuth default_formats host basePath scheme user password =
     (let transport = new_transport host basePath [scheme];
          transport = transport\<lparr>DefaultAuthentication := Some (BasicAuth user password)\<rparr>
      in \<lparr>dc_transport = transport, dc_formats = default_formats\<rparr>)"

definition NewClientWithBearerToken ::
    "'f \<Rightarrow> string \<Rightarrow> string \<Rightarrow> string \<Rightarrow> string \<Rightarrow> 'f disruption_client" where
  "NewClientWithBearerToken default_formats host basePath scheme bearerToken =
     (let transport = new_transport host basePath [scheme];
          transport = transport\<lparr>DefaultAuthentication := Some (BearerToken bearerToken)\<rparr>
      in \<lparr>dc_transport = transport, dc_formats = default_formats\<rparr>)"

definition client_SetTransport :: "runtime_transport \<Rightarrow> 'f disruption_client \<Rightarrow> 'f disruption_client" where
  "client_SetTransport transport a = a\<lparr>dc_transport := transport\<rparr>"

record TransportConfig =
  cfg_Host :: string
  cfg_BasePath :: string
  cfg_Schemes :: "string list"

definition DefaultHost :: string where "DefaultHost = ''localhost''"
definition DefaultBasePath :: string where "DefaultBasePath = ''/''"
definition DefaultSchemes :: "string list" where "DefaultSchemes = [''https'']"

definition DefaultTransportConfig :: TransportConfig where
  "DefaultTransportConfig =
     \<lparr>cfg_Host = DefaultHost, cfg_BasePath = DefaultBasePath, cfg_Schemes = DefaultSchemes\<rparr>"

definition WithHost :: "string \<Rightarrow> TransportConfig \<Rightarrow> TransportConfig" where
  "WithHost host cfg = cfg\<lparr>cfg_Host := host\<rparr>"

definition WithBasePath :: "string \<Rightarrow> TransportConfig \<Rightarrow> TransportConfig" where
  "WithBasePath basePath cfg = cfg\<lparr>cfg_BasePath := basePath\<rparr>"

definition WithSchemes :: "string list \<Rightarrow> TransportConfig \<Rightarrow> TransportConfig" where
  "WithSchemes schemes cfg = cfg\<lparr>cfg_Schemes := schemes\<rparr>"

record 'f SwaggerClient =
  sw_Disruption :: "'f disruption_client"
  sw_Transport :: runtime_transport

definition swagger_New :: "'f \<Rightarrow> runtime_transport \<Rightarrow> 'f option \<Rightarrow> 'f SwaggerClient" where
  "swagger_New default_formats transport formats =
     (let formats = (case formats of None \<Rightarrow> default_formats | Some f \<Rightarrow> f)
      in \<lparr>sw_Disruption = disruption_New transport formats, sw_Transport = transport\<rparr>)"

definition NewHTTPClientWithConfig :: "'f \<Rightarrow> 'f option \<Rightarrow> TransportConfig option \<Rightarrow> 'f SwaggerClient" where
  "NewHTTPClientWithConfig default_formats formats cfg =
     (let cfg = (case cfg of None \<Rightarrow> DefaultTransportConfig | Some c \<Rightarrow> c);
          transport = new_transport (cfg_Host cfg) (cfg_BasePath cfg) (cfg_Schemes cfg)
      in swagger_New default_formats transport formats)"

definition NewHTTPClient :: "'f \<Rightarrow> 'f option \<Rightarrow> 'f SwaggerClient" where
  "NewHTTPClient default_formats formats = NewHTTPClientWithConfig default_formats formats None"

definition SetTransport :: "runtime_transport \<Rightarrow> 'f SwaggerClient \<Rightarrow> 'f SwaggerClient" where
  "SetTransport transport c =
     c\<lparr>sw_Transport := transport, sw_Disruption := client_SetTransport transport (sw_Disruption c)\<rparr>"

text \<open>A client and its service always share their transport.\<close>

definition one_transport :: "'f SwaggerClient \<Rightarrow> bool" where
  "one_transport c \<longleftrightarrow> dc_transport (sw_Disruption c) = sw_Transport c"

lemma one_transport_kept:
  "one_transport (swagger_New default_formats transport formats)"
  "one_transport (NewHTTPClientWithConfig default_formats formats cfg)"
  "one_transport (SetTransport transport c)"
  by (simp_all add: one_transport_def swagger_New_def NewHTTPClientWithConfig_def SetTransport_def
      client_SetTransport_def disruption_New_def Let_def)

section \<open>Parameters of a request\<close>

text \<open>The parameters with their context, an opaque value \<open>'c\<close>.\<close>

record 'c request_params = HookParams +
  rp_Context :: "'c option"

definition zero_params :: "'c request_params" where
  "zero_params = \<lparr>Body = None, hp_timeout = 0, HTTPClient = None, rp_Context = None\<rparr>"

definition NewParamsWithTimeout :: "duration \<Rightarrow> 'c request_params" where
  "NewParamsWithTimeout timeout = zero_params\<lparr>hp_timeout := timeout\<rparr>"

definition NewParamsWithContext :: "'c \<Rightarrow> 'c request_params" where
  "NewParamsWithContext context = zero_params\<lparr>rp_Context := Some context\<rparr>"

definition NewParamsWithHTTPClient :: "duration option \<Rightarrow> 'c request_params" where
  "NewParamsWithHTTPClient client = zero_params\<lparr>HTTPClient := client\<rparr>"

definition SetDefaults :: "'c request_params \<Rightarrow> 'c request_params" where
  "SetDefaults params = params"

definition WithDefaults :: "'c request_params \<Rightarrow> 'c request_params" where
  "WithDefaults params = SetDefaults params"

definition SetTimeout :: "duration \<Rightarrow> 'c request_params \<Rightarrow> 'c request_params" where
  "SetTimeout timeout params = params\<lparr>hp_timeout := timeout\<rparr>"

definition WithTimeout :: "duration \<Rightarrow> 'c request_params \<Rightarrow> 'c request_params" where
  "WithTimeout timeout params = SetTimeout timeout params"

definition SetContext :: "'c \<Rightarrow> 'c request_params \<Rightarrow> 'c request_params" where
  "SetContext context params = params\<lparr>rp_Context := Some context\<rparr>"

definition WithContext :: "'c \<Rightarrow> 'c request_params \<Rightarrow> 'c request_params" where
  "WithContext context params = SetContext context params"

definition SetHTTPClient :: "duration option \<Rightarrow> 'c request_params \<Rightarrow> 'c request_params" where
  "SetHTTPClient client params = params\<lparr>HTTPClient := client\<rparr>"

definition WithHTTPClient :: "duration option \<Rightarrow> 'c request_params \<Rightarrow> 'c request_params" where
  "WithHTTPClient client params = SetHTTPClient client params"

definition SetBody :: "AppDisruption option \<Rightarrow> 'c request_params \<Rightarrow> 'c request_params" where
  "SetBody body params = params\<lparr>Body := body\<rparr>"

definition WithBody :: "AppDisruption option \<Rightarrow> 'c request_params \<Rightarrow> 'c request_params" where
  "WithBody body params = SetBody body params"

text \<open>\<open>runtime.ClientRequest\<close> and the constructor of composite errors.\<close>

record 'r request_lib =
  request_SetTimeout :: "duration \<Rightarrow> 'r \<Rightarrow> error option \<times> 'r"
  request_SetBodyParam :: "AppDisruption \<Rightarrow> 'r \<Rightarrow> error option \<times> 'r"
  CompositeError :: "error list \<Rightarrow> error"

definition WriteToRequest :: "'r request_lib \<Rightarrow> 'c request_params \<Rightarrow> 'r \<Rightarrow> error option \<times> 'r" where
  "WriteToRequest rl params r =
     (case request_SetTimeout rl (hp_timeout params) r of
        (Some err, r) \<Rightarrow> (Some err, r)
      | (None, r) \<Rightarrow>
          let res = [] in
          (case (case Body params of None \<Rightarrow> (None, r) | Some body \<Rightarrow> request_SetBodyParam rl body r) of
             (Some err, r) \<Rightarrow> (Some err, r)
           | (None, r) \<Rightarrow> if length res > 0 then (Some (CompositeError rl res), r) else (None, r)))"

text \<open>
  A request that is a log of what was written to it: a failing step ends the writing, and the body
  is written once, after the timeout.
\<close>

lemma WriteToRequest_order:
  assumes "\<And>t r. request_SetTimeout rl t r = (fails_timeout t, r @ [Inl t])"
    and "\<And>b r. request_SetBodyParam rl b r = (fails_body b, r @ [Inr b])"
  shows "WriteToRequest rl params [] =
    (case fails_timeout (hp_timeout params) of
       Some err \<Rightarrow> (Some err, [Inl (hp_timeout params)])
     | None \<Rightarrow> (case Body params of
         None \<Rightarrow> (None, [Inl (hp_timeout params)])
       | Some b \<Rightarrow> (fails_body b, [Inl (hp_timeout params), Inr b])))"
  by (simp add: WriteToRequest_def assms split: option.splits)

section \<open>Validation of the body\<close>

record validate_lib =
  date_IsZero :: "time \<Rightarrow> bool"
  date_String :: "time \<Rightarrow> string"
  FormatOf :: "string \<Rightarrow> string \<Rightarrow> string \<Rightarrow> string \<Rightarrow> error option"
  CompositeValidationError :: "error list \<Rightarrow> error"

definition validateCreationDate :: "validate_lib \<Rightarrow> AppDisruption \<Rightarrow> error option" where
  "validateCreationDate vl m =
     (if date_IsZero vl (CreationDate m) then None
      else FormatOf vl ''creationDate'' ''body'' ''date-time'' (date_String vl (CreationDate m)))"

definition validateDeadlineDate :: "validate_lib \<Rightarrow> AppDisruption \<Rightarrow> error option" where
  "validateDeadlineDate vl m =
     (if date_IsZero vl (DeadlineDate m) then None
      else FormatOf vl ''deadlineDate'' ''body'' ''date-time'' (date_String vl (DeadlineDate m)))"

definition validateStartDate :: "validate_lib \<Rightarrow> AppDisruption \<Rightarrow> error option" where
  "validateStartDate vl m =
     (if date_IsZero vl (ad_StartDate m) then None
      else FormatOf vl ''startDate'' ''body'' ''date-time'' (date_String vl (ad_StartDate m)))"

definition Validate :: "validate_lib \<Rightarrow> AppDisruption \<Rightarrow> error option" where
  "Validate vl m =
     (let res = [];
          res = (case validateCreationDate vl m of None \<Rightarrow> res | Some err \<Rightarrow> res @ [err]);
          res = (case validateDeadlineDate vl m of None \<Rightarrow> res | Some err \<Rightarrow> res @ [err]);
          res = (case validateStartDate vl m of None \<Rightarrow> res | Some err \<Rightarrow> res @ [err])
      in if length res > 0 then Some (CompositeValidationError vl res) else None)"

text \<open>All errors are reported, in the order of the fields, and none is missed.\<close>

lemma Validate_reports_all:
  "Validate vl m =
     (case List.map_filter id [validateCreationDate vl m, validateDeadlineDate vl m, validateStartDate vl m] of
        [] \<Rightarrow> None
      | errs \<Rightarrow> Some (CompositeValidationError vl errs))"
  by (simp add: Validate_def Let_def map_filter_def split: option.splits)

end
