(* ===== verification/Request_Params.thy ===== *)
theory Request_Params
  imports Client_Setup
begin

text \<open>
  The parameters of the two other operations of the application-manager client
  (\<open>check_readiness_parameters.go\<close>, \<open>terminate_disruption_parameters.go\<close>), the contract that the
  parameters of all three operations share, the encodings of the model \<open>appmgr.Disruption\<close> and the
  model \<open>appmgr.Error\<close>.
\<close>

section \<open>The contract of parameters\<close>

text \<open>What a request receives: the timeout, then the body if there is one, up to the first error.\<close>

definition sends :: "'r request_lib \<Rightarrow> duration \<Rightarrow> AppDisruption option \<Rightarrow> 'r \<Rightarrow> error option \<times> 'r" where
  "sends rl t body r =
     (case request_SetTimeout rl t r of
        (Some err, r) \<Rightarrow> (Some err, r)
      | (None, r) \<Rightarrow> (case body of None \<Rightarrow> (None, r) | Some b \<Rightarrow> request_SetBodyParam rl b r))"

locale operation_params =
  fixes timeout_of :: "'p \<Rightarrow> duration" and body_of :: "'p \<Rightarrow> AppDisruption option"
    and fresh :: "duration \<Rightarrow> 'p"
    and with_timeout :: "duration \<Rightarrow> 'p \<Rightarrow> 'p" and with_context :: "'c \<Rightarrow> 'p \<Rightarrow> 'p"
    and with_client :: "duration option \<Rightarrow> 'p \<Rightarrow> 'p" and with_body :: "AppDisruption option \<Rightarrow> 'p \<Rightarrow> 'p"
    and write_to :: "'r request_lib \<Rightarrow> 'p \<Rightarrow> 'r \<Rightarrow> error option \<times> 'r"
  assumes fresh: "timeout_of (fresh t) = t" "body_of (fresh t) = None"
    and timeout: "timeout_of (with_timeout t p) = t" "timeout_of (with_context c p) = timeout_of p"
      "timeout_of (with_client h p) = timeout_of p" "timeout_of (with_body b p) = timeout_of p"
    and body: "body_of (with_timeout t p) = body_of p" "body_of (with_context c p) = body_of p"
      "body_of (with_client h p) = body_of p" "body_of (with_body b p) = b"
    and writes: "write_to rl p r = sends rl (timeout_of p) (body_of p) r"
begin

text \<open>The last setting of each field is the one that is sent, whatever is set in between.\<close>

lemma sends_last:
  "write_to rl (with_body b (with_client h (with_context c (with_timeout t p)))) r = sends rl t b r"
  "write_to rl (with_timeout t (with_client h (with_context c (with_body b p)))) r = sends rl t b r"
  "write_to rl (with_body b (fresh t)) r = sends rl t b r"
  by (simp_all add: writes timeout body fresh)

text \<open>Without a body, a request receives its timeout only.\<close>

lemma sends_no_body: "write_to rl (fresh t) r = request_SetTimeout rl t r"
  by (simp add: writes fresh sends_def split: prod.split option.split)

end

lemma WriteToRequest_sends: "WriteToRequest rl params r = sends rl (hp_timeout params) (Body params) r"
  by (simp add: WriteToRequest_def sends_def split: prod.split option.split)

interpretation prepare_params: operation_params hp_timeout Body NewParamsWithTimeout WithTimeout WithContext
    WithHTTPClient WithBody WriteToRequest
  by unfold_locales (simp_all add: NewParamsWithTimeout_def zero_params_def WithTimeout_def SetTimeout_def
      WithContext_def SetContext_def WithHTTPClient_def SetHTTPClient_def WithBody_def SetBody_def WriteToRequest_sends)

section \<open>The parameters of CheckReadiness\<close>

type_synonym 'c CheckReadinessParams = "'c request_params"

definition NewCheckReadinessParams :: "lib \<Rightarrow> 'c CheckReadinessParams" where
  "NewCheckReadinessParams l = zero_params\<lparr>hp_timeout := DefaultTimeout l\<rparr>"

definition NewCheckReadinessParamsWithTimeout :: "duration \<Rightarrow> 'c CheckReadinessParams" where
  "NewCheckReadinessParamsWithTimeout timeout = zero_params\<lparr>hp_timeout := timeout\<rparr>"

definition NewCheckReadinessParamsWithContext :: "'c \<Rightarrow> 'c CheckReadinessParams" where
  "NewCheckReadinessParamsWithContext context = zero_params\<lparr>rp_Context := Some context\<rparr>"

definition NewCheckReadinessParamsWithHTTPClient :: "duration option \<Rightarrow> 'c CheckReadinessParams" where
  "NewCheckReadinessParamsWithHTTPClient client = zero_params\<lparr>HTTPClient := client\<rparr>"

definition CheckReadiness_SetDefaults :: "'c CheckReadinessParams \<Rightarrow> 'c CheckReadinessParams" where
  "CheckReadiness_SetDefaults params = params"

definition CheckReadiness_WithDefaults :: "'c CheckReadinessParams \<Rightarrow> 'c CheckReadinessParams" where
  "CheckReadiness_WithDefaults params = CheckReadiness_SetDefaults params"

definition CheckReadiness_SetTimeout :: "duration \<Rightarrow> 'c CheckReadinessParams \<Rightarrow> 'c CheckReadinessParams" where
  "CheckReadiness_SetTimeout timeout params = params\<lparr>hp_timeout := timeout\<rparr>"

definition CheckReadiness_WithTimeout :: "duration \<Rightarrow> 'c CheckReadinessParams \<Rightarrow> 'c CheckReadinessParams" where
  "CheckReadiness_WithTimeout timeout params = CheckReadiness_SetTimeout timeout params"

definition CheckReadiness_SetContext :: "'c \<Rightarrow> 'c CheckReadinessParams \<Rightarrow> 'c CheckReadinessParams" where
  "CheckReadiness_SetContext context params = params\<lparr>rp_Context := Some context\<rparr>"

definition CheckReadiness_WithContext :: "'c \<Rightarrow> 'c CheckReadinessParams \<Rightarrow> 'c CheckReadinessParams" where
  "CheckReadiness_WithContext context params = CheckReadiness_SetContext context params"

definition CheckReadiness_SetHTTPClient :: "duration option \<Rightarrow> 'c CheckReadinessParams \<Rightarrow> 'c CheckReadinessParams" where
  "CheckReadiness_SetHTTPClient client params = params\<lparr>HTTPClient := client\<rparr>"

definition CheckReadiness_WithHTTPClient :: "duration option \<Rightarrow> 'c CheckReadinessParams \<Rightarrow> 'c CheckReadinessParams" where
  "CheckReadiness_WithHTTPClient client params = CheckReadiness_SetHTTPClient client params"

definition CheckReadiness_SetBody :: "AppDisruption option \<Rightarrow> 'c CheckReadinessParams \<Rightarrow> 'c CheckReadinessParams" where
  "CheckReadiness_SetBody body params = params\<lparr>Body := body\<rparr>"

definition CheckReadiness_WithBody :: "AppDisruption option \<Rightarrow> 'c CheckReadinessParams \<Rightarrow> 'c CheckReadinessParams" where
  "CheckReadiness_WithBody body params = CheckReadiness_SetBody body params"

definition CheckReadiness_WriteToRequest :: "'r request_lib \<Rightarrow> 'c CheckReadinessParams \<Rightarrow> 'r \<Rightarrow> error option \<times> 'r" where
  "CheckReadiness_WriteToRequest rl params r =
     (case request_SetTimeout rl (hp_timeout params) r of
        (Some err, r) \<Rightarrow> (Some err, r)
      | (None, r) \<Rightarrow>
          let res = [] in
          (case (case Body params of None \<Rightarrow> (None, r) | Some body \<Rightarrow> request_SetBodyParam rl body r) of
             (Some err, r) \<Rightarrow> (Some err, r)
           | (None, r) \<Rightarrow> if length res > 0 then (Some (CompositeError rl res), r) else (None, r)))"

lemma CheckReadiness_WriteToRequest_sends: "CheckReadiness_WriteToRequest rl params r = sends rl (hp_timeout params) (Body params) r"
  by (simp add: CheckReadiness_WriteToRequest_def sends_def split: prod.split option.split)

interpretation ready_params: operation_params hp_timeout Body NewCheckReadinessParamsWithTimeout CheckReadiness_WithTimeout CheckReadiness_WithContext
    CheckReadiness_WithHTTPClient CheckReadiness_WithBody CheckReadiness_WriteToRequest
  by unfold_locales (simp_all add: NewCheckReadinessParamsWithTimeout_def zero_params_def CheckReadiness_WithTimeout_def CheckReadiness_SetTimeout_def
      CheckReadiness_WithContext_def CheckReadiness_SetContext_def CheckReadiness_WithHTTPClient_def CheckReadiness_SetHTTPClient_def CheckReadiness_WithBody_def CheckReadiness_SetBody_def
      CheckReadiness_WriteToRequest_sends)

section \<open>The parameters of TerminateDisruption\<close>

type_synonym 'c TerminateDisruptionParams = "'c request_params"

definition NewTerminateDisruptionParams :: "lib \<Rightarrow> 'c TerminateDisruptionParams" where
  "NewTerminateDisruptionParams l = zero_params\<lparr>hp_timeout := DefaultTimeout l\<rparr>"

definition NewTerminateDisruptionParamsWithTimeout :: "duration \<Rightarrow> 'c TerminateDisruptionParams" where
  "NewTerminateDisruptionParamsWithTimeout timeout = zero_params\<lparr>hp_timeout := timeout\<rparr>"

definition NewTerminateDisruptionParamsWithContext :: "'c \<Rightarrow> 'c TerminateDisruptionParams" where
  "NewTerminateDisruptionParamsWithContext context = zero_params\<lparr>rp_Context := Some context\<rparr>"

definition NewTerminateDisruptionParamsWithHTTPClient :: "duration option \<Rightarrow> 'c TerminateDisruptionParams" where
  "NewTerminateDisruptionParamsWithHTTPClient client = zero_params\<lparr>HTTPClient := client\<rparr>"

definition TerminateDisruption_SetDefaults :: "'c TerminateDisruptionParams \<Rightarrow> 'c TerminateDisruptionParams" where
  "TerminateDisruption_SetDefaults params = params"

definition TerminateDisruption_WithDefaults :: "'c TerminateDisruptionParams \<Rightarrow> 'c TerminateDisruptionParams" where
  "TerminateDisruption_WithDefaults params = TerminateDisruption_SetDefaults params"

definition TerminateDisruption_SetTimeout :: "duration \<Rightarrow> 'c TerminateDisruptionParams \<Rightarrow> 'c TerminateDisruptionParams" where
  "TerminateDisruption_SetTimeout timeout params = params\<lparr>hp_timeout := timeout\<rparr>"

definition TerminateDisruption_WithTimeout :: "duration \<Rightarrow> 'c TerminateDisruptionParams \<Rightarrow> 'c TerminateDisruptionParams" where
  "TerminateDisruption_WithTimeout timeout params = TerminateDisruption_SetTimeout timeout params"

definition TerminateDisruption_SetContext :: "'c \<Rightarrow> 'c TerminateDisruptionParams \<Rightarrow> 'c TerminateDisruptionParams" where
  "TerminateDisruption_SetContext context params = params\<lparr>rp_Context := Some context\<rparr>"

definition TerminateDisruption_WithContext :: "'c \<Rightarrow> 'c TerminateDisruptionParams \<Rightarrow> 'c TerminateDisruptionParams" where
  "TerminateDisruption_WithContext context params = TerminateDisruption_SetContext context params"

definition TerminateDisruption_SetHTTPClient :: "duration option \<Rightarrow> 'c TerminateDisruptionParams \<Rightarrow> 'c TerminateDisruptionParams" where
  "TerminateDisruption_SetHTTPClient client params = params\<lparr>HTTPClient := client\<rparr>"

definition TerminateDisruption_WithHTTPClient :: "duration option \<Rightarrow> 'c TerminateDisruptionParams \<Rightarrow> 'c TerminateDisruptionParams" where
  "TerminateDisruption_WithHTTPClient client params = TerminateDisruption_SetHTTPClient client params"

definition TerminateDisruption_SetBody :: "AppDisruption option \<Rightarrow> 'c TerminateDisruptionParams \<Rightarrow> 'c TerminateDisruptionParams" where
  "TerminateDisruption_SetBody body params = params\<lparr>Body := body\<rparr>"

definition TerminateDisruption_WithBody :: "AppDisruption option \<Rightarrow> 'c TerminateDisruptionParams \<Rightarrow> 'c TerminateDisruptionParams" where
  "TerminateDisruption_WithBody body params = TerminateDisruption_SetBody body params"

definition TerminateDisruption_WriteToRequest :: "'r request_lib \<Rightarrow> 'c TerminateDisruptionParams \<Rightarrow> 'r \<Rightarrow> error option \<times> 'r" where
  "TerminateDisruption_WriteToRequest rl params r =
     (case request_SetTimeout rl (hp_timeout params) r of
        (Some err, r) \<Rightarrow> (Some err, r)
      | (None, r) \<Rightarrow>
          let res = [] in
          (case (case Body params of None \<Rightarrow> (None, r) | Some body \<Rightarrow> request_SetBodyParam rl body r) of
             (Some err, r) \<Rightarrow> (Some err, r)
           | (None, r) \<Rightarrow> if length res > 0 then (Some (CompositeError rl res), r) else (None, r)))"

lemma TerminateDisruption_WriteToRequest_sends: "TerminateDisruption_WriteToRequest rl params r = sends rl (hp_timeout params) (Body params) r"
  by (simp add: TerminateDisruption_WriteToRequest_def sends_def split: prod.split option.split)

interpretation terminate_params: operation_params hp_timeout Body NewTerminateDisruptionParamsWithTimeout TerminateDisruption_WithTimeout TerminateDisruption_WithContext
    TerminateDisruption_WithHTTPClient TerminateDisruption_WithBody TerminateDisruption_WriteToRequest
  by unfold_locales (simp_all add: NewTerminateDisruptionParamsWithTimeout_def zero_params_def TerminateDisruption_WithTimeout_def TerminateDisruption_SetTimeout_def
      TerminateDisruption_WithContext_def TerminateDisruption_SetContext_def TerminateDisruption_WithHTTPClient_def TerminateDisruption_SetHTTPClient_def TerminateDisruption_WithBody_def TerminateDisruption_SetBody_def
      TerminateDisruption_WriteToRequest_sends)

section \<open>The models of the application manager\<close>

text \<open>\<open>swag.WriteJSON\<close> and \<open>swag.ReadJSON\<close>; a nil receiver of \<open>MarshalBinary\<close> is \<open>None\<close>.\<close>

record swag_lib =
  WriteJSON :: "AppDisruption \<Rightarrow> error + string"
  ReadJSON :: "string \<Rightarrow> AppDisruption \<Rightarrow> error + AppDisruption"

definition zero_disruption :: AppDisruption where
  "zero_disruption = \<lparr>CreatedBy = '''', CreationDate = 0, DeadlineDate = 0, ad_Duration = 0, ad_Name = '''',
     Nodes = [], ad_StartDate = 0, ad_Type = '''', ad_UID = ''''\<rparr>"

definition MarshalBinary :: "swag_lib \<Rightarrow> AppDisruption option \<Rightarrow> error + string option" where
  "MarshalBinary sl m =
     (case m of None \<Rightarrow> Inr None
      | Some d \<Rightarrow> (case WriteJSON sl d of Inl err \<Rightarrow> Inl err | Inr b \<Rightarrow> Inr (Some b)))"

definition UnmarshalBinary :: "swag_lib \<Rightarrow> string \<Rightarrow> AppDisruption \<Rightarrow> error option \<times> AppDisruption" where
  "UnmarshalBinary sl b m =
     (let res = zero_disruption
      in case ReadJSON sl b res of Inl err \<Rightarrow> (Some err, m) | Inr res \<Rightarrow> (None, res))"

text \<open>A failed decoding leaves the receiver as it was, and a successful one leaves nothing of it.\<close>

lemma UnmarshalBinary_receiver:
  "fst (UnmarshalBinary sl b m) \<noteq> None \<Longrightarrow> snd (UnmarshalBinary sl b m) = m"
  "fst (UnmarshalBinary sl b m) = None \<Longrightarrow> UnmarshalBinary sl b m' = UnmarshalBinary sl b m"
  by (auto simp: UnmarshalBinary_def split: sum.splits)

lemma MarshalBinary_roundtrip:
  assumes "\<And>d b. WriteJSON sl d = Inr b \<Longrightarrow> ReadJSON sl b zero_disruption = Inr d"
    and "MarshalBinary sl (Some d) = Inr (Some b)"
  shows "UnmarshalBinary sl b m = (None, d)"
  using assms by (auto simp: MarshalBinary_def UnmarshalBinary_def split: sum.splits)

text \<open>Validation in a context, and the model \<open>Error\<close>, a string that is always valid.\<close>

definition ContextValidate :: "AppDisruption \<Rightarrow> error option" where
  "ContextValidate m = None"

type_synonym Error = string

definition Error_Validate :: "Error \<Rightarrow> error option" where
  "Error_Validate m = None"

definition Error_ContextValidate :: "Error \<Rightarrow> error option" where
  "Error_ContextValidate m = None"

end
