(* ===== verification/Api_Group.thy ===== *)
theory Api_Group
  imports Startup
begin

text \<open>
  The registration of the API group: \<open>groupversion_info.go\<close> and the \<open>init\<close> functions of the three
  files of types, which Go runs in the order of the files' names.  The builder and the scheme are those of
  controller-runtime and parameters here.
\<close>

section \<open>The group and its types\<close>

record GroupVersion =
  gv_Group :: string
  gv_Version :: string

definition the_GroupVersion :: GroupVersion where
  "the_GroupVersion = \<lparr>gv_Group = ''nodedisruption.criteo.com'', gv_Version = ''v1alpha1''\<rparr>"

text \<open>A type of the group: that of one kind of object, or that of its lists.\<close>

datatype api_type = Object_of object_kind | List_of object_kind

record ('b, 's) scheme_lib =
  Builder :: "GroupVersion \<Rightarrow> 'b"
  Register :: "api_type list \<Rightarrow> 'b \<Rightarrow> 'b"
  Builder_AddToScheme :: "'b \<Rightarrow> 's \<Rightarrow> error + 's"

definition new_SchemeBuilder :: "('b, 's) scheme_lib \<Rightarrow> 'b" where
  "new_SchemeBuilder sl = Builder sl the_GroupVersion"

definition adb_init :: "('b, 's) scheme_lib \<Rightarrow> 'b \<Rightarrow> 'b" where
  "adb_init sl = Register sl [Object_of ApplicationDisruptionBudget_kind, List_of ApplicationDisruptionBudget_kind]"

definition nd_init :: "('b, 's) scheme_lib \<Rightarrow> 'b \<Rightarrow> 'b" where
  "nd_init sl = Register sl [Object_of NodeDisruption_kind, List_of NodeDisruption_kind]"

definition ndb_init :: "('b, 's) scheme_lib \<Rightarrow> 'b \<Rightarrow> 'b" where
  "ndb_init sl = Register sl [Object_of NodeDisruptionBudget_kind, List_of NodeDisruptionBudget_kind]"

definition SchemeBuilder :: "('b, 's) scheme_lib \<Rightarrow> 'b" where
  "SchemeBuilder sl = ndb_init sl (nd_init sl (adb_init sl (new_SchemeBuilder sl)))"

definition AddToScheme :: "('b, 's) scheme_lib \<Rightarrow> 's \<Rightarrow> error + 's" where
  "AddToScheme sl = Builder_AddToScheme sl (SchemeBuilder sl)"

section \<open>What is registered\<close>

text \<open>
  The types that a builder holds; the law is the documented behaviour of \<open>scheme.Builder\<close>: a new one
  holds none, and \<open>Register\<close> adds those it is given.
\<close>

definition collects :: "('b, 's) scheme_lib \<Rightarrow> ('b \<Rightarrow> api_type set) \<Rightarrow> bool" where
  "collects sl types \<longleftrightarrow> (\<forall>gv. types (Builder sl gv) = {}) \<and>
     (\<forall>ts b. types (Register sl ts b) = types b \<union> set ts)"

lemma registered_types:
  assumes "collects sl types"
  shows "types (SchemeBuilder sl) = (\<Union>k \<in> {ApplicationDisruptionBudget_kind, NodeDisruption_kind,
     NodeDisruptionBudget_kind}. {Object_of k, List_of k})"
  using assms by (auto simp: collects_def SchemeBuilder_def adb_init_def nd_init_def ndb_init_def new_SchemeBuilder_def)

text \<open>
  Every kind that a controller reconciles is registered, with its list; of those it watches, only the kinds
  of the core group are not.
\<close>

lemma controllers_registered:
  assumes "collects sl types"
    and "c \<in> {nd_controller env config, adb_controller env' tys, ndb_controller env'' tys'}"
  shows "{Object_of (ctl_For c), List_of (ctl_For c)} \<subseteq> types (SchemeBuilder sl)"
  using assms by (auto simp: registered_types nd_controller_def adb_controller_def ndb_controller_def)

end
