(* ===== verification/Client_Responses.thy ===== *)
theory Client_Responses
  imports Appmgr_Client
begin

text \<open>
  The methods of the typed responses of the generated client (\<open>*_responses.go\<close> of
  \<open>internal/appmgrcli/disruption\<close>).  Each Go type has the same method set, written out with
  constants for the types of one status code and computed for the default ones; here a method set is
  a record, with one definition per type, and \<open>methods\<close> is the dynamic dispatch.  The laws say
  that all of them agree with the status code, and that the three readers follow them.
\<close>

section \<open>Method sets\<close>

text \<open>
  \<open>GetPayload\<close> exists for the default responses only; \<open>readResponse\<close> fills the receiver from an
  HTTP response, or fails.
\<close>

record response_methods =
  IsSuccess :: bool
  IsRedirect :: bool
  IsClientError :: bool
  IsServerError :: bool
  IsCode :: "int \<Rightarrow> bool"
  GetCode :: int
  ErrorText :: string
  StringText :: string
  GetPayload :: "string option"
  readResponse :: "http_response \<Rightarrow> error + client_response"

definition PrepareApplicationOK_methods :: response_methods where
  "PrepareApplicationOK_methods = \<lparr>
     IsSuccess = True, IsRedirect = False, IsClientError = False, IsServerError = False,
     IsCode = (\<lambda>code. code = 200), GetCode = 200,
     ErrorText = ''[POST /prepare]['' @ Itoa 200 @ ''] prepareApplicationOK'',
     StringText = ''[POST /prepare]['' @ Itoa 200 @ ''] prepareApplicationOK'',
     GetPayload = None,
     readResponse = (\<lambda>response. Inr PrepareApplicationOK)\<rparr>"

definition PrepareApplicationFailedDependency_methods :: response_methods where
  "PrepareApplicationFailedDependency_methods = \<lparr>
     IsSuccess = False, IsRedirect = False, IsClientError = True, IsServerError = False,
     IsCode = (\<lambda>code. code = 424), GetCode = 424,
     ErrorText = ''[POST /prepare]['' @ Itoa 424 @ ''] prepareApplicationFailedDependency'',
     StringText = ''[POST /prepare]['' @ Itoa 424 @ ''] prepareApplicationFailedDependency'',
     GetPayload = None,
     readResponse = (\<lambda>response. Inr PrepareApplicationFailedDependency)\<rparr>"

definition PrepareApplicationStatus425_methods :: "lib \<Rightarrow> response_methods" where
  "PrepareApplicationStatus425_methods l = \<lparr>
     IsSuccess = False, IsRedirect = False, IsClientError = True, IsServerError = False,
     IsCode = (\<lambda>code. code = 425), GetCode = 425,
     ErrorText = ''[POST /prepare]['' @ Itoa 425 @ ''] prepareApplicationStatus425'',
     StringText = ''[POST /prepare]['' @ Itoa 425 @ ''] prepareApplicationStatus425'',
     GetPayload = None,
     readResponse = (\<lambda>response. map_sum id PrepareApplicationStatus425 (read_RetryAfter l response))\<rparr>"

definition PrepareApplicationDefault_methods :: "lib \<Rightarrow> int \<Rightarrow> string \<Rightarrow> response_methods" where
  "PrepareApplicationDefault_methods l statusCode payload = \<lparr>
     IsSuccess = (statusCode sdiv 100 = 2), IsRedirect = (statusCode sdiv 100 = 3),
     IsClientError = (statusCode sdiv 100 = 4), IsServerError = (statusCode sdiv 100 = 5),
     IsCode = (\<lambda>code. statusCode = code), GetCode = statusCode,
     ErrorText = ''[POST /prepare]['' @ Itoa statusCode @ ''] prepareApplication default '' @ json_quote l payload,
     StringText = ''[POST /prepare]['' @ Itoa statusCode @ ''] prepareApplication default '' @ json_quote l payload,
     GetPayload = Some payload,
     readResponse = (\<lambda>response. map_sum id (PrepareApplicationDefault statusCode) (read_payload (rsp_Body response)))\<rparr>"

definition CheckReadinessOK_methods :: response_methods where
  "CheckReadinessOK_methods = \<lparr>
     IsSuccess = True, IsRedirect = False, IsClientError = False, IsServerError = False,
     IsCode = (\<lambda>code. code = 200), GetCode = 200,
     ErrorText = ''[POST /ready]['' @ Itoa 200 @ ''] checkReadinessOK'',
     StringText = ''[POST /ready]['' @ Itoa 200 @ ''] checkReadinessOK'',
     GetPayload = None,
     readResponse = (\<lambda>response. Inr CheckReadinessOK)\<rparr>"

definition CheckReadinessStatus425_methods :: "lib \<Rightarrow> response_methods" where
  "CheckReadinessStatus425_methods l = \<lparr>
     IsSuccess = False, IsRedirect = False, IsClientError = True, IsServerError = False,
     IsCode = (\<lambda>code. code = 425), GetCode = 425,
     ErrorText = ''[POST /ready]['' @ Itoa 425 @ ''] checkReadinessStatus425'',
     StringText = ''[POST /ready]['' @ Itoa 425 @ ''] checkReadinessStatus425'',
     GetPayload = None,
     readResponse = (\<lambda>response. map_sum id CheckReadinessStatus425 (read_RetryAfter l response))\<rparr>"

definition CheckReadinessDefault_methods :: "lib \<Rightarrow> int \<Rightarrow> string \<Rightarrow> response_methods" where
  "CheckReadinessDefault_methods l statusCode payload = \<lparr>
     IsSuccess = (statusCode sdiv 100 = 2), IsRedirect = (statusCode sdiv 100 = 3),
     IsClientError = (statusCode sdiv 100 = 4), IsServerError = (statusCode sdiv 100 = 5),
     IsCode = (\<lambda>code. statusCode = code), GetCode = statusCode,
     ErrorText = ''[POST /ready]['' @ Itoa statusCode @ ''] checkReadiness default '' @ json_quote l payload,
     StringText = ''[POST /ready]['' @ Itoa statusCode @ ''] checkReadiness default '' @ json_quote l payload,
     GetPayload = Some payload,
     readResponse = (\<lambda>response. map_sum id (CheckReadinessDefault statusCode) (read_payload (rsp_Body response)))\<rparr>"

definition TerminateDisruptionOK_methods :: response_methods where
  "TerminateDisruptionOK_methods = \<lparr>
     IsSuccess = True, IsRedirect = False, IsClientError = False, IsServerError = False,
     IsCode = (\<lambda>code. code = 200), GetCode = 200,
     ErrorText = ''[POST /terminate]['' @ Itoa 200 @ ''] terminateDisruptionOK'',
     StringText = ''[POST /terminate]['' @ Itoa 200 @ ''] terminateDisruptionOK'',
     GetPayload = None,
     readResponse = (\<lambda>response. Inr TerminateDisruptionOK)\<rparr>"

definition TerminateDisruptionDefault_methods :: "lib \<Rightarrow> int \<Rightarrow> string \<Rightarrow> response_methods" where
  "TerminateDisruptionDefault_methods l statusCode payload = \<lparr>
     IsSuccess = (statusCode sdiv 100 = 2), IsRedirect = (statusCode sdiv 100 = 3),
     IsClientError = (statusCode sdiv 100 = 4), IsServerError = (statusCode sdiv 100 = 5),
     IsCode = (\<lambda>code. statusCode = code), GetCode = statusCode,
     ErrorText = ''[POST /terminate]['' @ Itoa statusCode @ ''] terminateDisruption default '' @ json_quote l payload,
     StringText = ''[POST /terminate]['' @ Itoa statusCode @ ''] terminateDisruption default '' @ json_quote l payload,
     GetPayload = Some payload,
     readResponse = (\<lambda>response. map_sum id (TerminateDisruptionDefault statusCode) (read_payload (rsp_Body response)))\<rparr>"

fun methods :: "lib \<Rightarrow> client_response \<Rightarrow> response_methods" where
  "methods l PrepareApplicationOK = PrepareApplicationOK_methods"
| "methods l PrepareApplicationFailedDependency = PrepareApplicationFailedDependency_methods"
| "methods l (PrepareApplicationStatus425 _) = PrepareApplicationStatus425_methods l"
| "methods l (PrepareApplicationDefault code payload) = PrepareApplicationDefault_methods l code payload"
| "methods l CheckReadinessOK = CheckReadinessOK_methods"
| "methods l (CheckReadinessStatus425 _) = CheckReadinessStatus425_methods l"
| "methods l (CheckReadinessDefault code payload) = CheckReadinessDefault_methods l code payload"
| "methods l TerminateDisruptionOK = TerminateDisruptionOK_methods"
| "methods l (TerminateDisruptionDefault code payload) = TerminateDisruptionDefault_methods l code payload"

lemmas method_sets = PrepareApplicationOK_methods_def PrepareApplicationFailedDependency_methods_def
  PrepareApplicationStatus425_methods_def PrepareApplicationDefault_methods_def
  CheckReadinessOK_methods_def CheckReadinessStatus425_methods_def CheckReadinessDefault_methods_def
  TerminateDisruptionOK_methods_def TerminateDisruptionDefault_methods_def

section \<open>Agreement with the status code\<close>

text \<open>What the generator promises of a method set for a response of status code \<open>code\<close>.\<close>

definition flags_of_code :: "int \<Rightarrow> response_methods \<Rightarrow> bool" where
  "flags_of_code code m \<longleftrightarrow>
     (IsSuccess m \<longleftrightarrow> code sdiv 100 = 2) \<and> (IsRedirect m \<longleftrightarrow> code sdiv 100 = 3) \<and>
     (IsClientError m \<longleftrightarrow> code sdiv 100 = 4) \<and> (IsServerError m \<longleftrightarrow> code sdiv 100 = 5)"

lemma flags_exclusive:
  "flags_of_code code m \<Longrightarrow>
   \<not> (IsSuccess m \<and> IsClientError m) \<and> \<not> (IsSuccess m \<and> IsServerError m) \<and> \<not> (IsSuccess m \<and> IsRedirect m)"
  by (auto simp: flags_of_code_def)

lemma constant_codes [simp]: "(200::int) sdiv 100 = 2" "(424::int) sdiv 100 = 4" "(425::int) sdiv 100 = 4"
  "Itoa 200 = ''200''" "Itoa 424 = ''424''" "Itoa 425 = ''425''"
  by code_simp+

lemma methods_flags: "flags_of_code (Code r) (methods l r)"
  by (cases r) (simp_all add: method_sets flags_of_code_def)

text \<open>
  The hard-coded method sets of the typed responses and the computed ones of the default
  responses are the same functions of the status code: the four class flags say which hundred the
  code is in, \<open>IsCode\<close> recognises that code alone, and \<open>Error\<close> and \<open>String\<close> print the same text,
  which is the one that ends up in the reasons of a disruption.
\<close>

theorem response_methods_agree:
  "flags_of_code (Code r) (methods l r) \<and>
   GetCode (methods l r) = Code r \<and> (\<forall>code. IsCode (methods l r) code = (code = Code r)) \<and>
   ErrorText (methods l r) = error_string l (ErrResponse r) \<and> StringText (methods l r) = ErrorText (methods l r)"
  by (rule conjI [OF methods_flags], cases r) (auto simp: method_sets)

section \<open>The readers follow the method sets\<close>

text \<open>The empty response that each reader makes for a status code.\<close>

definition new_prepare :: "int \<Rightarrow> client_response" where
  "new_prepare code = (if code = 200 then PrepareApplicationOK
     else if code = 424 then PrepareApplicationFailedDependency
     else if code = 425 then PrepareApplicationStatus425 0
     else PrepareApplicationDefault code '''')"

definition new_ready :: "int \<Rightarrow> client_response" where
  "new_ready code = (if code = 200 then CheckReadinessOK
     else if code = 425 then CheckReadinessStatus425 0
     else CheckReadinessDefault code '''')"

definition new_terminate :: "int \<Rightarrow> client_response" where
  "new_terminate code = (if code = 200 then TerminateDisruptionOK else TerminateDisruptionDefault code '''')"

text \<open>
  The specification of a reader: fill the empty response, then hand it over as a result when it is a
  success and as an error otherwise.
\<close>

definition read_typed :: "lib \<Rightarrow> (int \<Rightarrow> client_response) \<Rightarrow> http_response \<Rightarrow> error + client_response" where
  "read_typed l new response =
     (case readResponse (methods l (new (rsp_Code response))) response of
        Inl err \<Rightarrow> Inl err
      | Inr result \<Rightarrow> if IsSuccess (methods l result) then Inr result else Inl (ErrResponse result))"

lemma readers_are_typed:
  "PrepareApplicationReader_ReadResponse l response = read_typed l new_prepare response"
  "CheckReadinessReader_ReadResponse l response = read_typed l new_ready response"
  "TerminateDisruptionReader_ReadResponse l response = read_typed l new_terminate response"
  by (auto simp: PrepareApplicationReader_ReadResponse_def CheckReadinessReader_ReadResponse_def
      TerminateDisruptionReader_ReadResponse_def read_typed_def new_prepare_def new_ready_def
      new_terminate_def method_sets Let_def split: sum.splits)

text \<open>
  C27: The three readers implement one specification: make the response type of the status code, fill
  it, and return it as a result when its own \<open>IsSuccess\<close> says so and as an error otherwise.
\<close>

theorem readers_follow_IsSuccess:
  "PrepareApplicationReader_ReadResponse l response = read_typed l new_prepare response \<and>
   CheckReadinessReader_ReadResponse l response = read_typed l new_ready response \<and>
   TerminateDisruptionReader_ReadResponse l response = read_typed l new_terminate response"
  by (simp add: readers_are_typed)

end
