(* ===== verification/Copy_Logic.thy ===== *)
theory Copy_Logic
  imports Api_Types
begin

text \<open>
  API objects in memory.  Elsewhere they are values; here they are laid out as Go has them: a struct
  holds its slices as headers that point to arrays of a store, so that the assignment \<open>*out = *in\<close>
  shares the arrays of the original.  The locale \<open>copier\<close> says what a deep copy promises, and the
  rules below build copies of pairs, structs, slices and pointers from copies of their parts.
\<close>

section \<open>The store\<close>

text \<open>
  A slice header is nil, or names an array, an offset and a length.  The structs hold opaque library
  values \<open>'o\<close>, whose memory is in opaque cells \<open>'l\<close>.
\<close>

datatype header = NilHeader | Header nat nat nat

record TypeMeta =
  tm_Kind :: string
  tm_APIVersion :: string

record 'o mem_ADBSpec =
  mas_PodSelector :: 'o
  mas_PVCSelector :: 'o
  mas_MaxDisruptions :: gint
  mas_HealthHook :: HookSpec
  mas_HookV2BasePath :: HookSpec
  mas_Types :: header

record mem_BudgetStatus =
  mbs_WatchedNodes :: header
  mbs_DisruptionsAllowed :: gint
  mbs_CurrentDisruptions :: gint
  mbs_Disruptions :: header

record 'o mem_NDBSpec =
  mbn_NodeSelector :: 'o
  mbn_MaxDisruptedNodes :: gint
  mbn_MinUndisruptedNodes :: gint
  mbn_Types :: header

record 'o mem_NDSpec =
  mns_NodeSelector :: 'o
  mns_StartDate :: time
  mns_DoNotGrantBefore :: time
  mns_Duration :: duration
  mns_Retry :: RetrySpec
  mns_Type :: string

record mem_NDStatus =
  mnt_State :: NodeDisruptionState
  mnt_Budgets :: header
  mnt_Nodes :: header
  mnt_NextRetryDate :: time

text \<open>The three resources, and a list of them, share the shape: type, metadata and contents.\<close>

record ('o, 's, 't) mem_object =
  mo_Type :: TypeMeta
  mo_Meta :: 'o
  mo_Spec :: 's
  mo_Status :: 't

type_synonym 'o mem_ADB = "('o, 'o mem_ADBSpec, mem_BudgetStatus) mem_object"
type_synonym 'o mem_NDB = "('o, 'o mem_NDBSpec, mem_BudgetStatus) mem_object"
type_synonym 'o mem_ND = "('o, 'o mem_NDSpec, mem_NDStatus) mem_object"

record 'o mem_list =
  ml_Type :: TypeMeta
  ml_Meta :: 'o
  ml_Items :: header

text \<open>\<open>ApplicationDisruptionBudgetList\<close>, \<open>NodeDisruptionBudgetList\<close> and \<open>NodeDisruptionList\<close>.\<close>

type_synonym 'o mem_ADBList = "'o mem_list"
type_synonym 'o mem_NDBList = "'o mem_list"
type_synonym 'o mem_NDList = "'o mem_list"

datatype ('o, 'l) cell =
    Strings "string list"
  | DisruptionArray "Disruption list"
  | StatusArray "DisruptedBudgetStatus list"
  | ADBArray "'o mem_ADB list"
  | NDBArray "'o mem_NDB list"
  | NDArray "'o mem_ND list"
  | Opaque 'l

record ('o, 'l) store =
  next_address :: nat
  cells :: "nat \<Rightarrow> ('o, 'l) cell option"

type_synonym ('o, 'l, 'a) mem = "(('o, 'l) store, 'a) state"

definition extends :: "('o, 'l) store \<Rightarrow> ('o, 'l) store \<Rightarrow> bool" where
  "extends h h' \<longleftrightarrow> next_address h \<le> next_address h' \<and> (\<forall>a < next_address h. cells h' a = cells h a)"

lemma extends_refl [simp]: "extends h h"
  by (simp add: extends_def)

lemma extends_trans: "extends h h1 \<Longrightarrow> extends h1 h2 \<Longrightarrow> extends h h2"
  by (auto simp: extends_def)

definition alloc :: "('o, 'l) cell \<Rightarrow> ('o, 'l, nat) mem" where
  "alloc c = State (\<lambda>h. (next_address h,
     h\<lparr>next_address := next_address h + 1, cells := (cells h)(next_address h := Some c)\<rparr>))"

section \<open>What a deep copy promises\<close>

text \<open>
  \<open>read\<close> gives the API value that a memory layout stands for, if it is not dangling, and \<open>foot\<close> the
  addresses it is read from.  A copy allocates only, reads the same, and lives in new memory.
\<close>

locale copier =
  fixes copy :: "'a \<Rightarrow> ('o, 'l, 'a) mem"
    and read :: "('o, 'l) store \<Rightarrow> 'a \<Rightarrow> 'v option"
    and foot :: "('o, 'l) store \<Rightarrow> 'a \<Rightarrow> nat set"
  assumes allocated: "read h x = Some v \<Longrightarrow> foot h x \<subseteq> {..<next_address h}"
    and local: "read h x = Some v \<Longrightarrow> next_address h \<le> next_address h' \<Longrightarrow>
      (\<forall>a \<in> foot h x. cells h' a = cells h a) \<Longrightarrow> read h' x = Some v \<and> foot h' x = foot h x"
    and copied: "read h x = Some v \<Longrightarrow> run_state (copy x) h = (y, h') \<Longrightarrow>
      extends h h' \<and> read h' y = Some v \<and> foot h' y \<subseteq> {next_address h..<next_address h'}"
begin

lemma later:
  assumes "read h x = Some v" and "extends h h'"
  shows "read h' x = Some v" and "foot h' x = foot h x"
  using local [OF assms(1), of h'] allocated [OF assms(1)] assms(2) by (auto simp: extends_def)

text \<open>Whatever is written to the memory of one of the two, the other still reads the same.\<close>

lemma isolated:
  assumes reads: "read h x = Some v" and run: "run_state (copy x) h = (y, h')"
    and size: "next_address h'' = next_address h'"
  shows "(\<forall>a. a \<notin> foot h' y \<longrightarrow> cells h'' a = cells h' a) \<Longrightarrow> read h'' x = Some v"
    and "(\<forall>a. a \<notin> foot h' x \<longrightarrow> cells h'' a = cells h' a) \<Longrightarrow> read h'' y = Some v"
proof -
  note new = copied [OF reads run]
  from later [OF reads] new have x: "read h' x = Some v" "foot h' x = foot h x" by blast+
  from new x(2) allocated [OF reads] have apart: "foot h' x \<inter> foot h' y = {}" by fastforce
  show "read h'' x = Some v" if "\<forall>a. a \<notin> foot h' y \<longrightarrow> cells h'' a = cells h' a"
    using local [OF x(1), of h''] size that apart by auto
  show "read h'' y = Some v" if "\<forall>a. a \<notin> foot h' x \<longrightarrow> cells h'' a = cells h' a"
    using local [of h' y v h''] new size that apart by auto
qed

end

section \<open>Building copiers\<close>

text \<open>Values without references, pairs, and structs that are made of their parts.\<close>

abbreviation plain_read :: "('o, 'l) store \<Rightarrow> 'a \<Rightarrow> 'a option" where
  "plain_read h x \<equiv> Some x"

abbreviation no_foot :: "('o, 'l) store \<Rightarrow> 'a \<Rightarrow> nat set" where
  "no_foot h x \<equiv> {}"

lemma copier_plain: "copier State_Monad.return plain_read no_foot"
  by standard auto

definition pair_copy :: "('a \<Rightarrow> ('o, 'l, 'a) mem) \<Rightarrow> ('b \<Rightarrow> ('o, 'l, 'b) mem) \<Rightarrow> 'a \<times> 'b \<Rightarrow> ('o, 'l, 'a \<times> 'b) mem" where
  "pair_copy c d p = do { x \<leftarrow> c (fst p); y \<leftarrow> d (snd p); State_Monad.return (x, y) }"

definition pair_read :: "('h \<Rightarrow> 'a \<Rightarrow> 'v option) \<Rightarrow> ('h \<Rightarrow> 'b \<Rightarrow> 'w option) \<Rightarrow> 'h \<Rightarrow> 'a \<times> 'b \<Rightarrow> ('v \<times> 'w) option" where
  "pair_read r s h p = (case (r h (fst p), s h (snd p)) of (Some v, Some w) \<Rightarrow> Some (v, w) | _ \<Rightarrow> None)"

definition pair_foot :: "('h \<Rightarrow> 'a \<Rightarrow> nat set) \<Rightarrow> ('h \<Rightarrow> 'b \<Rightarrow> nat set) \<Rightarrow> 'h \<Rightarrow> 'a \<times> 'b \<Rightarrow> nat set" where
  "pair_foot f g h p = f h (fst p) \<union> g h (snd p)"

lemma pair_read_Some: "pair_read r s h p = Some z \<longleftrightarrow>
    r h (fst p) = Some (fst z) \<and> s h (snd p) = Some (snd z)"
  by (cases z) (auto simp: pair_read_def split: option.splits)

lemma copier_pair:
  fixes c :: "'a \<Rightarrow> ('o, 'l, 'a) mem" and d :: "'b \<Rightarrow> ('o, 'l, 'b) mem"
  assumes c: "copier c r f" and d: "copier d s g"
  shows "copier (pair_copy c d) (pair_read r s) (pair_foot f g)"
proof (rule copier.intro)
  fix h p z
  assume "pair_read r s h p = Some z"
  then show "pair_foot f g h p \<subseteq> {..<next_address h}"
    using copier.allocated [OF c, of h "fst p"] copier.allocated [OF d, of h "snd p"]
    by (simp add: pair_foot_def pair_read_Some)
next
  fix h p z and h' :: "('o, 'l) store"
  assume "pair_read r s h p = Some z" and "next_address h \<le> next_address h'"
    and "\<forall>a \<in> pair_foot f g h p. cells h' a = cells h a"
  then show "pair_read r s h' p = Some z \<and> pair_foot f g h' p = pair_foot f g h p"
    using copier.local [OF c, of h "fst p" "fst z" h'] copier.local [OF d, of h "snd p" "snd z" h']
    by (simp add: pair_read_Some pair_foot_def)
next
  fix h p z y and h' :: "('o, 'l) store"
  assume reads: "pair_read r s h p = Some z"
  then have r: "r h (fst p) = Some (fst z)" and s: "s h (snd p) = Some (snd z)"
    by (simp_all add: pair_read_Some)
  assume run: "run_state (pair_copy c d p) h = (y, h')"
  obtain y1 h1 where one: "run_state (c (fst p)) h = (y1, h1)" by fastforce
  note new1 = copier.copied [OF c r one]
  obtain y2 h2 where two: "run_state (d (snd p)) h1 = (y2, h2)" by fastforce
  from copier.later [OF d s] new1 have "s h1 (snd p) = Some (snd z)" by blast
  note new2 = copier.copied [OF d this two]
  from run one two have y: "y = (y1, y2)" "h' = h2" by (simp_all add: pair_copy_def)
  from new1 new2 copier.later [OF c, of h1 y1 "fst z" h2]
  have "r h2 y1 = Some (fst z)" "f h2 y1 = f h1 y1" by blast+
  moreover from new1 new2 have "extends h h2" by (blast intro: extends_trans)
  ultimately show "extends h h' \<and> pair_read r s h' y = Some z \<and>
      pair_foot f g h' y \<subseteq> {next_address h..<next_address h'}"
    using new1 new2 y by (fastforce simp: pair_read_Some pair_foot_def extends_def)
qed

text \<open>A struct whose parts are copied: \<open>parts\<close> and \<open>with\<close> are the projection and the update.\<close>

lemma copier_struct:
  fixes c :: "'p \<Rightarrow> ('o, 'l, 'p) mem"
  assumes c: "copier c r f"
    and copy: "\<And>x. copy x = do { p \<leftarrow> c (parts x); State_Monad.return (update x p) }"
    and read: "\<And>h x. read h x = map_option (build x) (r h (parts x))"
    and foot: "\<And>h x. foot h x = f h (parts x)"
    and laws: "\<And>x p. parts (update x p) = p" "\<And>x p. build (update x p) = build x"
  shows "copier copy read foot"
proof (rule copier.intro)
  fix h x v
  assume "read h x = Some v"
  then show "foot h x \<subseteq> {..<next_address h}"
    using copier.allocated [OF c] by (auto simp: read foot)
next
  fix h x v and h' :: "('o, 'l) store"
  assume "read h x = Some v" and "next_address h \<le> next_address h'"
    and "\<forall>a \<in> foot h x. cells h' a = cells h a"
  then show "read h' x = Some v \<and> foot h' x = foot h x"
    using copier.local [OF c, of h "parts x" _ h'] by (auto simp: read foot)
next
  fix h x v y and h' :: "('o, 'l) store"
  assume reads: "read h x = Some v" and run: "run_state (copy x) h = (y, h')"
  obtain p h1 where one: "run_state (c (parts x)) h = (p, h1)" by fastforce
  with run have y: "y = update x p" "h' = h1" by (simp_all add: copy)
  from reads obtain w where "r h (parts x) = Some w" "v = build x w" by (auto simp: read)
  with copier.copied [OF c _ one, of w] y
  show "extends h h' \<and> read h' y = Some v \<and> foot h' y \<subseteq> {next_address h..<next_address h'}"
    by (simp add: read foot laws)
qed

section \<open>Slices\<close>

text \<open>
  The elements of a header, or nothing when it is dangling; \<open>get\<close> and \<open>put\<close> say which kind of
  array it points to.
\<close>

definition deref :: "(('o, 'l) cell \<Rightarrow> 'a list option) \<Rightarrow> ('o, 'l) store \<Rightarrow> nat \<Rightarrow> nat \<Rightarrow> nat \<Rightarrow> 'a list option" where
  "deref get h a off len =
     (if a < next_address h then
        (case Option.bind (cells h a) get of
           Some xs \<Rightarrow> if off + len \<le> length xs then Some (take len (drop off xs)) else None
         | None \<Rightarrow> None)
      else None)"

fun read_slice :: "(('o, 'l) cell \<Rightarrow> 'a list option) \<Rightarrow> ('o, 'l) store \<Rightarrow> header \<Rightarrow> 'a slice option" where
  "read_slice get h NilHeader = Some NilSlice"
| "read_slice get h (Header a off len) = map_option Slice (deref get h a off len)"

fun header_foot :: "('o, 'l) store \<Rightarrow> header \<Rightarrow> nat set" where
  "header_foot h NilHeader = {}"
| "header_foot h (Header a off len) = {a}"

text \<open>
  \<open>if in.F != nil { *out = make([]T, len(*in)); copy(*out, *in) }\<close>: a nil header stays as
  \<open>*out = *in\<close> has left it.
\<close>

fun copy_slice :: "(('o, 'l) cell \<Rightarrow> 'a list option) \<Rightarrow> ('a list \<Rightarrow> ('o, 'l) cell) \<Rightarrow> header \<Rightarrow> ('o, 'l, header) mem" where
  "copy_slice get put NilHeader = State_Monad.return NilHeader"
| "copy_slice get put (Header a off len) = do {
     h \<leftarrow> State_Monad.get;
     let xs = (case deref get h a off len of None \<Rightarrow> [] | Some xs \<Rightarrow> xs);
     b \<leftarrow> alloc (put xs);
     State_Monad.return (Header b 0 len) }"

lemma deref_alloc:
  "deref get h a off len = Some xs \<Longrightarrow> run_state (alloc c) h = (b, h') \<Longrightarrow> extends h h' \<and> b = next_address h \<and>
     next_address h' = next_address h + 1 \<and> cells h' b = Some c"
  by (auto simp: alloc_def extends_def)

lemma deref_length: "deref get h a off len = Some xs \<Longrightarrow> length xs = len"
  by (auto simp: deref_def split: if_splits option.splits)

lemma deref_local:
  "deref get h a off len = Some xs \<Longrightarrow> next_address h \<le> next_address h' \<Longrightarrow> cells h' a = cells h a \<Longrightarrow>
   deref get h' a off len = Some xs"
  by (auto simp: deref_def split: if_splits option.splits)

lemma copier_slice:
  fixes get :: "('o, 'l) cell \<Rightarrow> 'a list option"
  assumes prism: "\<And>xs. get (put xs) = Some xs"
  shows "copier (copy_slice get put) (read_slice get) header_foot"
proof (rule copier.intro)
  fix h x v
  assume "read_slice get h x = Some v"
  then show "header_foot h x \<subseteq> {..<next_address h}"
    by (cases x) (auto simp: deref_def split: if_splits)
next
  fix h x v and h' :: "('o, 'l) store"
  assume "read_slice get h x = Some v" and "next_address h \<le> next_address h'"
    and "\<forall>a \<in> header_foot h x. cells h' a = cells h a"
  then show "read_slice get h' x = Some v \<and> header_foot h' x = header_foot h x"
    by (cases x) (auto intro: deref_local)
next
  fix h x v y and h' :: "('o, 'l) store"
  assume reads: "read_slice get h x = Some v" and run: "run_state (copy_slice get put x) h = (y, h')"
  show "extends h h' \<and> read_slice get h' y = Some v \<and> header_foot h' y \<subseteq> {next_address h..<next_address h'}"
  proof (cases x)
    case (Header a off len)
    with reads obtain xs where xs: "deref get h a off len = Some xs" "v = Slice xs" by auto
    obtain b h1 where new: "run_state (alloc (put xs)) h = (b, h1)" by fastforce
    with run xs Header have "y = Header b 0 len" "h' = h1" by (simp_all add: Let_def)
    with deref_alloc [OF xs(1) new] deref_length [OF xs(1)] xs(2) show ?thesis
      by (auto simp: deref_def prism)
  qed (use reads run in auto)
qed

text \<open>Slices of structs, whose elements are copied in turn.\<close>

fun copy_all :: "('a \<Rightarrow> ('o, 'l, 'a) mem) \<Rightarrow> 'a list \<Rightarrow> ('o, 'l, 'a list) mem" where
  "copy_all c [] = State_Monad.return []"
| "copy_all c (x # xs) = do { y \<leftarrow> c x; ys \<leftarrow> copy_all c xs; State_Monad.return (y # ys) }"

fun read_all :: "('h \<Rightarrow> 'a \<Rightarrow> 'v option) \<Rightarrow> 'h \<Rightarrow> 'a list \<Rightarrow> 'v list option" where
  "read_all r h [] = Some []"
| "read_all r h (x # xs) =
     (case (r h x, read_all r h xs) of (Some v, Some vs) \<Rightarrow> Some (v # vs) | _ \<Rightarrow> None)"

fun foot_all :: "('h \<Rightarrow> 'a \<Rightarrow> nat set) \<Rightarrow> 'h \<Rightarrow> 'a list \<Rightarrow> nat set" where
  "foot_all f h [] = {}"
| "foot_all f h (x # xs) = f h x \<union> foot_all f h xs"

lemma read_all_Cons [simp]: "read_all r h (x # xs) = Some vs \<longleftrightarrow>
    (\<exists>w ws. r h x = Some w \<and> read_all r h xs = Some ws \<and> vs = w # ws)"
  by (auto split: option.splits)

declare read_all.simps(2) [simp del]

lemma read_all_length: "read_all r h xs = Some vs \<Longrightarrow> length vs = length xs"
  by (induction xs arbitrary: vs) auto

lemma copier_all:
  fixes c :: "'a \<Rightarrow> ('o, 'l, 'a) mem"
  assumes c: "copier c r f"
  shows "copier (copy_all c) (read_all r) (foot_all f)"
proof (rule copier.intro)
  fix h xs vs
  assume "read_all r h xs = Some vs"
  then show "foot_all f h xs \<subseteq> {..<next_address h}"
    by (induction xs arbitrary: vs) (use copier.allocated [OF c, of h] in \<open>fastforce+\<close>)
next
  fix h xs vs and h' :: "('o, 'l) store"
  assume "read_all r h xs = Some vs" and "next_address h \<le> next_address h'"
    and "\<forall>a \<in> foot_all f h xs. cells h' a = cells h a"
  then show "read_all r h' xs = Some vs \<and> foot_all f h' xs = foot_all f h xs"
    by (induction xs arbitrary: vs) (use copier.local [OF c, of h _ _ h'] in auto)
next
  fix h xs vs ys and h' :: "('o, 'l) store"
  assume "read_all r h xs = Some vs" and "run_state (copy_all c xs) h = (ys, h')"
  then show "extends h h' \<and> read_all r h' ys = Some vs \<and> foot_all f h' ys \<subseteq> {next_address h..<next_address h'}"
  proof (induction xs arbitrary: vs ys h h')
    case (Cons x xs)
    from Cons.prems(1) obtain w ws where reads: "r h x = Some w" "read_all r h xs = Some ws" "vs = w # ws"
      by auto
    obtain y h1 where one: "run_state (c x) h = (y, h1)" by fastforce
    obtain zs h2 where rest: "run_state (copy_all c xs) h1 = (zs, h2)" by fastforce
    from Cons.prems(2) one rest have ys: "ys = y # zs" "h' = h2" by simp_all
    note new1 = copier.copied [OF c reads(1) one]
    then have "extends h h1" by blast
    from reads(2) have "read_all r h1 xs = Some ws"
      by (induction xs arbitrary: ws) (use copier.later(1) [OF c _ \<open>extends h h1\<close>] in auto)
    note new2 = Cons.IH [OF this rest]
    from new1 new2 copier.later [OF c, of h1 y w h2] have "r h2 y = Some w" "f h2 y = f h1 y" by blast+
    moreover from new1 new2 have "extends h h2" by (blast intro: extends_trans)
    ultimately show ?case
      using new1 new2 ys reads(3) by (fastforce simp: extends_def)
  qed simp
qed

fun read_items :: "(('o, 'l) cell \<Rightarrow> 'a list option) \<Rightarrow> (('o, 'l) store \<Rightarrow> 'a \<Rightarrow> 'v option) \<Rightarrow>
    ('o, 'l) store \<Rightarrow> header \<Rightarrow> 'v slice option" where
  "read_items get r h NilHeader = Some NilSlice"
| "read_items get r h (Header a off len) =
     (case deref get h a off len of None \<Rightarrow> None | Some xs \<Rightarrow> map_option Slice (read_all r h xs))"

fun items_foot :: "(('o, 'l) cell \<Rightarrow> 'a list option) \<Rightarrow> (('o, 'l) store \<Rightarrow> 'a \<Rightarrow> nat set) \<Rightarrow>
    ('o, 'l) store \<Rightarrow> header \<Rightarrow> nat set" where
  "items_foot get f h NilHeader = {}"
| "items_foot get f h (Header a off len) =
     insert a (case deref get h a off len of None \<Rightarrow> {} | Some xs \<Rightarrow> foot_all f h xs)"

text \<open>
  \<open>for i := range *in { (*in)[i].DeepCopyInto(&(*out)[i]) }\<close>: the elements are copied from the first to
  the last; the array that receives them is recorded with its final contents.
\<close>

fun copy_items :: "(('o, 'l) cell \<Rightarrow> 'a list option) \<Rightarrow> ('a list \<Rightarrow> ('o, 'l) cell) \<Rightarrow>
    ('a \<Rightarrow> ('o, 'l, 'a) mem) \<Rightarrow> header \<Rightarrow> ('o, 'l, header) mem" where
  "copy_items get put c NilHeader = State_Monad.return NilHeader"
| "copy_items get put c (Header a off len) = do {
     h \<leftarrow> State_Monad.get;
     let xs = (case deref get h a off len of None \<Rightarrow> [] | Some xs \<Rightarrow> xs);
     ys \<leftarrow> copy_all c xs;
     b \<leftarrow> alloc (put ys);
     State_Monad.return (Header b 0 len) }"

lemma copier_items:
  fixes get :: "('o, 'l) cell \<Rightarrow> 'a list option"
  assumes c: "copier c r f" and prism: "\<And>xs. get (put xs) = Some xs"
  shows "copier (copy_items get put c) (read_items get r) (items_foot get f)"
proof (rule copier.intro)
  fix h x v
  assume "read_items get r h x = Some v"
  then show "items_foot get f h x \<subseteq> {..<next_address h}"
    using copier.allocated [OF copier_all [OF c], of h]
    by (cases x) (auto simp: deref_def split: if_splits option.splits)
next
  fix h x v and h' :: "('o, 'l) store"
  assume reads: "read_items get r h x = Some v" and le: "next_address h \<le> next_address h'"
    and same: "\<forall>a \<in> items_foot get f h x. cells h' a = cells h a"
  show "read_items get r h' x = Some v \<and> items_foot get f h' x = items_foot get f h x"
  proof (cases x)
    case (Header a off len)
    with reads obtain xs vs where xs: "deref get h a off len = Some xs" "read_all r h xs = Some vs" "v = Slice vs"
      by (auto split: option.splits)
    with same Header deref_local [OF xs(1) le] copier.local [OF copier_all [OF c] xs(2) le] show ?thesis by simp
  qed (use reads in simp)
next
  fix h x v y and h' :: "('o, 'l) store"
  assume reads: "read_items get r h x = Some v" and run: "run_state (copy_items get put c x) h = (y, h')"
  show "extends h h' \<and> read_items get r h' y = Some v \<and> items_foot get f h' y \<subseteq> {next_address h..<next_address h'}"
  proof (cases x)
    case (Header a off len)
    with reads obtain xs vs where xs: "deref get h a off len = Some xs" "read_all r h xs = Some vs" "v = Slice vs"
      by (auto split: option.splits)
    obtain ys h1 where all: "run_state (copy_all c xs) h = (ys, h1)" by fastforce
    obtain b h2 where new: "run_state (alloc (put ys)) h1 = (b, h2)" by fastforce
    from run xs(1) Header all new have y: "y = Header b 0 len" "h' = h2" by (simp_all add: Let_def)
    note copies = copier.copied [OF copier_all [OF c] xs(2) all]
    have b: "extends h1 h2" "b = next_address h1" "next_address h2 = next_address h1 + 1" "cells h2 b = Some (put ys)"
      using new by (auto simp: alloc_def extends_def)
    from copies have ys: "read_all r h1 ys = Some vs" by blast
    note later = copier.later [OF copier_all [OF c] ys b(1)]
    have "length ys = len"
      using read_all_length [OF ys] read_all_length [OF xs(2)] deref_length [OF xs(1)] by simp
    then have "deref get h2 b 0 len = Some ys" using b by (simp add: deref_def prism)
    moreover from copies b(1) have "extends h h2" by (blast intro: extends_trans)
    ultimately show ?thesis using later copies b xs(3) y by (auto simp: extends_def)
  qed (use reads run in auto)
qed

section \<open>Consequences shared by all copies\<close>

text \<open>Reading through a function, and copies of pointers: \<open>if in == nil { return nil }\<close>.\<close>

lemma copier_decode:
  fixes c :: "'a \<Rightarrow> ('o, 'l, 'a) mem"
  assumes c: "copier c r f"
  shows "copier c (\<lambda>h x. Option.bind (r h x) g) f"
proof (rule copier.intro)
  fix h x v and h' :: "('o, 'l) store"
  assume "Option.bind (r h x) g = Some v" and "next_address h \<le> next_address h'"
    and "\<forall>a \<in> f h x. cells h' a = cells h a"
  then show "Option.bind (r h' x) g = Some v \<and> f h' x = f h x"
    using copier.local [OF c, of h x _ h'] by (auto simp: bind_eq_Some_conv)
next
  fix h x v
  assume "Option.bind (r h x) g = Some v"
  then obtain w where "r h x = Some w" by (auto simp: bind_eq_Some_conv)
  then show "f h x \<subseteq> {..<next_address h}" by (rule copier.allocated [OF c])
next
  fix h x v y and h' :: "('o, 'l) store"
  assume "Option.bind (r h x) g = Some v" and run: "run_state (c x) h = (y, h')"
  then obtain w where w: "r h x = Some w" "g w = Some v" by (auto simp: bind_eq_Some_conv)
  from copier.copied [OF c w(1) run] w(2)
  show "extends h h' \<and> Option.bind (r h' y) g = Some v \<and> f h' y \<subseteq> {next_address h..<next_address h'}"
    by simp
qed

definition new_copy :: "('a \<Rightarrow> ('o, 'l, 'a) mem) \<Rightarrow> 'a option \<Rightarrow> ('o, 'l, 'a option) mem" where
  "new_copy c p = (case p of
     None \<Rightarrow> State_Monad.return None
   | Some x \<Rightarrow> do { y \<leftarrow> c x; State_Monad.return (Some y) })"

text \<open>\<open>DeepCopyObject\<close>: the pointer as an interface value, nil for a nil pointer.\<close>

definition as_object :: "('o, 'l, 'a option) mem \<Rightarrow> ('o, 'l, 'a option) mem" where
  "as_object m = do {
     c \<leftarrow> m;
     (case c of Some c \<Rightarrow> State_Monad.return (Some c) | None \<Rightarrow> State_Monad.return None) }"

lemma as_object_id: "run_state (as_object m) h = run_state m h"
  by (auto simp: as_object_def split: prod.split option.split)

definition pointer_read :: "('h \<Rightarrow> 'a \<Rightarrow> 'v option) \<Rightarrow> 'h \<Rightarrow> 'a option \<Rightarrow> 'v option option" where
  "pointer_read r h p = (case p of None \<Rightarrow> Some None | Some x \<Rightarrow> map_option Some (r h x))"

definition pointer_foot :: "('h \<Rightarrow> 'a \<Rightarrow> nat set) \<Rightarrow> 'h \<Rightarrow> 'a option \<Rightarrow> nat set" where
  "pointer_foot f h p = (case p of None \<Rightarrow> {} | Some x \<Rightarrow> f h x)"

lemma copier_pointer:
  fixes c :: "'a \<Rightarrow> ('o, 'l, 'a) mem"
  assumes c: "copier c r f"
  shows "copier (\<lambda>p. as_object (new_copy c p)) (pointer_read r) (pointer_foot f)"
proof (rule copier.intro)
  fix h p v
  assume "pointer_read r h p = Some v"
  then show "pointer_foot f h p \<subseteq> {..<next_address h}"
    using copier.allocated [OF c, of h] by (cases p) (auto simp: pointer_read_def pointer_foot_def)
next
  fix h p v and h' :: "('o, 'l) store"
  assume "pointer_read r h p = Some v" and "next_address h \<le> next_address h'"
    and "\<forall>a \<in> pointer_foot f h p. cells h' a = cells h a"
  then show "pointer_read r h' p = Some v \<and> pointer_foot f h' p = pointer_foot f h p"
    using copier.local [OF c, of h _ _ h'] by (cases p) (auto simp: pointer_read_def pointer_foot_def)
next
  fix h p v y and h' :: "('o, 'l) store"
  assume reads: "pointer_read r h p = Some v" and run: "run_state (as_object (new_copy c p)) h = (y, h')"
  show "extends h h' \<and> pointer_read r h' y = Some v \<and> pointer_foot f h' y \<subseteq> {next_address h..<next_address h'}"
  proof (cases p)
    case (Some x)
    obtain z h1 where one: "run_state (c x) h = (z, h1)" by fastforce
    with run Some have "y = Some z" "h' = h1" by (simp_all add: as_object_id new_copy_def)
    moreover from reads Some obtain w where "r h x = Some w" "v = Some w" by (auto simp: pointer_read_def)
    ultimately show ?thesis
      using copier.copied [OF c _ one] by (simp add: pointer_read_def pointer_foot_def)
  qed (use reads run in \<open>simp add: as_object_id new_copy_def pointer_read_def pointer_foot_def\<close>)
qed

end
