(* ===== verification/Deep_Copy.thy ===== *)
theory Deep_Copy
  imports Copy_Logic
begin

text \<open>
  The deep copies of \<open>api/v1alpha1/zz_generated.deepcopy.go\<close>, one definition per generated method.
  The copies of the types of the Kubernetes libraries (metadata, selectors, times) are parameters.
  The theorem is what the controllers rely on when they modify objects that come out of a shared
  cache: a copy reads the same, and a write through one of the two is never seen through the other.
\<close>

section \<open>The library types\<close>

record ListMeta =
  lm_ResourceVersion :: string
  lm_Continue :: string
  lm_RemainingItemCount :: "int option"

text \<open>
  \<open>DeepCopyInto\<close> of \<open>metav1.ObjectMeta\<close>, \<open>ListMeta\<close>, \<open>LabelSelector\<close> and \<open>Time\<close>, with how their
  memory is read; that they are deep copies is the documented contract of the library.
\<close>

record ('o, 'l) copy_lib =
  Meta_copy :: "'o \<Rightarrow> ('o, 'l, 'o) mem"
  Meta_read :: "('o, 'l) store \<Rightarrow> 'o \<Rightarrow> ObjectMeta option"
  Meta_foot :: "('o, 'l) store \<Rightarrow> 'o \<Rightarrow> nat set"
  ListMeta_copy :: "'o \<Rightarrow> ('o, 'l, 'o) mem"
  ListMeta_read :: "('o, 'l) store \<Rightarrow> 'o \<Rightarrow> ListMeta option"
  ListMeta_foot :: "('o, 'l) store \<Rightarrow> 'o \<Rightarrow> nat set"
  Selector_copy :: "'o \<Rightarrow> ('o, 'l, 'o) mem"
  Selector_read :: "('o, 'l) store \<Rightarrow> 'o \<Rightarrow> LabelSelector option"
  Selector_foot :: "('o, 'l) store \<Rightarrow> 'o \<Rightarrow> nat set"
  Time_copy :: "time \<Rightarrow> ('o, 'l, time) mem"

definition library_copies :: "('o, 'l) copy_lib \<Rightarrow> bool" where
  "library_copies lc \<longleftrightarrow>
     copier (Meta_copy lc) (Meta_read lc) (Meta_foot lc) \<and>
     copier (ListMeta_copy lc) (ListMeta_read lc) (ListMeta_foot lc) \<and>
     copier (Selector_copy lc) (Selector_read lc) (Selector_foot lc) \<and>
     copier (Time_copy lc) plain_read no_foot"

section \<open>The generated copies\<close>

fun strings_of :: "('o, 'l) cell \<Rightarrow> string list option" where
  "strings_of (Strings xs) = Some xs" | "strings_of _ = None"
fun disruptions_of :: "('o, 'l) cell \<Rightarrow> Disruption list option" where
  "disruptions_of (DisruptionArray xs) = Some xs" | "disruptions_of _ = None"
fun statuses_of :: "('o, 'l) cell \<Rightarrow> DisruptedBudgetStatus list option" where
  "statuses_of (StatusArray xs) = Some xs" | "statuses_of _ = None"
fun adbs_of :: "('o, 'l) cell \<Rightarrow> 'o mem_ADB list option" where
  "adbs_of (ADBArray xs) = Some xs" | "adbs_of _ = None"
fun ndbs_of :: "('o, 'l) cell \<Rightarrow> 'o mem_NDB list option" where
  "ndbs_of (NDBArray xs) = Some xs" | "ndbs_of _ = None"
fun nds_of :: "('o, 'l) cell \<Rightarrow> 'o mem_ND list option" where
  "nds_of (NDArray xs) = Some xs" | "nds_of _ = None"

subsection \<open>Structs without references\<close>

definition HookSpec_DeepCopyInto :: "HookSpec \<Rightarrow> ('o, 'l, HookSpec) mem" where
  "HookSpec_DeepCopyInto x = State_Monad.return x"

definition Disruption_DeepCopyInto :: "Disruption \<Rightarrow> ('o, 'l, Disruption) mem" where
  "Disruption_DeepCopyInto x = State_Monad.return x"

definition NamespacedName_DeepCopyInto :: "NamespacedName \<Rightarrow> ('o, 'l, NamespacedName) mem" where
  "NamespacedName_DeepCopyInto x = State_Monad.return x"

definition DisruptedBudgetStatus_DeepCopyInto :: "DisruptedBudgetStatus \<Rightarrow> ('o, 'l, DisruptedBudgetStatus) mem" where
  "DisruptedBudgetStatus_DeepCopyInto x = (let out = x; out = out\<lparr>Reference := Reference x\<rparr>
     in State_Monad.return out)"

subsection \<open>Specs and statuses\<close>

definition RetrySpec_DeepCopyInto :: "('o, 'l) copy_lib \<Rightarrow> RetrySpec \<Rightarrow> ('o, 'l, RetrySpec) mem" where
  "RetrySpec_DeepCopyInto lc x = do {
     let out = x;
     deadline \<leftarrow> Time_copy lc (Deadline x);
     State_Monad.return (out\<lparr>Deadline := deadline\<rparr>) }"

definition ADBSpec_DeepCopyInto :: "('o, 'l) copy_lib \<Rightarrow> 'o mem_ADBSpec \<Rightarrow> ('o, 'l, 'o mem_ADBSpec) mem" where
  "ADBSpec_DeepCopyInto lc x = do {
     let out = x;
     pod \<leftarrow> Selector_copy lc (mas_PodSelector x);
     let out = out\<lparr>mas_PodSelector := pod\<rparr>;
     pvc \<leftarrow> Selector_copy lc (mas_PVCSelector x);
     let out = out\<lparr>mas_PVCSelector := pvc\<rparr>;
     let out = out\<lparr>mas_HealthHook := mas_HealthHook x, mas_HookV2BasePath := mas_HookV2BasePath x\<rparr>;
     types \<leftarrow> copy_slice strings_of Strings (mas_Types x);
     State_Monad.return (out\<lparr>mas_Types := types\<rparr>) }"

definition BudgetStatus_DeepCopyInto :: "mem_BudgetStatus \<Rightarrow> ('o, 'l, mem_BudgetStatus) mem" where
  "BudgetStatus_DeepCopyInto x = do {
     let out = x;
     nodes \<leftarrow> copy_slice strings_of Strings (mbs_WatchedNodes x);
     let out = out\<lparr>mbs_WatchedNodes := nodes\<rparr>;
     disruptions \<leftarrow> copy_slice disruptions_of DisruptionArray (mbs_Disruptions x);
     State_Monad.return (out\<lparr>mbs_Disruptions := disruptions\<rparr>) }"

definition NDBSpec_DeepCopyInto :: "('o, 'l) copy_lib \<Rightarrow> 'o mem_NDBSpec \<Rightarrow> ('o, 'l, 'o mem_NDBSpec) mem" where
  "NDBSpec_DeepCopyInto lc x = do {
     let out = x;
     selector \<leftarrow> Selector_copy lc (mbn_NodeSelector x);
     let out = out\<lparr>mbn_NodeSelector := selector\<rparr>;
     types \<leftarrow> copy_slice strings_of Strings (mbn_Types x);
     State_Monad.return (out\<lparr>mbn_Types := types\<rparr>) }"

definition NDSpec_DeepCopyInto :: "('o, 'l) copy_lib \<Rightarrow> 'o mem_NDSpec \<Rightarrow> ('o, 'l, 'o mem_NDSpec) mem" where
  "NDSpec_DeepCopyInto lc x = do {
     let out = x;
     selector \<leftarrow> Selector_copy lc (mns_NodeSelector x);
     let out = out\<lparr>mns_NodeSelector := selector\<rparr>;
     start \<leftarrow> Time_copy lc (mns_StartDate x);
     let out = out\<lparr>mns_StartDate := start\<rparr>;
     before \<leftarrow> Time_copy lc (mns_DoNotGrantBefore x);
     let out = out\<lparr>mns_DoNotGrantBefore := before\<rparr>;
     let out = out\<lparr>mns_Duration := mns_Duration x\<rparr>;
     retry \<leftarrow> RetrySpec_DeepCopyInto lc (mns_Retry x);
     State_Monad.return (out\<lparr>mns_Retry := retry\<rparr>) }"

definition NDStatus_DeepCopyInto :: "('o, 'l) copy_lib \<Rightarrow> mem_NDStatus \<Rightarrow> ('o, 'l, mem_NDStatus) mem" where
  "NDStatus_DeepCopyInto lc x = do {
     let out = x;
     budgets \<leftarrow> copy_slice statuses_of StatusArray (mnt_Budgets x);
     let out = out\<lparr>mnt_Budgets := budgets\<rparr>;
     nodes \<leftarrow> copy_slice strings_of Strings (mnt_Nodes x);
     let out = out\<lparr>mnt_Nodes := nodes\<rparr>;
     next \<leftarrow> Time_copy lc (mnt_NextRetryDate x);
     State_Monad.return (out\<lparr>mnt_NextRetryDate := next\<rparr>) }"

subsection \<open>Resources and lists\<close>

definition ADB_DeepCopyInto :: "('o, 'l) copy_lib \<Rightarrow> 'o mem_ADB \<Rightarrow> ('o, 'l, 'o mem_ADB) mem" where
  "ADB_DeepCopyInto lc x = do {
     let out = x;
     let out = out\<lparr>mo_Type := mo_Type x\<rparr>;
     meta \<leftarrow> Meta_copy lc (mo_Meta x);
     let out = out\<lparr>mo_Meta := meta\<rparr>;
     spec \<leftarrow> ADBSpec_DeepCopyInto lc (mo_Spec x);
     let out = out\<lparr>mo_Spec := spec\<rparr>;
     status \<leftarrow> BudgetStatus_DeepCopyInto (mo_Status x);
     State_Monad.return (out\<lparr>mo_Status := status\<rparr>) }"

definition NDB_DeepCopyInto :: "('o, 'l) copy_lib \<Rightarrow> 'o mem_NDB \<Rightarrow> ('o, 'l, 'o mem_NDB) mem" where
  "NDB_DeepCopyInto lc x = do {
     let out = x;
     let out = out\<lparr>mo_Type := mo_Type x\<rparr>;
     meta \<leftarrow> Meta_copy lc (mo_Meta x);
     let out = out\<lparr>mo_Meta := meta\<rparr>;
     spec \<leftarrow> NDBSpec_DeepCopyInto lc (mo_Spec x);
     let out = out\<lparr>mo_Spec := spec\<rparr>;
     status \<leftarrow> BudgetStatus_DeepCopyInto (mo_Status x);
     State_Monad.return (out\<lparr>mo_Status := status\<rparr>) }"

definition ND_DeepCopyInto :: "('o, 'l) copy_lib \<Rightarrow> 'o mem_ND \<Rightarrow> ('o, 'l, 'o mem_ND) mem" where
  "ND_DeepCopyInto lc x = do {
     let out = x;
     let out = out\<lparr>mo_Type := mo_Type x\<rparr>;
     meta \<leftarrow> Meta_copy lc (mo_Meta x);
     let out = out\<lparr>mo_Meta := meta\<rparr>;
     spec \<leftarrow> NDSpec_DeepCopyInto lc (mo_Spec x);
     let out = out\<lparr>mo_Spec := spec\<rparr>;
     status \<leftarrow> NDStatus_DeepCopyInto lc (mo_Status x);
     State_Monad.return (out\<lparr>mo_Status := status\<rparr>) }"

definition ADBList_DeepCopyInto :: "('o, 'l) copy_lib \<Rightarrow> 'o mem_ADBList \<Rightarrow> ('o, 'l, 'o mem_ADBList) mem" where
  "ADBList_DeepCopyInto lc x = do {
     let out = x;
     let out = out\<lparr>ml_Type := ml_Type x\<rparr>;
     meta \<leftarrow> ListMeta_copy lc (ml_Meta x);
     let out = out\<lparr>ml_Meta := meta\<rparr>;
     items \<leftarrow> copy_items adbs_of ADBArray (ADB_DeepCopyInto lc) (ml_Items x);
     State_Monad.return (out\<lparr>ml_Items := items\<rparr>) }"

definition NDBList_DeepCopyInto :: "('o, 'l) copy_lib \<Rightarrow> 'o mem_NDBList \<Rightarrow> ('o, 'l, 'o mem_NDBList) mem" where
  "NDBList_DeepCopyInto lc x = do {
     let out = x;
     let out = out\<lparr>ml_Type := ml_Type x\<rparr>;
     meta \<leftarrow> ListMeta_copy lc (ml_Meta x);
     let out = out\<lparr>ml_Meta := meta\<rparr>;
     items \<leftarrow> copy_items ndbs_of NDBArray (NDB_DeepCopyInto lc) (ml_Items x);
     State_Monad.return (out\<lparr>ml_Items := items\<rparr>) }"

definition NDList_DeepCopyInto :: "('o, 'l) copy_lib \<Rightarrow> 'o mem_NDList \<Rightarrow> ('o, 'l, 'o mem_NDList) mem" where
  "NDList_DeepCopyInto lc x = do {
     let out = x;
     let out = out\<lparr>ml_Type := ml_Type x\<rparr>;
     meta \<leftarrow> ListMeta_copy lc (ml_Meta x);
     let out = out\<lparr>ml_Meta := meta\<rparr>;
     items \<leftarrow> copy_items nds_of NDArray (ND_DeepCopyInto lc) (ml_Items x);
     State_Monad.return (out\<lparr>ml_Items := items\<rparr>) }"

subsection \<open>Pointers\<close>

definition HookSpec_DeepCopy :: "HookSpec option \<Rightarrow> ('o, 'l, HookSpec option) mem" where
  "HookSpec_DeepCopy = new_copy HookSpec_DeepCopyInto"

definition Disruption_DeepCopy :: "Disruption option \<Rightarrow> ('o, 'l, Disruption option) mem" where
  "Disruption_DeepCopy = new_copy Disruption_DeepCopyInto"

definition NamespacedName_DeepCopy :: "NamespacedName option \<Rightarrow> ('o, 'l, NamespacedName option) mem" where
  "NamespacedName_DeepCopy = new_copy NamespacedName_DeepCopyInto"

definition DisruptedBudgetStatus_DeepCopy :: "DisruptedBudgetStatus option \<Rightarrow> ('o, 'l, DisruptedBudgetStatus option) mem" where
  "DisruptedBudgetStatus_DeepCopy = new_copy DisruptedBudgetStatus_DeepCopyInto"

definition RetrySpec_DeepCopy :: "('o, 'l) copy_lib \<Rightarrow> RetrySpec option \<Rightarrow> ('o, 'l, RetrySpec option) mem" where
  "RetrySpec_DeepCopy lc = new_copy (RetrySpec_DeepCopyInto lc)"

definition ADBSpec_DeepCopy :: "('o, 'l) copy_lib \<Rightarrow> 'o mem_ADBSpec option \<Rightarrow> ('o, 'l, 'o mem_ADBSpec option) mem" where
  "ADBSpec_DeepCopy lc = new_copy (ADBSpec_DeepCopyInto lc)"

definition BudgetStatus_DeepCopy :: "mem_BudgetStatus option \<Rightarrow> ('o, 'l, mem_BudgetStatus option) mem" where
  "BudgetStatus_DeepCopy = new_copy BudgetStatus_DeepCopyInto"

definition NDBSpec_DeepCopy :: "('o, 'l) copy_lib \<Rightarrow> 'o mem_NDBSpec option \<Rightarrow> ('o, 'l, 'o mem_NDBSpec option) mem" where
  "NDBSpec_DeepCopy lc = new_copy (NDBSpec_DeepCopyInto lc)"

definition NDSpec_DeepCopy :: "('o, 'l) copy_lib \<Rightarrow> 'o mem_NDSpec option \<Rightarrow> ('o, 'l, 'o mem_NDSpec option) mem" where
  "NDSpec_DeepCopy lc = new_copy (NDSpec_DeepCopyInto lc)"

definition NDStatus_DeepCopy :: "('o, 'l) copy_lib \<Rightarrow> mem_NDStatus option \<Rightarrow> ('o, 'l, mem_NDStatus option) mem" where
  "NDStatus_DeepCopy lc = new_copy (NDStatus_DeepCopyInto lc)"

definition ADB_DeepCopy :: "('o, 'l) copy_lib \<Rightarrow> 'o mem_ADB option \<Rightarrow> ('o, 'l, 'o mem_ADB option) mem" where
  "ADB_DeepCopy lc = new_copy (ADB_DeepCopyInto lc)"

definition ADB_DeepCopyObject :: "('o, 'l) copy_lib \<Rightarrow> 'o mem_ADB option \<Rightarrow> ('o, 'l, 'o mem_ADB option) mem" where
  "ADB_DeepCopyObject lc x = as_object (ADB_DeepCopy lc x)"

definition NDB_DeepCopy :: "('o, 'l) copy_lib \<Rightarrow> 'o mem_NDB option \<Rightarrow> ('o, 'l, 'o mem_NDB option) mem" where
  "NDB_DeepCopy lc = new_copy (NDB_DeepCopyInto lc)"

definition NDB_DeepCopyObject :: "('o, 'l) copy_lib \<Rightarrow> 'o mem_NDB option \<Rightarrow> ('o, 'l, 'o mem_NDB option) mem" where
  "NDB_DeepCopyObject lc x = as_object (NDB_DeepCopy lc x)"

definition ND_DeepCopy :: "('o, 'l) copy_lib \<Rightarrow> 'o mem_ND option \<Rightarrow> ('o, 'l, 'o mem_ND option) mem" where
  "ND_DeepCopy lc = new_copy (ND_DeepCopyInto lc)"

definition ND_DeepCopyObject :: "('o, 'l) copy_lib \<Rightarrow> 'o mem_ND option \<Rightarrow> ('o, 'l, 'o mem_ND option) mem" where
  "ND_DeepCopyObject lc x = as_object (ND_DeepCopy lc x)"

definition ADBList_DeepCopy :: "('o, 'l) copy_lib \<Rightarrow> 'o mem_ADBList option \<Rightarrow> ('o, 'l, 'o mem_ADBList option) mem" where
  "ADBList_DeepCopy lc = new_copy (ADBList_DeepCopyInto lc)"

definition ADBList_DeepCopyObject :: "('o, 'l) copy_lib \<Rightarrow> 'o mem_ADBList option \<Rightarrow> ('o, 'l, 'o mem_ADBList option) mem" where
  "ADBList_DeepCopyObject lc x = as_object (ADBList_DeepCopy lc x)"

definition NDBList_DeepCopy :: "('o, 'l) copy_lib \<Rightarrow> 'o mem_NDBList option \<Rightarrow> ('o, 'l, 'o mem_NDBList option) mem" where
  "NDBList_DeepCopy lc = new_copy (NDBList_DeepCopyInto lc)"

definition NDBList_DeepCopyObject :: "('o, 'l) copy_lib \<Rightarrow> 'o mem_NDBList option \<Rightarrow> ('o, 'l, 'o mem_NDBList option) mem" where
  "NDBList_DeepCopyObject lc x = as_object (NDBList_DeepCopy lc x)"

definition NDList_DeepCopy :: "('o, 'l) copy_lib \<Rightarrow> 'o mem_NDList option \<Rightarrow> ('o, 'l, 'o mem_NDList option) mem" where
  "NDList_DeepCopy lc = new_copy (NDList_DeepCopyInto lc)"

definition NDList_DeepCopyObject :: "('o, 'l) copy_lib \<Rightarrow> 'o mem_NDList option \<Rightarrow> ('o, 'l, 'o mem_NDList option) mem" where
  "NDList_DeepCopyObject lc x = as_object (NDList_DeepCopy lc x)"

section \<open>What the structs stand for\<close>

text \<open>The value of a struct in memory, and the addresses that it is read from.\<close>

definition read_ADBSpec :: "('o, 'l) copy_lib \<Rightarrow> ('o, 'l) store \<Rightarrow> 'o mem_ADBSpec \<Rightarrow>
    ApplicationDisruptionBudgetSpec option" where
  "read_ADBSpec lc h x = map_option (\<lambda>(pod, pvc, types).
       \<lparr>MaxDisruptions = mas_MaxDisruptions x, PodSelector = pod, PVCSelector = pvc,
        HealthHook = mas_HealthHook x, HookV2BasePath = mas_HookV2BasePath x,
        adb_SupportedNodeDisruptionTypes = elems types\<rparr>)
     (pair_read (Selector_read lc) (pair_read (Selector_read lc) (read_slice strings_of)) h
        (mas_PodSelector x, mas_PVCSelector x, mas_Types x))"

definition foot_ADBSpec :: "('o, 'l) copy_lib \<Rightarrow> ('o, 'l) store \<Rightarrow> 'o mem_ADBSpec \<Rightarrow> nat set" where
  "foot_ADBSpec lc h x = pair_foot (Selector_foot lc) (pair_foot (Selector_foot lc) header_foot) h
     (mas_PodSelector x, mas_PVCSelector x, mas_Types x)"

definition read_BudgetStatus :: "('o, 'l) store \<Rightarrow> mem_BudgetStatus \<Rightarrow> DisruptionBudgetStatus option" where
  "read_BudgetStatus h x = map_option (\<lambda>(nodes, disruptions).
       \<lparr>WatchedNodes = nodes, DisruptionsAllowed = mbs_DisruptionsAllowed x,
        CurrentDisruptions = mbs_CurrentDisruptions x, Disruptions = disruptions\<rparr>)
     (pair_read (read_slice strings_of) (read_slice disruptions_of) h
        (mbs_WatchedNodes x, mbs_Disruptions x))"

definition foot_BudgetStatus :: "('o, 'l) store \<Rightarrow> mem_BudgetStatus \<Rightarrow> nat set" where
  "foot_BudgetStatus h x = pair_foot header_foot header_foot h (mbs_WatchedNodes x, mbs_Disruptions x)"

definition read_NDBSpec :: "('o, 'l) copy_lib \<Rightarrow> ('o, 'l) store \<Rightarrow> 'o mem_NDBSpec \<Rightarrow>
    NodeDisruptionBudgetSpec option" where
  "read_NDBSpec lc h x = map_option (\<lambda>(selector, types).
       \<lparr>MaxDisruptedNodes = mbn_MaxDisruptedNodes x, MinUndisruptedNodes = mbn_MinUndisruptedNodes x,
        ndb_NodeSelector = selector, ndb_SupportedNodeDisruptionTypes = elems types\<rparr>)
     (pair_read (Selector_read lc) (read_slice strings_of) h (mbn_NodeSelector x, mbn_Types x))"

definition foot_NDBSpec :: "('o, 'l) copy_lib \<Rightarrow> ('o, 'l) store \<Rightarrow> 'o mem_NDBSpec \<Rightarrow> nat set" where
  "foot_NDBSpec lc h x = pair_foot (Selector_foot lc) header_foot h (mbn_NodeSelector x, mbn_Types x)"

definition read_NDSpec :: "('o, 'l) copy_lib \<Rightarrow> ('o, 'l) store \<Rightarrow> 'o mem_NDSpec \<Rightarrow> NodeDisruptionSpec option" where
  "read_NDSpec lc h x = map_option (\<lambda>(selector, start, before, retry).
       \<lparr>nd_NodeSelector = selector, StartDate = start, DoNotGrantBefore = before, Duration = mns_Duration x,
        Retry = retry, nd_Type = mns_Type x\<rparr>)
     (pair_read (Selector_read lc) (pair_read plain_read (pair_read plain_read plain_read)) h
        (mns_NodeSelector x, mns_StartDate x, mns_DoNotGrantBefore x, mns_Retry x))"

definition foot_NDSpec :: "('o, 'l) copy_lib \<Rightarrow> ('o, 'l) store \<Rightarrow> 'o mem_NDSpec \<Rightarrow> nat set" where
  "foot_NDSpec lc h x = Selector_foot lc h (mns_NodeSelector x)"

definition read_NDStatus :: "('o, 'l) store \<Rightarrow> mem_NDStatus \<Rightarrow> NodeDisruptionStatus option" where
  "read_NDStatus h x = map_option (\<lambda>(budgets, nodes, next).
       \<lparr>nd_State = mnt_State x, DisruptedDisruptionBudgets = budgets, DisruptedNodes = nodes, NextRetryDate = next\<rparr>)
     (pair_read (read_slice statuses_of) (pair_read (read_slice strings_of) plain_read) h
        (mnt_Budgets x, mnt_Nodes x, mnt_NextRetryDate x))"

definition foot_NDStatus :: "('o, 'l) store \<Rightarrow> mem_NDStatus \<Rightarrow> nat set" where
  "foot_NDStatus h x = pair_foot header_foot header_foot h (mnt_Budgets x, mnt_Nodes x)"

text \<open>A resource, whose kind is kept in its metadata, and a list of them.\<close>

definition read_object :: "(ObjectMeta \<Rightarrow> 's \<Rightarrow> 't \<Rightarrow> 'v) \<Rightarrow> (('o, 'l) store \<Rightarrow> 'o \<Rightarrow> ObjectMeta option) \<Rightarrow>
    (('o, 'l) store \<Rightarrow> 'a \<Rightarrow> 's option) \<Rightarrow> (('o, 'l) store \<Rightarrow> 'b \<Rightarrow> 't option) \<Rightarrow>
    ('o, 'l) store \<Rightarrow> ('o, 'a, 'b) mem_object \<Rightarrow> (TypeMeta \<times> 'v) option" where
  "read_object mk rm rs rt h x = map_option
       (\<lambda>(meta, spec, status). (mo_Type x, mk (meta\<lparr>om_Kind := tm_Kind (mo_Type x)\<rparr>) spec status))
     (pair_read rm (pair_read rs rt) h (mo_Meta x, mo_Spec x, mo_Status x))"

definition foot_object :: "(('o, 'l) store \<Rightarrow> 'o \<Rightarrow> nat set) \<Rightarrow> (('o, 'l) store \<Rightarrow> 'a \<Rightarrow> nat set) \<Rightarrow>
    (('o, 'l) store \<Rightarrow> 'b \<Rightarrow> nat set) \<Rightarrow> ('o, 'l) store \<Rightarrow> ('o, 'a, 'b) mem_object \<Rightarrow> nat set" where
  "foot_object fm fs ft h x = pair_foot fm (pair_foot fs ft) h (mo_Meta x, mo_Spec x, mo_Status x)"

definition read_ADB :: "('o, 'l) copy_lib \<Rightarrow> ('o, 'l) store \<Rightarrow> 'o mem_ADB \<Rightarrow>
    (TypeMeta \<times> ApplicationDisruptionBudget) option" where
  "read_ADB lc = read_object
     (\<lambda>meta spec status. \<lparr>adb_meta = meta, adb_Spec = spec, adb_Status = status\<rparr>) (Meta_read lc) (read_ADBSpec lc) read_BudgetStatus"

definition read_NDB :: "('o, 'l) copy_lib \<Rightarrow> ('o, 'l) store \<Rightarrow> 'o mem_NDB \<Rightarrow>
    (TypeMeta \<times> NodeDisruptionBudget) option" where
  "read_NDB lc = read_object
     (\<lambda>meta spec status. \<lparr>ndb_meta = meta, ndb_Spec = spec, ndb_Status = status\<rparr>) (Meta_read lc) (read_NDBSpec lc) read_BudgetStatus"

definition read_ND :: "('o, 'l) copy_lib \<Rightarrow> ('o, 'l) store \<Rightarrow> 'o mem_ND \<Rightarrow> (TypeMeta \<times> NodeDisruption) option" where
  "read_ND lc = read_object
     (\<lambda>meta spec status. \<lparr>nd_meta = meta, nd_Spec = spec, nd_Status = status\<rparr>) (Meta_read lc) (read_NDSpec lc) read_NDStatus"

abbreviation foot_ADB :: "('o, 'l) copy_lib \<Rightarrow> ('o, 'l) store \<Rightarrow> 'o mem_ADB \<Rightarrow> nat set" where
  "foot_ADB lc \<equiv> foot_object (Meta_foot lc) (foot_ADBSpec lc) foot_BudgetStatus"

abbreviation foot_NDB :: "('o, 'l) copy_lib \<Rightarrow> ('o, 'l) store \<Rightarrow> 'o mem_NDB \<Rightarrow> nat set" where
  "foot_NDB lc \<equiv> foot_object (Meta_foot lc) (foot_NDBSpec lc) foot_BudgetStatus"

abbreviation foot_ND :: "('o, 'l) copy_lib \<Rightarrow> ('o, 'l) store \<Rightarrow> 'o mem_ND \<Rightarrow> nat set" where
  "foot_ND lc \<equiv> foot_object (Meta_foot lc) (foot_NDSpec lc) foot_NDStatus"

definition read_list :: "('o, 'l) copy_lib \<Rightarrow> (('o, 'l) cell \<Rightarrow> 'a list option) \<Rightarrow>
    (('o, 'l) store \<Rightarrow> 'a \<Rightarrow> 'v option) \<Rightarrow> ('o, 'l) store \<Rightarrow> 'o mem_list \<Rightarrow> (TypeMeta \<times> ListMeta \<times> 'v slice) option" where
  "read_list lc get r h x = map_option (Pair (ml_Type x))
     (pair_read (ListMeta_read lc) (read_items get r) h (ml_Meta x, ml_Items x))"

definition foot_list :: "('o, 'l) copy_lib \<Rightarrow> (('o, 'l) cell \<Rightarrow> 'a list option) \<Rightarrow>
    (('o, 'l) store \<Rightarrow> 'a \<Rightarrow> nat set) \<Rightarrow> ('o, 'l) store \<Rightarrow> 'o mem_list \<Rightarrow> nat set" where
  "foot_list lc get f h x = pair_foot (ListMeta_foot lc) (items_foot get f) h (ml_Meta x, ml_Items x)"

section \<open>They are deep copies\<close>

interpretation string_slice: copier "copy_slice strings_of Strings" "read_slice strings_of" header_foot
  by (rule copier_slice) simp

interpretation disruption_slice: copier "copy_slice disruptions_of DisruptionArray" "read_slice disruptions_of" header_foot
  by (rule copier_slice) simp

interpretation status_slice: copier "copy_slice statuses_of StatusArray" "read_slice statuses_of" header_foot
  by (rule copier_slice) simp

lemmas slice_copiers = string_slice.copier_axioms disruption_slice.copier_axioms status_slice.copier_axioms

interpretation budget_status: copier BudgetStatus_DeepCopyInto read_BudgetStatus foot_BudgetStatus
  by (rule copier_struct [OF copier_pair [OF slice_copiers(1,2)],
      where parts = "\<lambda>x. (mbs_WatchedNodes x, mbs_Disruptions x)"
        and update = "\<lambda>x p. x\<lparr>mbs_WatchedNodes := fst p, mbs_Disruptions := snd p\<rparr>"
        and build = "\<lambda>x (nodes, disruptions). \<lparr>WatchedNodes = nodes, DisruptionsAllowed = mbs_DisruptionsAllowed x,
          CurrentDisruptions = mbs_CurrentDisruptions x, Disruptions = disruptions\<rparr>"])
    (simp_all add: BudgetStatus_DeepCopyInto_def read_BudgetStatus_def foot_BudgetStatus_def pair_copy_def)

text \<open>The remaining ones rest on the copies of the library.\<close>

lemma lib_copiers:
  assumes "library_copies lc"
  shows "copier (Meta_copy lc) (Meta_read lc) (Meta_foot lc)"
    and "copier (ListMeta_copy lc) (ListMeta_read lc) (ListMeta_foot lc)"
    and "copier (Selector_copy lc) (Selector_read lc) (Selector_foot lc)"
    and "copier (Time_copy lc) plain_read no_foot"
  using assms by (simp_all add: library_copies_def)

lemma copier_RetrySpec:
  assumes "library_copies lc"
  shows "copier (RetrySpec_DeepCopyInto lc) plain_read no_foot"
  by (rule copier_struct [OF lib_copiers(4) [OF assms],
      where parts = "\<lambda>x. Deadline x"
        and update = "\<lambda>x p. x\<lparr>Deadline := p\<rparr>"
        and build = "\<lambda>x d. x\<lparr>Deadline := d\<rparr>"])
    (simp_all add: RetrySpec_DeepCopyInto_def pair_copy_def pair_foot_def)

lemma copier_ADBSpec:
  assumes "library_copies lc"
  shows "copier (ADBSpec_DeepCopyInto lc) (read_ADBSpec lc) (foot_ADBSpec lc)"
  by (rule copier_struct [OF copier_pair [OF lib_copiers(3) [OF assms] copier_pair [OF lib_copiers(3) [OF assms] slice_copiers(1)]],
      where parts = "\<lambda>x. (mas_PodSelector x, mas_PVCSelector x, mas_Types x)"
        and update = "\<lambda>x p. x\<lparr>mas_PodSelector := fst p, mas_PVCSelector := fst (snd p), mas_Types := snd (snd p)\<rparr>"
        and build = "\<lambda>x (pod, pvc, types).
       \<lparr>MaxDisruptions = mas_MaxDisruptions x, PodSelector = pod, PVCSelector = pvc,
        HealthHook = mas_HealthHook x, HookV2BasePath = mas_HookV2BasePath x,
        adb_SupportedNodeDisruptionTypes = elems types\<rparr>"])
    (simp_all add: ADBSpec_DeepCopyInto_def read_ADBSpec_def foot_ADBSpec_def pair_copy_def pair_foot_def)

lemma copier_NDBSpec:
  assumes "library_copies lc"
  shows "copier (NDBSpec_DeepCopyInto lc) (read_NDBSpec lc) (foot_NDBSpec lc)"
  by (rule copier_struct [OF copier_pair [OF lib_copiers(3) [OF assms] slice_copiers(1)],
      where parts = "\<lambda>x. (mbn_NodeSelector x, mbn_Types x)"
        and update = "\<lambda>x p. x\<lparr>mbn_NodeSelector := fst p, mbn_Types := snd p\<rparr>"
        and build = "\<lambda>x (selector, types).
       \<lparr>MaxDisruptedNodes = mbn_MaxDisruptedNodes x, MinUndisruptedNodes = mbn_MinUndisruptedNodes x,
        ndb_NodeSelector = selector, ndb_SupportedNodeDisruptionTypes = elems types\<rparr>"])
    (simp_all add: NDBSpec_DeepCopyInto_def read_NDBSpec_def foot_NDBSpec_def pair_copy_def pair_foot_def)

lemma copier_NDSpec:
  assumes "library_copies lc"
  shows "copier (NDSpec_DeepCopyInto lc) (read_NDSpec lc) (foot_NDSpec lc)"
  by (rule copier_struct [OF copier_pair [OF lib_copiers(3) [OF assms] copier_pair [OF lib_copiers(4) [OF assms] copier_pair [OF lib_copiers(4) [OF assms] copier_RetrySpec [OF assms]]]],
      where parts = "\<lambda>x. (mns_NodeSelector x, mns_StartDate x, mns_DoNotGrantBefore x, mns_Retry x)"
        and update = "\<lambda>x p. x\<lparr>mns_NodeSelector := fst p, mns_StartDate := fst (snd p),
          mns_DoNotGrantBefore := fst (snd (snd p)), mns_Retry := snd (snd (snd p))\<rparr>"
        and build = "\<lambda>x (selector, start, before, retry).
       \<lparr>nd_NodeSelector = selector, StartDate = start, DoNotGrantBefore = before, Duration = mns_Duration x,
        Retry = retry, nd_Type = mns_Type x\<rparr>"])
    (simp_all add: NDSpec_DeepCopyInto_def read_NDSpec_def foot_NDSpec_def pair_copy_def pair_foot_def)

lemma copier_NDStatus:
  assumes "library_copies lc"
  shows "copier (NDStatus_DeepCopyInto lc) read_NDStatus foot_NDStatus"
  by (rule copier_struct [OF copier_pair [OF slice_copiers(3) copier_pair [OF slice_copiers(1) lib_copiers(4) [OF assms]]],
      where parts = "\<lambda>x. (mnt_Budgets x, mnt_Nodes x, mnt_NextRetryDate x)"
        and update = "\<lambda>x p. x\<lparr>mnt_Budgets := fst p, mnt_Nodes := fst (snd p), mnt_NextRetryDate := snd (snd p)\<rparr>"
        and build = "\<lambda>x (budgets, nodes, next).
       \<lparr>nd_State = mnt_State x, DisruptedDisruptionBudgets = budgets, DisruptedNodes = nodes, NextRetryDate = next\<rparr>"])
    (simp_all add: NDStatus_DeepCopyInto_def read_NDStatus_def foot_NDStatus_def pair_copy_def pair_foot_def)

text \<open>The three resources have the same shape, and so have their lists.\<close>

lemma copier_object:
  fixes cm :: "'o \<Rightarrow> ('o, 'l, 'o) mem"
  assumes "copier cm rm fm" and "copier cs rs fs" and "copier ct rt ft"
  shows "copier (\<lambda>x. do {
       meta \<leftarrow> cm (mo_Meta x);
       spec \<leftarrow> cs (mo_Spec x);
       status \<leftarrow> ct (mo_Status x);
       State_Monad.return (x\<lparr>mo_Meta := meta, mo_Spec := spec, mo_Status := status\<rparr>) })
     (read_object mk rm rs rt) (foot_object fm fs ft)"
  by (rule copier_struct [OF copier_pair [OF assms(1) copier_pair [OF assms(2,3)]],
      where parts = "\<lambda>x. (mo_Meta x, mo_Spec x, mo_Status x)"
        and update = "\<lambda>x p. x\<lparr>mo_Meta := fst p, mo_Spec := fst (snd p), mo_Status := snd (snd p)\<rparr>"
        and build = "\<lambda>x (meta, spec, status). (mo_Type x, mk (meta\<lparr>om_Kind := tm_Kind (mo_Type x)\<rparr>) spec status)"])
    (simp_all add: read_object_def foot_object_def pair_copy_def)

lemma copier_resources:
  assumes "library_copies lc"
  shows "copier (ADB_DeepCopyInto lc) (read_ADB lc) (foot_ADB lc)"
    and "copier (NDB_DeepCopyInto lc) (read_NDB lc) (foot_NDB lc)"
    and "copier (ND_DeepCopyInto lc) (read_ND lc) (foot_ND lc)"
  using copier_object [OF lib_copiers(1) copier_ADBSpec budget_status.copier_axioms, OF assms assms]
    copier_object [OF lib_copiers(1) copier_NDBSpec budget_status.copier_axioms, OF assms assms]
    copier_object [OF lib_copiers(1) copier_NDSpec copier_NDStatus, OF assms assms assms]
  by (simp_all add: ADB_DeepCopyInto_def [abs_def] NDB_DeepCopyInto_def [abs_def] ND_DeepCopyInto_def [abs_def]
      read_ADB_def read_NDB_def read_ND_def Let_def)

lemma copier_list_of:
  fixes lc :: "('o, 'l) copy_lib"
  assumes "library_copies lc" and "copier c r f" and "\<And>xs. get (put xs) = Some xs"
  shows "copier (\<lambda>x. do {
       meta \<leftarrow> ListMeta_copy lc (ml_Meta x);
       items \<leftarrow> copy_items get put c (ml_Items x);
       State_Monad.return (x\<lparr>ml_Meta := meta, ml_Items := items\<rparr>) })
     (read_list lc get r) (foot_list lc get f)"
  by (rule copier_struct [OF copier_pair [OF lib_copiers(2) [OF assms(1)] copier_items [OF assms(2,3)]],
      where parts = "\<lambda>x. (ml_Meta x, ml_Items x)"
        and update = "\<lambda>x p. x\<lparr>ml_Meta := fst p, ml_Items := snd p\<rparr>"
        and build = "\<lambda>x. Pair (ml_Type x)"])
    (simp_all add: read_list_def foot_list_def pair_copy_def)

lemma copier_lists:
  assumes "library_copies lc"
  shows "copier (ADBList_DeepCopyInto lc) (read_list lc adbs_of (read_ADB lc)) (foot_list lc adbs_of (foot_ADB lc))"
    and "copier (NDBList_DeepCopyInto lc) (read_list lc ndbs_of (read_NDB lc)) (foot_list lc ndbs_of (foot_NDB lc))"
    and "copier (NDList_DeepCopyInto lc) (read_list lc nds_of (read_ND lc)) (foot_list lc nds_of (foot_ND lc))"
  using copier_list_of [OF assms copier_resources(1) [OF assms], of adbs_of ADBArray]
    copier_list_of [OF assms copier_resources(2) [OF assms], of ndbs_of NDBArray]
    copier_list_of [OF assms copier_resources(3) [OF assms], of nds_of NDArray]
  by (simp_all add: ADBList_DeepCopyInto_def [abs_def] NDBList_DeepCopyInto_def [abs_def]
      NDList_DeepCopyInto_def [abs_def] Let_def)

section \<open>Isolation\<close>

text \<open>
  Writes of \<open>h''\<close> into the memory \<open>A\<close> only, after \<open>h'\<close>; and what a deep copy is for, written out: the
  copy reads the same, and no write to the memory of one of the two changes what the other reads.
\<close>

definition writes_only :: "nat set \<Rightarrow> ('o, 'l) store \<Rightarrow> ('o, 'l) store \<Rightarrow> bool" where
  "writes_only A h' h'' \<longleftrightarrow> next_address h'' = next_address h' \<and> (\<forall>a. a \<notin> A \<longrightarrow> cells h'' a = cells h' a)"

definition isolating :: "('a \<Rightarrow> ('o, 'l, 'a) mem) \<Rightarrow> (('o, 'l) store \<Rightarrow> 'a \<Rightarrow> 'v option) \<Rightarrow>
    (('o, 'l) store \<Rightarrow> 'a \<Rightarrow> nat set) \<Rightarrow> bool" where
  "isolating copy read foot \<longleftrightarrow> (\<forall>h x v y h'. read h x = Some v \<and> run_state (copy x) h = (y, h') \<longrightarrow>
     read h' x = Some v \<and> read h' y = Some v \<and>
     (\<forall>h''. writes_only (foot h' y) h' h'' \<longrightarrow> read h'' x = Some v) \<and>
     (\<forall>h''. writes_only (foot h' x) h' h'' \<longrightarrow> read h'' y = Some v))"

lemma copier_isolating:
  assumes "copier c r f"
  shows "isolating c r f"
  unfolding isolating_def writes_only_def
  using copier.isolated [OF assms] copier.copied [OF assms] copier.later [OF assms] by blast

lemma resource_pointers:
  assumes "library_copies lc"
  shows "copier (ADB_DeepCopyObject lc) (pointer_read (read_ADB lc)) (pointer_foot (foot_ADB lc))"
    and "copier (NDB_DeepCopyObject lc) (pointer_read (read_NDB lc)) (pointer_foot (foot_NDB lc))"
    and "copier (ND_DeepCopyObject lc) (pointer_read (read_ND lc)) (pointer_foot (foot_ND lc))"
  using copier_resources [OF assms, THEN copier_pointer]
  by (simp_all add: ADB_DeepCopyObject_def [abs_def] NDB_DeepCopyObject_def [abs_def] ND_DeepCopyObject_def [abs_def]
      ADB_DeepCopy_def NDB_DeepCopy_def ND_DeepCopy_def)

lemma list_pointers:
  assumes "library_copies lc"
  shows "copier (ADBList_DeepCopyObject lc) (pointer_read (read_list lc adbs_of (read_ADB lc)))
      (pointer_foot (foot_list lc adbs_of (foot_ADB lc)))"
    and "copier (NDBList_DeepCopyObject lc) (pointer_read (read_list lc ndbs_of (read_NDB lc)))
      (pointer_foot (foot_list lc ndbs_of (foot_NDB lc)))"
    and "copier (NDList_DeepCopyObject lc) (pointer_read (read_list lc nds_of (read_ND lc)))
      (pointer_foot (foot_list lc nds_of (foot_ND lc)))"
  using copier_lists [OF assms, THEN copier_pointer]
  by (simp_all add: ADBList_DeepCopyObject_def [abs_def] NDBList_DeepCopyObject_def [abs_def]
      NDList_DeepCopyObject_def [abs_def] ADBList_DeepCopy_def NDBList_DeepCopy_def NDList_DeepCopy_def)

text \<open>
  C33: The deep copies isolate: if the library's copies of metadata, selectors and times are deep, then
  \<open>DeepCopyObject\<close> of a budget, of a disruption or of a list of them reads exactly as the original,
  and whatever is then written to the memory reachable from one of the two, the other one still
  reads as before; a nil pointer is copied to nil.
\<close>

theorem deep_copies_isolate:
  assumes "library_copies lc"
  shows "isolating (ADB_DeepCopyObject lc) (pointer_read (read_ADB lc)) (pointer_foot (foot_ADB lc)) \<and>
    isolating (NDB_DeepCopyObject lc) (pointer_read (read_NDB lc)) (pointer_foot (foot_NDB lc)) \<and>
    isolating (ND_DeepCopyObject lc) (pointer_read (read_ND lc)) (pointer_foot (foot_ND lc)) \<and>
    isolating (ADBList_DeepCopyObject lc) (pointer_read (read_list lc adbs_of (read_ADB lc)))
      (pointer_foot (foot_list lc adbs_of (foot_ADB lc))) \<and>
    isolating (NDBList_DeepCopyObject lc) (pointer_read (read_list lc ndbs_of (read_NDB lc)))
      (pointer_foot (foot_list lc ndbs_of (foot_NDB lc))) \<and>
    isolating (NDList_DeepCopyObject lc) (pointer_read (read_list lc nds_of (read_ND lc)))
      (pointer_foot (foot_list lc nds_of (foot_ND lc)))"
  using resource_pointers [OF assms, THEN copier_isolating] list_pointers [OF assms, THEN copier_isolating]
  by blast

section \<open>A concrete store\<close>

text \<open>Library values that are headers of one-element arrays, and a disruption on two nodes in a list.\<close>

type_synonym library_value = "ObjectMeta + LabelSelector + ListMeta"

fun opaque_of :: "(header, library_value list) cell \<Rightarrow> library_value list option" where
  "opaque_of (Opaque xs) = Some xs" | "opaque_of _ = None"

fun the_meta :: "library_value slice \<Rightarrow> ObjectMeta option" where
  "the_meta (Slice [Inl m]) = Some m" | "the_meta _ = None"
fun the_selector :: "library_value slice \<Rightarrow> LabelSelector option" where
  "the_selector (Slice [Inr (Inl s)]) = Some s" | "the_selector _ = None"
fun the_list_meta :: "library_value slice \<Rightarrow> ListMeta option" where
  "the_list_meta (Slice [Inr (Inr m)]) = Some m" | "the_list_meta _ = None"

definition sample_copy_lib :: "(header, library_value list) copy_lib" where
  "sample_copy_lib = \<lparr>
     Meta_copy = copy_slice opaque_of Opaque,
     Meta_read = (\<lambda>h x. Option.bind (read_slice opaque_of h x) the_meta), Meta_foot = header_foot,
     ListMeta_copy = copy_slice opaque_of Opaque,
     ListMeta_read = (\<lambda>h x. Option.bind (read_slice opaque_of h x) the_list_meta), ListMeta_foot = header_foot,
     Selector_copy = copy_slice opaque_of Opaque,
     Selector_read = (\<lambda>h x. Option.bind (read_slice opaque_of h x) the_selector), Selector_foot = header_foot,
     Time_copy = State_Monad.return\<rparr>"

lemma sample_library: "library_copies sample_copy_lib"
  by (simp add: library_copies_def sample_copy_lib_def copier_decode [OF copier_slice] copier_plain)

definition sample_meta :: ObjectMeta where
  "sample_meta = \<lparr>om_Kind = ''NodeDisruption'', om_Name = ''d1'', om_Namespace = '''', om_UID = '''',
     om_Labels = None, om_Finalizers = [], om_DeletionTimestamp = None, om_CreationTimestamp = 0,
     om_ResourceVersion = ''1''\<rparr>"

definition sample_mem_nd :: "header mem_ND" where
  "sample_mem_nd = \<lparr>mo_Type = \<lparr>tm_Kind = ''NodeDisruption'', tm_APIVersion = ''v1alpha1''\<rparr>,
     mo_Meta = Header 0 0 1,
     mo_Spec = \<lparr>mns_NodeSelector = Header 1 0 1, mns_StartDate = 0, mns_DoNotGrantBefore = 0, mns_Duration = 0,
       mns_Retry = \<lparr>Enabled = False, Deadline = 0\<rparr>, mns_Type = ''maintenance''\<rparr>,
     mo_Status = \<lparr>mnt_State = Granted, mnt_Budgets = NilHeader, mnt_Nodes = Header 2 1 2, mnt_NextRetryDate = 0\<rparr>\<rparr>"

definition sample_store :: "(header, library_value list) store" where
  "sample_store = \<lparr>next_address = 5, cells = [
     0 \<mapsto> Opaque [Inl sample_meta],
     1 \<mapsto> Opaque [Inr (Inl \<lparr>matchLabels = [(''rack'', ''a'')], matchExpressions = []\<rparr>)],
     2 \<mapsto> Strings [''n0'', ''n1'', ''n2''],
     3 \<mapsto> NDArray [sample_mem_nd],
     4 \<mapsto> Opaque [Inr (Inr \<lparr>lm_ResourceVersion = ''7'', lm_Continue = '''', lm_RemainingItemCount = None\<rparr>)]]\<rparr>"

definition sample_nd_list :: "header mem_list option" where
  "sample_nd_list = Some \<lparr>ml_Type = \<lparr>tm_Kind = ''NodeDisruptionList'', tm_APIVersion = ''v1alpha1''\<rparr>,
     ml_Meta = Header 4 0 1, ml_Items = Header 3 0 1\<rparr>"

abbreviation sample_read :: "(header, library_value list) store \<Rightarrow> header mem_list option \<Rightarrow>
    (TypeMeta \<times> ListMeta \<times> (TypeMeta \<times> NodeDisruption) slice) option option" where
  "sample_read \<equiv> pointer_read (read_list sample_copy_lib nds_of (read_ND sample_copy_lib))"

lemma sample_reads:
  "map_option (map_option (\<lambda>(t, m, xs). map (\<lambda>(t, nd). DisruptedNodes (nd_Status nd)) (elems xs)))
     (sample_read sample_store sample_nd_list) = Some (Some [Slice [''n1'', ''n2'']])"
  by code_simp

theorem deep_copies_isolate_witness:
  "(case run_state (NDList_DeepCopyObject sample_copy_lib sample_nd_list) sample_store of
      (copy, h') \<Rightarrow> sample_read h' copy = sample_read sample_store sample_nd_list) \<and>
   sample_read sample_store sample_nd_list \<noteq> None"
proof -
  obtain copy h' where run: "run_state (NDList_DeepCopyObject sample_copy_lib sample_nd_list) sample_store = (copy, h')"
    by fastforce
  from sample_reads obtain v where v: "sample_read sample_store sample_nd_list = Some v" by auto
  have "isolating (NDList_DeepCopyObject sample_copy_lib) sample_read
      (pointer_foot (foot_list sample_copy_lib nds_of (foot_ND sample_copy_lib)))"
    using deep_copies_isolate [OF sample_library] by blast
  with v run have "sample_read h' copy = Some v" unfolding isolating_def by blast
  with v run show ?thesis by simp
qed

end
