(* ===== verification/Spec2Isabelle.thy ===== *)
theory Spec2Isabelle
  imports Life_Witness Stall_Witness Run_Witnesses Request_Params Api_Group Client_Responses Client_Setup Deep_Copy Startup Witnesses Cluster_Runs Progress Capacity Nd_Controller Budget_Controllers Main_Config
begin

text \<open>
  A model of the node disruption controller (\<open>criteo/node-disruption-controller\<close>): a Kubernetes
  controller that grants or rejects planned maintenance (\<open>NodeDisruption\<close>) of sets of nodes, under the
  limits set by application budgets (\<open>ApplicationDisruptionBudget\<close>) and node budgets
  (\<open>NodeDisruptionBudget\<close>), after asking the owners of the applications through HTTP hooks.

  \<^bold>\<open>How the program works.\<close>  An event on a disruption runs \<open>NodeDisruptionReconciler.Reconcile\<close>: it keeps a
  finalizer on the object, waits for the next retry date, resolves the nodes of the disruption and
  attempts a transition.  An attempt on a pending disruption lists and synchronises every budget,
  checks the internal constraints (deadline, empty and overlapping disruptions, allowed types), then
  the budgets: each concerned budget must tolerate the disruption, and then its hooks are called (the
  health hook, or the prepare and ready hooks of version 2, one step per attempt).  The result is a
  state, one status per budget and the date of the next attempt, written once.  Deleting a disruption
  first sends the terminate hook to all budgets that were preparing.  Events on pods, volume claims,
  nodes and disruptions reconcile the budgets, which recompute their own status.

  \<^bold>\<open>Method.\<close>  Every method that reads or writes the API, the network, the clock or the metrics is a
  computation of \<open>State_Monad\<close> over a world made of the trace of effects performed so far and of an
  arbitrary state of everything outside; each outside call is a function of the environment record
  (\<open>env\<close>: API server, network, clock, library), may answer anything and may change that state, so
  the theorems hold for every behaviour and interleaving of the environment unless they say
  otherwise.  The trace contracts \<open>sat\<close>, \<open>only\<close> and the results \<open>still\<close> over a standing cluster are
  proved rule by rule along the \<open>do\<close> blocks.  Errors are values of a sum; a panic is the error
  \<open>Panic\<close>.  Go's \<open>int\<close> is a 64-bit word with its wrap-around; the conversion through \<open>float64\<close> in the
  node budget is written out with its rounding; a nil slice differs from an empty one where
  \<open>reflect.DeepEqual\<close> sees it.  Loops are structural recursions over the slice they range over, so
  no fuel is needed and every method of the model is total; the loop of the retries over the time is a
  partial function, proved to return.

  \<^bold>\<open>Theories.\<close>  The program, one theory per part:
  \<^item> \<open>Go_Prelude\<close>: integers, slices, printing, the effect monad and its logic.
  \<^item> \<open>Api_Types\<close>: the resources of \<open>api/v1alpha1\<close>, with the order of states in which transitions go up.
  \<^item> \<open>Metrics\<close>: the vectors of \<open>internal/controller/metrics.go\<close> and the commands that set and prune
    their series; what pruning leaves behind.
  \<^item> \<open>Environment\<close>, \<open>Sample_Env\<close>: the outside world as parameters, and a concrete one for witnesses.
  \<^item> \<open>Node_Set\<close>, \<open>Resolver\<close>: \<open>pkg/resolver\<close>; which nodes a selector designates, fail-safe claims.
  \<^item> \<open>Appmgr_Client\<close>: the three operations of the generated HTTP client and their readers; the locale
    \<open>response_reader\<close> is interpreted on each.  \<open>Client_Responses\<close>: the method sets of its typed
    responses, which agree with the status code and which the readers follow.  \<open>Client_Setup\<close>,
    \<open>Request_Params\<close>: constructors, the parameters of the three operations (locale \<open>operation_params\<close>),
    the methods of the models of \<open>internal/appmgr\<close>.
  \<^item> \<open>Application_Budget\<close>, \<open>Node_Budget\<close>: the two resolvers; exactness of \<open>Sync\<close>, decisions without
    wrap-around, contracts of the hooks.
  \<^item> \<open>Budget\<close>: the interface of \<open>budget.go\<close> as a datatype, its contract as the locale \<open>budget_contract\<close>
    (interpreted on both resolvers and on the interface), and \<open>GetAllBudgetsInSync\<close>.
  \<^item> \<open>Node_Disruption\<close>: the methods of the reconciler of one disruption, and the laws of its checks.
    \<open>Nd_Transitions\<close>: what attempts, transitions and terminations guarantee.  \<open>Status_Shape\<close>: the shape of
    the statuses that are written, as a typing of their fields by the state.
  \<^item> \<open>Nd_Controller\<close>, \<open>Budget_Controllers\<close>: the three reconcile handlers and the map functions.
  \<^item> \<open>Main_Config\<close>, \<open>Startup\<close>: flags, configuration, log writer; the controllers registered with the
    manager (what they watch, locale \<open>dispatching_controller\<close>) and the start-up sequence of \<open>main\<close>.
    \<open>Api_Group\<close>: the group, version and types that the package registers.
  \<^item> \<open>Copy_Logic\<close>, \<open>Deep_Copy\<close>: the generated deep copies over an explicit store of arrays, with what a
    deep copy promises as the locale \<open>copier\<close>.

  What the parts do together:
  \<^item> \<open>Standing_Cluster\<close>, \<open>Capacity\<close>: the budgets as a function of a cluster that stands still, and
    grants that stay within them.
  \<^item> \<open>Progress\<close>: a pending disruption that nothing stands against is granted within two attempts.
    \<open>Lifecycle\<close>: the same over the calls of the controller and the stored object, from a request without
    finalizer to its grant, with the number of calls left as the measure.  \<open>Stall\<close>: a disruption without
    retry that is never looked at again while an application prepares itself.
  \<^item> \<open>World_Order\<close>: how the outside world moves while a method runs, along a preorder that is a parameter
    (locale \<open>world_order\<close>).  \<open>Retry_Loop\<close>: with time as the order, the retries of a disruption with a
    deadline end, and within how many attempts.
  \<^item> \<open>Ledger\<close>: the abstract specification of the whole, a set of granted disruptions that may grow by
    one when every limit concerned has room.  \<open>Truthful_Api\<close>, \<open>Cluster_Limits\<close>: the objects of the API
    server as a view, what resolving nodes answers in it, the limits in force in it, and why a budget
    that tolerates a disruption has room.  \<open>Cluster_Server\<close>: a live server, whose state drifts at any
    moment of a call and whose writes are guarded by resource versions.  \<open>Live_Reads\<close>, \<open>Live_Writes\<close>:
    what a method knows of the states that it read, and what its writes do to the state.
    \<open>Disruption_Runs\<close>, \<open>Budget_Runs\<close>: each reconciliation, from its start to its end.
    \<open>Cluster_Runs\<close>: every run of the three controllers refines a run of the ledger.
  \<^item> \<open>Budget_Witnesses\<close>, \<open>Witnesses\<close>, \<open>Retry_Witnesses\<close>, \<open>Sample_Server\<close>, \<open>Run_Witnesses\<close>, \<open>Life_Witness\<close>,
    \<open>Stall_Witness\<close>: each property with hypotheses applied to a concrete cluster.

  \<^bold>\<open>Assumptions of the runs.\<close>  The theorems on runs rely on a live server.  At any moment of a
  reconciliation the cluster may drift: objects may come, change and go, other controllers may write, so
  long as nodes, pods and volumes stay where they are, no limit in force is removed or tightened, nobody
  else grants, and no two versions of an object share a resource version.  A list is what was there at
  one moment of the call, different calls see different moments; a single object may come from an old
  cache; a write is applied or not, whatever it answers, and only on the version it names.  The controller
  of disruptions has one worker, so its reconciliations do not overlap; those of budgets are proved to be
  drifts, so they may run at any moment of it.  Between two reconciliations anything may happen that keeps
  the limits in force and the nodes of every selector and grants nothing.  A limit is in force once its
  budget has a non-empty list of types.  All other theorems make none of these assumptions.

  \<^bold>\<open>Bounds.\<close>  The theorems on decisions assume figures of at most 62 bits (application budgets) or below
  \<open>2 ^ 50\<close> (node budgets, where \<open>float64\<close> is exact); outside them the code may wrap around or round.

  \<^bold>\<open>Not modelled.\<close>  Log messages; the parsing of flags (a call into a library); the states of a
  disruption other than the four of the enumeration, which the API server rejects.  Label and field
  selectors, URLs, JSON, finalizer helpers, quoting, metadata copies, the scheme builder and the manager
  belong to libraries and are parameters.
\<close>

section \<open>A node budget that counts disruptions\<close>

definition pool_budget :: NodeDisruptionBudget where
  "pool_budget = sample_ndb ''pool'' 2 0 (any_of ''pool'' ''p'')"

definition rack_a_granted :: cluster where
  "rack_a_granted = three_nodes\<lparr>
     c_nds := [with_nodes [''n1'', ''n2''] (sample_nd ''d1'' (any_of ''rack'' ''a'') Granted)],
     c_ndbs := [pool_budget]\<rparr>"


end
